(* ===== verification/Vyn_Prelude.thy ===== *)
theory Vyn_Prelude
  imports Main "HOL-Library.AList" "HOL-Library.Word"
begin

text \<open>
  Shared vocabulary of the development.

  \<^item> Rust strings and byte vectors. A Rust \<^verbatim>\<open>String\<close> is a sequence of UTF-8 bytes and
    \<^verbatim>\<open>len\<close> counts bytes; a HOL \<^typ>\<open>char\<close> is an 8-bit value, so both \<^verbatim>\<open>String\<close> and
    \<^verbatim>\<open>Vec<u8>\<close> are \<^typ>\<open>char list\<close> and \<^verbatim>\<open>as_bytes\<close> is the identity. The functions of
    \<^verbatim>\<open>str\<close> that the sources call are defined here.
  \<^item> \<^verbatim>\<open>DashMap\<close>/\<^verbatim>\<open>HashMap\<close> values are association lists with distinct keys. The position
    of an entry in the list is its place in the iteration order, which the Rust types leave
    unspecified: no theorem of the development depends on which order it is. The locale
    \<open>keyed_map\<close> states the laws the components rely on.
  \<^item> The locale \<open>step_system\<close> holds the invariant rule for components that are driven by a
    sequence of operations.
\<close>

section \<open>Automation collections\<close>

named_theorems dm_simps \<open>laws of the keyed-map operations\<close>
named_theorems str_defs \<open>definitions of the Rust string functions\<close>

section \<open>Bytes and strings\<close>

type_synonym byte = char
type_synonym bytes = "byte list"

definition starts_with :: "string \<Rightarrow> string \<Rightarrow> bool" where
  "starts_with s p \<longleftrightarrow> take (length p) s = p"

definition strip_prefix :: "string \<Rightarrow> string \<Rightarrow> string option" where
  "strip_prefix s p = (if starts_with s p then Some (drop (length p) s) else None)"

fun split_once :: "string \<Rightarrow> char \<Rightarrow> (string \<times> string) option" where
  "split_once [] c = None"
| "split_once (x # xs) c =
     (if x = c then Some ([], xs)
      else map_option (\<lambda>(a, b). (x # a, b)) (split_once xs c))"

text \<open>\<^verbatim>\<open>str::split(c)\<close>: always at least one piece.\<close>

fun split_on :: "char \<Rightarrow> string \<Rightarrow> string list" where
  "split_on c [] = [[]]"
| "split_on c (x # xs) =
     (if x = c then [] # split_on c xs
      else (case split_on c xs of [] \<Rightarrow> [[x]] | p # ps \<Rightarrow> (x # p) # ps))"

definition byte_val :: "char \<Rightarrow> nat" where
  "byte_val c = of_char c"

definition is_ascii_upper :: "char \<Rightarrow> bool" where
  "is_ascii_upper c \<longleftrightarrow> 65 \<le> byte_val c \<and> byte_val c \<le> 90"

definition is_ascii_lower :: "char \<Rightarrow> bool" where
  "is_ascii_lower c \<longleftrightarrow> 97 \<le> byte_val c \<and> byte_val c \<le> 122"

definition is_ascii_digit :: "char \<Rightarrow> bool" where
  "is_ascii_digit c \<longleftrightarrow> 48 \<le> byte_val c \<and> byte_val c \<le> 57"

definition is_ascii_alphanumeric :: "char \<Rightarrow> bool" where
  "is_ascii_alphanumeric c \<longleftrightarrow> is_ascii_upper c \<or> is_ascii_lower c \<or> is_ascii_digit c"

definition lower_char :: "char \<Rightarrow> char" where
  "lower_char c = (if is_ascii_upper c then char_of (byte_val c + 32) else c)"

definition upper_char :: "char \<Rightarrow> char" where
  "upper_char c = (if is_ascii_lower c then char_of (byte_val c - 32) else c)"

definition to_ascii_lowercase :: "string \<Rightarrow> string" where
  "to_ascii_lowercase s = map lower_char s"

definition to_ascii_uppercase :: "string \<Rightarrow> string" where
  "to_ascii_uppercase s = map upper_char s"

text \<open>
  \<^verbatim>\<open>str::trim\<close>: the UTF-8 encodings of the characters with the Unicode property White_Space are
  stripped at both ends.
\<close>

definition white_space :: "string list" where
  "white_space = [[CHR 0x09], [CHR 0x0A], [CHR 0x0B], [CHR 0x0C], [CHR 0x0D], [CHR 0x20],
     [CHR 0xC2, CHR 0x85], [CHR 0xC2, CHR 0xA0], [CHR 0xE1, CHR 0x9A, CHR 0x80],
     [CHR 0xE2, CHR 0x80, CHR 0x80], [CHR 0xE2, CHR 0x80, CHR 0x81],
     [CHR 0xE2, CHR 0x80, CHR 0x82], [CHR 0xE2, CHR 0x80, CHR 0x83],
     [CHR 0xE2, CHR 0x80, CHR 0x84], [CHR 0xE2, CHR 0x80, CHR 0x85],
     [CHR 0xE2, CHR 0x80, CHR 0x86], [CHR 0xE2, CHR 0x80, CHR 0x87],
     [CHR 0xE2, CHR 0x80, CHR 0x88], [CHR 0xE2, CHR 0x80, CHR 0x89],
     [CHR 0xE2, CHR 0x80, CHR 0x8A], [CHR 0xE2, CHR 0x80, CHR 0xA8],
     [CHR 0xE2, CHR 0x80, CHR 0xA9], [CHR 0xE2, CHR 0x80, CHR 0xAF],
     [CHR 0xE2, CHR 0x81, CHR 0x9F], [CHR 0xE3, CHR 0x80, CHR 0x80]]"

function trim_start_of :: "string list \<Rightarrow> string \<Rightarrow> string" where
  "trim_start_of ws s = (case find (\<lambda>w. w \<noteq> [] \<and> starts_with s w) ws of
      Some w \<Rightarrow> trim_start_of ws (drop (length w) s)
    | None \<Rightarrow> s)"
  by pat_completeness auto
termination
proof (relation "measure (length \<circ> snd)")
  fix ws s w assume "find (\<lambda>w. w \<noteq> [] \<and> starts_with s w) ws = Some w"
  then have "w \<noteq> []" "starts_with s w" by (auto simp: find_Some_iff)
  then have "0 < length w" "length w \<le> length s"
    by (auto simp: starts_with_def) (metis length_take min.cobounded1)
  then have "length s - length w < length s" by linarith
  then show "((ws, drop (length w) s), (ws, s)) \<in> measure (length \<circ> snd)" by simp
qed simp

declare trim_start_of.simps [simp del]

definition trim :: "string \<Rightarrow> string" where
  "trim s = rev (trim_start_of (map rev white_space) (rev (trim_start_of white_space s)))"

text \<open>Decimal rendering of an unsigned integer (\<^verbatim>\<open>format!("{n}")\<close>).\<close>

definition digit_char :: "nat \<Rightarrow> char" where
  "digit_char d = char_of (48 + d)"

fun show_nat :: "nat \<Rightarrow> string" where
  "show_nat n = (if n < 10 then [digit_char n] else show_nat (n div 10) @ [digit_char (n mod 10)])"

declare show_nat.simps [simp del]

definition read_nat :: "string \<Rightarrow> nat" where
  "read_nat s = foldl (\<lambda>a c. a * 10 + (byte_val c - 48)) 0 s"

lemmas [str_defs] = starts_with_def strip_prefix_def byte_val_def is_ascii_upper_def
  is_ascii_lower_def is_ascii_digit_def is_ascii_alphanumeric_def lower_char_def upper_char_def
  to_ascii_lowercase_def to_ascii_uppercase_def digit_char_def

text \<open>The UTF-8 bytes of the em dash that several messages contain.\<close>

definition em_dash :: string where
  "em_dash = [CHR 0xE2, CHR 0x80, CHR 0x94]"

text \<open>Lowercase hexadecimal rendering of bytes (\<^verbatim>\<open>format!("{b:02x}")\<close> each).\<close>

definition hex_digit :: "nat \<Rightarrow> char" where
  "hex_digit d = (if d < 10 then char_of (48 + d) else char_of (87 + d))"

definition hex_byte :: "char \<Rightarrow> string" where
  "hex_byte b = [hex_digit (byte_val b div 16), hex_digit (byte_val b mod 16)]"

definition hex_of :: "bytes \<Rightarrow> string" where
  "hex_of bs = concat (map hex_byte bs)"

text \<open>\<^verbatim>\<open>String::from_utf8\<close> accepts exactly the well-formed sequences of the Unicode standard.\<close>

fun utf8_ok :: "nat list \<Rightarrow> bool" where
  "utf8_ok [] = True"
| "utf8_ok (a # bs) =
     (if a < 0x80 then utf8_ok bs
      else case bs of
        [] \<Rightarrow> False
      | b # cs \<Rightarrow>
          if 0xC2 \<le> a \<and> a \<le> 0xDF then 0x80 \<le> b \<and> b \<le> 0xBF \<and> utf8_ok cs
          else case cs of
            [] \<Rightarrow> False
          | c # ds \<Rightarrow>
              if 0xE0 \<le> a \<and> a \<le> 0xEF then
                (if a = 0xE0 then 0xA0 else 0x80) \<le> b \<and> b \<le> (if a = 0xED then 0x9F else 0xBF)
                \<and> 0x80 \<le> c \<and> c \<le> 0xBF \<and> utf8_ok ds
              else case ds of
                [] \<Rightarrow> False
              | d # es \<Rightarrow>
                  0xF0 \<le> a \<and> a \<le> 0xF4
                  \<and> (if a = 0xF0 then 0x90 else 0x80) \<le> b \<and> b \<le> (if a = 0xF4 then 0x8F else 0xBF)
                  \<and> 0x80 \<le> c \<and> c \<le> 0xBF \<and> 0x80 \<le> d \<and> d \<le> 0xBF \<and> utf8_ok es)"

definition from_utf8_ok :: "bytes \<Rightarrow> bool" where
  "from_utf8_ok bs = utf8_ok (map byte_val bs)"

lemma utf8_ok_ascii: "list_all (\<lambda>n. n < 0x80) ns \<Longrightarrow> utf8_ok ns"
  by (induction ns) auto

lemma byte_val_less: "byte_val b < 256"
  by (simp add: byte_val_def)

lemma hex_of_ascii: "list_all (\<lambda>c. byte_val c < 0x80) (hex_of bs)"
proof (induction bs)
  case (Cons b bs)
  have "byte_val b div 16 < 16" using byte_val_less [of b] by (simp add: less_mult_imp_div_less)
  moreover have "byte_val (hex_digit d) < 0x80" if "d < 16" for d
    using that by (simp add: hex_digit_def byte_val_def)
  ultimately show ?case using Cons by (simp add: hex_of_def hex_byte_def)
qed (simp add: hex_of_def)

lemma hex_of_utf8 [simp]: "from_utf8_ok (hex_of bs)"
  unfolding from_utf8_ok_def using hex_of_ascii [of bs]
  by (intro utf8_ok_ascii) (simp add: list_all_iff)

lemma length_hex_of [simp]: "length (hex_of bs) = 2 * length bs"
  by (induction bs) (simp_all add: hex_of_def hex_byte_def)

lemma byte_val_digit_char: "d < 10 \<Longrightarrow> byte_val (digit_char d) = 48 + d"
  by (simp add: byte_val_def digit_char_def)

lemma read_show_nat [simp]: "read_nat (show_nat n) = n"
proof (induction n rule: show_nat.induct)
  case (1 n)
  show ?case
  proof (cases "n < 10")
    case True
    then show ?thesis
      by (simp add: show_nat.simps [of n] read_nat_def byte_val_digit_char)
  next
    case False
    with "1.IH" have "read_nat (show_nat (n div 10)) = n div 10" by simp
    with False show ?thesis
      by (simp add: show_nat.simps [of n] read_nat_def byte_val_digit_char)
  qed
qed

lemma show_nat_inject [simp]: "show_nat m = show_nat n \<longleftrightarrow> m = n"
  by (metis read_show_nat)

lemma trim_start_of_done:
  "w \<in> set ws \<Longrightarrow> w \<noteq> [] \<Longrightarrow> \<not> starts_with (trim_start_of ws s) w"
proof (induction ws s rule: trim_start_of.induct)
  case (1 ws s)
  show ?case
  proof (cases "find (\<lambda>w. w \<noteq> [] \<and> starts_with s w) ws")
    case None
    then have "trim_start_of ws s = s" by (simp add: trim_start_of.simps [of ws s])
    with None "1.prems" show ?thesis by (auto simp: find_None_iff)
  next
    case (Some v)
    with "1.IH" [OF Some] "1.prems" show ?thesis by (simp add: trim_start_of.simps [of ws s])
  qed
qed

lemma trim_start_of_suffix: "\<exists>p. s = p @ trim_start_of ws s"
proof (induction ws s rule: trim_start_of.induct)
  case (1 ws s)
  show ?case
  proof (cases "find (\<lambda>w. w \<noteq> [] \<and> starts_with s w) ws")
    case (Some v)
    with "1.IH" [OF Some] obtain p where "drop (length v) s = p @ trim_start_of ws s"
      by (auto simp: trim_start_of.simps [of ws s])
    then have "s = (take (length v) s @ p) @ trim_start_of ws s"
      by (metis append.assoc append_take_drop_id)
    then show ?thesis by blast
  qed (simp add: trim_start_of.simps [of ws s])
qed

lemma trim_start_of_fixed:
  "(\<And>w. w \<in> set ws \<Longrightarrow> w \<noteq> [] \<Longrightarrow> \<not> starts_with s w) \<Longrightarrow> trim_start_of ws s = s"
  by (subst trim_start_of.simps) (auto split: option.split simp: find_Some_iff)

lemma trim_trim [simp]: "trim (trim s) = trim s"
proof -
  let ?u = "trim_start_of white_space s" and ?rws = "map rev white_space"
  obtain p where p: "rev ?u = p @ rev (trim s)"
    using trim_start_of_suffix [of "rev ?u" ?rws] by (auto simp: trim_def)
  then have u: "?u = trim s @ rev p" by (metis rev_append rev_rev_ident)
  have "trim_start_of white_space (trim s) = trim s"
  proof (rule trim_start_of_fixed)
    fix w assume "w \<in> set white_space" "w \<noteq> []"
    then have "\<not> starts_with ?u w" by (rule trim_start_of_done)
    then show "\<not> starts_with (trim s) w" unfolding u by (auto simp: starts_with_def)
  qed
  moreover have "trim_start_of ?rws (rev (trim s)) = rev (trim s)"
    by (rule trim_start_of_fixed) (use trim_start_of_done [of _ ?rws "rev ?u"] in \<open>simp add: trim_def\<close>)
  ultimately show ?thesis by (simp add: trim_def [of "trim s"])
qed

lemma lower_upper_char [simp]: "lower_char (upper_char c) = lower_char c"
proof (cases "is_ascii_lower c")
  case True
  then have n: "97 \<le> byte_val c" "byte_val c \<le> 122" by (simp_all add: is_ascii_lower_def)
  then have up: "byte_val (upper_char c) = byte_val c - 32"
    using True by (simp add: upper_char_def byte_val_def)
  have "is_ascii_upper (upper_char c)"
    unfolding is_ascii_upper_def up using n by linarith
  then have "lower_char (upper_char c) = char_of (byte_val c)"
    using n up by (simp add: lower_char_def)
  moreover have "lower_char c = c"
    using n by (simp add: lower_char_def is_ascii_upper_def)
  ultimately show ?thesis by (simp add: byte_val_def)
qed (simp add: upper_char_def)

lemma lower_upper_string [simp]: "to_ascii_lowercase (to_ascii_uppercase s) = to_ascii_lowercase s"
  by (simp add: to_ascii_lowercase_def to_ascii_uppercase_def)

lemma starts_with_append [simp]: "starts_with (p @ s) p"
  by (simp add: starts_with_def)

lemma starts_with_iff: "starts_with s p \<longleftrightarrow> (\<exists>r. s = p @ r)"
  by (auto simp: starts_with_def) (metis append_take_drop_id)

lemma strip_prefix_append [simp]: "strip_prefix (p @ s) p = Some s"
  by (simp add: strip_prefix_def)

lemma strip_prefix_Some_iff: "strip_prefix s p = Some r \<longleftrightarrow> s = p @ r"
  by (auto simp: strip_prefix_def starts_with_iff)

lemma split_once_Some: "split_once s c = Some (a, b) \<Longrightarrow> s = a @ c # b \<and> c \<notin> set a"
  by (induction s c arbitrary: a rule: split_once.induct) (auto split: if_splits)

lemma split_once_None: "split_once s c = None \<longleftrightarrow> c \<notin> set s"
  by (induction s c rule: split_once.induct) auto

lemma split_once_append: "c \<notin> set a \<Longrightarrow> split_once (a @ c # b) c = Some (a, b)"
  by (induction a) auto

lemma split_on_not_Nil [simp]: "split_on c s \<noteq> []"
  by (induction c s rule: split_on.induct) (auto split: list.splits)

lemma split_on_no_sep: "c \<notin> set s \<Longrightarrow> split_on c s = [s]"
  by (induction c s rule: split_on.induct) auto

lemma split_on_append: "c \<notin> set a \<Longrightarrow> split_on c (a @ c # s) = a # split_on c s"
  by (induction a) (auto split: list.splits)

section \<open>Keyed maps\<close>

type_synonym ('k, 'v) dashmap = "('k \<times> 'v) list"

definition dm_empty :: "('k, 'v) dashmap" where
  "dm_empty = []"

definition dm_get :: "('k, 'v) dashmap \<Rightarrow> 'k \<Rightarrow> 'v option" where
  "dm_get m k = map_of m k"

definition dm_insert :: "'k \<Rightarrow> 'v \<Rightarrow> ('k, 'v) dashmap \<Rightarrow> ('k, 'v) dashmap" where
  "dm_insert k v m = AList.update k v m"

definition dm_remove :: "'k \<Rightarrow> ('k, 'v) dashmap \<Rightarrow> ('k, 'v) dashmap" where
  "dm_remove k m = AList.delete k m"

definition dm_retain :: "('k \<Rightarrow> 'v \<Rightarrow> bool) \<Rightarrow> ('k, 'v) dashmap \<Rightarrow> ('k, 'v) dashmap" where
  "dm_retain P m = filter (\<lambda>(k, v). P k v) m"

definition dm_keys :: "('k, 'v) dashmap \<Rightarrow> 'k list" where
  "dm_keys m = map fst m"

definition dm_values :: "('k, 'v) dashmap \<Rightarrow> 'v list" where
  "dm_values m = map snd m"

definition dm_ok :: "('k, 'v) dashmap \<Rightarrow> bool" where
  "dm_ok m \<longleftrightarrow> distinct (map fst m)"

lemmas dm_defs = dm_empty_def dm_get_def dm_insert_def dm_remove_def dm_retain_def
  dm_keys_def dm_values_def dm_ok_def

text \<open>The interface the components use, in the style of the map ADT.\<close>

locale keyed_map =
  fixes empty :: "'m"
    and get :: "'m \<Rightarrow> 'k \<Rightarrow> 'v option"
    and ins :: "'k \<Rightarrow> 'v \<Rightarrow> 'm \<Rightarrow> 'm"
    and rem :: "'k \<Rightarrow> 'm \<Rightarrow> 'm"
    and entries :: "'m \<Rightarrow> ('k \<times> 'v) list"
    and ok :: "'m \<Rightarrow> bool"
  assumes get_empty: "get empty k = None"
    and get_ins: "get (ins k v m) k' = (if k' = k then Some v else get m k')"
    and get_rem: "get (rem k m) k' = (if k' = k then None else get m k')"
    and ok_empty: "ok empty"
    and ok_ins: "ok m \<Longrightarrow> ok (ins k v m)"
    and ok_rem: "ok m \<Longrightarrow> ok (rem k m)"
    and entries_get: "ok m \<Longrightarrow> (k, v) \<in> set (entries m) \<longleftrightarrow> get m k = Some v"
begin

lemma ins_ins_get: "get (ins k v (ins k w m)) k' = get (ins k v m) k'"
  by (simp add: get_ins)

lemma rem_ins_get: "get m k = None \<Longrightarrow> get (rem k (ins k v m)) k' = get m k'"
  by (simp add: get_ins get_rem)

lemma ins_commute_get: "k \<noteq> l \<Longrightarrow> get (ins k v (ins l w m)) k' = get (ins l w (ins k v m)) k'"
  by (simp add: get_ins)

lemma key_in_entries: "ok m \<Longrightarrow> k \<in> fst ` set (entries m) \<longleftrightarrow> (\<exists>v. get m k = Some v)"
  by (auto simp: entries_get image_iff Bex_def)

lemma entries_functional:
  "ok m \<Longrightarrow> (k, v) \<in> set (entries m) \<Longrightarrow> (k, w) \<in> set (entries m) \<Longrightarrow> v = w"
  by (simp add: entries_get)

end

interpretation dm: keyed_map dm_empty dm_get dm_insert dm_remove "\<lambda>m. m" dm_ok
  by unfold_locales
    (auto simp: dm_defs update_conv' delete_conv' distinct_update distinct_delete)

lemmas dm_get_simps [simp, dm_simps] = dm.get_empty dm.get_ins dm.get_rem
lemmas dm_ok_intros [simp, intro, dm_simps] = dm.ok_empty dm.ok_ins dm.ok_rem

lemma dm_mem_iff: "dm_ok m \<Longrightarrow> (k, v) \<in> set m \<longleftrightarrow> dm_get m k = Some v"
  by (rule dm.entries_get)

lemma dm_get_SomeD: "dm_get m k = Some v \<Longrightarrow> (k, v) \<in> set m"
  by (simp add: dm_get_def map_of_SomeD)

lemma dm_nil: "dm_get [] k = None" "dm_remove k [] = []" "dm_ok []"
  by (simp_all add: dm_get_def dm_remove_def dm_ok_def)

lemma dm_ok_retain [simp, intro]: "dm_ok m \<Longrightarrow> dm_ok (dm_retain P m)"
  by (auto simp: dm_defs distinct_map inj_on_def)

lemma dm_get_retain:
  "dm_ok m \<Longrightarrow> dm_get (dm_retain P m) k =
     (case dm_get m k of None \<Rightarrow> None | Some v \<Rightarrow> if P k v then Some v else None)"
  by (induction m) (auto simp: dm_defs split: option.splits dest: map_of_SomeD intro: rev_image_eqI)

lemma dm_values_iff: "dm_ok m \<Longrightarrow> v \<in> set (dm_values m) \<longleftrightarrow> (\<exists>k. dm_get m k = Some v)"
  by (force simp: dm_values_def simp flip: dm_mem_iff)

lemma dm_keys_iff: "k \<in> set (dm_keys m) \<longleftrightarrow> dm_get m k \<noteq> None"
  by (simp add: dm_defs map_of_eq_None_iff)

section \<open>Components driven by a sequence of operations\<close>

locale step_system =
  fixes init :: "'s"
    and step :: "'e \<Rightarrow> 's \<Rightarrow> 's"
    and inv :: "'s \<Rightarrow> bool"
  assumes inv_init: "inv init"
    and inv_step: "inv s \<Longrightarrow> inv (step e s)"
begin

lemma inv_run: "inv s \<Longrightarrow> inv (fold step es s)"
  by (induction es arbitrary: s) (auto intro: inv_step)

lemma inv_reach: "inv (fold step es init)"
  by (rule inv_run [OF inv_init])

end

end
