(* ===== verification/Wire.thy ===== *)
theory Wire
  imports Vyn_Prelude
begin

text \<open>
  The messages, frames and error values that travel between the components, and the
  bounded write channels they travel on.

  The protobuf types and the frame reader live in the crate \<^verbatim>\<open>vynkor-wire\<close>, which is not
  part of the repository. Its data types are declared with the fields the sources read or
  write; its functions (protobuf encoding and decoding, CRC, frame MAC, the frame reader,
  the permission-name table), and those of \<^verbatim>\<open>serde_json\<close>, are the fields of the record
  \<open>wire\<close>, an argument of every definition that calls them. \<^verbatim>\<open>src/utils/errors.rs\<close>, \<^verbatim>\<open>src/utils/validate.rs\<close> and
  \<^verbatim>\<open>src/ipc/framing.rs\<close> are translated in full.
\<close>

unbundle bit_operations_syntax

section \<open>Errors\<close>

datatype vynkor_error =
    Io string
  | Proto string
  | FrameMagicMismatch
  | FrameCrcMismatch
  | FrameReadTimeout
  | PayloadTooLarge nat
  | PluginNotFound string
  | PluginAlreadyRunning string
  | PluginAlreadyRegistered string
  | InvalidPluginId string
  | PermissionDenied string
  | Auth string
  | Timeout
  | Internal string
  | Incompatible string
  | NetworkError string
  | CacheError string

type_synonym 'a result = "vynkor_error + 'a"

text \<open>The \<^verbatim>\<open>Display\<close> text, which is what reaches clients.\<close>

fun display_error :: "vynkor_error \<Rightarrow> string" where
  "display_error (Io e) = ''io error: '' @ e"
| "display_error (Proto e) = ''proto decode error: '' @ e"
| "display_error FrameMagicMismatch = ''frame magic mismatch''"
| "display_error FrameCrcMismatch = ''frame crc mismatch''"
| "display_error FrameReadTimeout = ''timed out reading frame body''"
| "display_error (PayloadTooLarge n) = ''payload too large: '' @ show_nat n @ '' bytes''"
| "display_error (PluginNotFound i) = ''plugin not found: '' @ i"
| "display_error (PluginAlreadyRunning i) = ''plugin already running: '' @ i"
| "display_error (PluginAlreadyRegistered i) = ''plugin already registered: '' @ i"
| "display_error (InvalidPluginId r) = ''invalid plugin id: '' @ r"
| "display_error (PermissionDenied p) = ''permission denied: '' @ p"
| "display_error (Auth m) = ''auth error: '' @ m"
| "display_error Timeout = ''operation timed out''"
| "display_error (Internal m) = ''internal error: '' @ m"
| "display_error (Incompatible m) = ''incompatible: '' @ m"
| "display_error (NetworkError m) = ''network error: '' @ m"
| "display_error (CacheError m) = ''cache error: '' @ m"

definition is_ok :: "'e + 'a \<Rightarrow> bool" where
  "is_ok r \<longleftrightarrow> (case r of Inl _ \<Rightarrow> False | Inr _ \<Rightarrow> True)"

lemma is_ok_simps [simp]: "is_ok (Inr a)" "\<not> is_ok (Inl e)"
  by (simp_all add: is_ok_def)

lemma is_ok_iff: "is_ok r \<longleftrightarrow> (\<exists>x. r = Inr x)"
  by (cases r) simp_all

text \<open>The wire crate's own errors and their conversion.\<close>

datatype wire_error =
    WIo string
  | WProto string
  | WFrameMagicMismatch
  | WFrameCrcMismatch
  | WFrameReadTimeout
  | WPayloadTooLarge nat
  | WTimeout
  | WPermissionDenied string
  | WInternal string

fun from_wire_error :: "wire_error \<Rightarrow> vynkor_error" where
  "from_wire_error (WIo e) = Io e"
| "from_wire_error (WProto e) = Proto e"
| "from_wire_error WFrameMagicMismatch = FrameMagicMismatch"
| "from_wire_error WFrameCrcMismatch = FrameCrcMismatch"
| "from_wire_error WFrameReadTimeout = FrameReadTimeout"
| "from_wire_error (WPayloadTooLarge n) = PayloadTooLarge n"
| "from_wire_error WTimeout = Timeout"
| "from_wire_error (WPermissionDenied p) = PermissionDenied p"
| "from_wire_error (WInternal m) = Internal m"

section \<open>Identifier validation\<close>

definition ident_byte :: "char \<Rightarrow> bool" where
  "ident_byte b \<longleftrightarrow> is_ascii_alphanumeric b \<or> b = CHR ''-'' \<or> b = CHR ''_'' \<or> b = CHR ''.''"

definition validate_identifier :: "string \<Rightarrow> nat \<Rightarrow> unit result" where
  "validate_identifier i max_len =
     (if i = [] then Inl (InvalidPluginId ''must not be empty'')
      else if length i > max_len
        then Inl (InvalidPluginId (''too long ('' @ show_nat (length i) @ '' bytes, max ''
                    @ show_nat max_len @ '')''))
      else if i = ''.'' \<or> i = ''..''
        then Inl (InvalidPluginId (CHR 0x27 # ''.'' @ [CHR 0x27] @ '' and '' @ [CHR 0x27] @ ''..''
                    @ [CHR 0x27] @ '' are reserved path components''))
      else if \<not> list_all ident_byte i
        then Inl (InvalidPluginId (''only ASCII letters, digits, '' @ [CHR 0x27] @ ''.''
                    @ [CHR 0x27] @ '', '' @ [CHR 0x27] @ ''-'' @ [CHR 0x27] @ '', '' @ [CHR 0x27]
                    @ ''_'' @ [CHR 0x27] @ '' are allowed''))
      else Inr ())"

lemma validate_identifier_ok_iff:
  "is_ok (validate_identifier i n) \<longleftrightarrow>
     i \<noteq> [] \<and> length i \<le> n \<and> i \<noteq> ''.'' \<and> i \<noteq> ''..'' \<and> list_all ident_byte i"
  by (auto simp: validate_identifier_def)

section \<open>Protocol messages\<close>

text \<open>
  An enum field travels as an \<^verbatim>\<open>i32\<close>. \<open>Code x\<close> is the number of the variant \<open>x\<close>,
  \<open>RawCode n\<close> any number that belongs to no variant; \<^verbatim>\<open>try_from\<close> succeeds on the first.
\<close>

datatype 'a i32_enum = Code 'a | RawCode int

fun try_from_code :: "'a i32_enum \<Rightarrow> 'a option" where
  "try_from_code (Code x) = Some x"
| "try_from_code (RawCode n) = None"

datatype action_status =
    ActionOk | ActionUnknown | ActionNotFound | ActionPermissionDeny | ActionTimeout
  | ActionQuotaExceeded | ActionStreamBackpressure | ActionError

datatype error_code =
    ErrUnknown | ErrDeserialization | ErrNotRegistered | ErrPermissionDenied
  | ErrProtocolMismatch | ErrRateLimited | ErrMacMissing | ErrMacInvalid

datatype command_status =
    CommandOk | CommandError | CommandPermissionDenied | CommandUnknown

datatype event_publish_status = EventPublishOk | EventPublishPermissionDeny

datatype device_os =
    OsUnspecified | OsLinux | OsMacos | OsWindows | OsAndroid | OsIos | OsFreebsd

datatype device_state = StateUnspecified | Online | Offline | Revoked

datatype action_risk = RiskUnspecified | RiskLow | RiskMedium | RiskHigh | RiskCritical

record action_spec =
  as_name :: string
  as_description :: string
  as_params_schema :: string
  as_risk :: "action_risk i32_enum"
  as_requires_confirmation :: bool

record plugin_manifest =
  mf_permissions :: "string list"
  mf_actions :: "string list"
  mf_events :: "string list"
  mf_ipc_targets :: "string list"
  mf_platforms :: "string list"
  mf_action_specs :: "action_spec list"

definition default_manifest :: plugin_manifest where
  "default_manifest = \<lparr>mf_permissions = [], mf_actions = [], mf_events = [],
     mf_ipc_targets = [], mf_platforms = [], mf_action_specs = []\<rparr>"

record plugin_register =
  rg_plugin_id :: string
  rg_version :: string
  rg_manifest :: "plugin_manifest option"
  rg_jwt_token :: string
  rg_device_id :: string
  rg_user_id :: string
  rg_os :: "device_os i32_enum"
  rg_arch :: string
  rg_os_version :: string
  rg_capabilities :: "string list"
  rg_protocol_version :: string

record register_ack =
  ra_accepted :: bool
  ra_reject_reason :: string
  ra_granted_permissions :: "string list"
  ra_session_nonce :: bytes

record event =
  ev_event_id :: string
  ev_event_type :: string
  ev_payload_json :: bytes
  ev_retry_count :: nat

record action_request =
  aq_action_id :: string
  aq_action :: string
  aq_params_json :: bytes
  aq_timeout_ms :: nat
  aq_streaming :: bool
  aq_caller_plugin_id :: string

record action_response =
  ar_action_id :: string
  ar_status :: "action_status i32_enum"
  ar_data_json :: bytes
  ar_error :: string

record device_info =
  di_device_id :: string
  di_os :: "device_os i32_enum"
  di_arch :: string
  di_os_version :: string
  di_capabilities :: "string list"
  di_last_seen :: nat
  di_state :: "device_state i32_enum"
  di_created :: nat
  di_expires :: nat

datatype payload =
    PPluginRegister plugin_register
  | PPluginRegisterAck register_ack
  | PPing nat
  | PPong nat nat                                 \<comment> \<open>original and server timestamp\<close>
  | PSubscribe "string list"
  | PUnsubscribe "string list"
  | PEventPublish string bytes                    \<comment> \<open>event type, payload\<close>
  | PEventPublishAck string "event_publish_status i32_enum" string
  | PEvent event
  | PEventAck string
  | PActionRequest action_request
  | PActionResponse action_response
  | PActionRequestChunk string nat bytes bool     \<comment> \<open>action id, seq, chunk, final\<close>
  | PActionResponseChunk string nat bytes         \<comment> \<open>action id, seq, chunk\<close>
  | PActionStreamAbort string string              \<comment> \<open>action id, reason\<close>
  | PSessionClose string string                   \<comment> \<open>action id, reason\<close>
  | PKernelCommand string string bytes            \<comment> \<open>command id, command, params\<close>
  | PKernelCommandAck string "command_status i32_enum" bytes string
  | PError "error_code i32_enum" string string    \<comment> \<open>code, message, details\<close>
  | PPluginShutdown string nat                    \<comment> \<open>reason, grace seconds\<close>
  | POther                                        \<comment> \<open>a variant the kernel names nowhere\<close>

record envelope =
  en_message_id :: string
  en_sender_id :: string
  en_timestamp :: nat
  en_payload :: "payload option"

definition default_envelope :: envelope where
  "default_envelope = \<lparr>en_message_id = [], en_sender_id = [], en_timestamp = 0, en_payload = None\<rparr>"

definition envelope_of :: "string \<Rightarrow> payload \<Rightarrow> envelope" where
  "envelope_of mid p = default_envelope\<lparr>en_message_id := mid, en_payload := Some p\<rparr>"

section \<open>Frames\<close>

type_synonym u16 = "16 word"
type_synonym u32 = "32 word"

record frame =
  fr_magic :: u16
  fr_flags :: u16
  fr_length :: u32
  fr_target :: bytes
  fr_crc32 :: u32
  fr_payload :: bytes
  fr_mac :: "bytes option"

record frag_header =
  fh_fragment_id :: nat
  fh_sequence :: nat
  fh_total :: nat
  fh_stream_id :: nat

text \<open>The flag bits, from the table in \<^verbatim>\<open>docs/FRAMING.md\<close>.\<close>

definition FLAG_MAC_PRESENT :: u16 where "FLAG_MAC_PRESENT = 1"
definition FLAG_COMPRESSED :: u16 where "FLAG_COMPRESSED = 2"
definition FLAG_FRAGMENTED :: u16 where "FLAG_FRAGMENTED = 4"
definition FLAG_RAW_BINARY :: u16 where "FLAG_RAW_BINARY = 16"

definition has_flag :: "u16 \<Rightarrow> u16 \<Rightarrow> bool" where
  "has_flag flags f \<longleftrightarrow> flags AND f \<noteq> 0"

definition set_flag :: "u16 \<Rightarrow> u16 \<Rightarrow> u16" where
  "set_flag flags f = flags OR f"

definition clear_flag :: "u16 \<Rightarrow> u16 \<Rightarrow> u16" where
  "clear_flag flags f = flags AND NOT f"

lemma has_flag_set [simp]: "f \<noteq> 0 \<Longrightarrow> has_flag (set_flag x f) f"
  by (simp add: has_flag_def set_flag_def word_ao_absorbs)

lemma has_flag_clear [simp]: "\<not> has_flag (clear_flag x f) f"
  by (simp add: has_flag_def clear_flag_def and.assoc)

lemma clear_flag_idem [simp]: "clear_flag (clear_flag x f) f = clear_flag x f"
  by (simp add: clear_flag_def and.assoc)

lemma clear_flag_other:
  assumes "f AND g = 0"
  shows "has_flag (clear_flag x f) g = has_flag x g"
proof -
  have "x AND NOT f AND g = x AND g"
  proof (rule bit_word_eqI)
    fix n assume "n < LENGTH(16)"
    have "\<not> bit (f AND g) n"
      by (simp add: assms)
    then have "\<not> (bit f n \<and> bit g n)"
      by (simp add: bit_and_iff)
    then show "bit (x AND NOT f AND g) n = bit (x AND g) n"
      using \<open>n < LENGTH(16)\<close> by (auto simp: bit_simps)
  qed
  then show ?thesis by (simp add: has_flag_def clear_flag_def and.assoc)
qed

lemmas flag_defs = FLAG_MAC_PRESENT_def FLAG_COMPRESSED_def FLAG_FRAGMENTED_def FLAG_RAW_BINARY_def

lemma flag_nonzero [simp]:
  "FLAG_MAC_PRESENT \<noteq> 0" "FLAG_FRAGMENTED \<noteq> 0" "FLAG_RAW_BINARY \<noteq> 0"
  by (simp_all add: flag_defs)

section \<open>JSON values\<close>

datatype json =
    JNull
  | JBool bool
  | JNum int
  | JStr string
  | JArr "json list"
  | JObj "(string \<times> json) list"

text \<open>\<^verbatim>\<open>Value::get(key)\<close> and \<^verbatim>\<open>Value::as_str\<close>.\<close>

fun json_get :: "json \<Rightarrow> string \<Rightarrow> json option" where
  "json_get (JObj kvs) k = map_of kvs k"
| "json_get _ k = None"

fun json_as_str :: "json \<Rightarrow> string option" where
  "json_as_str (JStr s) = Some s"
| "json_as_str _ = None"

definition json_strs :: "string list \<Rightarrow> json" where
  "json_strs ss = JArr (map JStr ss)"

section \<open>Third-party functions as parameters\<close>

record wire =
  w_decode :: "bytes \<Rightarrow> envelope option"             \<comment> \<open>\<^verbatim>\<open>Envelope::decode\<close>\<close>
  w_encode :: "envelope \<Rightarrow> bytes option"             \<comment> \<open>\<^verbatim>\<open>Message::encode\<close>\<close>
  w_crc32 :: "bytes \<Rightarrow> u32"                          \<comment> \<open>\<^verbatim>\<open>crc32fast::hash\<close>\<close>
  w_target_as_str :: "bytes \<Rightarrow> string option"        \<comment> \<open>\<^verbatim>\<open>target_as_str\<close>, of the target field\<close>
  w_read_frame :: "bytes \<Rightarrow> wire_error + frame"      \<comment> \<open>\<^verbatim>\<open>framing::read_frame\<close>\<close>
  w_parse_frag_header :: "bytes \<Rightarrow> frag_header option"
  w_frag_header_size :: nat
  w_max_payload_size :: nat
  w_serialize_header :: "frame \<Rightarrow> bytes"
  w_compute_tag :: "bytes \<Rightarrow> bytes \<Rightarrow> bytes \<Rightarrow> bytes"          \<comment> \<open>key, header, payload\<close>
  w_verify_tag :: "bytes \<Rightarrow> bytes \<Rightarrow> bytes \<Rightarrow> bytes \<Rightarrow> bool"   \<comment> \<open>key, header, payload, tag\<close>
  w_derive_session_key :: "bytes \<Rightarrow> bytes \<Rightarrow> string \<Rightarrow> bytes" \<comment> \<open>key material, nonce, plugin id\<close>
  w_protocol_version :: string
  w_permission_names :: "string list"                \<comment> \<open>the names \<^verbatim>\<open>from_str_name\<close> knows\<close>
  w_json_string :: "json \<Rightarrow> string"                  \<comment> \<open>\<^verbatim>\<open>serde_json\<close>: \<^verbatim>\<open>to_string\<close>\<close>
  w_json_parse :: "bytes \<Rightarrow> json option"             \<comment> \<open>\<^verbatim>\<open>serde_json::from_slice\<close>\<close>

text \<open>A concrete instance, for evaluating the definitions on concrete inputs.\<close>

definition sample_wire :: wire where
  "sample_wire = \<lparr>w_decode = (\<lambda>_. None), w_encode = (\<lambda>env. Some (en_message_id env)),
     w_crc32 = (\<lambda>p. of_nat (length p)),
     w_target_as_str = (\<lambda>t. Some (takeWhile (\<lambda>c. c \<noteq> CHR 0x00) t)),
     w_read_frame = (\<lambda>_. Inl WFrameMagicMismatch), w_parse_frag_header = (\<lambda>_. None),
     w_frag_header_size = 10, w_max_payload_size = 1048576, w_serialize_header = fr_target,
     w_compute_tag = (\<lambda>k h p. k @ p), w_verify_tag = (\<lambda>k h p t. t = k @ p),
     w_derive_session_key = (\<lambda>k n p. k @ n @ p), w_protocol_version = ''1.7.0'',
     w_permission_names = [''PERMISSION_UNKNOWN'', ''PERMISSION_IPC_SEND'', ''PERMISSION_NETWORK''],
     w_json_string = (\<lambda>_. ''{}''), w_json_parse = (\<lambda>_. None)\<rparr>"

lemma sample_wire_simps [simp]:
  "w_decode sample_wire p = None" "w_encode sample_wire env = Some (en_message_id env)"
  "w_crc32 sample_wire p = of_nat (length p)"
  "w_target_as_str sample_wire t = Some (takeWhile (\<lambda>c. c \<noteq> CHR 0x00) t)"
  "w_frag_header_size sample_wire = 10" "w_max_payload_size sample_wire = 1048576"
  "w_serialize_header sample_wire f = fr_target f" "w_compute_tag sample_wire k h p = k @ p"
  "w_verify_tag sample_wire k h p t = (t = k @ p)"
  "w_derive_session_key sample_wire k n s = k @ n @ s"
  "w_protocol_version sample_wire = ''1.7.0''" "w_json_string sample_wire j = ''{}''"
  by (simp_all add: sample_wire_def)

text \<open>\<^verbatim>\<open>target_bytes\<close>: NUL-padded to the 32-byte header field, truncated past it.\<close>

definition target_bytes :: "string \<Rightarrow> bytes" where
  "target_bytes t = (let len = min (length t) 32 in take len t @ replicate (32 - len) (CHR 0x00))"

definition FRAME_MAGIC :: u16 where "FRAME_MAGIC = 0x5652"

definition build_frame :: "wire \<Rightarrow> string \<Rightarrow> u16 \<Rightarrow> bytes \<Rightarrow> frame" where
  "build_frame W target flags p = \<lparr>fr_magic = FRAME_MAGIC, fr_flags = flags,
     fr_length = of_nat (length p), fr_target = target_bytes target, fr_crc32 = w_crc32 W p,
     fr_payload = p, fr_mac = None\<rparr>"

definition parse_frame :: "wire \<Rightarrow> bytes \<Rightarrow> frame result" where
  "parse_frame W bs = (case w_read_frame W bs of
      Inl e \<Rightarrow> Inl (from_wire_error e)
    | Inr f \<Rightarrow> if has_flag (fr_flags f) FLAG_FRAGMENTED
        then Inl (Internal ''fragmented inbound frames not supported over WebSocket'')
        else Inr f)"

lemma length_target_bytes [simp]: "length (target_bytes t) = 32"
  by (simp add: target_bytes_def Let_def min_def)

lemma target_bytes_take: "length t \<le> 32 \<Longrightarrow> take (length t) (target_bytes t) = t"
  by (simp add: target_bytes_def Let_def)

lemma takeWhile_zeros: "takeWhile (\<lambda>c. c \<noteq> z) (replicate n z) = []"
  by (cases n) simp_all

lemma takeWhile_no_sep:
  "z \<notin> set x \<Longrightarrow> takeWhile (\<lambda>c. c \<noteq> z) (x @ ys) = x @ takeWhile (\<lambda>c. c \<noteq> z) ys"
  by (induction x) auto

lemma target_bytes_pad:
  "length x \<le> 32 \<Longrightarrow> target_bytes x = x @ replicate (32 - length x) (CHR 0x00)"
  unfolding target_bytes_def Let_def min_def by simp

lemma takeWhile_target_bytes:
  assumes "length x \<le> 32" "CHR 0x00 \<notin> set x"
  shows "takeWhile (\<lambda>c. c \<noteq> CHR 0x00) (target_bytes x) = x"
  unfolding target_bytes_pad [OF assms(1)] takeWhile_no_sep [OF assms(2)] takeWhile_zeros
  by (rule append_Nil2)

lemma target_bytes_inject:
  assumes "length s \<le> 32" "length t \<le> 32" "CHR 0x00 \<notin> set s" "CHR 0x00 \<notin> set t"
    and "target_bytes s = target_bytes t"
  shows "s = t"
proof -
  have "s = takeWhile (\<lambda>c. c \<noteq> CHR 0x00) (target_bytes s)"
    by (rule takeWhile_target_bytes [OF assms(1,3), symmetric])
  also have "\<dots> = t"
    unfolding assms(5) by (rule takeWhile_target_bytes [OF assms(2,4)])
  finally show ?thesis .
qed

section \<open>Write channels\<close>

text \<open>
  A connection's write channel is a bounded tokio \<^verbatim>\<open>mpsc\<close> channel. Senders are shared, so
  a sender is a channel number and the channels live in one store; a channel with no
  receiver left is closed. \<open>try_send\<close> never blocks; \<open>send_await\<close> is \<^verbatim>\<open>send(..).await\<close>, which
  waits for room and so fails only on a closed channel.
\<close>

type_synonym chan = nat

datatype outbound =
    OutFrame frame
  | EnableMac bytes nat    \<comment> \<open>the key and the connection's session-key cell\<close>

record channel =
  ch_queue :: "outbound list"
  ch_cap :: nat
  ch_open :: bool

type_synonym channels = "chan \<Rightarrow> channel"

datatype send_outcome = SendOk | SendFull | SendClosed

definition enqueue :: "chan \<Rightarrow> outbound \<Rightarrow> channels \<Rightarrow> channels" where
  "enqueue c x cs = cs(c := (cs c)\<lparr>ch_queue := ch_queue (cs c) @ [x]\<rparr>)"

definition try_send :: "chan \<Rightarrow> outbound \<Rightarrow> channels \<Rightarrow> send_outcome \<times> channels" where
  "try_send c x cs =
     (if \<not> ch_open (cs c) then (SendClosed, cs)
      else if length (ch_queue (cs c)) \<ge> ch_cap (cs c) then (SendFull, cs)
      else (SendOk, enqueue c x cs))"

definition send_await :: "chan \<Rightarrow> outbound \<Rightarrow> channels \<Rightarrow> channels" where
  "send_await c x cs = (if ch_open (cs c) then enqueue c x cs else cs)"

abbreviation queued :: "channels \<Rightarrow> chan \<Rightarrow> outbound list" where
  "queued cs c \<equiv> ch_queue (cs c)"

definition chan_accepts :: "channels \<Rightarrow> chan \<Rightarrow> bool" where
  "chan_accepts cs c \<longleftrightarrow> ch_open (cs c) \<and> length (ch_queue (cs c)) < ch_cap (cs c)"

definition chan_bounded :: "channels \<Rightarrow> bool" where
  "chan_bounded cs \<longleftrightarrow> (\<forall>c. length (ch_queue (cs c)) \<le> ch_cap (cs c))"

lemma try_send_cases:
  "try_send c x cs = (if chan_accepts cs c then (SendOk, enqueue c x cs)
     else (if ch_open (cs c) then SendFull else SendClosed, cs))"
  by (auto simp: try_send_def chan_accepts_def)

lemma queued_enqueue [simp]:
  "queued (enqueue c x cs) d = (if d = c then queued cs c @ [x] else queued cs d)"
  by (simp add: enqueue_def)

lemma enqueue_frame [simp]:
  "ch_cap (enqueue c x cs d) = ch_cap (cs d)" "ch_open (enqueue c x cs d) = ch_open (cs d)"
  by (simp_all add: enqueue_def)

lemma queued_try_send:
  "queued (snd (try_send c x cs)) d =
     (if d = c \<and> chan_accepts cs c then queued cs c @ [x] else queued cs d)"
  by (simp add: try_send_cases)

lemma try_send_bounded: "chan_bounded cs \<Longrightarrow> chan_bounded (snd (try_send c x cs))"
  by (auto simp: chan_bounded_def try_send_cases chan_accepts_def split: if_splits)

end
