(* ===== verification/Registry.thy ===== *)
theory Registry
  imports Wire
begin

text \<open>
  The plugin registry, \<^verbatim>\<open>src/plugins/registry.rs\<close>: the maps from plugin ids and connections
  to plugin entries, the device records, the per-action permission requirements, the
  action-to-provider index with its collision table, and the table of in-flight actions.

  Every method is one definition on the record \<open>registry\<close>, whose fields are those of
  \<^verbatim>\<open>PluginRegistry\<close>. Clock readings are arguments. The lemmas show that the index always
  answers as a scan over the registered manifests would, that connections and plugins stay
  in bijection, that a device is online exactly while one of its plugins is registered, and
  that the two sweeps evict exactly and disjointly what their predicates describe.
\<close>

section \<open>State\<close>

record clock =
  clk_secs :: nat
  clk_millis :: nat
  clk_instant :: nat

record device_meta =
  dmt_device_id :: string
  dmt_user_id :: string
  dmt_os :: device_os
  dmt_arch :: string
  dmt_os_version :: string
  dmt_capabilities :: "string list"

datatype plugin_state = Registered

record plugin_entry =
  pe_plugin_id :: string
  pe_conn_id :: nat
  pe_manifest :: plugin_manifest
  pe_write_tx :: chan
  pe_registered_at :: nat
  pe_state :: plugin_state
  pe_device_id :: string
  pe_user_id :: string

record pending_action =
  pa_requester_write_tx :: chan
  pa_original_action_id :: string
  pa_requester_id :: string
  pa_deadline :: nat
  pa_provider_id :: string
  pa_streaming :: bool
  pa_session_accepted :: bool
  pa_last_activity :: nat

datatype action_lookup = NotFound | Found plugin_entry | Ambiguous "string list"

record registry =
  by_plugin_id :: "(string, plugin_entry) dashmap"
  by_conn_id :: "(nat, string) dashmap"
  pong_times :: "(string, nat) dashmap"
  devices :: "(string, device_info) dashmap"
  pending_actions :: "(string, pending_action) dashmap"
  action_requirements :: "(string, (string, string) dashmap) dashmap"
  action_index :: "(string, string) dashmap"
  ambiguous_actions :: "(string, string list) dashmap"

definition registry_new :: registry where
  "registry_new = \<lparr>by_plugin_id = dm_empty, by_conn_id = dm_empty, pong_times = dm_empty,
     devices = dm_empty, pending_actions = dm_empty, action_requirements = dm_empty,
     action_index = dm_empty, ambiguous_actions = dm_empty\<rparr>"

section \<open>Identifiers and the action index\<close>

definition validate_plugin_id :: "string \<Rightarrow> unit result" where
  "validate_plugin_id i = (case validate_identifier i 32 of
      Inl e \<Rightarrow> Inl e
    | Inr _ \<Rightarrow> if i = ''kernel'' \<or> i = ''*''
        then Inl (InvalidPluginId (CHR 0x27 # i @ [CHR 0x27] @ '' is reserved''))
        else Inr ())"

definition index_action :: "string \<Rightarrow> string \<Rightarrow> registry \<Rightarrow> registry" where
  "index_action action pid r = (case dm_get (ambiguous_actions r) action of
      Some ids \<Rightarrow> if pid \<in> set ids then r
        else r\<lparr>ambiguous_actions := dm_insert action (ids @ [pid]) (ambiguous_actions r)\<rparr>
    | None \<Rightarrow> (case dm_get (action_index r) action of
        Some existing \<Rightarrow> if existing = pid then r
          else r\<lparr>action_index := dm_remove action (action_index r),
                 ambiguous_actions := dm_insert action [existing, pid] (ambiguous_actions r)\<rparr>
      | None \<Rightarrow> r\<lparr>action_index := dm_insert action pid (action_index r)\<rparr>))"

definition unindex_action :: "string \<Rightarrow> string \<Rightarrow> registry \<Rightarrow> registry" where
  "unindex_action action pid r =
    (let (r1, remaining) = (case dm_get (ambiguous_actions r) action of
         None \<Rightarrow> (r, None)
       | Some ids \<Rightarrow>
           let ids' = filter (\<lambda>i. i \<noteq> pid) ids
           in (r\<lparr>ambiguous_actions := dm_insert action ids' (ambiguous_actions r)\<rparr>,
               if length ids' = 1 then Some (ids' ! 0) else None))
     in case remaining of
         Some only \<Rightarrow> r1\<lparr>ambiguous_actions := dm_remove action (ambiguous_actions r1),
                         action_index := dm_insert action only (action_index r1)\<rparr>
       | None \<Rightarrow> if dm_get (action_index r1) action = Some pid
           then r1\<lparr>action_index := dm_remove action (action_index r1)\<rparr> else r1)"

definition find_action_provider :: "registry \<Rightarrow> string \<Rightarrow> action_lookup" where
  "find_action_provider r action = (case dm_get (ambiguous_actions r) action of
      Some ids \<Rightarrow> Ambiguous ids
    | None \<Rightarrow> (case dm_get (action_index r) action of
        Some provider_id \<Rightarrow> (case dm_get (by_plugin_id r) provider_id of
            Some entry \<Rightarrow> Found entry
          | None \<Rightarrow> NotFound)
      | None \<Rightarrow> NotFound))"

section \<open>Registration\<close>

definition upsert_device :: "string \<Rightarrow> device_meta \<Rightarrow> string list \<Rightarrow> nat \<Rightarrow> registry \<Rightarrow> registry" where
  "upsert_device device_id meta caps now_ms r = (case dm_get (devices r) device_id of
      Some dev \<Rightarrow> r\<lparr>devices := dm_insert device_id
        (dev\<lparr>di_last_seen := now_ms, di_state := Code Online, di_os := Code (dmt_os meta),
            di_arch := dmt_arch meta, di_os_version := dmt_os_version meta,
            di_capabilities := caps\<rparr>) (devices r)\<rparr>
    | None \<Rightarrow> r\<lparr>devices := dm_insert device_id
        \<lparr>di_device_id = device_id, di_os = Code (dmt_os meta), di_arch = dmt_arch meta,
         di_os_version = dmt_os_version meta, di_capabilities = caps, di_last_seen = now_ms,
         di_state = Code Online, di_created = 0, di_expires = 0\<rparr> (devices r)\<rparr>)"

definition register_with_device ::
  "clock \<Rightarrow> string \<Rightarrow> nat \<Rightarrow> plugin_manifest \<Rightarrow> chan \<Rightarrow> device_meta \<Rightarrow> registry
     \<Rightarrow> unit result \<times> registry" where
  "register_with_device clk plugin_id conn_id manifest write_tx meta r =
    (case validate_plugin_id plugin_id of
       Inl e \<Rightarrow> (Inl e, r)
     | Inr _ \<Rightarrow>
       if dm_get (by_conn_id r) conn_id \<noteq> None
         then (Inl (PluginAlreadyRegistered (''connection '' @ show_nat conn_id
                      @ '' already has a registered plugin'')), r)
       else if dm_get (by_plugin_id r) plugin_id \<noteq> None
         then (Inl (PluginAlreadyRegistered plugin_id), r)
       else
         let device_id = (if dmt_device_id meta = [] then ''local'' else dmt_device_id meta);
             user_id = (if dmt_user_id meta = [] then ''default'' else dmt_user_id meta);
             entry = \<lparr>pe_plugin_id = plugin_id, pe_conn_id = conn_id, pe_manifest = manifest,
                      pe_write_tx = write_tx, pe_registered_at = clk_secs clk,
                      pe_state = Registered, pe_device_id = device_id, pe_user_id = user_id\<rparr>;
             r1 = r\<lparr>by_conn_id := dm_insert conn_id plugin_id (by_conn_id r)\<rparr>;
             r2 = fold (\<lambda>a. index_action a plugin_id) (mf_actions manifest) r1;
             r3 = r2\<lparr>pong_times := dm_insert plugin_id (clk_instant clk) (pong_times r2)\<rparr>;
             r4 = upsert_device device_id meta (dmt_capabilities meta) (clk_millis clk) r3
         in (Inr (), r4\<lparr>by_plugin_id := dm_insert plugin_id entry (by_plugin_id r4)\<rparr>))"

definition register_plugin ::
  "clock \<Rightarrow> string \<Rightarrow> nat \<Rightarrow> plugin_manifest \<Rightarrow> chan \<Rightarrow> string \<Rightarrow> string \<Rightarrow> registry
     \<Rightarrow> unit result \<times> registry" where
  "register_plugin clk plugin_id conn_id manifest write_tx device_id user_id =
     register_with_device clk plugin_id conn_id manifest write_tx
       \<lparr>dmt_device_id = device_id, dmt_user_id = user_id, dmt_os = OsUnspecified, dmt_arch = [],
        dmt_os_version = [], dmt_capabilities = []\<rparr>"

definition mux_actions :: "string \<Rightarrow> string list \<Rightarrow> string list" where
  "mux_actions device_id caps = map (\<lambda>c. device_id @ ''.'' @ c) caps"

definition register_device ::
  "clock \<Rightarrow> string \<Rightarrow> nat \<Rightarrow> string list \<Rightarrow> plugin_manifest \<Rightarrow> chan \<Rightarrow> device_meta \<Rightarrow> registry
     \<Rightarrow> unit result \<times> registry" where
  "register_device clk device_id conn_id caps manifest write_tx meta r =
    (case validate_plugin_id device_id of
       Inl e \<Rightarrow> (Inl e, r)
     | Inr _ \<Rightarrow>
       if dm_get (by_conn_id r) conn_id \<noteq> None
         then (Inl (PluginAlreadyRegistered (''connection '' @ show_nat conn_id
                      @ '' already has a registered plugin'')), r)
       else if dm_get (by_plugin_id r) device_id \<noteq> None
         then (Inl (PluginAlreadyRegistered device_id), r)
       else
         let effective_device_id =
               (if dmt_device_id meta = [] then device_id else dmt_device_id meta);
             user_id = (if dmt_user_id meta = [] then ''default'' else dmt_user_id meta);
             manifest' = manifest\<lparr>mf_actions := mux_actions device_id caps\<rparr>;
             entry = \<lparr>pe_plugin_id = device_id, pe_conn_id = conn_id, pe_manifest = manifest',
                      pe_write_tx = write_tx, pe_registered_at = clk_secs clk,
                      pe_state = Registered, pe_device_id = effective_device_id,
                      pe_user_id = user_id\<rparr>;
             r1 = r\<lparr>by_conn_id := dm_insert conn_id device_id (by_conn_id r)\<rparr>;
             r2 = fold (\<lambda>a. index_action a device_id) (mf_actions manifest') r1;
             r3 = r2\<lparr>pong_times := dm_insert device_id (clk_instant clk) (pong_times r2)\<rparr>;
             r4 = upsert_device effective_device_id meta caps (clk_millis clk) r3
         in (Inr (), r4\<lparr>by_plugin_id := dm_insert device_id entry (by_plugin_id r4)\<rparr>))"

section \<open>Lookup\<close>

definition get_plugin :: "registry \<Rightarrow> string \<Rightarrow> plugin_entry option" where
  "get_plugin r pid = dm_get (by_plugin_id r) pid"

definition get_mux :: "registry \<Rightarrow> string \<Rightarrow> plugin_entry option" where
  "get_mux r target = (case get_plugin r target of
      Some entry \<Rightarrow> Some entry
    | None \<Rightarrow> (case split_once target (CHR ''.'') of
        None \<Rightarrow> None
      | Some (dev, cap) \<Rightarrow> (case get_plugin r dev of
          None \<Rightarrow> None
        | Some entry \<Rightarrow>
            let actions = mf_actions (pe_manifest entry);
                is_declared =
                  list_ex (\<lambda>a. a = target) actions
                  \<or> list_ex (\<lambda>a. case split_once a (CHR ''.'') of
                               Some (_, c) \<Rightarrow> c = cap | None \<Rightarrow> False) actions
                  \<or> (case dm_get (devices r) dev of
                        Some d \<Rightarrow> list_ex (\<lambda>c. c = cap) (di_capabilities d)
                      | None \<Rightarrow> False)
            in if is_declared then Some entry else None)))"

definition last_pong :: "registry \<Rightarrow> string \<Rightarrow> nat option" where
  "last_pong r pid = dm_get (pong_times r) pid"

definition get_device :: "registry \<Rightarrow> string \<Rightarrow> device_info option" where
  "get_device r did = dm_get (devices r) did"

definition list_devices :: "registry \<Rightarrow> device_info list" where
  "list_devices r = dm_values (devices r)"

definition list_plugins :: "registry \<Rightarrow> plugin_entry list" where
  "list_plugins r = dm_values (by_plugin_id r)"

definition is_registered :: "registry \<Rightarrow> nat \<Rightarrow> bool" where
  "is_registered r conn_id \<longleftrightarrow> dm_get (by_conn_id r) conn_id \<noteq> None"

definition get_by_conn_id :: "registry \<Rightarrow> nat \<Rightarrow> plugin_entry option" where
  "get_by_conn_id r conn_id = (case dm_get (by_conn_id r) conn_id of
      None \<Rightarrow> None | Some pid \<Rightarrow> dm_get (by_plugin_id r) pid)"

section \<open>Action requirements\<close>

definition set_action_requirements ::
  "string \<Rightarrow> (string, string) dashmap \<Rightarrow> registry \<Rightarrow> registry" where
  "set_action_requirements pid reqs r =
     r\<lparr>action_requirements := dm_insert pid reqs (action_requirements r)\<rparr>"

definition action_requirement :: "registry \<Rightarrow> string \<Rightarrow> string \<Rightarrow> string option" where
  "action_requirement r pid action = (case dm_get (action_requirements r) pid of
      None \<Rightarrow> None | Some m \<Rightarrow> dm_get m action)"

definition clear_action_requirements :: "string \<Rightarrow> registry \<Rightarrow> registry" where
  "clear_action_requirements pid r =
     r\<lparr>action_requirements := dm_remove pid (action_requirements r)\<rparr>"

section \<open>Departure and liveness\<close>

definition unregister :: "string \<Rightarrow> registry \<Rightarrow> registry" where
  "unregister pid r = (case dm_get (by_plugin_id r) pid of
      None \<Rightarrow> r
    | Some entry \<Rightarrow>
        let r1 = r\<lparr>by_plugin_id := dm_remove pid (by_plugin_id r)\<rparr>;
            r2 = r1\<lparr>by_conn_id := dm_remove (pe_conn_id entry) (by_conn_id r1)\<rparr>;
            r3 = r2\<lparr>pong_times := dm_remove pid (pong_times r2)\<rparr>;
            r4 = clear_action_requirements pid r3;
            r5 = fold (\<lambda>a. unindex_action a pid) (mf_actions (pe_manifest entry)) r4;
            device_id = pe_device_id entry;
            still_registered = list_ex (\<lambda>e. pe_device_id e = device_id) (list_plugins r5)
        in if still_registered then r5
           else (case dm_get (devices r5) device_id of
               Some dev \<Rightarrow> r5\<lparr>devices := dm_insert device_id (dev\<lparr>di_state := Code Offline\<rparr>)
                                            (devices r5)\<rparr>
             | None \<Rightarrow> r5))"

definition record_pong :: "clock \<Rightarrow> string \<Rightarrow> registry \<Rightarrow> registry" where
  "record_pong clk pid r =
    (let r1 = r\<lparr>pong_times := dm_insert pid (clk_instant clk) (pong_times r)\<rparr>
     in case dm_get (by_plugin_id r1) pid of
         None \<Rightarrow> r1
       | Some entry \<Rightarrow> (case dm_get (devices r1) (pe_device_id entry) of
             None \<Rightarrow> r1
           | Some dev \<Rightarrow> r1\<lparr>devices := dm_insert (pe_device_id entry)
               (dev\<lparr>di_last_seen := clk_millis clk, di_state := Code Online\<rparr>) (devices r1)\<rparr>))"

section \<open>In-flight actions\<close>

definition register_pending_action :: "string \<Rightarrow> pending_action \<Rightarrow> registry \<Rightarrow> registry" where
  "register_pending_action iid p r = r\<lparr>pending_actions := dm_insert iid p (pending_actions r)\<rparr>"

definition take_pending_action :: "string \<Rightarrow> registry \<Rightarrow> pending_action option \<times> registry" where
  "take_pending_action iid r = (case dm_get (pending_actions r) iid of
      None \<Rightarrow> (None, r)
    | Some p \<Rightarrow> (Some p, r\<lparr>pending_actions := dm_remove iid (pending_actions r)\<rparr>))"

definition take_pending_action_if_provider ::
  "string \<Rightarrow> string \<Rightarrow> registry \<Rightarrow> pending_action option \<times> registry" where
  "take_pending_action_if_provider iid provider_id r = (case dm_get (pending_actions r) iid of
      None \<Rightarrow> (None, r)
    | Some p \<Rightarrow> if pa_provider_id p = provider_id
        then (Some p, r\<lparr>pending_actions := dm_remove iid (pending_actions r)\<rparr>)
        else (None, r))"

definition resolve_action_response ::
  "nat \<Rightarrow> string \<Rightarrow> string \<Rightarrow> bool \<Rightarrow> registry \<Rightarrow> pending_action option \<times> registry" where
  "resolve_action_response now iid provider_id status_ok r =
    (case dm_get (pending_actions r) iid of
      None \<Rightarrow> (None, r)
    | Some p \<Rightarrow>
        if pa_provider_id p \<noteq> provider_id then (None, r)
        else if status_ok \<and> pa_streaming p then
          let p' = p\<lparr>pa_session_accepted := True, pa_last_activity := now\<rparr>
          in (Some p', r\<lparr>pending_actions := dm_insert iid p' (pending_actions r)\<rparr>)
        else (Some p, r\<lparr>pending_actions := dm_remove iid (pending_actions r)\<rparr>))"

definition touch_pending_action :: "nat \<Rightarrow> string \<Rightarrow> registry \<Rightarrow> registry" where
  "touch_pending_action now iid r = (case dm_get (pending_actions r) iid of
      None \<Rightarrow> r
    | Some p \<Rightarrow> r\<lparr>pending_actions :=
        dm_insert iid (p\<lparr>pa_last_activity := now\<rparr>) (pending_actions r)\<rparr>)"

text \<open>The \<^verbatim>\<open>filter_map\<close> over the collected keys that both sweeps end with.\<close>

fun take_pending_actions ::
  "string list \<Rightarrow> registry \<Rightarrow> (string \<times> pending_action) list \<times> registry" where
  "take_pending_actions [] r = ([], r)"
| "take_pending_actions (k # ks) r =
     (case take_pending_action k r of
        (None, r1) \<Rightarrow> take_pending_actions ks r1
      | (Some p, r1) \<Rightarrow> (let (ps, r2) = take_pending_actions ks r1 in ((k, p) # ps, r2)))"

definition session_idle :: "nat \<Rightarrow> nat \<Rightarrow> pending_action \<Rightarrow> bool" where
  "session_idle now idle_timeout p \<longleftrightarrow>
     pa_session_accepted p \<and> now - pa_last_activity p > idle_timeout"

definition action_expired :: "nat \<Rightarrow> pending_action \<Rightarrow> bool" where
  "action_expired now p \<longleftrightarrow> \<not> pa_session_accepted p \<and> pa_deadline p \<le> now"

definition sweep_idle_sessions ::
  "nat \<Rightarrow> nat \<Rightarrow> registry \<Rightarrow> (string \<times> pending_action) list \<times> registry" where
  "sweep_idle_sessions now idle_timeout r =
     take_pending_actions
       (map fst (filter (\<lambda>e. session_idle now idle_timeout (snd e)) (pending_actions r))) r"

definition sweep_expired_actions :: "nat \<Rightarrow> registry \<Rightarrow> pending_action list \<times> registry" where
  "sweep_expired_actions now r =
     (let (ps, r') = take_pending_actions
          (map fst (filter (\<lambda>e. action_expired now (snd e)) (pending_actions r))) r
      in (map snd ps, r'))"

definition count_pending_actions_for :: "registry \<Rightarrow> string \<Rightarrow> string \<Rightarrow> nat" where
  "count_pending_actions_for r requester_id provider_id =
     length (filter (\<lambda>p. pa_requester_id p = requester_id \<and> pa_provider_id p = provider_id)
                    (dm_values (pending_actions r))) mod 2 ^ 32"

definition get_pending_action :: "registry \<Rightarrow> string \<Rightarrow> pending_action option" where
  "get_pending_action r iid = dm_get (pending_actions r) iid"

definition find_pending_internal_id :: "registry \<Rightarrow> string \<Rightarrow> string \<Rightarrow> string option" where
  "find_pending_internal_id r requester_id original_action_id =
     map_option fst (find (\<lambda>(_, p). pa_requester_id p = requester_id
                             \<and> pa_original_action_id p = original_action_id)
                          (pending_actions r))"

section \<open>Display strings\<close>

definition action_risk_str :: "action_risk i32_enum \<Rightarrow> string" where
  "action_risk_str risk = (case try_from_code risk of
      Some RiskLow \<Rightarrow> ''low''
    | Some RiskMedium \<Rightarrow> ''medium''
    | Some RiskHigh \<Rightarrow> ''high''
    | Some RiskCritical \<Rightarrow> ''critical''
    | _ \<Rightarrow> ''unknown'')"

fun plugin_state_str :: "plugin_state \<Rightarrow> string" where
  "plugin_state_str Registered = ''registered''"


section \<open>The operations as one step function\<close>

datatype reg_op =
    RegRegister clock string nat plugin_manifest chan device_meta
  | RegRegisterDevice clock string nat "string list" plugin_manifest chan device_meta
  | RegUnregister string
  | RegPong clock string
  | RegSetRequirements string "(string, string) dashmap"
  | RegAddPending string pending_action
  | RegTakePending string
  | RegTakeIfProvider string string
  | RegResolve nat string string bool
  | RegTouch nat string
  | RegSweepIdle nat nat
  | RegSweepExpired nat

fun reg_step :: "reg_op \<Rightarrow> registry \<Rightarrow> registry" where
  "reg_step (RegRegister clk pid c mf tx meta) r = snd (register_with_device clk pid c mf tx meta r)"
| "reg_step (RegRegisterDevice clk pid c caps mf tx meta) r =
     snd (register_device clk pid c caps mf tx meta r)"
| "reg_step (RegUnregister pid) r = unregister pid r"
| "reg_step (RegPong clk pid) r = record_pong clk pid r"
| "reg_step (RegSetRequirements pid reqs) r = set_action_requirements pid reqs r"
| "reg_step (RegAddPending iid p) r = register_pending_action iid p r"
| "reg_step (RegTakePending iid) r = snd (take_pending_action iid r)"
| "reg_step (RegTakeIfProvider iid pid) r = snd (take_pending_action_if_provider iid pid r)"
| "reg_step (RegResolve now iid pid ok) r = snd (resolve_action_response now iid pid ok r)"
| "reg_step (RegTouch now iid) r = touch_pending_action now iid r"
| "reg_step (RegSweepIdle now t) r = snd (sweep_idle_sessions now t r)"
| "reg_step (RegSweepExpired now) r = snd (sweep_expired_actions now r)"

section \<open>The invariant\<close>

definition declarers :: "registry \<Rightarrow> string \<Rightarrow> string set" where
  "declarers r a = {pid. \<exists>e. dm_get (by_plugin_id r) pid = Some e \<and> a \<in> set (mf_actions (pe_manifest e))}"

text \<open>The index and the collision table together represent a set of declarers per action.\<close>

definition index_rep :: "registry \<Rightarrow> string \<Rightarrow> string set \<Rightarrow> bool" where
  "index_rep r a S \<longleftrightarrow> (case dm_get (ambiguous_actions r) a of
      Some ids \<Rightarrow> distinct ids \<and> set ids = S \<and> 2 \<le> length ids \<and> dm_get (action_index r) a = None
    | None \<Rightarrow> (case dm_get (action_index r) a of Some p \<Rightarrow> S = {p} | None \<Rightarrow> S = {}))"

definition maps_ok :: "registry \<Rightarrow> bool" where
  "maps_ok r \<longleftrightarrow> dm_ok (by_plugin_id r) \<and> dm_ok (by_conn_id r) \<and> dm_ok (pong_times r)
     \<and> dm_ok (devices r) \<and> dm_ok (pending_actions r) \<and> dm_ok (action_requirements r)
     \<and> dm_ok (action_index r) \<and> dm_ok (ambiguous_actions r)"

definition entries_ok :: "registry \<Rightarrow> bool" where
  "entries_ok r \<longleftrightarrow> (\<forall>pid e. dm_get (by_plugin_id r) pid = Some e \<longrightarrow>
     pe_plugin_id e = pid \<and> is_ok (validate_plugin_id pid)
     \<and> dm_get (by_conn_id r) (pe_conn_id e) = Some pid \<and> dm_get (pong_times r) pid \<noteq> None)"

definition conns_ok :: "registry \<Rightarrow> bool" where
  "conns_ok r \<longleftrightarrow> (\<forall>c pid. dm_get (by_conn_id r) c = Some pid \<longrightarrow>
     (\<exists>e. dm_get (by_plugin_id r) pid = Some e \<and> pe_conn_id e = c))"

definition device_in_use :: "registry \<Rightarrow> string \<Rightarrow> bool" where
  "device_in_use r did \<longleftrightarrow> (\<exists>pid e. dm_get (by_plugin_id r) pid = Some e \<and> pe_device_id e = did)"

definition devices_ok :: "registry \<Rightarrow> bool" where
  "devices_ok r \<longleftrightarrow> (\<forall>did. case dm_get (devices r) did of
      None \<Rightarrow> \<not> device_in_use r did
    | Some d \<Rightarrow> di_device_id d = did
        \<and> di_state d = Code (if device_in_use r did then Online else Offline))"

definition reg_ok :: "registry \<Rightarrow> bool" where
  "reg_ok r \<longleftrightarrow> maps_ok r \<and> entries_ok r \<and> conns_ok r \<and> devices_ok r
     \<and> (\<forall>a. index_rep r a (declarers r a))"

section \<open>The action index\<close>

lemma index_action_frame [simp]:
  "by_plugin_id (index_action a pid r) = by_plugin_id r"
  "by_conn_id (index_action a pid r) = by_conn_id r"
  "pong_times (index_action a pid r) = pong_times r"
  "devices (index_action a pid r) = devices r"
  "pending_actions (index_action a pid r) = pending_actions r"
  "action_requirements (index_action a pid r) = action_requirements r"
  by (simp_all add: index_action_def split: option.split)

lemma unindex_action_frame [simp]:
  "by_plugin_id (unindex_action a pid r) = by_plugin_id r"
  "by_conn_id (unindex_action a pid r) = by_conn_id r"
  "pong_times (unindex_action a pid r) = pong_times r"
  "devices (unindex_action a pid r) = devices r"
  "pending_actions (unindex_action a pid r) = pending_actions r"
  "action_requirements (unindex_action a pid r) = action_requirements r"
  by (simp_all add: unindex_action_def Let_def split: option.split)

lemma fold_frame:
  "(\<And>a r. f (g a r) = f r) \<Longrightarrow> f (fold g xs r) = f r"
  by (induction xs arbitrary: r) simp_all

lemmas index_fold_frame [simp] =
  fold_frame [of by_plugin_id] fold_frame [of by_conn_id] fold_frame [of pong_times]
  fold_frame [of devices] fold_frame [of pending_actions] fold_frame [of action_requirements]

lemma index_action_rep:
  assumes "index_rep r b S"
  shows "index_rep (index_action a pid r) b (if b = a then insert pid S else S)"
  using assms by (auto simp: index_rep_def index_action_def split: option.splits)

lemma filter_removes_one:
  assumes "distinct ids" "2 \<le> length ids"
  shows "1 \<le> length (filter (\<lambda>i. i \<noteq> pid) ids)"
  using assms by (cases ids; cases "tl ids") auto

lemma unindex_action_rep:
  assumes "index_rep r b S"
  shows "index_rep (unindex_action a pid r) b (if b = a then S - {pid} else S)"
proof (cases "b = a \<and> dm_get (ambiguous_actions r) a \<noteq> None")
  case True
  then obtain ids where ids: "dm_get (ambiguous_actions r) a = Some ids" and [simp]: "b = a" by auto
  let ?ids = "filter (\<lambda>i. i \<noteq> pid) ids"
  have S: "distinct ids" "set ids = S" "2 \<le> length ids" "dm_get (action_index r) a = None"
    using assms ids by (auto simp: index_rep_def)
  show ?thesis
  proof (cases "length ?ids = 1")
    case one: True
    then have "set ?ids = {?ids ! 0}"
      by (metis One_nat_def length_0_conv length_Suc_conv list.set(1) list.simps(15) nth_Cons_0)
    then have "S - {pid} = {?ids ! 0}" using S(2) by auto
    with one ids show ?thesis by (simp add: index_rep_def unindex_action_def Let_def)
  next
    case False
    with filter_removes_one [OF S(1,3), of pid] have "2 \<le> length ?ids" by linarith
    with False ids S show ?thesis by (auto simp: index_rep_def unindex_action_def Let_def)
  qed
next
  case False
  with assms show ?thesis
    by (auto simp: index_rep_def unindex_action_def Let_def split: option.splits)
qed

lemma index_actions_rep:
  assumes "index_rep r b S"
  shows "index_rep (fold (\<lambda>a. index_action a pid) as r) b (if b \<in> set as then insert pid S else S)"
  using assms
proof (induction as arbitrary: r S)
  case (Cons a as)
  from Cons.IH [OF index_action_rep [OF Cons.prems, of a pid]] show ?case
    by (auto split: if_splits)
qed simp

lemma unindex_actions_rep:
  assumes "index_rep r b S"
  shows "index_rep (fold (\<lambda>a. unindex_action a pid) as r) b (if b \<in> set as then S - {pid} else S)"
  using assms
proof (induction as arbitrary: r S)
  case (Cons a as)
  from Cons.IH [OF unindex_action_rep [OF Cons.prems, of a pid]] show ?case
    by (auto split: if_splits)
qed simp

lemma index_rep_cong:
  "action_index r = action_index r' \<Longrightarrow> ambiguous_actions r = ambiguous_actions r' \<Longrightarrow>
     index_rep r a S = index_rep r' a S"
  by (auto simp: index_rep_def split: option.splits)

section \<open>Every operation keeps the invariant\<close>

lemma reg_ok_new: "reg_ok registry_new"
  by (simp add: reg_ok_def registry_new_def maps_ok_def entries_ok_def conns_ok_def devices_ok_def
      device_in_use_def index_rep_def declarers_def)

lemma upsert_device_frame [simp]:
  "by_plugin_id (upsert_device d m c t r) = by_plugin_id r"
  "by_conn_id (upsert_device d m c t r) = by_conn_id r"
  "pong_times (upsert_device d m c t r) = pong_times r"
  "pending_actions (upsert_device d m c t r) = pending_actions r"
  "action_requirements (upsert_device d m c t r) = action_requirements r"
  "action_index (upsert_device d m c t r) = action_index r"
  "ambiguous_actions (upsert_device d m c t r) = ambiguous_actions r"
  by (simp_all add: upsert_device_def split: option.split)

lemma maps_okD:
  assumes "maps_ok r"
  shows "dm_ok (by_plugin_id r)" "dm_ok (by_conn_id r)" "dm_ok (pong_times r)" "dm_ok (devices r)"
    "dm_ok (pending_actions r)" "dm_ok (action_requirements r)" "dm_ok (action_index r)"
    "dm_ok (ambiguous_actions r)"
  using assms by (simp_all add: maps_ok_def)

lemma maps_ok_update:
  "maps_ok r \<Longrightarrow> dm_ok m1 \<Longrightarrow> maps_ok (r\<lparr>by_plugin_id := m1\<rparr>)"
  "maps_ok r \<Longrightarrow> dm_ok m2 \<Longrightarrow> maps_ok (r\<lparr>by_conn_id := m2\<rparr>)"
  "maps_ok r \<Longrightarrow> dm_ok m3 \<Longrightarrow> maps_ok (r\<lparr>pong_times := m3\<rparr>)"
  "maps_ok r \<Longrightarrow> dm_ok m4 \<Longrightarrow> maps_ok (r\<lparr>devices := m4\<rparr>)"
  "maps_ok r \<Longrightarrow> dm_ok m5 \<Longrightarrow> maps_ok (r\<lparr>pending_actions := m5\<rparr>)"
  "maps_ok r \<Longrightarrow> dm_ok m6 \<Longrightarrow> maps_ok (r\<lparr>action_requirements := m6\<rparr>)"
  by (simp_all add: maps_ok_def)

lemma index_action_maps_ok [simp, intro]: "maps_ok r \<Longrightarrow> maps_ok (index_action a pid r)"
  by (auto simp: maps_ok_def index_action_def split: option.split)

lemma unindex_action_maps_ok [simp, intro]: "maps_ok r \<Longrightarrow> maps_ok (unindex_action a pid r)"
  by (auto simp: maps_ok_def unindex_action_def Let_def split: option.split)

lemma upsert_device_maps_ok [simp, intro]: "maps_ok r \<Longrightarrow> maps_ok (upsert_device d m c t r)"
  by (auto simp: maps_ok_def upsert_device_def split: option.split)

lemma fold_maps_ok:
  "(\<And>a r. maps_ok r \<Longrightarrow> maps_ok (g a r)) \<Longrightarrow> maps_ok r \<Longrightarrow> maps_ok (fold g xs r)"
  by (induction xs arbitrary: r) simp_all

text \<open>Both registration methods end by installing one entry; \<open>install\<close> is what they share.\<close>

definition install :: "clock \<Rightarrow> plugin_entry \<Rightarrow> device_meta \<Rightarrow> string list \<Rightarrow> registry \<Rightarrow> registry" where
  "install clk e meta caps r =
    (let r1 = r\<lparr>by_conn_id := dm_insert (pe_conn_id e) (pe_plugin_id e) (by_conn_id r)\<rparr>;
         r2 = fold (\<lambda>a. index_action a (pe_plugin_id e)) (mf_actions (pe_manifest e)) r1;
         r3 = r2\<lparr>pong_times := dm_insert (pe_plugin_id e) (clk_instant clk) (pong_times r2)\<rparr>;
         r4 = upsert_device (pe_device_id e) meta caps (clk_millis clk) r3
     in r4\<lparr>by_plugin_id := dm_insert (pe_plugin_id e) e (by_plugin_id r4)\<rparr>)"

lemma install_fields [simp]:
  "by_plugin_id (install clk e meta caps r) = dm_insert (pe_plugin_id e) e (by_plugin_id r)"
  "by_conn_id (install clk e meta caps r) = dm_insert (pe_conn_id e) (pe_plugin_id e) (by_conn_id r)"
  "pong_times (install clk e meta caps r) = dm_insert (pe_plugin_id e) (clk_instant clk) (pong_times r)"
  "pending_actions (install clk e meta caps r) = pending_actions r"
  "action_requirements (install clk e meta caps r) = action_requirements r"
  by (simp_all add: install_def Let_def)

lemma get_devices_install:
  "dm_get (devices (install clk e meta caps r)) did =
    (if did = pe_device_id e then dm_get (devices (upsert_device did meta caps (clk_millis clk) r)) did
     else dm_get (devices r) did)"
  by (auto simp: install_def Let_def upsert_device_def split: option.split)

lemma declarers_install:
  assumes "dm_get (by_plugin_id r) (pe_plugin_id e) = None"
  shows "declarers (install clk e meta caps r) a =
    (if a \<in> set (mf_actions (pe_manifest e)) then insert (pe_plugin_id e) (declarers r a)
     else declarers r a)"
  using assms by (auto simp: declarers_def)

lemma install_index_rep:
  assumes "dm_get (by_plugin_id r) (pe_plugin_id e) = None" "index_rep r a (declarers r a)"
  shows "index_rep (install clk e meta caps r) a (declarers (install clk e meta caps r) a)"
proof -
  let ?r1 = "r\<lparr>by_conn_id := dm_insert (pe_conn_id e) (pe_plugin_id e) (by_conn_id r)\<rparr>"
  have "index_rep ?r1 a (declarers r a)"
    using assms(2) by (simp cong: index_rep_cong)
  from index_actions_rep [OF this, of "pe_plugin_id e" "mf_actions (pe_manifest e)"]
  show ?thesis
    unfolding declarers_install [OF assms(1)]
    by (rule index_rep_cong [THEN iffD1, rotated 2]) (simp_all add: install_def Let_def)
qed

lemma install_devices_ok:
  assumes "dm_get (by_plugin_id r) (pe_plugin_id e) = None" "devices_ok r"
  shows "devices_ok (install clk e meta caps r)"
proof -
  have use: "device_in_use (install clk e meta caps r) did \<longleftrightarrow> did = pe_device_id e \<or> device_in_use r did"
    for did using assms(1) by (auto simp: device_in_use_def) (metis option.distinct(1))
  show ?thesis
    unfolding devices_ok_def use get_devices_install
  proof
    fix did
    show "case if did = pe_device_id e then dm_get (devices (upsert_device did meta caps (clk_millis clk) r)) did
               else dm_get (devices r) did of
        None \<Rightarrow> \<not> (did = pe_device_id e \<or> device_in_use r did)
      | Some d \<Rightarrow> di_device_id d = did
          \<and> di_state d = Code (if did = pe_device_id e \<or> device_in_use r did then Online else Offline)"
      using assms(2) [unfolded devices_ok_def, rule_format, of did]
      by (auto simp: upsert_device_def split: option.splits)
  qed
qed

lemma install_ok:
  assumes "reg_ok r" "is_ok (validate_plugin_id (pe_plugin_id e))"
    and "dm_get (by_conn_id r) (pe_conn_id e) = None" "dm_get (by_plugin_id r) (pe_plugin_id e) = None"
  shows "reg_ok (install clk e meta caps r)"
proof -
  have "maps_ok (install clk e meta caps r)"
    using assms(1) unfolding install_def Let_def
    by (intro maps_ok_update upsert_device_maps_ok fold_maps_ok index_action_maps_ok)
      (simp_all add: reg_ok_def maps_okD)
  moreover have "entries_ok (install clk e meta caps r)"
    using assms by (fastforce simp: reg_ok_def entries_ok_def)
  moreover have "conns_ok (install clk e meta caps r)"
    using assms by (fastforce simp: reg_ok_def conns_ok_def)
  ultimately show ?thesis
    using assms install_devices_ok install_index_rep by (simp add: reg_ok_def)
qed


lemma validate_plugin_id_cases: "is_ok (validate_plugin_id i) \<Longrightarrow> validate_plugin_id i = Inr ()"
  by (cases "validate_plugin_id i") simp_all

lemma register_with_device_cases:
  obtains (rejected) err where "register_with_device clk pid c mf tx meta r = (Inl err, r)"
  | (installed) e where "register_with_device clk pid c mf tx meta r =
        (Inr (), install clk e meta (dmt_capabilities meta) r)"
      "pe_plugin_id e = pid" "pe_conn_id e = c" "pe_manifest e = mf" "pe_write_tx e = tx"
      "pe_device_id e = (if dmt_device_id meta = [] then ''local'' else dmt_device_id meta)"
      "pe_user_id e = (if dmt_user_id meta = [] then ''default'' else dmt_user_id meta)"
      "is_ok (validate_plugin_id pid)" "dm_get (by_conn_id r) c = None"
      "dm_get (by_plugin_id r) pid = None"
proof (cases "validate_plugin_id pid")
  case (Inr u)
  consider "dm_get (by_conn_id r) c \<noteq> None"
    | "dm_get (by_conn_id r) c = None" "dm_get (by_plugin_id r) pid \<noteq> None"
    | "dm_get (by_conn_id r) c = None" "dm_get (by_plugin_id r) pid = None" by blast
  then show thesis
  proof cases
    case 3
    show thesis
      by (rule that(2) [of "\<lparr>pe_plugin_id = pid, pe_conn_id = c, pe_manifest = mf, pe_write_tx = tx,
        pe_registered_at = clk_secs clk, pe_state = Registered,
        pe_device_id = (if dmt_device_id meta = [] then ''local'' else dmt_device_id meta),
        pe_user_id = (if dmt_user_id meta = [] then ''default'' else dmt_user_id meta)\<rparr>"])
        (use 3 Inr in \<open>simp_all add: register_with_device_def install_def Let_def\<close>)
  qed (use Inr in \<open>auto intro!: that(1) simp: register_with_device_def\<close>)
qed (use that(1) in \<open>simp add: register_with_device_def\<close>)

lemma register_device_cases:
  obtains (rejected) err where "register_device clk did c caps mf tx meta r = (Inl err, r)"
  | (installed) e where "register_device clk did c caps mf tx meta r = (Inr (), install clk e meta caps r)"
      "pe_plugin_id e = did" "pe_conn_id e = c" "pe_write_tx e = tx"
      "pe_manifest e = mf\<lparr>mf_actions := mux_actions did caps\<rparr>"
      "pe_device_id e = (if dmt_device_id meta = [] then did else dmt_device_id meta)"
      "pe_user_id e = (if dmt_user_id meta = [] then ''default'' else dmt_user_id meta)"
      "is_ok (validate_plugin_id did)" "dm_get (by_conn_id r) c = None"
      "dm_get (by_plugin_id r) did = None"
proof (cases "validate_plugin_id did")
  case (Inr u)
  consider "dm_get (by_conn_id r) c \<noteq> None"
    | "dm_get (by_conn_id r) c = None" "dm_get (by_plugin_id r) did \<noteq> None"
    | "dm_get (by_conn_id r) c = None" "dm_get (by_plugin_id r) did = None" by blast
  then show thesis
  proof cases
    case 3
    show thesis
      by (rule that(2) [of "\<lparr>pe_plugin_id = did, pe_conn_id = c,
        pe_manifest = mf\<lparr>mf_actions := mux_actions did caps\<rparr>, pe_write_tx = tx,
        pe_registered_at = clk_secs clk, pe_state = Registered,
        pe_device_id = (if dmt_device_id meta = [] then did else dmt_device_id meta),
        pe_user_id = (if dmt_user_id meta = [] then ''default'' else dmt_user_id meta)\<rparr>"])
        (use 3 Inr in \<open>simp_all add: register_device_def install_def Let_def\<close>)
  qed (use Inr in \<open>auto intro!: that(1) simp: register_device_def\<close>)
qed (use that(1) in \<open>simp add: register_device_def\<close>)

lemma register_with_device_reg_ok:
  "reg_ok r \<Longrightarrow> reg_ok (snd (register_with_device clk pid c mf tx meta r))"
  by (rule register_with_device_cases [of clk pid c mf tx meta r]) (auto intro!: install_ok)

lemma register_device_reg_ok:
  "reg_ok r \<Longrightarrow> reg_ok (snd (register_device clk did c caps mf tx meta r))"
  by (rule register_device_cases [of clk did c caps mf tx meta r]) (auto intro!: install_ok)

text \<open>Unregistering: what is left once the entry is gone.\<close>

lemma unregister_fields:
  assumes "dm_get (by_plugin_id r) pid = Some e"
  shows "by_plugin_id (unregister pid r) = dm_remove pid (by_plugin_id r)"
    "by_conn_id (unregister pid r) = dm_remove (pe_conn_id e) (by_conn_id r)"
    "pong_times (unregister pid r) = dm_remove pid (pong_times r)"
    "pending_actions (unregister pid r) = pending_actions r"
    "action_requirements (unregister pid r) = dm_remove pid (action_requirements r)"
  using assms
  by (auto simp: unregister_def Let_def clear_action_requirements_def split: option.split)

lemma unregister_devices:
  assumes "dm_get (by_plugin_id r) pid = Some e" "maps_ok r"
  shows "dm_get (devices (unregister pid r)) did =
     (if did = pe_device_id e \<and> \<not> device_in_use (unregister pid r) did
      then map_option (\<lambda>d. d\<lparr>di_state := Code Offline\<rparr>) (dm_get (devices r) did)
      else dm_get (devices r) did)"
proof -
  let ?bp = "dm_remove pid (by_plugin_id r)"
  have ok: "dm_ok ?bp" using assms(2) by (simp add: maps_okD)
  have still: "list_ex (\<lambda>x. pe_device_id x = d) (dm_values ?bp)
      \<longleftrightarrow> device_in_use (unregister pid r) d" for d
    unfolding device_in_use_def unregister_fields [OF assms(1)] list_ex_iff
      Bex_def dm_values_iff [OF ok] by blast
  show ?thesis
    unfolding still [symmetric]
    using assms(1)
    by (cases "did = pe_device_id e"; cases "dm_get (devices r) (pe_device_id e)")
      (simp_all add: unregister_def Let_def clear_action_requirements_def list_plugins_def)
qed

lemma unregister_index_rep:
  assumes "dm_get (by_plugin_id r) pid = Some e" "index_rep r a (declarers r a)"
  shows "index_rep (unregister pid r) a (declarers (unregister pid r) a)"
proof -
  let ?r4 = "clear_action_requirements pid (r\<lparr>by_plugin_id := dm_remove pid (by_plugin_id r),
      by_conn_id := dm_remove (pe_conn_id e) (by_conn_id r), pong_times := dm_remove pid (pong_times r)\<rparr>)"
  have "index_rep ?r4 a (declarers r a)"
    using assms(2) by (simp add: clear_action_requirements_def cong: index_rep_cong)
  from unindex_actions_rep [OF this, of pid "mf_actions (pe_manifest e)"]
  have "index_rep (unregister pid r) a
     (if a \<in> set (mf_actions (pe_manifest e)) then declarers r a - {pid} else declarers r a)"
    by (rule index_rep_cong [THEN iffD1, rotated 2])
      (use assms(1) in \<open>auto simp: unregister_def Let_def split: option.split\<close>)
  moreover have "declarers (unregister pid r) a =
     (if a \<in> set (mf_actions (pe_manifest e)) then declarers r a - {pid} else declarers r a)"
    using assms(1) by (auto simp: declarers_def unregister_fields)
  ultimately show ?thesis by simp
qed

lemma unregister_maps_ok: "maps_ok r \<Longrightarrow> maps_ok (unregister pid r)"
  unfolding unregister_def Let_def clear_action_requirements_def
  by (auto split: option.split intro!: maps_ok_update fold_maps_ok simp: maps_okD)

lemma entries_okD:
  assumes "entries_ok r" "dm_get (by_plugin_id r) pid = Some e"
  shows "pe_plugin_id e = pid" "is_ok (validate_plugin_id pid)"
    "dm_get (by_conn_id r) (pe_conn_id e) = Some pid" "dm_get (pong_times r) pid \<noteq> None"
  using assms by (simp_all add: entries_ok_def)

lemma conns_okD:
  assumes "conns_ok r" "dm_get (by_conn_id r) c = Some pid"
  obtains e where "dm_get (by_plugin_id r) pid = Some e" "pe_conn_id e = c"
  using assms by (auto simp: conns_ok_def)

lemma unregister_entries_ok:
  assumes "entries_ok r" "dm_get (by_plugin_id r) pid = Some e"
  shows "entries_ok (unregister pid r)"
  unfolding entries_ok_def unregister_fields [OF assms(2)]
proof (intro allI impI)
  fix pid' e' assume "dm_get (dm_remove pid (by_plugin_id r)) pid' = Some e'"
  then have "pid' \<noteq> pid" and e': "dm_get (by_plugin_id r) pid' = Some e'"
    by (simp_all split: if_splits)
  moreover from this have "pe_conn_id e' \<noteq> pe_conn_id e"
    using entries_okD(3) [OF assms] entries_okD(3) [OF assms(1) e'] by auto
  ultimately show "pe_plugin_id e' = pid' \<and> is_ok (validate_plugin_id pid') \<and>
      dm_get (dm_remove (pe_conn_id e) (by_conn_id r)) (pe_conn_id e') = Some pid' \<and>
      dm_get (dm_remove pid (pong_times r)) pid' \<noteq> None"
    using entries_okD [OF assms(1) e'] by simp
qed

lemma unregister_conns_ok:
  assumes "conns_ok r" "dm_get (by_plugin_id r) pid = Some e"
  shows "conns_ok (unregister pid r)"
  unfolding conns_ok_def unregister_fields [OF assms(2)]
proof (intro allI impI)
  fix c pid' assume "dm_get (dm_remove (pe_conn_id e) (by_conn_id r)) c = Some pid'"
  then have c: "c \<noteq> pe_conn_id e" "dm_get (by_conn_id r) c = Some pid'"
    by (simp_all split: if_splits)
  from conns_okD [OF assms(1) c(2)] obtain e'
    where "dm_get (by_plugin_id r) pid' = Some e'" "pe_conn_id e' = c" .
  with c(1) assms(2) show "\<exists>e'. dm_get (dm_remove pid (by_plugin_id r)) pid' = Some e' \<and> pe_conn_id e' = c"
    by auto
qed

lemma unregister_devices_ok:
  assumes "devices_ok r" "maps_ok r" "dm_get (by_plugin_id r) pid = Some e"
  shows "devices_ok (unregister pid r)"
  unfolding devices_ok_def unregister_devices [OF assms(3,2)]
proof
  fix did
  let ?u = "device_in_use (unregister pid r) did"
  have "?u \<Longrightarrow> device_in_use r did"
    unfolding device_in_use_def unregister_fields [OF assms(3)] by (auto split: if_splits)
  moreover have "?u" if "device_in_use r did" "did \<noteq> pe_device_id e"
  proof -
    from that(1) obtain pid' e' where e': "dm_get (by_plugin_id r) pid' = Some e'" "pe_device_id e' = did"
      by (auto simp: device_in_use_def)
    with that(2) assms(3) have "pid' \<noteq> pid" by auto
    with e' show ?thesis
      unfolding device_in_use_def unregister_fields [OF assms(3)] by (metis dm.get_rem)
  qed
  moreover have "device_in_use r (pe_device_id e)"
    using assms(3) by (auto simp: device_in_use_def)
  ultimately show "case if did = pe_device_id e \<and> \<not> ?u
        then map_option (\<lambda>d. d\<lparr>di_state := Code Offline\<rparr>) (dm_get (devices r) did)
        else dm_get (devices r) did of
      None \<Rightarrow> \<not> ?u
    | Some d \<Rightarrow> di_device_id d = did \<and> di_state d = Code (if ?u then Online else Offline)"
    using assms(1) [unfolded devices_ok_def, rule_format, of did]
    by (cases "dm_get (devices r) did"; cases "did = pe_device_id e"; cases ?u) auto
qed

lemma unregister_reg_ok:
  assumes "reg_ok r"
  shows "reg_ok (unregister pid r)"
proof (cases "dm_get (by_plugin_id r) pid")
  case (Some e)
  with assms show ?thesis
    by (simp add: reg_ok_def unregister_maps_ok unregister_entries_ok unregister_conns_ok
        unregister_devices_ok unregister_index_rep)
qed (use assms in \<open>simp add: unregister_def\<close>)


text \<open>The operations on the in-flight table touch nothing the rest of the invariant reads.\<close>

lemma view_cong:
  assumes "by_plugin_id r' = by_plugin_id r"
  shows "declarers r' = declarers r" "device_in_use r' = device_in_use r"
  by (auto simp: assms declarers_def device_in_use_def)

lemma reg_ok_frame:
  assumes "reg_ok r" "maps_ok r'" "by_plugin_id r' = by_plugin_id r" "by_conn_id r' = by_conn_id r"
    and "pong_times r' = pong_times r" "devices_ok r'"
    and "action_index r' = action_index r" "ambiguous_actions r' = ambiguous_actions r"
  shows "reg_ok r'"
  using assms view_cong [OF assms(3)] index_rep_cong [of r' r]
  by (simp add: reg_ok_def entries_ok_def conns_ok_def)

lemma devices_ok_frame:
  assumes "by_plugin_id r' = by_plugin_id r" "devices r' = devices r"
  shows "devices_ok r' = devices_ok r"
  unfolding devices_ok_def view_cong [OF assms(1)] assms(2) ..

lemma reg_okD: "reg_ok r \<Longrightarrow> maps_ok r" "reg_ok r \<Longrightarrow> devices_ok r"
  by (simp_all add: reg_ok_def)

lemma pending_actions_update_reg_ok: "reg_ok r \<Longrightarrow> dm_ok m \<Longrightarrow> reg_ok (r\<lparr>pending_actions := m\<rparr>)"
  by (rule reg_ok_frame [of r])
    (simp_all add: reg_okD maps_ok_update devices_ok_frame [of "r\<lparr>pending_actions := m\<rparr>" r])

lemma requirements_update_reg_ok: "reg_ok r \<Longrightarrow> dm_ok q \<Longrightarrow> reg_ok (r\<lparr>action_requirements := q\<rparr>)"
  by (rule reg_ok_frame [of r])
    (simp_all add: reg_okD maps_ok_update devices_ok_frame [of "r\<lparr>action_requirements := q\<rparr>" r])

lemmas pending_update_reg_ok = pending_actions_update_reg_ok requirements_update_reg_ok

lemma take_pending_action_reg_ok: "reg_ok r \<Longrightarrow> reg_ok (snd (take_pending_action k r))"
  by (auto simp: take_pending_action_def maps_okD reg_okD intro!: pending_update_reg_ok
      split: option.split)

lemma take_pending_actions_reg_ok: "reg_ok r \<Longrightarrow> reg_ok (snd (take_pending_actions ks r))"
proof (induction ks arbitrary: r)
  case (Cons k ks)
  obtain op r1 where op: "take_pending_action k r = (op, r1)" by fastforce
  with take_pending_action_reg_ok [OF Cons.prems, of k] have "reg_ok r1" by simp
  from Cons.IH [OF this] op show ?case by (auto split: option.split prod.split)
qed simp

lemma record_pong_fields:
  "by_plugin_id (record_pong clk pid r) = by_plugin_id r"
  "by_conn_id (record_pong clk pid r) = by_conn_id r"
  "pong_times (record_pong clk pid r) = dm_insert pid (clk_instant clk) (pong_times r)"
  "action_index (record_pong clk pid r) = action_index r"
  "ambiguous_actions (record_pong clk pid r) = ambiguous_actions r"
  "pending_actions (record_pong clk pid r) = pending_actions r"
  by (simp_all add: record_pong_def Let_def split: option.split)

lemma record_pong_devices_ok:
  assumes "devices_ok r"
  shows "devices_ok (record_pong clk pid r)"
  unfolding devices_ok_def view_cong(2) [OF record_pong_fields(1)]
proof
  fix did
  have "dm_get (by_plugin_id r) pid = Some e \<Longrightarrow> device_in_use r (pe_device_id e)" for e
    by (auto simp: device_in_use_def)
  then show "case dm_get (devices (record_pong clk pid r)) did of
      None \<Rightarrow> \<not> device_in_use r did
    | Some d \<Rightarrow> di_device_id d = did \<and>
        di_state d = Code (if device_in_use r did then Online else Offline)"
    using assms [unfolded devices_ok_def, rule_format, of did]
    by (auto simp: record_pong_def Let_def split: option.split)
qed

lemma record_pong_reg_ok:
  assumes "reg_ok r"
  shows "reg_ok (record_pong clk pid r)"
proof -
  have "maps_ok (record_pong clk pid r)"
    using reg_okD(1) [OF assms]
    by (auto simp: record_pong_def Let_def maps_okD intro!: maps_ok_update split: option.split)
  with assms record_pong_devices_ok [of r] view_cong [OF record_pong_fields(1)]
    index_rep_cong [OF record_pong_fields(4,5)]
  show ?thesis
    by (simp add: reg_ok_def entries_ok_def conns_ok_def record_pong_fields) blast
qed

lemma resolve_action_response_reg_ok:
  "reg_ok r \<Longrightarrow> reg_ok (snd (resolve_action_response now iid pid ok r))"
  by (auto simp: resolve_action_response_def Let_def maps_okD reg_okD intro!: pending_update_reg_ok
      split: option.split)

lemma sweep_reg_ok:
  assumes "reg_ok r"
  shows "reg_ok (snd (sweep_idle_sessions now t r))" "reg_ok (snd (sweep_expired_actions now r))"
  using take_pending_actions_reg_ok [OF assms]
  by (simp_all add: sweep_idle_sessions_def sweep_expired_actions_def split_def Let_def)

lemma pending_op_reg_ok:
  assumes "reg_ok r"
  shows "reg_ok (set_action_requirements pid reqs r)" "reg_ok (register_pending_action iid p r)"
    "reg_ok (snd (take_pending_action_if_provider iid pid r))" "reg_ok (touch_pending_action now iid r)"
  using assms
  by (auto simp: set_action_requirements_def register_pending_action_def
      take_pending_action_if_provider_def touch_pending_action_def maps_okD reg_okD
      intro!: pending_update_reg_ok split: option.split)

lemma reg_step_reg_ok: "reg_ok r \<Longrightarrow> reg_ok (reg_step op r)"
  by (cases op) (simp_all add: register_with_device_reg_ok register_device_reg_ok unregister_reg_ok
      record_pong_reg_ok take_pending_action_reg_ok resolve_action_response_reg_ok sweep_reg_ok
      pending_op_reg_ok)

interpretation reg: step_system registry_new reg_step reg_ok
  by unfold_locales (rule reg_ok_new, rule reg_step_reg_ok)


section \<open>What the lookups answer\<close>

lemma find_action_provider_spec:
  assumes "reg_ok r"
  shows "case find_action_provider r a of
      NotFound \<Rightarrow> declarers r a = {}
    | Found e \<Rightarrow> declarers r a = {pe_plugin_id e} \<and> get_plugin r (pe_plugin_id e) = Some e
    | Ambiguous ids \<Rightarrow> distinct ids \<and> 2 \<le> length ids \<and> set ids = declarers r a"
proof -
  have rep: "index_rep r a (declarers r a)" and ent: "entries_ok r"
    using assms by (simp_all add: reg_ok_def)
  have "\<exists>e. dm_get (by_plugin_id r) p = Some e \<and> pe_plugin_id e = p" if "declarers r a = {p}" for p
    using that entries_okD(1) [OF ent] unfolding declarers_def by blast
  with rep show ?thesis
    by (fastforce simp: index_rep_def find_action_provider_def get_plugin_def split: option.splits)
qed

lemma get_by_conn_id_iff:
  assumes "reg_ok r"
  shows "get_by_conn_id r c = Some e \<longleftrightarrow>
     get_plugin r (pe_plugin_id e) = Some e \<and> pe_conn_id e = c"
proof -
  have "entries_ok r" "conns_ok r" using assms by (simp_all add: reg_ok_def)
  then show ?thesis
    by (auto simp: get_by_conn_id_def get_plugin_def split: option.splits
        dest: entries_okD(1,3) elim: conns_okD)
qed

lemma is_registered_iff:
  "reg_ok r \<Longrightarrow> is_registered r c \<longleftrightarrow> (\<exists>e. get_by_conn_id r c = Some e)"
  by (auto simp: is_registered_def get_by_conn_id_def reg_ok_def split: option.split elim: conns_okD)

lemma get_plugin_id: "reg_ok r \<Longrightarrow> get_plugin r pid = Some e \<Longrightarrow> pe_plugin_id e = pid"
  by (auto simp: get_plugin_def reg_ok_def dest: entries_okD)

lemma get_mux_cases:
  assumes "get_mux r t = Some e"
  obtains "get_plugin r t = Some e"
  | dev cap where "t = dev @ ''.'' @ cap" "CHR ''.'' \<notin> set dev" "get_plugin r dev = Some e"
      "get_plugin r t = None"
  using assms
  by (auto simp: get_mux_def Let_def split: option.splits if_splits prod.splits
      dest!: split_once_Some)

section \<open>Sweeps\<close>

lemma take_pending_actions_spec:
  assumes "distinct ks" "\<And>k. k \<in> set ks \<Longrightarrow> dm_get (pending_actions r) k \<noteq> None"
  shows "take_pending_actions ks r =
    (map (\<lambda>k. (k, the (dm_get (pending_actions r) k))) ks,
     r\<lparr>pending_actions := filter (\<lambda>e. fst e \<notin> set ks) (pending_actions r)\<rparr>)"
  using assms
proof (induction ks arbitrary: r)
  case (Cons k ks)
  from Cons.prems(2) [of k] obtain p where p: "dm_get (pending_actions r) k = Some p" by auto
  let ?r1 = "r\<lparr>pending_actions := dm_remove k (pending_actions r)\<rparr>"
  have "take_pending_actions ks ?r1 =
    (map (\<lambda>k. (k, the (dm_get (pending_actions ?r1) k))) ks,
     ?r1\<lparr>pending_actions := filter (\<lambda>e. fst e \<notin> set ks) (pending_actions ?r1)\<rparr>)"
    using Cons.prems by (intro Cons.IH) auto
  moreover have "filter (\<lambda>e. fst e \<notin> set ks) (dm_remove k (pending_actions r))
      = filter (\<lambda>e. fst e \<notin> set (k # ks)) (pending_actions r)"
    by (auto simp: dm_remove_def AList.delete_eq intro!: filter_cong)
  ultimately show ?case
    using p Cons.prems(1) by (auto simp: take_pending_action_def)
qed simp

lemma take_matching_spec:
  assumes "dm_ok (pending_actions r)"
  shows "take_pending_actions (map fst (filter (\<lambda>e. P (snd e)) (pending_actions r))) r =
    (filter (\<lambda>e. P (snd e)) (pending_actions r),
     r\<lparr>pending_actions := filter (\<lambda>e. \<not> P (snd e)) (pending_actions r)\<rparr>)"
proof -
  let ?m = "pending_actions r"
  let ?ks = "map fst (filter (\<lambda>e. P (snd e)) ?m)"
  have get: "dm_get ?m (fst e) = Some (snd e)" if "e \<in> set ?m" for e
    using that assms dm_mem_iff [of ?m "fst e" "snd e"] by simp
  have d: "distinct ?ks"
    using assms by (simp add: dm_ok_def distinct_map_filter)
  have g: "dm_get ?m k \<noteq> None" if "k \<in> set ?ks" for k
    using that get by auto
  have taken: "map (\<lambda>k. (k, the (dm_get ?m k))) ?ks = filter (\<lambda>e. P (snd e)) ?m"
    unfolding map_map by (rule map_idI) (auto simp: get)
  have left: "filter (\<lambda>e. fst e \<notin> set ?ks) ?m = filter (\<lambda>e. \<not> P (snd e)) ?m"
  proof (rule filter_cong [OF refl])
    fix e assume "e \<in> set ?m"
    then have "(fst e, b) \<in> set ?m \<longleftrightarrow> b = snd e" for b
      using get [of e] dm_mem_iff [OF assms] by auto
    then show "fst e \<notin> set ?ks \<longleftrightarrow> \<not> P (snd e)"
      by (auto simp: image_iff)
  qed
  show ?thesis using take_pending_actions_spec [OF d g] unfolding taken left by this
qed

lemma sweep_idle_spec:
  assumes "dm_ok (pending_actions r)"
  shows "sweep_idle_sessions now t r = (filter (\<lambda>e. session_idle now t (snd e)) (pending_actions r),
     r\<lparr>pending_actions := dm_retain (\<lambda>_ p. \<not> session_idle now t p) (pending_actions r)\<rparr>)"
  using take_matching_spec [OF assms, of "session_idle now t"]
  by (simp add: sweep_idle_sessions_def dm_retain_def split_def)

lemma sweep_expired_spec:
  assumes "dm_ok (pending_actions r)"
  shows "sweep_expired_actions now r = (map snd (filter (\<lambda>e. action_expired now (snd e)) (pending_actions r)),
     r\<lparr>pending_actions := dm_retain (\<lambda>_ p. \<not> action_expired now p) (pending_actions r)\<rparr>)"
  using take_matching_spec [OF assms, of "action_expired now"]
  by (simp add: sweep_expired_actions_def dm_retain_def split_def)

section \<open>Properties\<close>

text \<open>
  \<^bold>\<open>C1.\<close> The action index answers exactly as a scan over all registered manifests would, in
  every state any sequence of registry operations can reach: an action nobody declares is
  not found, a single declarer is found with its live entry, and two or more declarers are
  always reported as ambiguous, each colliding id once, never resolved to a winner.
\<close>

theorem find_action_provider_correct:
  "case find_action_provider (fold reg_step ops registry_new) a of
      NotFound \<Rightarrow> declarers (fold reg_step ops registry_new) a = {}
    | Found e \<Rightarrow> declarers (fold reg_step ops registry_new) a = {pe_plugin_id e}
        \<and> get_plugin (fold reg_step ops registry_new) (pe_plugin_id e) = Some e
    | Ambiguous ids \<Rightarrow> distinct ids \<and> 2 \<le> length ids
        \<and> set ids = declarers (fold reg_step ops registry_new) a"
  by (rule find_action_provider_spec [OF reg.inv_reach])

text \<open>
  \<^bold>\<open>C2.\<close> Connections and plugins stay in bijection in every reachable state: the entry a
  connection resolves to is the entry registered under its own id with that connection, and
  a connection counts as registered exactly when it resolves to an entry.
\<close>

theorem connection_plugin_bijection:
  "let r = fold reg_step ops registry_new in
     (get_by_conn_id r c = Some e \<longleftrightarrow> get_plugin r (pe_plugin_id e) = Some e \<and> pe_conn_id e = c)
     \<and> (is_registered r c \<longleftrightarrow> (\<exists>x. get_by_conn_id r c = Some x))"
  unfolding Let_def using get_by_conn_id_iff is_registered_iff reg.inv_reach by blast

text \<open>
  \<^bold>\<open>C3.\<close> In every reachable state a device that ever registered is online exactly while some
  plugin registered from it remains, and offline otherwise.
\<close>

theorem device_online_iff_in_use:
  "let r = fold reg_step ops registry_new in
     case get_device r did of
       None \<Rightarrow> \<not> device_in_use r did
     | Some d \<Rightarrow> di_device_id d = did
         \<and> di_state d = Code (if device_in_use r did then Online else Offline)"
  using reg_okD(2) [OF reg.inv_reach]
  unfolding Let_def get_device_def devices_ok_def by blast

text \<open>
  \<^bold>\<open>C4.\<close> Once a plugin is unregistered nothing in the registry answers with it any more: it
  cannot be looked up by id or through any connection, no action resolves to it or lists it
  as a collision, and none of its per-action requirements survives. Unregistering an id that
  is not registered changes nothing.
\<close>

theorem unregister_leaves_no_trace:
  "let r = fold reg_step ops registry_new; r' = unregister pid r in
     case get_plugin r pid of
       None \<Rightarrow> r' = r
     | Some _ \<Rightarrow> get_plugin r' pid = None
         \<and> map_option pe_plugin_id (get_by_conn_id r' c) \<noteq> Some pid
         \<and> pid \<notin> declarers r' a
         \<and> (case find_action_provider r' a of
              NotFound \<Rightarrow> True | Found e \<Rightarrow> pe_plugin_id e \<noteq> pid | Ambiguous ids \<Rightarrow> pid \<notin> set ids)
         \<and> action_requirement r' pid a = None"
proof -
  define r where "r = fold reg_step ops registry_new"
  have ok': "reg_ok (unregister pid r)"
    unfolding r_def by (rule unregister_reg_ok [OF reg.inv_reach])
  show ?thesis
  proof (cases "get_plugin r pid")
    case (Some e)
    then have e: "dm_get (by_plugin_id r) pid = Some e" by (simp add: get_plugin_def)
    then have none: "get_plugin (unregister pid r) pid = None"
      by (simp add: get_plugin_def unregister_fields)
    then have "pid \<notin> declarers (unregister pid r) a"
      by (simp add: declarers_def get_plugin_def)
    moreover have "map_option pe_plugin_id (get_by_conn_id (unregister pid r) c) \<noteq> Some pid"
      using none get_by_conn_id_iff [OF ok'] by auto
    moreover have "action_requirement (unregister pid r) pid a = None"
      by (simp add: action_requirement_def unregister_fields [OF e])
    ultimately show ?thesis
      using none find_action_provider_spec [OF ok', of a] Some
      by (auto simp: Let_def simp flip: r_def split: action_lookup.splits)
  qed (simp add: Let_def get_plugin_def unregister_def flip: r_def)
qed

text \<open>
  The two sweeps that run on every tick are exact and disjoint: the expiry sweep evicts
  the unaccepted actions past their deadline, the idle sweep that follows evicts the accepted
  sessions idle past the limit, each with the entry it held, and what remains is every other
  in-flight action, untouched.
\<close>

theorem sweeps_exact:
  "let r = fold reg_step ops registry_new;
       (expired, r1) = sweep_expired_actions now r;
       (idle, r2) = sweep_idle_sessions now t r1
   in (\<forall>p. p \<in> set expired \<longleftrightarrow> (\<exists>k. get_pending_action r k = Some p) \<and> action_expired now p)
    \<and> (\<forall>k p. (k, p) \<in> set idle \<longleftrightarrow> get_pending_action r k = Some p \<and> session_idle now t p)
    \<and> (\<forall>k. get_pending_action r2 k = (case get_pending_action r k of
          None \<Rightarrow> None
        | Some p \<Rightarrow> if session_idle now t p \<or> action_expired now p then None else Some p))"
proof -
  define r where "r = fold reg_step ops registry_new"
  let ?m = "pending_actions r"
  have ok: "dm_ok ?m" unfolding r_def by (intro maps_okD reg_okD reg.inv_reach)
  define m1 where "m1 = dm_retain (\<lambda>_ p. \<not> action_expired now p) ?m"
  have ok1: "dm_ok m1" using ok by (simp add: m1_def)
  have get1: "dm_get m1 k = Some p \<longleftrightarrow> dm_get ?m k = Some p \<and> \<not> action_expired now p" for k p
    by (auto simp: m1_def dm_get_retain [OF ok] split: option.split)
  have excl: "\<not> (session_idle now t p \<and> action_expired now p)" for p
    by (simp add: session_idle_def action_expired_def)
  have "p \<in> set (map snd (filter (\<lambda>e. action_expired now (snd e)) ?m)) \<longleftrightarrow>
      (\<exists>k. dm_get ?m k = Some p) \<and> action_expired now p" for p
    using dm_mem_iff [OF ok] by (fastforce simp: image_iff)
  moreover have "(k, p) \<in> set (filter (\<lambda>e. session_idle now t (snd e)) m1) \<longleftrightarrow>
      dm_get ?m k = Some p \<and> session_idle now t p" for k p
    using dm_mem_iff [OF ok1] get1 excl by auto
  moreover have "dm_get (dm_retain (\<lambda>_ p. \<not> session_idle now t p) m1) k = (case dm_get ?m k of
          None \<Rightarrow> None
        | Some p \<Rightarrow> if session_idle now t p \<or> action_expired now p then None else Some p)" for k
    unfolding dm_get_retain [OF ok1] unfolding m1_def dm_get_retain [OF ok]
    by (simp split: option.split)
  ultimately show ?thesis
    using ok1 by (simp add: Let_def sweep_expired_spec [OF ok] sweep_idle_spec get_pending_action_def
        flip: r_def m1_def)
qed

end
