(* ===== verification/Permissions.thy ===== *)
theory Permissions
  imports Registry
begin

text \<open>
  The permission gates, \<^verbatim>\<open>src/auth/permissions.rs\<close>. A \<^verbatim>\<open>PermissionType\<close> is represented by its
  protobuf name (\<^verbatim>\<open>as_str_name\<close>); the names \<^verbatim>\<open>from_str_name\<close> knows are a parameter. The locale
  \<open>permission_gate\<close> is what the router relies on: a check succeeds exactly for a registered
  plugin whose manifest grants the permission, in any spelling.
\<close>

section \<open>Definitions\<close>

definition "PERMISSION_PREFIX = ''PERMISSION_''"
definition "PERMISSION_UNKNOWN = ''PERMISSION_UNKNOWN''"
definition "PERMISSION_IPC_SEND = ''PERMISSION_IPC_SEND''"
definition "PERMISSION_AUDIO_STREAM = ''PERMISSION_AUDIO_STREAM''"
definition "PERMISSION_EVENT_PUBLISH = ''PERMISSION_EVENT_PUBLISH''"
definition "PERMISSION_KERNEL_ADMIN = ''PERMISSION_KERNEL_ADMIN''"

text \<open>The hardcoded fallback was removed: only its one-time warning is left.\<close>

definition required_permission_for_action :: "string \<Rightarrow> string option" where
  "required_permission_for_action action = None"

definition resolve_permission :: "wire \<Rightarrow> string \<Rightarrow> string option" where
  "resolve_permission W s =
    (let name = (case strip_prefix s PERMISSION_PREFIX of
         Some rest \<Rightarrow> PERMISSION_PREFIX @ to_ascii_uppercase rest
       | None \<Rightarrow> PERMISSION_PREFIX @ to_ascii_uppercase s)
     in if name \<notin> set (w_permission_names W) then None
        else if name = PERMISSION_UNKNOWN then None
        else Some name)"

definition normalize_permission :: "string \<Rightarrow> string" where
  "normalize_permission s =
     to_ascii_lowercase (case strip_prefix s PERMISSION_PREFIX of Some rest \<Rightarrow> rest | None \<Rightarrow> s)"

definition check_permission :: "registry \<Rightarrow> string \<Rightarrow> string \<Rightarrow> unit result" where
  "check_permission r plugin_id required = (case get_plugin r plugin_id of
      None \<Rightarrow> Inl (PluginNotFound plugin_id)
    | Some entry \<Rightarrow>
        if list_ex (\<lambda>p. normalize_permission p = normalize_permission required)
             (mf_permissions (pe_manifest entry))
        then Inr ()
        else Inl (PermissionDenied (plugin_id @ '' lacks '' @ required)))"

definition check_ipc_send :: "registry \<Rightarrow> string \<Rightarrow> unit result" where
  "check_ipc_send r plugin_id = check_permission r plugin_id PERMISSION_IPC_SEND"

definition check_ipc_target :: "registry \<Rightarrow> string \<Rightarrow> string \<Rightarrow> unit result" where
  "check_ipc_target r sender_id target_id = (case get_plugin r sender_id of
      None \<Rightarrow> Inl (PluginNotFound sender_id)
    | Some entry \<Rightarrow>
        let cross_user = (case get_plugin r target_id of
              Some target \<Rightarrow> if pe_user_id target \<noteq> pe_user_id entry then Some target else None
            | None \<Rightarrow> None)
        in case cross_user of
             Some target \<Rightarrow> Inl (PermissionDenied (''cross-user IPC denied: '' @ sender_id
                 @ '' (user '' @ pe_user_id entry @ '') -> '' @ target_id
                 @ '' (user '' @ pe_user_id target @ '')''))
           | None \<Rightarrow>
               if list_ex (\<lambda>t. t = target_id) (mf_ipc_targets (pe_manifest entry)) then Inr ()
               else Inl (PermissionDenied (sender_id @ '' ipc_targets does not include ''
                      @ target_id)))"

section \<open>What the gates decide\<close>

definition has_permission :: "plugin_entry \<Rightarrow> string \<Rightarrow> bool" where
  "has_permission e p \<longleftrightarrow>
     normalize_permission p \<in> normalize_permission ` set (mf_permissions (pe_manifest e))"

lemma check_permission_ok_iff:
  "is_ok (check_permission r pid p) \<longleftrightarrow> (\<exists>e. get_plugin r pid = Some e \<and> has_permission e p)"
  by (auto simp: check_permission_def has_permission_def list_ex_iff image_iff split: option.split)
    metis+

lemma check_ipc_send_ok_iff:
  "is_ok (check_ipc_send r pid) \<longleftrightarrow>
     (\<exists>e. get_plugin r pid = Some e \<and> has_permission e PERMISSION_IPC_SEND)"
  by (simp add: check_ipc_send_def check_permission_ok_iff)

lemma check_ipc_target_ok_iff:
  "is_ok (check_ipc_target r sid tid) \<longleftrightarrow>
     (\<exists>e. get_plugin r sid = Some e \<and> tid \<in> set (mf_ipc_targets (pe_manifest e))
       \<and> (\<forall>t. get_plugin r tid = Some t \<longrightarrow> pe_user_id t = pe_user_id e))"
  by (auto simp: check_ipc_target_def Let_def list_ex_iff split: option.splits if_splits)

text \<open>
  The contract of a permission gate, and the consequences its clients use: holding a
  permission survives adding permissions and does not depend on the spelling.
\<close>

locale permission_gate =
  fixes check :: "registry \<Rightarrow> string \<Rightarrow> string \<Rightarrow> unit result"
    and holds :: "plugin_entry \<Rightarrow> string \<Rightarrow> bool"
    and norm :: "string \<Rightarrow> string"
  assumes check_iff: "is_ok (check r pid p) \<longleftrightarrow> (\<exists>e. get_plugin r pid = Some e \<and> holds e p)"
    and holds_norm: "norm p = norm q \<Longrightarrow> holds e p = holds e q"
begin

lemma unknown_denied: "get_plugin r pid = None \<Longrightarrow> \<not> is_ok (check r pid p)"
  by (simp add: check_iff)

lemma check_known: "get_plugin r pid = Some e \<Longrightarrow> is_ok (check r pid p) = holds e p"
  by (simp add: check_iff)

lemma check_norm: "norm p = norm q \<Longrightarrow> is_ok (check r pid p) = is_ok (check r pid q)"
  unfolding check_iff using holds_norm by blast

end

interpretation perm: permission_gate check_permission has_permission normalize_permission
  by unfold_locales (rule check_permission_ok_iff, simp add: has_permission_def)

lemma resolve_permission_normal:
  "resolve_permission W s = Some p \<Longrightarrow> normalize_permission p = normalize_permission s"
  unfolding resolve_permission_def normalize_permission_def Let_def
  by (simp split: option.splits if_splits) (auto)

lemma resolve_permission_known:
  "resolve_permission W s = Some p \<Longrightarrow> p \<in> set (w_permission_names W) \<and> p \<noteq> PERMISSION_UNKNOWN"
  by (auto simp: resolve_permission_def Let_def split: if_splits)

text \<open>
  A permission requirement means the same at load time and at run time: whatever
  spelling a manifest uses, if it resolves at all then it resolves to a known permission other
  than UNKNOWN, and checking the resolved permission is checking the spelling itself, for
  every plugin and every registry.
\<close>

theorem resolve_permission_sound:
  assumes "resolve_permission W s = Some p"
  shows "p \<in> set (w_permission_names W) \<and> p \<noteq> PERMISSION_UNKNOWN
    \<and> is_ok (check_permission r pid p) = is_ok (check_permission r pid s)
    \<and> is_ok (check_permission r pid p) =
        (\<exists>e. get_plugin r pid = Some e \<and> has_permission e s)"
  using resolve_permission_known [OF assms] perm.check_norm [OF resolve_permission_normal [OF assms]]
  by (simp add: perm.check_iff)


theorem resolve_permission_sound_witness:
  "resolve_permission sample_wire ''network'' = Some ''PERMISSION_NETWORK''
   \<and> is_ok (check_permission registry_new ''a'' ''PERMISSION_NETWORK'') =
       is_ok (check_permission registry_new ''a'' ''network'')"
proof (rule conjI)
  have none: "strip_prefix ''network'' ''PERMISSION_'' = None" by code_simp
  have upper: "to_ascii_uppercase ''network'' = ''NETWORK''" by code_simp
  show net: "resolve_permission sample_wire ''network'' = Some ''PERMISSION_NETWORK''"
    unfolding resolve_permission_def Let_def PERMISSION_PREFIX_def PERMISSION_UNKNOWN_def sample_wire_def
    by (simp add: none upper)
  show "is_ok (check_permission registry_new ''a'' ''PERMISSION_NETWORK'') =
       is_ok (check_permission registry_new ''a'' ''network'')"
    by (rule resolve_permission_sound [OF net, THEN conjunct2, THEN conjunct2, THEN conjunct1])
qed

end
