(* ===== verification/Helpers.thy ===== *)
theory Helpers
  imports Permissions
begin

text \<open>
  The router's sending helpers, \<^verbatim>\<open>src/ipc/protocol/helpers.rs\<close>: stamping and encoding of
  kernel envelopes, the non-blocking sends, and the forced termination of streams. The
  record \<open>kio\<close> is what they change: the write channels and the process-wide message
  counter \<^verbatim>\<open>MSG_SEQ\<close>, an \<^verbatim>\<open>AtomicU64\<close> whose \<^verbatim>\<open>fetch_add\<close> wraps. Metrics and log lines have no
  effect on the model.
\<close>

section \<open>Definitions\<close>

record kio =
  io_chans :: channels
  io_msg_seq :: nat

definition fetch_add_u64 :: "nat \<Rightarrow> nat" where
  "fetch_add_u64 n = (n + 1) mod 2 ^ 64"

definition kernel_message_id :: "nat \<Rightarrow> kio \<Rightarrow> string \<times> kio" where
  "kernel_message_id now_ms io =
     (''k-'' @ show_nat now_ms @ ''-'' @ show_nat (io_msg_seq io),
      io\<lparr>io_msg_seq := fetch_add_u64 (io_msg_seq io)\<rparr>)"

definition envelope_message_id :: "wire \<Rightarrow> frame \<Rightarrow> string" where
  "envelope_message_id W f =
     (case w_decode W (fr_payload f) of Some env \<Rightarrow> en_message_id env | None \<Rightarrow> [])"

fun throttle_exempt_payload :: "payload \<Rightarrow> bool" where
  "throttle_exempt_payload (PActionResponse _) = True"
| "throttle_exempt_payload (PActionResponseChunk _ _ _) = True"
| "throttle_exempt_payload (PActionRequestChunk _ _ _ _) = True"
| "throttle_exempt_payload (PSessionClose _ _) = True"
| "throttle_exempt_payload (PPong _ _) = True"
| "throttle_exempt_payload _ = False"

definition is_throttle_exempt :: "wire \<Rightarrow> frame \<Rightarrow> bool" where
  "is_throttle_exempt W f = (case w_decode W (fr_payload f) of
      None \<Rightarrow> False
    | Some env \<Rightarrow> (case en_payload env of Some p \<Rightarrow> throttle_exempt_payload p | None \<Rightarrow> False))"

definition build_outbound :: "wire \<Rightarrow> nat \<Rightarrow> envelope \<Rightarrow> kio \<Rightarrow> outbound option \<times> kio" where
  "build_outbound W now_ms env io =
    (let (mid, io1) = (if en_message_id env = [] then kernel_message_id now_ms io
                       else (en_message_id env, io));
         env1 = env\<lparr>en_message_id := mid, en_timestamp := now_ms, en_sender_id := ''kernel''\<rparr>
     in case w_encode W env1 of
          None \<Rightarrow> (None, io1)
        | Some p \<Rightarrow> (Some (OutFrame (build_frame W ''client'' 0 p)), io1))"

definition io_try_send :: "chan \<Rightarrow> outbound \<Rightarrow> kio \<Rightarrow> send_outcome \<times> kio" where
  "io_try_send tx out io =
     (let (res, cs) = try_send tx out (io_chans io) in (res, io\<lparr>io_chans := cs\<rparr>))"

definition send_envelope :: "wire \<Rightarrow> nat \<Rightarrow> chan \<Rightarrow> envelope \<Rightarrow> kio \<Rightarrow> kio" where
  "send_envelope W now_ms tx env io = (case build_outbound W now_ms env io of
      (Some out, io1) \<Rightarrow> snd (io_try_send tx out io1)
    | (None, io1) \<Rightarrow> io1)"

definition try_send_envelope :: "wire \<Rightarrow> nat \<Rightarrow> chan \<Rightarrow> envelope \<Rightarrow> kio \<Rightarrow> bool \<times> kio" where
  "try_send_envelope W now_ms tx env io = (case build_outbound W now_ms env io of
      (Some out, io1) \<Rightarrow> (let (res, io2) = io_try_send tx out io1 in (res = SendOk, io2))
    | (None, io1) \<Rightarrow> (False, io1))"

definition send_error :: "wire \<Rightarrow> nat \<Rightarrow> chan \<Rightarrow> error_code \<Rightarrow> string \<Rightarrow> kio \<Rightarrow> kio" where
  "send_error W now_ms tx code msg =
     send_envelope W now_ms tx (envelope_of [] (PError (Code code) msg []))"

fun action_status_message :: "action_status \<Rightarrow> string" where
  "action_status_message ActionNotFound = ''action not found''"
| "action_status_message ActionPermissionDeny = ''permission denied''"
| "action_status_message ActionTimeout = ''action timed out''"
| "action_status_message ActionQuotaExceeded = ''quota exceeded''"
| "action_status_message ActionStreamBackpressure = ''stream backpressure''"
| "action_status_message ActionError = ''action failed''"
| "action_status_message ActionOk = ''unknown action status''"
| "action_status_message ActionUnknown = ''unknown action status''"

definition send_register_reject :: "wire \<Rightarrow> nat \<Rightarrow> chan \<Rightarrow> string \<Rightarrow> kio \<Rightarrow> kio" where
  "send_register_reject W now_ms tx reason =
     send_envelope W now_ms tx (envelope_of [] (PPluginRegisterAck
       \<lparr>ra_accepted = False, ra_reject_reason = reason, ra_granted_permissions = [],
        ra_session_nonce = []\<rparr>))"

definition notify_forced_termination ::
  "wire \<Rightarrow> nat \<Rightarrow> registry \<Rightarrow> string \<Rightarrow> pending_action \<Rightarrow> string \<Rightarrow> kio \<Rightarrow> kio" where
  "notify_forced_termination W now_ms r internal_id pending reason io =
    (let io1 = snd (try_send_envelope W now_ms (pa_requester_write_tx pending)
                 (envelope_of [] (PActionStreamAbort (pa_original_action_id pending) reason)) io);
         io2 = (if \<not> pa_session_accepted pending
                then snd (try_send_envelope W now_ms (pa_requester_write_tx pending)
                  (envelope_of [] (PActionResponse
                     \<lparr>ar_action_id = pa_original_action_id pending,
                      ar_status = Code ActionStreamBackpressure, ar_data_json = [],
                      ar_error = reason\<rparr>)) io1)
                else io1)
     in case get_plugin r (pa_provider_id pending) of
          Some provider_entry \<Rightarrow> snd (try_send_envelope W now_ms (pe_write_tx provider_entry)
            (envelope_of [] (PActionStreamAbort internal_id reason)) io2)
        | None \<Rightarrow> io2)"

definition abort_stream ::
  "wire \<Rightarrow> nat \<Rightarrow> string \<Rightarrow> string \<Rightarrow> registry \<Rightarrow> kio \<Rightarrow> registry \<times> kio" where
  "abort_stream W now_ms internal_id reason r io = (case take_pending_action internal_id r of
      (None, r1) \<Rightarrow> (r1, io)
    | (Some pending, r1) \<Rightarrow>
        (r1, notify_forced_termination W now_ms r1 internal_id pending reason io))"

section \<open>What the sends do\<close>

text \<open>
  \<open>extends cs cs'\<close>: nothing queued is lost or reordered, and no channel is opened, closed or
  resized. \<open>touches cs cs' A\<close>: only the channels of \<open>A\<close> change.
\<close>

definition extends :: "channels \<Rightarrow> channels \<Rightarrow> bool" where
  "extends cs cs' \<longleftrightarrow> (\<forall>c. (\<exists>new. queued cs' c = queued cs c @ new)
     \<and> ch_cap (cs' c) = ch_cap (cs c) \<and> ch_open (cs' c) = ch_open (cs c))"

definition touches :: "chan set \<Rightarrow> channels \<Rightarrow> channels \<Rightarrow> bool" where
  "touches A cs cs' \<longleftrightarrow> (\<forall>c. c \<notin> A \<longrightarrow> cs' c = cs c)"

lemma extends_refl [simp]: "extends cs cs"
  by (simp add: extends_def)

lemma extends_trans [trans]: "extends a b \<Longrightarrow> extends b c \<Longrightarrow> extends a c"
  unfolding extends_def by (metis append.assoc)

lemma touches_refl [simp]: "touches A cs cs"
  by (simp add: touches_def)

lemma touches_trans: "touches A a b \<Longrightarrow> touches B b c \<Longrightarrow> touches (A \<union> B) a c"
  by (simp add: touches_def)

lemma touches_mono: "touches A a b \<Longrightarrow> A \<subseteq> B \<Longrightarrow> touches B a b"
  by (auto simp: touches_def)

lemma io_try_send_simps:
  "io_try_send tx out io = (if chan_accepts (io_chans io) tx
     then (SendOk, io\<lparr>io_chans := enqueue tx out (io_chans io)\<rparr>)
     else (if ch_open (io_chans io tx) then SendFull else SendClosed, io))"
  by (simp add: io_try_send_def try_send_cases)

lemma extends_enqueue [simp]: "extends cs (enqueue c x cs)"
  by (simp add: extends_def)

lemma touches_enqueue [simp]: "c \<in> A \<Longrightarrow> touches A cs (enqueue c x cs)"
  by (auto simp: touches_def enqueue_def)

lemma build_outbound_chans [simp]: "io_chans (snd (build_outbound W now env io)) = io_chans io"
  by (simp add: build_outbound_def kernel_message_id_def Let_def split: option.split)

text \<open>The one effect of a send: the stamped envelope, if the channel has room for it.\<close>

lemma send_envelope_queued:
  "queued (io_chans (send_envelope W now tx env io)) c =
     (if c = tx \<and> chan_accepts (io_chans io) tx
      then queued (io_chans io) c @ (case fst (build_outbound W now env io) of
             Some out \<Rightarrow> [out] | None \<Rightarrow> [])
      else queued (io_chans io) c)"
proof -
  obtain out io1 where b: "build_outbound W now env io = (out, io1)" by fastforce
  with build_outbound_chans [of W now env io] have "io_chans io1 = io_chans io" by simp
  with b show ?thesis
    by (cases out) (simp_all add: send_envelope_def io_try_send_simps)
qed

lemma send_envelope_extends_one: "extends (io_chans io) (io_chans (send_envelope W now tx env io))"
proof -
  obtain out io1 where b: "build_outbound W now env io = (out, io1)" by fastforce
  with build_outbound_chans [of W now env io] have "io_chans io1 = io_chans io" by simp
  with b show ?thesis
    by (cases out) (simp_all add: send_envelope_def io_try_send_simps)
qed

lemma send_envelope_touches_one:
  "tx \<in> A \<Longrightarrow> touches A (io_chans io) (io_chans (send_envelope W now tx env io))"
proof -
  assume "tx \<in> A"
  obtain out io1 where b: "build_outbound W now env io = (out, io1)" by fastforce
  with build_outbound_chans [of W now env io] have "io_chans io1 = io_chans io" by simp
  with b \<open>tx \<in> A\<close> show ?thesis
    by (cases out) (simp_all add: send_envelope_def io_try_send_simps)
qed

lemma try_send_envelope_send: "snd (try_send_envelope W now tx env io) = send_envelope W now tx env io"
  by (simp add: try_send_envelope_def send_envelope_def split: prod.split option.split)

lemma try_send_envelope_ok:
  "fst (try_send_envelope W now tx env io) \<longleftrightarrow>
     fst (build_outbound W now env io) \<noteq> None \<and> chan_accepts (io_chans io) tx"
proof -
  obtain out io1 where b: "build_outbound W now env io = (out, io1)" by fastforce
  with build_outbound_chans [of W now env io] have "io_chans io1 = io_chans io" by simp
  with b show ?thesis
    by (cases out) (simp_all add: try_send_envelope_def io_try_send_simps)
qed

text \<open>The two facts as rules that walk back through a chain of sends.\<close>

lemma send_envelope_extends [simp, intro]:
  "extends cs (io_chans io) \<Longrightarrow> extends cs (io_chans (send_envelope W now tx env io))"
  using send_envelope_extends_one extends_trans by blast

lemma send_envelope_touches [simp, intro]:
  "touches A cs (io_chans io) \<Longrightarrow> tx \<in> A \<Longrightarrow> touches A cs (io_chans (send_envelope W now tx env io))"
  using send_envelope_touches_one touches_trans [of A _ _ A] by fastforce

lemma send_error_extends [simp, intro]:
  "extends cs (io_chans io) \<Longrightarrow> extends cs (io_chans (send_error W now tx c m io))"
  by (simp add: send_error_def)

lemma send_error_touches [simp, intro]:
  "touches A cs (io_chans io) \<Longrightarrow> tx \<in> A \<Longrightarrow> touches A cs (io_chans (send_error W now tx c m io))"
  by (simp add: send_error_def)

lemma send_register_reject_extends [simp, intro]:
  "extends cs (io_chans io) \<Longrightarrow> extends cs (io_chans (send_register_reject W now tx m io))"
  by (simp add: send_register_reject_def)

lemma send_register_reject_touches [simp, intro]:
  "touches A cs (io_chans io) \<Longrightarrow> tx \<in> A \<Longrightarrow>
     touches A cs (io_chans (send_register_reject W now tx m io))"
  by (simp add: send_register_reject_def)

lemma notify_forced_termination_extends [simp, intro]:
  "extends cs (io_chans io) \<Longrightarrow>
     extends cs (io_chans (notify_forced_termination W now r iid p reason io))"
  by (simp add: notify_forced_termination_def Let_def try_send_envelope_send split: option.split)

lemma notify_forced_termination_touches:
  assumes "touches A cs (io_chans io)" "pa_requester_write_tx p \<in> A"
    and "\<And>e. get_plugin r (pa_provider_id p) = Some e \<Longrightarrow> pe_write_tx e \<in> A"
  shows "touches A cs (io_chans (notify_forced_termination W now r iid p reason io))"
  using assms
  by (simp add: notify_forced_termination_def Let_def try_send_envelope_send split: option.split)

lemma kernel_message_id_fresh:
  assumes "io_msg_seq io < 2 ^ 64 - 1"
  shows "fst (kernel_message_id t (snd (kernel_message_id t io))) \<noteq> fst (kernel_message_id t io)"
  using assms by (simp add: kernel_message_id_def fetch_add_u64_def)

end
