(* ===== verification/Event_Store.thy ===== *)
theory Event_Store
  imports Wire
begin

text \<open>
  The transactional outbox, \<^verbatim>\<open>src/events/store.rs\<close>. The SQLite table \<^verbatim>\<open>events\<close> is a keyed map
  from the primary key \<^verbatim>\<open>event_id\<close> to its row, and each method is the statement it executes.
  A failing statement is only logged by the source and leaves the table as it was; that case
  is not a branch of the model. The sweep that the retry worker of \<^verbatim>\<open>src/events/bus.rs\<close> runs in
  one blocking task is \<open>worker_sweep\<close>.
\<close>

section \<open>Definitions\<close>

datatype event_status = EvPending | EvDelivered | EvDead

record event_row =
  er_event_type :: string
  er_payload_json :: bytes
  er_status :: event_status
  er_created_at :: nat
  er_retry_count :: nat

type_synonym event_store = "(string, event_row) dashmap"

definition persist :: "nat \<Rightarrow> event \<Rightarrow> event_store \<Rightarrow> event_store" where
  "persist now e s = (case dm_get s (ev_event_id e) of
      Some _ \<Rightarrow> s
    | None \<Rightarrow> dm_insert (ev_event_id e)
        \<lparr>er_event_type = ev_event_type e, er_payload_json = ev_payload_json e,
         er_status = EvPending, er_created_at = now, er_retry_count = 0\<rparr> s)"

definition update_row :: "string \<Rightarrow> (event_row \<Rightarrow> event_row) \<Rightarrow> event_store \<Rightarrow> event_store" where
  "update_row k f s = (case dm_get s k of None \<Rightarrow> s | Some row \<Rightarrow> dm_insert k (f row) s)"

definition mark_delivered :: "string \<Rightarrow> event_store \<Rightarrow> event_store" where
  "mark_delivered k s = update_row k (\<lambda>row. row\<lparr>er_status := EvDelivered\<rparr>) s"

definition row_due :: "nat \<Rightarrow> nat \<Rightarrow> event_row \<Rightarrow> bool" where
  "row_due now age row \<longleftrightarrow> er_status row = EvPending \<and> er_created_at row \<le> now - age"

definition event_of_row :: "string \<times> event_row \<Rightarrow> event" where
  "event_of_row kr = \<lparr>ev_event_id = fst kr, ev_event_type = er_event_type (snd kr),
     ev_payload_json = er_payload_json (snd kr),
     ev_retry_count = er_retry_count (snd kr) mod 2 ^ 32\<rparr>"

definition pending_older_than :: "nat \<Rightarrow> nat \<Rightarrow> event_store \<Rightarrow> event list" where
  "pending_older_than now age s = map event_of_row (filter (\<lambda>kr. row_due now age (snd kr)) s)"

definition row_prunable :: "nat \<Rightarrow> nat \<Rightarrow> event_row \<Rightarrow> bool" where
  "row_prunable now retention row \<longleftrightarrow>
     (er_status row = EvDelivered \<or> er_status row = EvDead) \<and> er_created_at row \<le> now - retention"

definition prune :: "nat \<Rightarrow> nat \<Rightarrow> event_store \<Rightarrow> nat \<times> event_store" where
  "prune now retention s =
     (length (filter (\<lambda>kr. row_prunable now retention (snd kr)) s),
      dm_retain (\<lambda>_ row. \<not> row_prunable now retention row) s)"

definition increment_retry_or_dead :: "string \<Rightarrow> nat \<Rightarrow> event_store \<Rightarrow> event_store" where
  "increment_retry_or_dead k max_retries s =
    (let s1 = update_row k (\<lambda>row. row\<lparr>er_retry_count := er_retry_count row + 1\<rparr>) s
     in update_row k (\<lambda>row. if er_retry_count row \<ge> max_retries then row\<lparr>er_status := EvDead\<rparr> else row) s1)"

text \<open>One blocking sweep of the retry worker: what is pending, each bumped, then the prune.\<close>

definition worker_sweep :: "nat \<Rightarrow> nat \<Rightarrow> nat \<Rightarrow> event_store \<Rightarrow> event list \<times> nat \<times> event_store" where
  "worker_sweep max_retries retention now s =
    (let pending = pending_older_than now 10 s;
         s1 = fold (\<lambda>e. increment_retry_or_dead (ev_event_id e) max_retries) pending s;
         (pruned, s2) = prune now retention s1
     in (pending, pruned, s2))"

text \<open>Successive sweeps with no acknowledgement in between, and what each redelivers.\<close>

fun worker_sweeps :: "nat \<Rightarrow> nat \<Rightarrow> nat list \<Rightarrow> event_store \<Rightarrow> event list list \<times> event_store" where
  "worker_sweeps max_retries retention [] s = ([], s)"
| "worker_sweeps max_retries retention (now # nows) s =
     (let (pending, _, s1) = worker_sweep max_retries retention now s;
          (rest, s2) = worker_sweeps max_retries retention nows s1
      in (pending # rest, s2))"

section \<open>Row-level effects\<close>

lemma get_update_row:
  "dm_get (update_row k f s) j = (if j = k then map_option f (dm_get s k) else dm_get s j)"
  by (auto simp: update_row_def split: option.split)

lemma update_row_ok [simp, intro]: "dm_ok s \<Longrightarrow> dm_ok (update_row k f s)"
  by (auto simp: update_row_def split: option.split)

definition bump :: "nat \<Rightarrow> event_row \<Rightarrow> event_row" where
  "bump max_retries row = row\<lparr>er_retry_count := er_retry_count row + 1,
     er_status := (if er_retry_count row + 1 \<ge> max_retries then EvDead else er_status row)\<rparr>"

lemma get_increment:
  "dm_get (increment_retry_or_dead k m s) j =
     (if j = k then map_option (bump m) (dm_get s k) else dm_get s j)"
  by (auto simp: increment_retry_or_dead_def Let_def get_update_row bump_def option.map_comp comp_def
      intro!: option.map_cong)

lemma increment_ok [simp, intro]: "dm_ok s \<Longrightarrow> dm_ok (increment_retry_or_dead k m s)"
  by (simp add: increment_retry_or_dead_def Let_def)

lemma fold_increment_ok [simp, intro]:
  "dm_ok s \<Longrightarrow> dm_ok (fold (\<lambda>e. increment_retry_or_dead (ev_event_id e) m) es s)"
  by (induction es arbitrary: s) auto

lemma get_fold_increment:
  assumes "distinct (map ev_event_id es)"
  shows "dm_get (fold (\<lambda>e. increment_retry_or_dead (ev_event_id e) m) es s) k =
     (if k \<in> ev_event_id ` set es then map_option (bump m) (dm_get s k) else dm_get s k)"
  using assms
proof (induction es arbitrary: s)
  case (Cons e es)
  then show ?case by (auto simp: get_increment)
qed simp

lemma pending_ids:
  assumes "dm_ok s"
  shows "distinct (map ev_event_id (pending_older_than now age s))"
    and "k \<in> ev_event_id ` set (pending_older_than now age s) \<longleftrightarrow>
       (\<exists>row. dm_get s k = Some row \<and> row_due now age row)"
proof -
  have "map ev_event_id (pending_older_than now age s) = map fst (filter (\<lambda>kr. row_due now age (snd kr)) s)"
    by (simp add: pending_older_than_def event_of_row_def)
  then show "distinct (map ev_event_id (pending_older_than now age s))"
    using assms by (simp add: dm_ok_def distinct_map_filter)
  show "k \<in> ev_event_id ` set (pending_older_than now age s) \<longleftrightarrow>
       (\<exists>row. dm_get s k = Some row \<and> row_due now age row)"
    using dm_mem_iff [OF assms]
    by (force simp: pending_older_than_def event_of_row_def image_iff)
qed

lemma prune_get:
  assumes "dm_ok s"
  shows "dm_get (snd (prune now ret s)) k = (case dm_get s k of
      None \<Rightarrow> None | Some row \<Rightarrow> if row_prunable now ret row then None else Some row)"
  using assms by (simp add: prune_def dm_get_retain split: option.split)

lemma worker_sweep_ok:
  "dm_ok s \<Longrightarrow> worker_sweep m ret now s = (p, n, s') \<Longrightarrow> dm_ok s'"
  by (auto simp: worker_sweep_def Let_def prune_def)

lemma worker_sweep_row:
  assumes "dm_ok s" "worker_sweep m ret now s = (p, n, s')"
  shows "dm_get s' k = (case dm_get s k of None \<Rightarrow> None | Some row \<Rightarrow>
      (let row' = (if row_due now 10 row then bump m row else row)
       in if row_prunable now ret row' then None else Some row'))"
    and "k \<in> ev_event_id ` set p \<longleftrightarrow> (\<exists>row. dm_get s k = Some row \<and> row_due now 10 row)"
proof -
  let ?p = "pending_older_than now 10 s"
  let ?s1 = "fold (\<lambda>e. increment_retry_or_dead (ev_event_id e) m) ?p s"
  have p: "p = ?p" and s': "s' = snd (prune now ret ?s1)"
    using assms(2) by (auto simp: worker_sweep_def Let_def split: prod.splits)
  show "k \<in> ev_event_id ` set p \<longleftrightarrow> (\<exists>row. dm_get s k = Some row \<and> row_due now 10 row)"
    unfolding p by (rule pending_ids(2) [OF assms(1)])
  have "dm_get ?s1 k = (case dm_get s k of None \<Rightarrow> None | Some row \<Rightarrow>
      Some (if row_due now 10 row then bump m row else row))"
    using pending_ids [OF assms(1), where now = now and age = 10]
    by (simp add: get_fold_increment split: option.split)
  then show "dm_get s' k = (case dm_get s k of None \<Rightarrow> None | Some row \<Rightarrow>
      (let row' = (if row_due now 10 row then bump m row else row)
       in if row_prunable now ret row' then None else Some row'))"
    unfolding s' prune_get [OF fold_increment_ok [OF assms(1)]]
    by (simp add: Let_def split: option.split)
qed


section \<open>How often an event is redelivered\<close>

definition redeliveries :: "string \<Rightarrow> event list list \<Rightarrow> nat" where
  "redeliveries k outs = length (filter (\<lambda>p. k \<in> ev_event_id ` set p) outs)"

lemma worker_sweeps_Cons:
  assumes "worker_sweep m ret now s = (p, n, s1)"
  shows "fst (worker_sweeps m ret (now # nows) s) = p # fst (worker_sweeps m ret nows s1)"
  using assms by (simp add: Let_def split: prod.split)

lemma terminal_not_redelivered:
  assumes "dm_ok s" "\<And>row. dm_get s k = Some row \<Longrightarrow> er_status row \<noteq> EvPending"
  shows "redeliveries k (fst (worker_sweeps m ret nows s)) = 0"
  using assms
proof (induction nows arbitrary: s)
  case (Cons now nows)
  obtain p n s1 where sweep: "worker_sweep m ret now s = (p, n, s1)" by (cases "worker_sweep m ret now s")
  note row = worker_sweep_row [OF Cons.prems(1) sweep, of k]
  have "er_status row \<noteq> EvPending" if "dm_get s1 k = Some row" for row
    using that Cons.prems(2) unfolding row(1)
    by (auto simp: row_due_def Let_def split: option.splits if_splits)
  moreover have "k \<notin> ev_event_id ` set p"
    using Cons.prems(2) unfolding row(2) by (auto simp: row_due_def)
  ultimately show ?case
    using Cons.IH [OF worker_sweep_ok [OF Cons.prems(1) sweep]]
    by (simp add: worker_sweeps_Cons [OF sweep] redeliveries_def del: worker_sweeps.simps)
qed (simp add: redeliveries_def)

lemma pending_redelivered:
  assumes "dm_ok s" "dm_get s k = Some row" "er_status row = EvPending"
    and "\<forall>now \<in> set nows. er_created_at row \<le> now - 10"
  shows "redeliveries k (fst (worker_sweeps m ret nows s)) =
     min (length nows) (max 1 (m - er_retry_count row))"
  using assms
proof (induction nows arbitrary: s row)
  case (Cons now nows)
  obtain p n s1 where sweep: "worker_sweep m ret now s = (p, n, s1)" by (cases "worker_sweep m ret now s")
  note s1 = worker_sweep_row [OF Cons.prems(1) sweep, of k]
  note ok1 = worker_sweep_ok [OF Cons.prems(1) sweep]
  have due: "row_due now 10 row"
    using Cons.prems by (simp add: row_due_def)
  then have hit: "k \<in> ev_event_id ` set p" using s1(2) Cons.prems(2) by simp
  have get1: "dm_get s1 k = (if row_prunable now ret (bump m row) then None else Some (bump m row))"
    using s1(1) Cons.prems(2) due by (simp add: Let_def)
  have count: "redeliveries k (fst (worker_sweeps m ret (now # nows) s)) =
      Suc (redeliveries k (fst (worker_sweeps m ret nows s1)))"
    using hit by (simp add: worker_sweeps_Cons [OF sweep] redeliveries_def del: worker_sweeps.simps)
  show ?case
  proof (cases "m \<le> er_retry_count row + 1")
    case True
    then have "er_status r \<noteq> EvPending" if "dm_get s1 k = Some r" for r
      using that get1 by (auto simp: bump_def split: if_splits)
    from terminal_not_redelivered [OF ok1 this] True count show ?thesis by simp
  next
    case False
    with Cons.prems(3) have st: "er_status (bump m row) = EvPending" by (simp add: bump_def)
    then have "dm_get s1 k = Some (bump m row)" using get1 by (simp add: row_prunable_def)
    from Cons.IH [OF ok1 this st] Cons.prems(4) False count show ?thesis
      by (simp add: bump_def)
  qed
qed (simp add: redeliveries_def)


definition sample_event :: event where
  "sample_event = \<lparr>ev_event_id = ''evt-a-5-0'', ev_event_type = ''plugin.a.x'', ev_payload_json = [],
     ev_retry_count = 0\<rparr>"


lemma prune_count: "fst (prune now ret s) + length (snd (prune now ret s)) = length s"
  unfolding prune_def dm_retain_def by (induction s) auto

lemma row_prunable_alt:
  "row_prunable now ret row \<longleftrightarrow> er_status row \<noteq> EvPending \<and> er_created_at row \<le> now - ret"
  by (cases "er_status row") (simp_all add: row_prunable_def)

text \<open>
  Persisting is idempotent and first-write-wins, and pruning removes exactly the old
  terminal rows: a pending event survives every prune, and the reported count is the number
  of rows that went.
\<close>

theorem outbox_keeps_pending:
  assumes "dm_ok s"
  shows "dm_get (persist t' e (persist t e s)) k = dm_get (persist t e s) k
    \<and> (case dm_get s k of
         None \<Rightarrow> dm_get (snd (prune now ret s)) k = None
       | Some row \<Rightarrow> dm_get (snd (prune now ret s)) k =
           (if er_status row \<noteq> EvPending \<and> er_created_at row \<le> now - ret then None else Some row))
    \<and> fst (prune now ret s) + length (snd (prune now ret s)) = length s"
  using prune_get [OF assms, of now ret k] prune_count row_prunable_alt
  by (auto simp: persist_def split: option.split)

theorem outbox_keeps_pending_witness:
  "fst (prune 100 50 (persist 5 sample_event dm_empty)) = 0
   \<and> snd (prune 100 50 (mark_delivered ''evt-a-5-0'' (persist 5 sample_event dm_empty))) = []"
  using outbox_keeps_pending [of "persist 5 sample_event dm_empty" 9 sample_event 5 "''evt-a-5-0''" 100 50]
    outbox_keeps_pending [of "mark_delivered ''evt-a-5-0'' (persist 5 sample_event dm_empty)" 9
      sample_event 5 "''evt-a-5-0''" 100 50]
  by (simp add: persist_def prune_def row_prunable_def dm_retain_def mark_delivered_def update_row_def
      sample_event_def dm_insert_def dm_empty_def dm_get_def dm_ok_def)

end
