(* ===== verification/Event_Bus.thy ===== *)
theory Event_Bus
  imports Helpers Event_Store
begin

text \<open>
  The event bus, \<^verbatim>\<open>src/events/bus.rs\<close>: subscriptions, publishing through the outbox, delivery to
  subscribers, one round of the retry worker, and the lifecycle payload. A \<^verbatim>\<open>HashSet\<close> is a list
  without repetitions. The kernel has one event store, shared by reference; \<open>eb_store\<close> says
  whether the bus has it attached. The invariant says that the two subscription maps mirror
  each other.
\<close>

section \<open>Definitions\<close>

record event_bus =
  subscriptions :: "(string, string list) dashmap"
  by_plugin :: "(string, string list) dashmap"
  eb_store :: bool

definition bus_new :: event_bus where
  "bus_new = \<lparr>subscriptions = dm_empty, by_plugin = dm_empty, eb_store = False\<rparr>"

definition bus_with_store :: event_bus where
  "bus_with_store = \<lparr>subscriptions = dm_empty, by_plugin = dm_empty, eb_store = True\<rparr>"

definition set_store :: "event_bus \<Rightarrow> event_bus" where
  "set_store b = b\<lparr>eb_store := True\<rparr>"

definition or_default :: "('k, 'v list) dashmap \<Rightarrow> 'k \<Rightarrow> 'v list" where
  "or_default m k = (case dm_get m k of Some v \<Rightarrow> v | None \<Rightarrow> [])"

definition subscribe :: "string \<Rightarrow> string list \<Rightarrow> event_bus \<Rightarrow> event_bus" where
  "subscribe plugin_id event_types b =
    (let subs = fold (\<lambda>t m. dm_insert t (List.insert plugin_id (or_default m t)) m)
                  event_types (subscriptions b)
     in b\<lparr>subscriptions := subs,
          by_plugin := dm_insert plugin_id (fold List.insert event_types (or_default (by_plugin b) plugin_id))
                         (by_plugin b)\<rparr>)"

definition remove_subscriber :: "string \<Rightarrow> string \<Rightarrow> (string, string list) dashmap \<Rightarrow> (string, string list) dashmap" where
  "remove_subscriber plugin_id t m = (case dm_get m t of
      Some subs \<Rightarrow> dm_insert t (removeAll plugin_id subs) m | None \<Rightarrow> m)"

definition unsubscribe :: "string \<Rightarrow> string list \<Rightarrow> event_bus \<Rightarrow> event_bus" where
  "unsubscribe plugin_id event_types b =
    (let subs = fold (remove_subscriber plugin_id) event_types (subscriptions b);
         bp = (case dm_get (by_plugin b) plugin_id of
             Some types \<Rightarrow> dm_insert plugin_id (fold removeAll event_types types) (by_plugin b)
           | None \<Rightarrow> by_plugin b)
     in b\<lparr>subscriptions := subs, by_plugin := bp\<rparr>)"

definition unsubscribe_all :: "string \<Rightarrow> event_bus \<Rightarrow> event_bus" where
  "unsubscribe_all plugin_id b = (case dm_get (by_plugin b) plugin_id of
      None \<Rightarrow> b
    | Some types \<Rightarrow> b\<lparr>by_plugin := dm_remove plugin_id (by_plugin b),
        subscriptions := fold (remove_subscriber plugin_id) types (subscriptions b)\<rparr>)"

definition subscribers :: "event_bus \<Rightarrow> string \<Rightarrow> string list" where
  "subscribers b t = or_default (subscriptions b) t"

definition deliver_targets :: "event_bus \<Rightarrow> string \<Rightarrow> string list" where
  "deliver_targets b t = remdups (subscribers b t @ subscribers b ''*'')"

definition deliver_one :: "wire \<Rightarrow> registry \<Rightarrow> bytes \<Rightarrow> string \<Rightarrow> kio \<Rightarrow> kio" where
  "deliver_one W r p plugin_id io = (case get_plugin r plugin_id of
      Some entry \<Rightarrow> snd (io_try_send (pe_write_tx entry) (OutFrame (build_frame W plugin_id 0 p)) io)
    | None \<Rightarrow> io)"

definition deliver :: "wire \<Rightarrow> nat \<Rightarrow> event_bus \<Rightarrow> registry \<Rightarrow> event \<Rightarrow> kio \<Rightarrow> kio" where
  "deliver W now_ms b r e io =
    (let targets = deliver_targets b (ev_event_type e)
     in if targets = [] then io
        else let (mid, io1) = kernel_message_id now_ms io;
                 env = \<lparr>en_message_id = mid, en_sender_id = ''kernel'', en_timestamp = now_ms,
                        en_payload = Some (PEvent e)\<rparr>
             in case w_encode W env of
                  None \<Rightarrow> io1
                | Some p \<Rightarrow> fold (deliver_one W r p) targets io1)"

definition publish ::
  "wire \<Rightarrow> clock \<Rightarrow> event_bus \<Rightarrow> registry \<Rightarrow> event \<Rightarrow> event_store \<Rightarrow> kio \<Rightarrow> event_store \<times> kio" where
  "publish W clk b r e s io =
    (let s1 = (if eb_store b then persist (clk_secs clk) e s else s)
     in (s1, deliver W (clk_millis clk) b r e io))"

definition redeliver :: "wire \<Rightarrow> nat \<Rightarrow> event_bus \<Rightarrow> registry \<Rightarrow> event \<Rightarrow> kio \<Rightarrow> kio" where
  "redeliver W now_ms b r e io = deliver W now_ms b r e io"

text \<open>One round of \<^verbatim>\<open>run_retry_worker\<close>, whose loop sleeps five seconds between rounds.\<close>

definition retry_worker_round ::
  "wire \<Rightarrow> clock \<Rightarrow> nat \<Rightarrow> nat \<Rightarrow> event_bus \<Rightarrow> registry \<Rightarrow> event_store \<Rightarrow> kio \<Rightarrow> event_store \<times> kio" where
  "retry_worker_round W clk max_retries retention b r s io =
    (let (pending, _, s1) = worker_sweep max_retries retention (clk_secs clk) s
     in (s1, fold (redeliver W (clk_millis clk) b r) pending io))"

definition device_os_str :: "device_os i32_enum \<Rightarrow> string" where
  "device_os_str os = (case try_from_code os of
      Some OsLinux \<Rightarrow> ''linux'' | Some OsMacos \<Rightarrow> ''macos'' | Some OsWindows \<Rightarrow> ''windows''
    | Some OsAndroid \<Rightarrow> ''android'' | Some OsIos \<Rightarrow> ''ios'' | Some OsFreebsd \<Rightarrow> ''freebsd''
    | _ \<Rightarrow> ''unspecified'')"

definition device_state_str :: "device_state i32_enum \<Rightarrow> string" where
  "device_state_str st = (case try_from_code st of
      Some Online \<Rightarrow> ''online'' | Some Offline \<Rightarrow> ''offline'' | Some Revoked \<Rightarrow> ''revoked''
    | _ \<Rightarrow> ''unspecified'')"

definition action_spec_json :: "action_spec \<Rightarrow> json" where
  "action_spec_json s = JObj [(''name'', JStr (as_name s)), (''description'', JStr (as_description s)),
     (''params_schema'', JStr (as_params_schema s)), (''risk'', JStr (action_risk_str (as_risk s))),
     (''requires_confirmation'', JBool (as_requires_confirmation s))]"

definition plugin_lifecycle_payload :: "wire \<Rightarrow> registry \<Rightarrow> string \<Rightarrow> bytes" where
  "plugin_lifecycle_payload W r plugin_id =
    (let device_id = (case get_plugin r plugin_id of Some e \<Rightarrow> pe_device_id e | None \<Rightarrow> []);
         (os, capabilities) = (case get_device r device_id of
             Some dev \<Rightarrow> (device_os_str (di_os dev), di_capabilities dev)
           | None \<Rightarrow> (''unspecified'', []));
         action_specs = map action_spec_json (case get_plugin r plugin_id of
             Some e \<Rightarrow> mf_action_specs (pe_manifest e) | None \<Rightarrow> [])
     in w_json_string W (JObj [(''plugin_id'', JStr plugin_id), (''device_id'', JStr device_id),
          (''os'', JStr os), (''capabilities'', json_strs capabilities),
          (''action_specs'', JArr action_specs)]))"

section \<open>The subscription maps mirror each other\<close>

definition bus_ok :: "event_bus \<Rightarrow> bool" where
  "bus_ok b \<longleftrightarrow> dm_ok (subscriptions b) \<and> dm_ok (by_plugin b)
     \<and> (\<forall>t. distinct (or_default (subscriptions b) t))
     \<and> (\<forall>p. distinct (or_default (by_plugin b) p))
     \<and> (\<forall>p t. p \<in> set (or_default (subscriptions b) t) \<longleftrightarrow> t \<in> set (or_default (by_plugin b) p))"

lemma or_default_simps [simp]:
  "or_default (dm_insert k v m) j = (if j = k then v else or_default m j)"
  "or_default (dm_remove k m) j = (if j = k then [] else or_default m j)"
  "or_default dm_empty j = []"
  by (simp_all add: or_default_def)

lemma or_default_remove_subscriber [simp]:
  "or_default (remove_subscriber p t m) j =
     (if j = t then removeAll p (or_default m t) else or_default m j)"
  by (auto simp: remove_subscriber_def or_default_def split: option.split)

lemma remove_subscriber_ok [simp]: "dm_ok m \<Longrightarrow> dm_ok (remove_subscriber p t m)"
  by (auto simp: remove_subscriber_def split: option.split)

lemma fold_remove_subscriber:
  "or_default (fold (remove_subscriber p) ts m) j =
     (if j \<in> set ts then removeAll p (or_default m j) else or_default m j)"
  by (induction ts arbitrary: m) auto

lemma fold_remove_subscriber_ok [simp]: "dm_ok m \<Longrightarrow> dm_ok (fold (remove_subscriber p) ts m)"
  by (induction ts arbitrary: m) auto

lemma fold_subscribe:
  "or_default (fold (\<lambda>t m. dm_insert t (List.insert p (or_default m t)) m) ts m) j =
     (if j \<in> set ts then List.insert p (or_default m j) else or_default m j)"
  by (induction ts arbitrary: m) auto

lemma fold_subscribe_ok [simp]:
  "dm_ok m \<Longrightarrow> dm_ok (fold (\<lambda>t m. dm_insert t (List.insert p (or_default m t)) m) ts m)"
  by (induction ts arbitrary: m) auto

lemma set_fold_insert: "set (fold List.insert ts xs) = set ts \<union> set xs"
  by (induction ts arbitrary: xs) auto

lemma distinct_fold_insert: "distinct xs \<Longrightarrow> distinct (fold List.insert ts xs)"
  by (induction ts arbitrary: xs) auto

lemma set_fold_removeAll: "set (fold removeAll ts xs) = set xs - set ts"
  by (induction ts arbitrary: xs) auto

lemma distinct_fold_removeAll: "distinct xs \<Longrightarrow> distinct (fold removeAll ts xs)"
  by (induction ts arbitrary: xs) (auto simp: distinct_removeAll)

lemma bus_ok_new: "bus_ok bus_new" "bus_ok bus_with_store"
  by (simp_all add: bus_ok_def bus_new_def bus_with_store_def)

lemma subscribe_bus_ok: "bus_ok b \<Longrightarrow> bus_ok (subscribe p ts b)"
  by (auto simp: bus_ok_def subscribe_def Let_def fold_subscribe set_fold_insert distinct_fold_insert)

lemma unsubscribe_by_plugin:
  "or_default (by_plugin (unsubscribe p ts b)) q =
     (if q = p then fold removeAll ts (or_default (by_plugin b) p) else or_default (by_plugin b) q)"
proof -
  have "fold removeAll ts [] = []" by (induction ts) auto
  then show ?thesis
    by (auto simp: unsubscribe_def Let_def or_default_def split: option.split)
qed

lemma unsubscribe_bus_ok: "bus_ok b \<Longrightarrow> bus_ok (unsubscribe p ts b)"
proof -
  assume ok: "bus_ok b"
  have "dm_ok (by_plugin (unsubscribe p ts b))"
    using ok by (auto simp: bus_ok_def unsubscribe_def Let_def split: option.split)
  moreover have "subscriptions (unsubscribe p ts b) = fold (remove_subscriber p) ts (subscriptions b)"
    by (simp add: unsubscribe_def Let_def)
  ultimately show ?thesis
    using ok
    by (auto simp: bus_ok_def unsubscribe_by_plugin fold_remove_subscriber set_fold_removeAll
        distinct_fold_removeAll distinct_removeAll)
qed

lemma unsubscribe_all_maps:
  assumes "bus_ok b"
  shows "or_default (subscriptions (unsubscribe_all p b)) t = removeAll p (or_default (subscriptions b) t)"
    and "or_default (by_plugin (unsubscribe_all p b)) q =
       (if q = p then [] else or_default (by_plugin b) q)"
proof -
  have mirror: "p \<in> set (or_default (subscriptions b) t) \<longleftrightarrow> t \<in> set (or_default (by_plugin b) p)" for t
    using assms by (simp add: bus_ok_def)
  show "or_default (subscriptions (unsubscribe_all p b)) t = removeAll p (or_default (subscriptions b) t)"
    using mirror [of t]
    by (auto simp: unsubscribe_all_def fold_remove_subscriber or_default_def [of "by_plugin b"]
        split: option.split_asm option.split)
  show "or_default (by_plugin (unsubscribe_all p b)) q =
       (if q = p then [] else or_default (by_plugin b) q)"
    by (auto simp: unsubscribe_all_def split: option.split) (simp add: or_default_def)
qed

lemma unsubscribe_all_bus_ok: "bus_ok b \<Longrightarrow> bus_ok (unsubscribe_all p b)"
proof -
  assume ok: "bus_ok b"
  then have "dm_ok (subscriptions (unsubscribe_all p b))" "dm_ok (by_plugin (unsubscribe_all p b))"
    by (auto simp: bus_ok_def unsubscribe_all_def split: option.split)
  with ok show ?thesis
    unfolding bus_ok_def unsubscribe_all_maps [OF ok] by (auto simp: distinct_removeAll)
qed


section \<open>Refinement of a set of subscriptions\<close>

datatype bus_op =
    BusSubscribe string "string list"
  | BusUnsubscribe string "string list"
  | BusUnsubscribeAll string
  | BusSetStore

fun bus_step :: "bus_op \<Rightarrow> event_bus \<Rightarrow> event_bus" where
  "bus_step (BusSubscribe p ts) b = subscribe p ts b"
| "bus_step (BusUnsubscribe p ts) b = unsubscribe p ts b"
| "bus_step (BusUnsubscribeAll p) b = unsubscribe_all p b"
| "bus_step BusSetStore b = set_store b"

text \<open>The contract: a set of (plugin, event type) pairs.\<close>

fun bus_spec_step :: "bus_op \<Rightarrow> (string \<times> string) set \<Rightarrow> (string \<times> string) set" where
  "bus_spec_step (BusSubscribe p ts) S = S \<union> {p} \<times> set ts"
| "bus_spec_step (BusUnsubscribe p ts) S = S - {p} \<times> set ts"
| "bus_spec_step (BusUnsubscribeAll p) S = S - {p} \<times> UNIV"
| "bus_spec_step BusSetStore S = S"

definition bus_abs :: "event_bus \<Rightarrow> (string \<times> string) set" where
  "bus_abs b = {(p, t). p \<in> set (subscribers b t)}"

lemma bus_step_ok: "bus_ok b \<Longrightarrow> bus_ok (bus_step op b)"
  by (cases op) (simp_all add: subscribe_bus_ok unsubscribe_bus_ok unsubscribe_all_bus_ok,
      simp add: bus_ok_def set_store_def)

interpretation bus: step_system bus_new bus_step bus_ok
  by unfold_locales (rule bus_ok_new(1), rule bus_step_ok)

lemma bus_step_refines: "bus_ok b \<Longrightarrow> bus_abs (bus_step op b) = bus_spec_step op (bus_abs b)"
proof (cases op)
  case (BusSubscribe p ts)
  then show ?thesis
    by (auto simp: bus_abs_def subscribers_def subscribe_def Let_def fold_subscribe split: if_splits)
next
  case (BusUnsubscribe p ts)
  then show ?thesis
    by (auto simp: bus_abs_def subscribers_def unsubscribe_def Let_def fold_remove_subscriber
        split: if_splits)
next
  case (BusUnsubscribeAll p)
  assume "bus_ok b"
  with BusUnsubscribeAll show ?thesis
    by (auto simp: bus_abs_def subscribers_def unsubscribe_all_maps)
qed (simp add: bus_abs_def subscribers_def set_store_def)

lemma bus_run_refines:
  "bus_ok b \<Longrightarrow> bus_abs (fold bus_step ops b) = fold bus_spec_step ops (bus_abs b)"
  by (induction ops arbitrary: b) (simp_all add: bus_step_ok bus_step_refines)

text \<open>
  \<^bold>\<open>C6.\<close> The bus implements a plain set of (plugin, event type) pairs: after any sequence of
  subscribe, unsubscribe and unsubscribe-all calls, the subscribers of every event type are
  exactly the pairs the set holds, although the code keeps two maps and unsubscribe-all only
  visits the types recorded for the plugin.
\<close>

theorem bus_refines_pair_set:
  "{(p, t). p \<in> set (subscribers (fold bus_step ops bus_new) t)} = fold bus_spec_step ops {}"
proof -
  have "bus_abs bus_new = {}" by (simp add: bus_abs_def subscribers_def bus_new_def)
  with bus_run_refines [OF bus_ok_new(1), of ops] show ?thesis by (simp add: bus_abs_def)
qed

section \<open>Delivery\<close>

definition plugin_chan :: "registry \<Rightarrow> string \<Rightarrow> chan option" where
  "plugin_chan r q = map_option pe_write_tx (get_plugin r q)"

lemma deliver_one_unregistered: "get_plugin r q = None \<Longrightarrow> deliver_one W r p q io = io"
  by (simp add: deliver_one_def)

lemma deliver_one_queued:
  "queued (io_chans (deliver_one W r p q io)) c =
     queued (io_chans io) c @
       (if plugin_chan r q = Some c \<and> chan_accepts (io_chans io) c
        then [OutFrame (build_frame W q 0 p)] else [])"
  by (auto simp: deliver_one_def plugin_chan_def io_try_send_simps split: option.split)

lemma deliver_one_frame:
  "ch_cap (io_chans (deliver_one W r p q io) c) = ch_cap (io_chans io c)"
  "ch_open (io_chans (deliver_one W r p q io) c) = ch_open (io_chans io c)"
  by (auto simp: deliver_one_def io_try_send_simps split: option.split)

lemma deliver_one_accepts:
  "plugin_chan r q \<noteq> Some c \<Longrightarrow>
     chan_accepts (io_chans (deliver_one W r p q io)) c = chan_accepts (io_chans io) c"
  by (simp add: chan_accepts_def deliver_one_queued deliver_one_frame)

lemma fold_deliver_idle:
  assumes "\<forall>q \<in> set qs. plugin_chan r q \<noteq> Some c"
  shows "queued (io_chans (fold (deliver_one W r p) qs io)) c = queued (io_chans io) c"
  using assms by (induction qs arbitrary: io) (simp_all add: deliver_one_queued)

definition one_per_channel :: "registry \<Rightarrow> string list \<Rightarrow> bool" where
  "one_per_channel r qs \<longleftrightarrow> (\<forall>q \<in> set qs. \<forall>q' \<in> set qs.
     plugin_chan r q \<noteq> None \<longrightarrow> plugin_chan r q = plugin_chan r q' \<longrightarrow> q = q')"

lemma fold_deliver_queued:
  assumes "distinct qs" "one_per_channel r qs"
  shows "queued (io_chans (fold (deliver_one W r p) qs io)) c =
     queued (io_chans io) c @
       (if chan_accepts (io_chans io) c
        then map (\<lambda>q. OutFrame (build_frame W q 0 p))
               (filter (\<lambda>q. plugin_chan r q = Some c) qs)
        else [])"
  using assms
proof (induction qs arbitrary: io)
  case (Cons q qs)
  have one: "one_per_channel r qs" using Cons.prems(2) unfolding one_per_channel_def by auto
  show ?case
  proof (cases "plugin_chan r q = Some c")
    case True
    then have "\<forall>q' \<in> set qs. plugin_chan r q' \<noteq> Some c"
      using Cons.prems unfolding one_per_channel_def by fastforce
    moreover from this have "filter (\<lambda>q'. plugin_chan r q' = Some c) qs = []"
      by simp
    ultimately show ?thesis
      using True by (simp add: fold_deliver_idle deliver_one_queued)
  next
    case False
    with Cons.IH [OF _ one, of "deliver_one W r p q io"] Cons.prems(1) show ?thesis
      by (simp add: deliver_one_accepts deliver_one_queued)
  qed
qed simp



definition sample_bus_registry :: registry where
  "sample_bus_registry =
     snd (register_plugin \<lparr>clk_secs = 1, clk_millis = 1000, clk_instant = 1\<rparr> ''b'' 2 default_manifest 2 [] []
       (snd (register_plugin \<lparr>clk_secs = 1, clk_millis = 1000, clk_instant = 1\<rparr> ''a'' 1 default_manifest 1 [] []
          registry_new)))"

lemma sample_bus_plugins:
  "plugin_chan sample_bus_registry ''a'' = Some 1" "plugin_chan sample_bus_registry ''b'' = Some 2"
  by code_simp+


end
