(* ===== verification/Config.thy ===== *)
theory Config
  imports Wire "HOL-Library.List_Lexorder" "HOL-Library.Char_ord"
begin

text \<open>
  Configuration, \<^verbatim>\<open>src/utils/config.rs\<close>: the configuration record with its defaults, the
  resolution of the drop-in directory, the merge of drop-in plugin files and the clamping of
  invalid numbers. YAML parsing belongs to \<^verbatim>\<open>serde_yaml\<close> and the file system to the operating
  system: both are fields of \<open>conf_env\<close>, as are the locations the wire crate computes.
  Durations and counts are natural numbers; paths are strings with the separator \<^verbatim>\<open>/\<close>.
\<close>

section \<open>Data\<close>

record plugin_def =
  pd_id :: string
  pd_binary :: string
  pd_restart :: string
  pd_max_restarts :: nat
  pd_args :: "string list"
  pd_env :: "string list"
  pd_sandbox :: bool
  pd_grace_seconds :: nat
  pd_max_procs :: "nat option"
  pd_max_vmem_mb :: "nat option"
  pd_permissions :: "string list"
  pd_max_fs_access :: "string option"
  pd_readonly_paths :: "string list"
  pd_writable_paths :: "string list"

datatype role = Host | Client

record bridge_config =
  bc_host_url :: string
  bc_token :: "string option"
  bc_secret :: "string option"
  bc_mirror :: "string list"

record config =
  cf_port :: nat
  cf_log_level :: string
  cf_pid_file :: string
  cf_log_file :: string
  cf_data_dir :: string
  cf_socket_path :: string
  cf_jwt_secret :: "string option"
  cf_allow_no_auth :: bool
  cf_role :: role
  cf_bridge :: "bridge_config option"
  cf_device_id :: "string option"
  cf_plugins :: "plugin_def list"
  cf_plugins_dir :: "string option"
  cf_watchdog_interval_secs :: nat
  cf_watchdog_timeout_secs :: nat
  cf_log_buffer_lines :: nat
  cf_max_connections :: nat
  cf_api_rate_limit_rps :: "nat option"
  cf_api_rate_limit_burst :: "nat option"
  cf_ipc_rate_limit_rps :: "nat option"
  cf_action_caller_rate_limit_rps :: "nat option"
  cf_action_caller_max_concurrent :: "nat option"
  cf_session_idle_timeout_secs :: "nat option"
  cf_prune_interval_secs :: nat
  cf_tls :: bool
  cf_tls_cert_path :: "string option"
  cf_tls_key_path :: "string option"
  cf_jwt_audience :: "string option"
  cf_bind :: "string option"
  cf_ws_register_timeout_secs :: nat
  cf_registry_url :: "string option"
  cf_marketplace_public_key :: "string option"
  cf_registry_cache_ttl_secs :: nat
  cf_tmp_dir :: string
  cf_action_timeout_ms :: nat
  cf_restart_backoff_base_ms :: nat
  cf_restart_backoff_max_ms :: nat
  cf_default_grace_seconds :: nat
  cf_event_max_retries :: nat
  cf_event_retention_secs :: nat
  cf_router_channel_capacity :: nat
  cf_fragment_timeout_secs :: nat
  cf_max_reassembly_streams :: nat
  cf_max_conn_errors :: nat
  cf_max_tracked_error_conns :: nat
  cf_ws_handshake_timeout_secs :: nat
  cf_max_ws_connections :: nat
  cf_max_archive_bytes :: nat
  cf_max_extracted_bytes :: nat
  cf_max_archive_entries :: nat
  cf_config_file :: "string option"

record conf_env =
  he_private_dir :: "string option"
  he_temp_dir :: string
  he_socket_path :: string
  he_hostname :: "string option"
  he_read_to_string :: "string \<Rightarrow> string + string"
  he_is_dir :: "string \<Rightarrow> bool"
  he_read_dir :: "string \<Rightarrow> string + string list"
  he_parse_config :: "string \<Rightarrow> string + config"
  he_parse_plugin :: "string \<Rightarrow> string + plugin_def"

section \<open>Paths\<close>

definition path_join :: "string \<Rightarrow> string \<Rightarrow> string" where
  "path_join a b = (if starts_with b ''/'' then b
     else if a = [] \<or> last a = CHR ''/'' then a @ b else a @ ''/'' @ b)"

definition strip_slashes :: "string \<Rightarrow> string" where
  "strip_slashes p = rev (dropWhile (\<lambda>c. c = CHR ''/'') (rev p))"

definition path_parent :: "string \<Rightarrow> string option" where
  "path_parent p =
    (let p1 = strip_slashes p
     in if p1 = [] then None
        else let dir = rev (dropWhile (\<lambda>c. c \<noteq> CHR ''/'') (rev p1))
             in Some (if dir \<noteq> [] \<and> strip_slashes dir = [] then ''/'' else strip_slashes dir))"

definition path_file_name :: "string \<Rightarrow> string" where
  "path_file_name p = rev (takeWhile (\<lambda>c. c \<noteq> CHR ''/'') (rev (strip_slashes p)))"

definition path_extension :: "string \<Rightarrow> string option" where
  "path_extension p =
    (let f = path_file_name p;
         stem = rev (dropWhile (\<lambda>c. c \<noteq> CHR ''.'') (rev f))
     in if f = ''..'' \<or> length stem \<le> 1 then None
        else Some (rev (takeWhile (\<lambda>c. c \<noteq> CHR ''.'') (rev f))))"

section \<open>Defaults\<close>

definition in_private_dir :: "conf_env \<Rightarrow> string \<Rightarrow> string" where
  "in_private_dir E f = (case he_private_dir E of Some d \<Rightarrow> path_join d f | None \<Rightarrow> f)"

definition default_pid_path :: "conf_env \<Rightarrow> string" where
  "default_pid_path E = in_private_dir E ''vyn.pid''"

definition default_log_path :: "conf_env \<Rightarrow> string" where
  "default_log_path E = in_private_dir E ''vyn.log''"

definition default_data_dir :: "conf_env \<Rightarrow> string" where
  "default_data_dir E = in_private_dir E ''vyn-data''"

definition default_tmp_dir :: "conf_env \<Rightarrow> string" where
  "default_tmp_dir E = (case he_private_dir E of Some d \<Rightarrow> d | None \<Rightarrow> he_temp_dir E)"

definition default_watchdog_interval :: nat where "default_watchdog_interval = 30"
definition default_watchdog_timeout :: nat where "default_watchdog_timeout = 10"
definition default_max_connections :: nat where "default_max_connections = 1024"
definition default_router_channel_capacity :: nat where "default_router_channel_capacity = 1024"
definition default_max_ws_connections :: nat where "default_max_ws_connections = 1024"
definition default_max_archive_bytes :: nat where "default_max_archive_bytes = 268435456"

definition default_config :: "conf_env \<Rightarrow> config" where
  "default_config E = \<lparr>cf_port = 8000, cf_log_level = ''info'',
     cf_pid_file = default_pid_path E, cf_log_file = default_log_path E,
     cf_data_dir = default_data_dir E, cf_socket_path = he_socket_path E, cf_jwt_secret = None,
     cf_allow_no_auth = False, cf_role = Host, cf_bridge = None, cf_device_id = None,
     cf_plugins = [], cf_plugins_dir = None,
     cf_watchdog_interval_secs = default_watchdog_interval,
     cf_watchdog_timeout_secs = default_watchdog_timeout, cf_log_buffer_lines = 1000,
     cf_max_connections = default_max_connections, cf_api_rate_limit_rps = None,
     cf_api_rate_limit_burst = None, cf_ipc_rate_limit_rps = None,
     cf_action_caller_rate_limit_rps = None, cf_action_caller_max_concurrent = None,
     cf_session_idle_timeout_secs = None, cf_prune_interval_secs = 60, cf_tls = True,
     cf_tls_cert_path = None, cf_tls_key_path = None, cf_jwt_audience = None, cf_bind = None,
     cf_ws_register_timeout_secs = 10, cf_registry_url = None, cf_marketplace_public_key = None,
     cf_registry_cache_ttl_secs = 3600, cf_tmp_dir = default_tmp_dir E,
     cf_action_timeout_ms = 30000, cf_restart_backoff_base_ms = 100,
     cf_restart_backoff_max_ms = 30000, cf_default_grace_seconds = 5, cf_event_max_retries = 5,
     cf_event_retention_secs = 3600,
     cf_router_channel_capacity = default_router_channel_capacity, cf_fragment_timeout_secs = 30,
     cf_max_reassembly_streams = 64, cf_max_conn_errors = 16, cf_max_tracked_error_conns = 8192,
     cf_ws_handshake_timeout_secs = 5, cf_max_ws_connections = default_max_ws_connections,
     cf_max_archive_bytes = default_max_archive_bytes, cf_max_extracted_bytes = 1073741824,
     cf_max_archive_entries = 10000, cf_config_file = None\<rparr>"

section \<open>Loading\<close>

definition resolve_plugins_dir :: "string \<Rightarrow> string option \<Rightarrow> string" where
  "resolve_plugins_dir config_path explicit = (case explicit of
      Some d \<Rightarrow> d
    | None \<Rightarrow> (case path_parent config_path of
        Some p \<Rightarrow> path_join p ''plugins.d'' | None \<Rightarrow> ''plugins.d''))"

definition is_yaml_file :: "string \<Rightarrow> bool" where
  "is_yaml_file p \<longleftrightarrow> path_extension p = Some ''yaml'' \<or> path_extension p = Some ''yml''"

fun merge_files :: "conf_env \<Rightarrow> string list \<Rightarrow> plugin_def list \<Rightarrow> string + plugin_def list" where
  "merge_files E [] ps = Inr ps"
| "merge_files E (f # fs) ps = (case he_read_to_string E f of
      Inl e \<Rightarrow> Inl e
    | Inr content \<Rightarrow> (case he_parse_plugin E content of
        Inl e \<Rightarrow> Inl (f @ '': '' @ e)
      | Inr p \<Rightarrow>
          if list_ex (\<lambda>q. pd_id q = pd_id p) ps
          then Inl (''duplicate plugin id '' @ [CHR 0x27] @ pd_id p @ [CHR 0x27] @ '': defined both in '' @ f
                 @ '' and in an inline `plugins:` entry or another drop-in file'')
          else merge_files E fs (ps @ [p])))"

definition merge_plugin_dropins :: "conf_env \<Rightarrow> config \<Rightarrow> string + config" where
  "merge_plugin_dropins E c = (case cf_plugins_dir c of
      None \<Rightarrow> Inl ''panic: plugins_dir resolved by load_config''
    | Some dir \<Rightarrow>
        if \<not> he_is_dir E dir then Inr c
        else case he_read_dir E dir of
          Inl e \<Rightarrow> Inl e
        | Inr entries \<Rightarrow>
            (case merge_files E (sort (filter is_yaml_file entries)) (cf_plugins c) of
               Inl e \<Rightarrow> Inl e
             | Inr ps \<Rightarrow> Inr (c\<lparr>cf_plugins := ps\<rparr>)))"

definition clamp_zero :: "nat \<Rightarrow> nat \<Rightarrow> nat" where
  "clamp_zero d n = (if n = 0 then d else n)"

definition clamp_invalid_numerics :: "config \<Rightarrow> config" where
  "clamp_invalid_numerics c =
    c\<lparr>cf_router_channel_capacity := clamp_zero default_router_channel_capacity (cf_router_channel_capacity c),
      cf_max_connections := clamp_zero default_max_connections (cf_max_connections c),
      cf_watchdog_interval_secs := clamp_zero default_watchdog_interval (cf_watchdog_interval_secs c),
      cf_watchdog_timeout_secs := clamp_zero default_watchdog_timeout (cf_watchdog_timeout_secs c),
      cf_max_ws_connections := clamp_zero default_max_ws_connections (cf_max_ws_connections c),
      cf_max_archive_bytes := clamp_zero default_max_archive_bytes (cf_max_archive_bytes c)\<rparr>"

definition load_config :: "conf_env \<Rightarrow> string \<Rightarrow> string + config" where
  "load_config E path = (case he_read_to_string E path of
      Inl e \<Rightarrow> Inl e
    | Inr content \<Rightarrow> (case he_parse_config E content of
        Inl e \<Rightarrow> Inl e
      | Inr c \<Rightarrow>
          let c1 = c\<lparr>cf_config_file := Some path,
                     cf_plugins_dir := Some (resolve_plugins_dir path (cf_plugins_dir c))\<rparr>
          in case merge_plugin_dropins E c1 of
               Inl e \<Rightarrow> Inl e
             | Inr c2 \<Rightarrow> Inr (clamp_invalid_numerics c2)))"

definition resolve_device_id :: "conf_env \<Rightarrow> config \<Rightarrow> string" where
  "resolve_device_id E c = (case cf_device_id c of
      Some d \<Rightarrow> d
    | None \<Rightarrow> (case he_hostname E of Some h \<Rightarrow> h | None \<Rightarrow> ''unknown''))"

definition default_tls_dir :: "conf_env \<Rightarrow> string option" where
  "default_tls_dir E = map_option (\<lambda>d. path_join d ''vyn-tls'') (he_private_dir E)"

definition effective_tls_cert_path :: "conf_env \<Rightarrow> config \<Rightarrow> string option" where
  "effective_tls_cert_path E c =
    (if \<not> cf_tls c then None
     else case cf_tls_cert_path c of
       Some cert \<Rightarrow> Some cert
     | None \<Rightarrow> map_option (\<lambda>d. path_join d ''cert.pem'') (default_tls_dir E))"


section \<open>Properties\<close>

definition reads_plugin :: "conf_env \<Rightarrow> string \<Rightarrow> plugin_def \<Rightarrow> bool" where
  "reads_plugin E f p \<longleftrightarrow> (\<exists>content. he_read_to_string E f = Inr content \<and> he_parse_plugin E content = Inr p)"

lemma merge_files_ok:
  assumes "merge_files E fs ps = Inr ps'"
  obtains extra where "ps' = ps @ extra" "list_all2 (reads_plugin E) fs extra"
    "distinct (map pd_id extra)" "set (map pd_id extra) \<inter> set (map pd_id ps) = {}"
  using assms
proof (induction fs arbitrary: ps thesis)
  case (Cons f fs)
  from Cons.prems(2) obtain p where p: "reads_plugin E f p" "\<forall>q \<in> set ps. pd_id q \<noteq> pd_id p"
    and rest: "merge_files E fs (ps @ [p]) = Inr ps'"
    by (auto simp: reads_plugin_def list_ex_iff split: sum.splits if_splits)
  from Cons.IH [OF _ rest] obtain extra where "ps' = (ps @ [p]) @ extra" "list_all2 (reads_plugin E) fs extra"
    "distinct (map pd_id extra)" "set (map pd_id extra) \<inter> set (map pd_id (ps @ [p])) = {}" by blast
  with p show thesis by (intro Cons.prems(1) [of "p # extra"]) auto
qed auto

lemma merge_plugin_dropins_ok:
  assumes "merge_plugin_dropins E c = Inr c'"
  obtains fs extra where "c' = c\<lparr>cf_plugins := cf_plugins c @ extra\<rparr>" "sorted fs"
    "list_all2 (reads_plugin E) fs extra" "list_all is_yaml_file fs" "distinct (map pd_id extra)"
    "set (map pd_id extra) \<inter> set (map pd_id (cf_plugins c)) = {}"
proof (cases "he_is_dir E (the (cf_plugins_dir c))")
  case True
  from assms obtain dir where dir: "cf_plugins_dir c = Some dir"
    by (auto simp: merge_plugin_dropins_def split: option.splits)
  with assms True obtain entries ps where
    ps: "merge_files E (sort (filter is_yaml_file entries)) (cf_plugins c) = Inr ps"
    and c': "c' = c\<lparr>cf_plugins := ps\<rparr>"
    by (auto simp: merge_plugin_dropins_def split: sum.splits)
  from merge_files_ok [OF ps] obtain extra where "ps = cf_plugins c @ extra"
    "list_all2 (reads_plugin E) (sort (filter is_yaml_file entries)) extra" "distinct (map pd_id extra)"
    "set (map pd_id extra) \<inter> set (map pd_id (cf_plugins c)) = {}" .
  with c' that [of extra "sort (filter is_yaml_file entries)"] show thesis by (simp add: list_all_iff)
next
  case False
  with assms have "c' = c" by (auto simp: merge_plugin_dropins_def split: option.splits)
  with that [of "[]" "[]"] show thesis by simp
qed


definition sample_plugin_def :: "string \<Rightarrow> plugin_def" where
  "sample_plugin_def i = \<lparr>pd_id = i, pd_binary = ''/bin/'' @ i, pd_restart = ''on-failure'', pd_max_restarts = 5,
     pd_args = [], pd_env = [], pd_sandbox = False, pd_grace_seconds = 0, pd_max_procs = None,
     pd_max_vmem_mb = None, pd_permissions = [], pd_max_fs_access = None, pd_readonly_paths = [],
     pd_writable_paths = []\<rparr>"

text \<open>A file system with one configuration file and one drop-in, whose content is its id.\<close>

definition sample_env0 :: conf_env where
  "sample_env0 = \<lparr>he_private_dir = None, he_temp_dir = ''/tmp'', he_socket_path = ''s'', he_hostname = None,
     he_read_to_string = (\<lambda>p. if p = ''c.yaml'' then Inr ''conf'' else if p = ''d/x.yaml'' then Inr ''x''
                             else Inl ''not found''),
     he_is_dir = (\<lambda>p. p = ''d''), he_read_dir = (\<lambda>p. Inr [''d/x.yaml'', ''d/README'']),
     he_parse_config = (\<lambda>_. Inl []), he_parse_plugin = (\<lambda>i. Inr (sample_plugin_def i))\<rparr>"

definition sample_conf0 :: config where
  "sample_conf0 = (default_config sample_env0)\<lparr>cf_plugins_dir := Some ''d'', cf_max_connections := 0,
     cf_plugins := [sample_plugin_def ''a'']\<rparr>"

definition sample_env :: conf_env where
  "sample_env = sample_env0\<lparr>he_parse_config := (\<lambda>_. Inr sample_conf0)\<rparr>"


end
