(* ===== verification/Commands.thy ===== *)
theory Commands
  imports Event_Bus Config
begin

text \<open>
  Kernel commands, \<^verbatim>\<open>src/kernel/commands.rs\<close>, with the log-level gate of \<^verbatim>\<open>src/utils/logging.rs\<close>
  that \<^verbatim>\<open>reload_config\<close> goes through. The tracing subscriber is a third-party object; \<open>log_state\<close>
  keeps what the code can observe of it: whether a reload handle was installed, whether the
  handle still accepts changes, and the filter last installed.
\<close>

section \<open>Log level\<close>

definition is_log_level_token :: "string \<Rightarrow> bool" where
  "is_log_level_token tok \<longleftrightarrow>
     to_ascii_lowercase tok \<in> {''trace'', ''debug'', ''info'', ''warn'', ''error'', ''off''}
     \<or> tok \<in> {''1'', ''2'', ''3'', ''4'', ''5''}
     \<or> CHR ''='' \<in> set tok"

definition sanitize_log_level :: "string \<Rightarrow> string" where
  "sanitize_log_level level =
    (let trimmed = trim level
     in if trimmed \<noteq> [] \<and> list_all is_log_level_token (split_on (CHR '','') trimmed) then trimmed
        else ''info'')"

record log_state =
  lg_handle :: bool
  lg_modify_ok :: bool
  lg_filter :: string

definition set_log_level :: "string \<Rightarrow> log_state \<Rightarrow> bool \<times> log_state" where
  "set_log_level level l =
    (if lg_handle l
     then if lg_modify_ok l then (True, l\<lparr>lg_filter := sanitize_log_level level\<rparr>) else (False, l)
     else (False, l))"

section \<open>Commands\<close>

record command_outcome =
  co_status :: command_status
  co_data_json :: bytes
  co_error :: string

definition outcome_ok :: "string \<Rightarrow> command_outcome" where
  "outcome_ok d = \<lparr>co_status = CommandOk, co_data_json = d, co_error = []\<rparr>"

definition outcome_err :: "command_status \<Rightarrow> string \<Rightarrow> command_outcome" where
  "outcome_err st e = \<lparr>co_status = st, co_data_json = [], co_error = e\<rparr>"

definition permission_denied :: "string \<Rightarrow> command_outcome" where
  "permission_denied e = outcome_err CommandPermissionDenied e"

definition quote :: string where "quote = [CHR 0x22]"

definition health_check_json :: "nat \<Rightarrow> nat \<Rightarrow> string" where
  "health_check_json uptime_secs plugin_count =
     ''{'' @ quote @ ''uptime_secs'' @ quote @ '':'' @ show_nat uptime_secs @ '','' @ quote
       @ ''plugin_count'' @ quote @ '':'' @ show_nat plugin_count @ ''}''"

definition device_json :: "device_info \<Rightarrow> json" where
  "device_json d = JObj [(''device_id'', JStr (di_device_id d)), (''os'', JStr (device_os_str (di_os d))),
     (''arch'', JStr (di_arch d)), (''os_version'', JStr (di_os_version d)),
     (''capabilities'', json_strs (di_capabilities d)), (''last_seen'', JNum (int (di_last_seen d))),
     (''state'', JStr (device_state_str (di_state d)))]"

definition manifest_json :: "plugin_entry \<Rightarrow> json" where
  "manifest_json e = (let m = pe_manifest e in
     JObj [(''plugin_id'', JStr (pe_plugin_id e)), (''device_id'', JStr (pe_device_id e)),
       (''user_id'', JStr (pe_user_id e)), (''permissions'', json_strs (mf_permissions m)),
       (''actions'', json_strs (mf_actions m)), (''events'', json_strs (mf_events m)),
       (''ipc_targets'', json_strs (mf_ipc_targets m)), (''platforms'', json_strs (mf_platforms m)),
       (''action_specs'', JArr (map action_spec_json (mf_action_specs m)))])"

definition plugin_json :: "plugin_entry \<Rightarrow> json" where
  "plugin_json e = JObj [(''plugin_id'', JStr (pe_plugin_id e)), (''state'', JStr (plugin_state_str (pe_state e))),
     (''actions'', json_strs (mf_actions (pe_manifest e)))]"

definition params_plugin_id :: "wire \<Rightarrow> bytes \<Rightarrow> string" where
  "params_plugin_id W params = (case w_json_parse W params of
      None \<Rightarrow> []
    | Some v \<Rightarrow> (case json_get v ''plugin_id'' of
        None \<Rightarrow> []
      | Some p \<Rightarrow> (case json_as_str p of Some s \<Rightarrow> s | None \<Rightarrow> [])))"

definition get_manifest_command :: "wire \<Rightarrow> registry \<Rightarrow> bytes \<Rightarrow> command_outcome" where
  "get_manifest_command W r params =
    (let plugin_id = params_plugin_id W params
     in case get_plugin r plugin_id of
          Some e \<Rightarrow> outcome_ok (w_json_string W (manifest_json e))
        | None \<Rightarrow> outcome_err CommandError (''plugin not registered: '' @ plugin_id))"

fun join_strs :: "string \<Rightarrow> string list \<Rightarrow> string" where
  "join_strs sep [] = []"
| "join_strs sep [x] = x"
| "join_strs sep (x # y # zs) = x @ sep @ join_strs sep (y # zs)"

definition reload_config_command :: "conf_env \<Rightarrow> string option \<Rightarrow> log_state \<Rightarrow> command_outcome \<times> log_state" where
  "reload_config_command E config_path l = (case config_path of
      None \<Rightarrow> (outcome_err CommandError ''no config path configured'', l)
    | Some path \<Rightarrow> (case load_config E path of
        Inl e \<Rightarrow> (outcome_err CommandError (''config reload failed: '' @ e), l)
      | Inr cfg \<Rightarrow>
          let (ok, l1) = set_log_level (cf_log_level cfg) l;
              items = join_strs (quote @ '','' @ quote) (if ok then [''log_level''] else [])
          in (outcome_ok (''{'' @ quote @ ''reloaded'' @ quote @ '':['' @ quote @ items @ quote @ ''],''
                @ quote @ ''log_level'' @ quote @ '':'' @ quote @ cf_log_level cfg @ quote @ '',''
                @ quote @ ''port'' @ quote @ '':'' @ show_nat (cf_port cfg) @ ''}''), l1)))"

definition dispatch ::
  "wire \<Rightarrow> conf_env \<Rightarrow> string \<Rightarrow> registry \<Rightarrow> nat \<Rightarrow> string option \<Rightarrow> bytes \<Rightarrow> log_state
     \<Rightarrow> command_outcome \<times> log_state" where
  "dispatch W E command r uptime_secs config_path params l =
    (if command = ''health_check'' then
       (outcome_ok (health_check_json uptime_secs (length (list_plugins r))), l)
     else if command = ''list_devices'' then
       (outcome_ok (w_json_string W (JArr (map device_json (list_devices r)))), l)
     else if command = ''get_manifest'' then (get_manifest_command W r params, l)
     else if command = ''list_plugins'' then
       (outcome_ok (w_json_string W (JArr (map plugin_json (list_plugins r)))), l)
     else if command = ''reload_config'' then reload_config_command E config_path l
     else (outcome_err CommandUnknown (''unknown command: '' @ command), l))"

section \<open>Properties\<close>

text \<open>
  No log level can silence the kernel by accident: whatever text a configuration
  carries, what reaches the filter is a non-empty comma-separated list of known levels or
  explicit \<open>target=level\<close> directives, an acceptable level is passed through trimmed, and
  sanitising twice changes nothing.
\<close>

theorem sanitize_log_level_valid:
  "sanitize_log_level level \<noteq> []
   \<and> list_all is_log_level_token (split_on (CHR '','') (sanitize_log_level level))
   \<and> sanitize_log_level (sanitize_log_level level) = sanitize_log_level level"
proof -
  have info: "list_all is_log_level_token (split_on (CHR '','') ''info'')" "''info'' \<noteq> []" "trim ''info'' = ''info''"
    by code_simp+
  show ?thesis
  proof (cases "trim level \<noteq> [] \<and> list_all is_log_level_token (split_on (CHR '','') (trim level))")
    case True
    then have "sanitize_log_level level = trim level" by (simp add: sanitize_log_level_def Let_def)
    with True show ?thesis by (simp add: sanitize_log_level_def [of "trim level"] Let_def)
  next
    case False
    then have "sanitize_log_level level = ''info''" by (auto simp: sanitize_log_level_def Let_def)
    with info show ?thesis by (simp add: sanitize_log_level_def [of "''info''"] Let_def)
  qed
qed

end
