(* ===== verification/Sandbox.thy ===== *)
theory Sandbox
  imports Commands
begin

text \<open>
  The confinement of plugin processes: \<^verbatim>\<open>src/plugins/fsaccess.rs\<close> (the Landlock ruleset and how it
  travels to the shim in the environment), \<^verbatim>\<open>src/plugins/runner.rs\<close> (namespaces, resource limits,
  the per-plugin pids cgroup), \<^verbatim>\<open>src/plugins/seccomp.rs\<close> (the syscall denylist) and the reaping
  loop of \<^verbatim>\<open>src/plugins/shim.rs\<close>. System calls are operations handed to a parameter that says
  whether they succeed; what the code does is the sequence of operations it issues.
\<close>

section \<open>Strings\<close>

text \<open>\<^verbatim>\<open>str::split_whitespace\<close>, \<^verbatim>\<open>str::lines\<close> and the number of characters of UTF-8 text.\<close>

definition at_space :: "string \<Rightarrow> bool" where
  "at_space s \<longleftrightarrow> list_ex (\<lambda>w. starts_with s w) white_space"

fun word_span :: "string \<Rightarrow> string \<times> string" where
  "word_span [] = ([], [])"
| "word_span (c # cs) =
     (if at_space (c # cs) then ([], c # cs) else (case word_span cs of (w, r) \<Rightarrow> (c # w, r)))"

lemma word_span_append: "fst (word_span s) @ snd (word_span s) = s"
  by (induction s) (auto split: prod.splits)

lemma word_span_less: "s \<noteq> [] \<Longrightarrow> \<not> at_space s \<Longrightarrow> length (snd (word_span s)) < length s"
proof (cases s)
  case (Cons c cs)
  assume a: "\<not> at_space s"
  have "length (fst (word_span cs)) + length (snd (word_span cs)) = length cs"
    using word_span_append [of cs] by (metis length_append)
  then have "length (snd (word_span cs)) \<le> length cs" by linarith
  then show ?thesis using a Cons by (auto split: prod.splits)
qed simp

lemma white_space_nonempty: "w \<in> set white_space \<Longrightarrow> w \<noteq> []"
  by (auto simp: white_space_def)

lemma trim_start_not_space: "\<not> at_space (trim_start_of white_space s)"
  unfolding at_space_def list_ex_iff
  using trim_start_of_done [where ws = white_space and s = s] white_space_nonempty by blast

lemma trim_start_of_le: "length (trim_start_of ws s) \<le> length s"
  using trim_start_of_suffix [of s ws] by (metis length_append le_add2)

function split_whitespace :: "string \<Rightarrow> string list" where
  "split_whitespace s =
    (let t = trim_start_of white_space s
     in if t = [] then [] else fst (word_span t) # split_whitespace (snd (word_span t)))"
  by pat_completeness auto
termination
  by (relation "measure length")
     (auto intro: less_le_trans [OF word_span_less [OF _ trim_start_not_space] trim_start_of_le])

declare split_whitespace.simps [simp del]

definition newline :: char where "newline = CHR 0x0A"

definition strip_cr :: "string \<Rightarrow> string" where
  "strip_cr l = (if l \<noteq> [] \<and> last l = CHR 0x0D then butlast l else l)"

definition lines_of :: "string \<Rightarrow> string list" where
  "lines_of s =
    (let ps = split_on newline s in map strip_cr (if last ps = [] then butlast ps else ps))"

definition char_starts :: "string \<Rightarrow> string" where
  "char_starts s = filter (\<lambda>c. \<not> (0x80 \<le> byte_val c \<and> byte_val c < 0xC0)) s"

text \<open>\<^verbatim>\<open>str::parse\<close> for an unsigned integer below \<open>bound\<close>.\<close>

definition parse_uint :: "nat \<Rightarrow> string \<Rightarrow> nat option" where
  "parse_uint bound s =
    (let ds = (case s of c # cs \<Rightarrow> if c = CHR ''+'' then cs else s | [] \<Rightarrow> s)
     in if ds \<noteq> [] \<and> list_all is_ascii_digit ds \<and> read_nat ds < bound then Some (read_nat ds) else None)"

section \<open>Filesystem access\<close>

datatype fs_access_mode = FsFull | FsReadOnly | FsNone

fun fs_as_str :: "fs_access_mode \<Rightarrow> string" where
  "fs_as_str FsFull = ''full''"
| "fs_as_str FsReadOnly = ''read-only''"
| "fs_as_str FsNone = ''none''"

definition fs_parse :: "string \<Rightarrow> fs_access_mode option" where
  "fs_parse s = (if s = ''full'' then Some FsFull
     else if s = ''read-only'' \<or> s = ''readonly'' then Some FsReadOnly
     else if s = ''none'' then Some FsNone else None)"

record fs_restriction =
  fsr_mode :: fs_access_mode
  fsr_readonly_paths :: "string list"
  fsr_writable_paths :: "string list"

definition MAX_FS_ACCESS_ENV :: string where "MAX_FS_ACCESS_ENV = ''VYN_MAX_FS_ACCESS''"
definition RO_PATHS_ENV :: string where "RO_PATHS_ENV = ''VYN_RO_PATHS''"
definition RW_PATHS_ENV :: string where "RW_PATHS_ENV = ''VYN_RW_PATHS''"
definition PATH_SEP :: char where "PATH_SEP = CHR 0x1F"

definition join_paths_env :: "string list \<Rightarrow> string" where
  "join_paths_env paths = join_strs [PATH_SEP] paths"

text \<open>A process environment maps names to values.\<close>

type_synonym environ = "(string, string) dashmap"

definition parse_paths_env :: "environ \<Rightarrow> string \<Rightarrow> string list" where
  "parse_paths_env env name = (case dm_get env name of
      Some v \<Rightarrow> filter (\<lambda>s. s \<noteq> []) (split_on PATH_SEP v)
    | None \<Rightarrow> [])"

definition from_env :: "environ \<Rightarrow> fs_restriction option" where
  "from_env env = (case dm_get env MAX_FS_ACCESS_ENV of
      None \<Rightarrow> None
    | Some v \<Rightarrow> (case fs_parse v of
          None \<Rightarrow> None
        | Some mode \<Rightarrow>
            if mode = FsFull then None
            else Some \<lparr>fsr_mode = mode, fsr_readonly_paths = parse_paths_env env RO_PATHS_ENV,
                       fsr_writable_paths = parse_paths_env env RW_PATHS_ENV\<rparr>))"

text \<open>
  The access sets are constants of the landlock crate: \<^verbatim>\<open>from_all\<close>, \<^verbatim>\<open>from_read\<close>, \<^verbatim>\<open>ReadFile | Execute\<close>,
  \<^verbatim>\<open>from_file\<close> and \<^verbatim>\<open>ResolveUnix\<close>. The file system answers existence questions.
\<close>

datatype fs_access = AccessAll | AccessRead | AccessFileRead | AccessFileWrite | AccessSocket

fun can_write :: "fs_access \<Rightarrow> bool" where
  "can_write AccessAll = True"
| "can_write AccessFileWrite = True"
| "can_write _ = False"

record host_fs =
  hf_exists :: "string \<Rightarrow> bool"
  hf_is_dir :: "string \<Rightarrow> bool"
  hf_open :: "string \<Rightarrow> string option"
  hf_canonicalize :: "string \<Rightarrow> string option"
  hf_path_dirs :: "string list option"

definition default_system_read_dirs :: "string list" where
  "default_system_read_dirs = [''/usr/lib'', ''/usr/lib64'', ''/lib'', ''/lib64'']"

text \<open>\<^verbatim>\<open>Path::components().count()\<close> of a relative path: repeated separators, trailing ones and inner
  dots do not count.\<close>

definition relative_components :: "string \<Rightarrow> string list" where
  "relative_components p =
    (let ps = filter (\<lambda>s. s \<noteq> []) (split_on CHR ''/'' p)
     in case ps of [] \<Rightarrow> [] | q # qs \<Rightarrow> q # filter (\<lambda>s. s \<noteq> ''.'') qs)"

definition resolve_binary_path :: "host_fs \<Rightarrow> string \<Rightarrow> string" where
  "resolve_binary_path H binary =
    (if starts_with binary ''/'' then binary
     else if length (relative_components binary) > 1
     then (case hf_canonicalize H binary of Some p \<Rightarrow> p | None \<Rightarrow> binary)
     else case hf_path_dirs H of
         None \<Rightarrow> binary
       | Some dirs \<Rightarrow> (case find (\<lambda>d. hf_exists H (path_join d binary)) dirs of
             Some d \<Rightarrow> path_join d binary
           | None \<Rightarrow> binary))"

type_synonym landlock_rule = "string \<times> fs_access"

definition rule_for :: "host_fs \<Rightarrow> string \<Rightarrow> fs_access \<Rightarrow> fs_access \<Rightarrow> string + landlock_rule option" where
  "rule_for H path dir_access file_access =
    (if \<not> hf_exists H path then Inr None
     else case hf_open H path of
         Some e \<Rightarrow> Inl e
       | None \<Rightarrow> Inr (Some (path, if hf_is_dir H path then dir_access else file_access)))"

text \<open>The paths of \<^verbatim>\<open>apply\<close> in the order in which their rules are added.\<close>

definition wanted_rules :: "host_fs \<Rightarrow> fs_restriction \<Rightarrow> string \<Rightarrow> string option \<Rightarrow> (string \<times> fs_access \<times> fs_access) list" where
  "wanted_rules H r plugin_binary socket_path =
     map (\<lambda>d. (d, AccessRead, AccessFileRead)) default_system_read_dirs
     @ (case path_parent (resolve_binary_path H plugin_binary) of
          Some dir \<Rightarrow> if dir \<noteq> [] then [(dir, AccessRead, AccessFileRead)] else []
        | None \<Rightarrow> [])
     @ [(''/etc/ld.so.cache'', AccessRead, AccessFileRead)]
     @ (case socket_path of Some sp \<Rightarrow> [(sp, AccessSocket, AccessSocket)] | None \<Rightarrow> [])
     @ (if fsr_mode r = FsReadOnly
        then map (\<lambda>p. (p, AccessRead, AccessFileRead)) (fsr_readonly_paths r) else [])
     @ map (\<lambda>p. (p, AccessAll, AccessFileWrite)) (fsr_writable_paths r)"

fun collect_rules :: "host_fs \<Rightarrow> (string \<times> fs_access \<times> fs_access) list \<Rightarrow> string + landlock_rule list" where
  "collect_rules H [] = Inr []"
| "collect_rules H ((p, d, f) # ws) = (case rule_for H p d f of
      Inl e \<Rightarrow> Inl e
    | Inr r \<Rightarrow> (case collect_rules H ws of
          Inl e \<Rightarrow> Inl e
        | Inr rs \<Rightarrow> Inr ((case r of Some x \<Rightarrow> [x] | None \<Rightarrow> []) @ rs)))"

text \<open>\<open>restrict_self rules\<close> is what the crate reports: an error of any of its calls, or whether the
  kernel enforces the ruleset.\<close>

definition fs_apply ::
  "host_fs \<Rightarrow> (landlock_rule list \<Rightarrow> string + bool) \<Rightarrow> fs_restriction \<Rightarrow> string \<Rightarrow> string option
   \<Rightarrow> string + landlock_rule list" where
  "fs_apply H restrict_self r plugin_binary socket_path =
    (case collect_rules H (wanted_rules H r plugin_binary socket_path) of
       Inl e \<Rightarrow> Inl e
     | Inr rules \<Rightarrow> (case restrict_self rules of
           Inl e \<Rightarrow> Inl e
         | Inr enforced \<Rightarrow>
             if enforced then Inr rules
             else Inl (''Landlock not enforced '' @ em_dash @ '' kernel too old or Landlock unavailable'')))"

section \<open>Limits and namespaces\<close>

definition DEFAULT_MAX_PROCS :: nat where "DEFAULT_MAX_PROCS = 1024"
definition DEFAULT_MAX_VMEM_MB :: nat where "DEFAULT_MAX_VMEM_MB = 2048"
definition VYN_CGROUP_DIR :: string where "VYN_CGROUP_DIR = ''vyn''"

datatype sys_op =
    UnshareUser
  | UnshareNet
  | WriteFile string string
  | SetRlimitAs nat
  | MkDirAll string
  | RemoveDir string
  | Chmod string nat

text \<open>Operations are performed in order; \<open>sys\<close> says which succeed, and the first failure ends the
  sequence with its error.\<close>

type_synonym sys = "sys_op \<Rightarrow> string option"

fun run_ops :: "('op \<Rightarrow> string option) \<Rightarrow> 'op list \<Rightarrow> 'op list \<times> string option" where
  "run_ops sys [] = ([], None)"
| "run_ops sys (x # xs) = (case sys x of
      Some e \<Rightarrow> ([x], Some e)
    | None \<Rightarrow> (case run_ops sys xs of (performed, res) \<Rightarrow> (x # performed, res)))"

definition join_pids_cgroup :: "nat \<Rightarrow> string \<Rightarrow> sys_op" where
  "join_pids_cgroup own_pid path = WriteFile (path_join path ''cgroup.procs'') (show_nat own_pid @ [newline])"

text \<open>A failed join is tolerated, a failed \<^verbatim>\<open>setrlimit\<close> is not; the product is a \<^verbatim>\<open>u64\<close>.\<close>

definition apply_resource_limits ::
  "sys \<Rightarrow> nat \<Rightarrow> nat \<Rightarrow> nat \<Rightarrow> string option \<Rightarrow> sys_op list \<times> string option" where
  "apply_resource_limits sys own_pid max_procs max_vmem_mb pids_cgroup =
    (let join = (case pids_cgroup of Some path \<Rightarrow> [join_pids_cgroup own_pid path] | None \<Rightarrow> []);
         (performed, res) = run_ops sys
           (if max_vmem_mb = 0 then [] else [SetRlimitAs (max_vmem_mb * 1024 * 1024 mod 2 ^ 64)])
     in (join @ performed, res))"

definition sandbox_pre_exec ::
  "sys \<Rightarrow> nat \<Rightarrow> nat \<Rightarrow> nat \<Rightarrow> nat \<Rightarrow> nat \<Rightarrow> string option \<Rightarrow> sys_op list \<times> string option" where
  "sandbox_pre_exec sys uid gid own_pid max_procs max_vmem_mb pids_cgroup =
    (let (performed, res) = run_ops sys
           ((if uid \<noteq> 0 then
               [UnshareUser, WriteFile ''/proc/self/setgroups'' (''deny'' @ [newline]),
                WriteFile ''/proc/self/uid_map'' (''0 '' @ show_nat uid @ '' 1'' @ [newline]),
                WriteFile ''/proc/self/gid_map'' (''0 '' @ show_nat gid @ '' 1'' @ [newline])]
             else []) @ [UnshareNet])
     in case res of
          Some e \<Rightarrow> (performed, Some e)
        | None \<Rightarrow> (case apply_resource_limits sys own_pid max_procs max_vmem_mb pids_cgroup of
              (ops, res2) \<Rightarrow> (performed @ ops, res2)))"

section \<open>The pids cgroup\<close>

definition parse_cgroup_v2_line :: "string \<Rightarrow> string option" where
  "parse_cgroup_v2_line line = (case strip_prefix line ''0::'' of
      None \<Rightarrow> None
    | Some r \<Rightarrow> (let path = trim r in if path = [] then None else Some path))"

fun find_map :: "('a \<Rightarrow> 'b option) \<Rightarrow> 'a list \<Rightarrow> 'b option" where
  "find_map f [] = None"
| "find_map f (x # xs) = (case f x of Some y \<Rightarrow> Some y | None \<Rightarrow> find_map f xs)"

text \<open>\<^verbatim>\<open>contents\<close> is what reading \<^verbatim>\<open>/proc/self/cgroup\<close> yields.\<close>

definition cgroup_relative_path :: "string option \<Rightarrow> string option" where
  "cgroup_relative_path contents = (case contents of
      None \<Rightarrow> None
    | Some c \<Rightarrow> find_map parse_cgroup_v2_line (lines_of c))"

definition normal_components :: "string \<Rightarrow> string list" where
  "normal_components p = filter (\<lambda>s. s \<noteq> [] \<and> s \<noteq> ''.'' \<and> s \<noteq> ''..'') (split_on CHR ''/'' p)"

fun extend_paths :: "string \<Rightarrow> string list \<Rightarrow> string list" where
  "extend_paths acc [] = []"
| "extend_paths acc (part # parts) = path_join acc part # extend_paths (path_join acc part) parts"

definition ancestor_paths :: "string \<Rightarrow> string list" where
  "ancestor_paths self_path = ''/'' # extend_paths ''/'' (normal_components self_path)"

definition sanitize_char :: "char \<Rightarrow> char" where
  "sanitize_char c = (if is_ascii_alphanumeric c \<or> c \<in> {CHR ''.'', CHR ''_'', CHR ''-''} then c else CHR ''_'')"

definition sanitize_plugin_id :: "string \<Rightarrow> string" where
  "sanitize_plugin_id plugin_id =
    (let s = map sanitize_char (take 63 (char_starts plugin_id))
     in if s = [] \<or> s = ''.'' \<or> s = ''..'' then ''plugin'' else s)"

text \<open>The cgroup file system as the code finds it: whether version 2 is mounted, this process's
  membership file, and the contents of the control files.\<close>

record cgroup_fs =
  cg_v2 :: bool
  cg_self :: "string option"
  cg_subtree_control :: "string \<Rightarrow> string option"

definition has_pids_controller :: "cgroup_fs \<Rightarrow> string \<Rightarrow> bool" where
  "has_pids_controller G dir = (case cg_subtree_control G dir of
      None \<Rightarrow> False
    | Some ctl \<Rightarrow> ''pids'' \<in> set (split_whitespace ctl))"

text \<open>The operations of \<^verbatim>\<open>enable_pids_controller\<close>, or the failure to read the control file.\<close>

definition enable_pids_controller :: "cgroup_fs \<Rightarrow> sys \<Rightarrow> string \<Rightarrow> sys_op list \<times> bool" where
  "enable_pids_controller G sys dir = (case cg_subtree_control G dir of
      None \<Rightarrow> ([], False)
    | Some ctl \<Rightarrow>
        if ''pids'' \<in> set (split_whitespace ctl) then ([], True)
        else let w = WriteFile (path_join dir ''cgroup.subtree_control'') (''+pids'' @ [newline])
             in ([w], sys w = None))"

definition try_scope ::
  "cgroup_fs \<Rightarrow> sys \<Rightarrow> string \<Rightarrow> nat \<Rightarrow> string \<Rightarrow> sys_op list \<times> string option" where
  "try_scope G sys scope_name max_procs ancestor =
    (let dir = path_join ''/sys/fs/cgroup''
           (case strip_prefix ancestor ''/'' of Some r \<Rightarrow> r | None \<Rightarrow> ancestor)
     in if \<not> has_pids_controller G dir then ([], None)
        else let container = path_join dir VYN_CGROUP_DIR; mk = MkDirAll container
             in if sys mk \<noteq> None then ([mk], None)
                else let (en, enabled) = enable_pids_controller G sys container
                     in if \<not> enabled then (mk # en, None)
                        else let scope = path_join container scope_name; mk2 = MkDirAll scope
                             in if sys mk2 \<noteq> None then (mk # en @ [mk2], None)
                                else let w = WriteFile (path_join scope ''pids.max'') (show_nat max_procs @ [newline])
                                     in if sys w = None then (mk # en @ [mk2, w], Some scope)
                                        else (mk # en @ [mk2, w, RemoveDir scope], None))"

fun try_scopes ::
  "cgroup_fs \<Rightarrow> sys \<Rightarrow> string \<Rightarrow> nat \<Rightarrow> string list \<Rightarrow> sys_op list \<times> string option" where
  "try_scopes G sys scope_name max_procs [] = ([], None)"
| "try_scopes G sys scope_name max_procs (a # as) =
    (case try_scope G sys scope_name max_procs a of
       (ops, Some scope) \<Rightarrow> (ops, Some scope)
     | (ops, None) \<Rightarrow> (case try_scopes G sys scope_name max_procs as of (ops2, res) \<Rightarrow> (ops @ ops2, res)))"

definition prepare_pids_cgroup :: "cgroup_fs \<Rightarrow> sys \<Rightarrow> string \<Rightarrow> nat \<Rightarrow> sys_op list \<times> string option" where
  "prepare_pids_cgroup G sys plugin_id max_procs =
    (if \<not> cg_v2 G then ([], None)
     else case cgroup_relative_path (cg_self G) of
         None \<Rightarrow> ([], None)
       | Some self_cgroup \<Rightarrow>
           try_scopes G sys (sanitize_plugin_id plugin_id) max_procs (ancestor_paths self_cgroup))"

section \<open>System calls\<close>

definition denied :: "string list" where
  "denied = [''ptrace'', ''bpf'', ''keyctl'', ''add_key'', ''request_key'', ''reboot'', ''kexec_load'',
     ''kexec_file_load'', ''init_module'', ''finit_module'', ''delete_module'', ''mount'', ''umount2'',
     ''pivot_root'', ''chroot'', ''setns'', ''open_tree'', ''move_mount'', ''fsopen'', ''fsconfig'',
     ''fspick'', ''mount_setattr'', ''open_by_handle_at'', ''name_to_handle_at'', ''process_vm_readv'',
     ''process_vm_writev'', ''perf_event_open'', ''userfaultfd'', ''io_uring_setup'', ''io_uring_enter'',
     ''io_uring_register'', ''kcmp'', ''swapon'', ''swapoff'', ''acct'', ''syslog'', ''sethostname'',
     ''setdomainname'', ''modify_ldt'', ''quotactl'', ''lookup_dcookie'', ''vhangup'', ''fanotify_init'']"

section \<open>The shim\<close>

text \<open>
  One round of the shim's reaping loop: what \<^verbatim>\<open>waitpid\<close> reports, the time, and whether the signal
  handler has forwarded a terminal signal. The shim ends with an exit code or an error, or sleeps
  and polls again; a \<^verbatim>\<open>SIGKILL\<close> is recorded when it is sent.
\<close>

datatype wait_status = Exited int | Signaled int | StillAlive | Interrupted | WaitError string

record shim_state =
  sh_kill_deadline :: "nat option"
  sh_sigkill_sent :: bool
  sh_kills :: nat
  sh_result :: "(string + int) option"

record shim_poll =
  sp_status :: wait_status
  sp_now :: nat
  sp_now2 :: nat
  sp_forwarded :: bool

definition shim_start :: shim_state where
  "shim_start = \<lparr>sh_kill_deadline = None, sh_sigkill_sent = False, sh_kills = 0, sh_result = None\<rparr>"

definition shim_escalate :: "nat \<Rightarrow> shim_poll \<Rightarrow> shim_state \<Rightarrow> shim_state" where
  "shim_escalate grace_secs p s =
    (let s1 = (if sp_forwarded p \<and> sh_kill_deadline s = None
               then s\<lparr>sh_kill_deadline := Some (sp_now p + grace_secs)\<rparr> else s)
     in if (case sh_kill_deadline s1 of Some d \<Rightarrow> sp_now2 p \<ge> d | None \<Rightarrow> False)
        then (if \<not> sh_sigkill_sent s1 then s1\<lparr>sh_sigkill_sent := True, sh_kills := sh_kills s1 + 1\<rparr> else s1)
        else s1)"

definition shim_round :: "nat \<Rightarrow> shim_poll \<Rightarrow> shim_state \<Rightarrow> shim_state" where
  "shim_round grace_secs p s =
    (if sh_result s \<noteq> None then s
     else case sp_status p of
         Exited code \<Rightarrow> s\<lparr>sh_result := Some (Inr code)\<rparr>
       | Signaled sig \<Rightarrow> s\<lparr>sh_result := Some (Inr (128 + sig))\<rparr>
       | StillAlive \<Rightarrow> shim_escalate grace_secs p s
       | Interrupted \<Rightarrow> s
       | WaitError e \<Rightarrow> s\<lparr>sh_result := Some (Inl e)\<rparr>)"

definition shim_reap :: "nat \<Rightarrow> shim_poll list \<Rightarrow> shim_state \<Rightarrow> shim_state" where
  "shim_reap grace_secs ps s = fold (shim_round grace_secs) ps s"

definition shim_grace_secs :: "environ \<Rightarrow> nat" where
  "shim_grace_secs env = (case dm_get env ''VYN_SHIM_GRACE_SECS'' of
      None \<Rightarrow> 5
    | Some v \<Rightarrow> (case parse_uint (2 ^ 64) v of Some n \<Rightarrow> n | None \<Rightarrow> 5))"

end
