(* ===== verification/Supervisor.thy ===== *)
theory Supervisor
  imports Sandbox
begin

text \<open>
  The process supervisor, \<^verbatim>\<open>src/plugins/supervisor/\<close>: spawning, stopping and restarting plugin
  processes, the monitor loop with its restart policy and backoff, the watchdog and the
  shutdown. The state is the supervisor's fields together with what its tasks hold: the spawns
  in flight, the children not yet reaped, the queue of exit events, the position of the monitor
  loop, and the signals sent. Code between two await points is one step. Epochs and restart
  counts are unbounded numbers; the code's 64 and 32 bits are not exhausted by any real run.
\<close>

section \<open>Data\<close>

datatype restart_policy = Always | OnFailure | Never

record plugin_config =
  pc_plugin_id :: string
  pc_binary_path :: string
  pc_args :: "string list"
  pc_env :: "string list"
  pc_restart_policy :: restart_policy
  pc_max_restarts :: nat
  pc_sandbox :: bool
  pc_grace_seconds :: nat
  pc_max_procs :: "nat option"
  pc_max_vmem_mb :: "nat option"
  pc_max_fs_access :: fs_access_mode
  pc_readonly_paths :: "string list"
  pc_writable_paths :: "string list"

record plugin_process =
  pp_plugin_id :: string
  pp_pid :: nat

record sup_entry =
  se_config :: plugin_config
  se_restart_count :: nat
  se_pid :: nat
  se_shim_pid :: "nat option"
  se_epoch :: nat

definition signal_target :: "sup_entry \<Rightarrow> nat" where
  "signal_target e = (case se_shim_pid e of Some p \<Rightarrow> p | None \<Rightarrow> se_pid e)"

record exit_event =
  xe_plugin_id :: string
  xe_epoch :: nat
  xe_pid :: nat
  xe_success :: bool

datatype signal = SIGTERM | SIGKILL

record supervisor =
  sv_socket_path :: string
  sv_data_dir :: "string option"
  sv_entries :: "(string, sup_entry) dashmap"
  sv_log_buffers :: "(string, string list) dashmap"
  sv_max_log_lines :: nat
  sv_has_bus :: bool
  sv_forced_restarts :: "(string, unit) dashmap"
  sv_stopped_counts :: "(string, nat) dashmap"
  sv_next_epoch :: nat
  sv_stopped_epochs :: "(string, nat) dashmap"
  sv_backoff_base_ms :: nat
  sv_backoff_max_ms :: nat

definition supervisor_with_events :: "string \<Rightarrow> nat \<Rightarrow> bool \<Rightarrow> nat \<Rightarrow> nat \<Rightarrow> supervisor" where
  "supervisor_with_events socket_path max_log_lines has_bus base_ms max_ms =
     \<lparr>sv_socket_path = socket_path, sv_data_dir = None, sv_entries = [], sv_log_buffers = [],
      sv_max_log_lines = max_log_lines, sv_has_bus = has_bus, sv_forced_restarts = [],
      sv_stopped_counts = [], sv_next_epoch = 0, sv_stopped_epochs = [],
      sv_backoff_base_ms = base_ms, sv_backoff_max_ms = max_ms\<rparr>"

definition set_data_dir :: "string \<Rightarrow> supervisor \<Rightarrow> supervisor" where
  "set_data_dir dir s = s\<lparr>sv_data_dir := Some dir\<rparr>"

section \<open>Queries\<close>

definition get_logs :: "supervisor \<Rightarrow> string \<Rightarrow> nat \<Rightarrow> string list" where
  "get_logs s plugin_id n = (case dm_get (sv_log_buffers s) plugin_id of
      None \<Rightarrow> []
    | Some buf \<Rightarrow> drop (length buf - n) buf)"

definition is_running :: "supervisor \<Rightarrow> string \<Rightarrow> bool" where
  "is_running s plugin_id \<longleftrightarrow> dm_get (sv_entries s) plugin_id \<noteq> None"

definition grace_seconds_for :: "supervisor \<Rightarrow> string \<Rightarrow> nat option" where
  "grace_seconds_for s plugin_id = (case dm_get (sv_entries s) plugin_id of
      None \<Rightarrow> None
    | Some e \<Rightarrow> let g = pc_grace_seconds (se_config e) in if g > 0 then Some g else None)"

definition restart_count :: "supervisor \<Rightarrow> string \<Rightarrow> nat option" where
  "restart_count s plugin_id = (case dm_get (sv_entries s) plugin_id of
      Some e \<Rightarrow> Some (se_restart_count e)
    | None \<Rightarrow> dm_get (sv_stopped_counts s) plugin_id)"

definition sat_mul_u64 :: "nat \<Rightarrow> nat \<Rightarrow> nat" where
  "sat_mul_u64 a b = min (a * b) (2 ^ 64 - 1)"

definition backoff_delay :: "supervisor \<Rightarrow> nat \<Rightarrow> nat" where
  "backoff_delay s count = min (sat_mul_u64 (sv_backoff_base_ms s) (2 ^ min count 8)) (sv_backoff_max_ms s)"

text \<open>\<^verbatim>\<open>drain_to_log\<close>: one line of a child's output enters the plugin's ring buffer.\<close>

definition push_log :: "nat \<Rightarrow> string \<Rightarrow> string list \<Rightarrow> string list" where
  "push_log max_lines line buf = (if length buf \<ge> max_lines then tl buf else buf) @ [line]"

section \<open>Building the command\<close>

record command =
  cmd_program :: string
  cmd_args :: "string list"
  cmd_env :: environ

text \<open>What a spawn asks of the machine: the shim binary's environment override and our own
  executable, whether a directory can be made, cgroups, and the debug switches.\<close>

record spawn_host =
  hs_env :: environ
  hs_current_exe :: "string option"
  hs_create_dir :: "string \<Rightarrow> bool"
  hs_cgroup :: cgroup_fs
  hs_sys :: sys
  hs_uid :: nat
  hs_gid :: nat
  hs_debug_line :: "string option \<Rightarrow> string"

definition sandbox_shim_bin :: "spawn_host \<Rightarrow> string" where
  "sandbox_shim_bin h = (case dm_get (hs_env h) ''VYN_SHIM_BIN'' of
      Some b \<Rightarrow> b
    | None \<Rightarrow> (case hs_current_exe h of Some e \<Rightarrow> e | None \<Rightarrow> ''vyn''))"

definition plugin_data_dir :: "spawn_host \<Rightarrow> supervisor \<Rightarrow> plugin_config \<Rightarrow> string option" where
  "plugin_data_dir h s c = (case sv_data_dir s of
      None \<Rightarrow> None
    | Some d \<Rightarrow> let p = path_join (path_join d ''plugins'') (pc_plugin_id c)
                in if hs_create_dir h p then Some p else None)"

definition set_env_var :: "string \<Rightarrow> environ \<Rightarrow> environ" where
  "set_env_var kv env = (case split_once kv CHR ''='' of Some (k, v) \<Rightarrow> dm_insert k v env | None \<Rightarrow> env)"

definition shim_env :: "plugin_config \<Rightarrow> string list \<Rightarrow> environ" where
  "shim_env c writable_paths =
    (let e1 = (if pc_grace_seconds c > 0
               then dm_insert ''VYN_SHIM_GRACE_SECS'' (show_nat (pc_grace_seconds c)) [] else [])
     in if pc_max_fs_access c \<noteq> FsFull
        then dm_insert ''VYN_RW_PATHS'' (join_paths_env writable_paths)
               (dm_insert ''VYN_RO_PATHS'' (join_paths_env (pc_readonly_paths c))
                 (dm_insert ''VYN_MAX_FS_ACCESS'' (fs_as_str (pc_max_fs_access c)) e1))
        else e1)"

definition build_command :: "spawn_host \<Rightarrow> supervisor \<Rightarrow> plugin_config \<Rightarrow> command" where
  "build_command h s c =
    (let data_dir = plugin_data_dir h s c;
         writable_paths = pc_writable_paths c @ (case data_dir of Some p \<Rightarrow> [p] | None \<Rightarrow> []);
         (program, args, env) =
           (if pc_sandbox c
            then (sandbox_shim_bin h, [''__shim'', pc_binary_path c], shim_env c writable_paths)
            else (pc_binary_path c, [], []));
         env1 = dm_insert ''VYN_SOCKET_PATH'' (sv_socket_path s) env;
         env2 = (case data_dir of Some d \<Rightarrow> dm_insert ''VYN_DATA_DIR'' d env1 | None \<Rightarrow> env1)
     in \<lparr>cmd_program = program, cmd_args = args @ pc_args c, cmd_env = fold set_env_var (pc_env c) env2\<rparr>)"

definition debug_switch :: "spawn_host \<Rightarrow> string \<Rightarrow> bool" where
  "debug_switch h name \<longleftrightarrow> dm_get (hs_env h) name = Some ''1''"

definition spawn_cgroup :: "spawn_host \<Rightarrow> plugin_config \<Rightarrow> sys_op list \<times> string option" where
  "spawn_cgroup h c =
    (if debug_switch h ''VYN_DEBUG_SKIP_CGROUP'' then ([], None)
     else prepare_pids_cgroup (hs_cgroup h) (hs_sys h) (pc_plugin_id c)
            (case pc_max_procs c of Some n \<Rightarrow> n | None \<Rightarrow> DEFAULT_MAX_PROCS))"

text \<open>The \<^verbatim>\<open>pre_exec\<close> hook, run in the child before it executes the program.\<close>

definition pre_exec_hook :: "spawn_host \<Rightarrow> plugin_config \<Rightarrow> nat \<Rightarrow> string option \<Rightarrow> sys_op list \<times> string option" where
  "pre_exec_hook h c own_pid cgroup =
    (let max_procs = (case pc_max_procs c of Some n \<Rightarrow> n | None \<Rightarrow> DEFAULT_MAX_PROCS);
         max_vmem_mb = (case pc_max_vmem_mb c of Some n \<Rightarrow> n | None \<Rightarrow> DEFAULT_MAX_VMEM_MB)
     in if debug_switch h ''VYN_DEBUG_SKIP_RLIMITS'' then ([], None)
        else if pc_sandbox c
        then sandbox_pre_exec (hs_sys h) (hs_uid h) (hs_gid h) own_pid max_procs max_vmem_mb cgroup
        else apply_resource_limits (hs_sys h) own_pid max_procs max_vmem_mb cgroup)"

section \<open>Spawning\<close>

text \<open>
  A spawn is begun, which takes an epoch and issues the command, and ended when the operating system
  and, for a sandboxed plugin, the shim's handshake have answered.
\<close>

record spawn_ticket =
  st_config :: plugin_config
  st_restart_count :: nat
  st_epoch :: nat
  st_command :: command
  st_cgroup :: "string option"

datatype handshake = PidLine "string option" | LineTimeout | LineError string

datatype spawn_outcome =
    SpawnError string
  | ChildStarted "nat option" handshake

record child =
  ch_plugin_id :: string
  ch_epoch :: nat
  ch_pid :: nat
  ch_shim_pid :: "nat option"
  ch_cgroup :: "string option"

text \<open>Where the monitor loop is: waiting for an exit event, sleeping before a restart, or in the
  restart's spawn.\<close>

datatype monitor =
    MonIdle
  | MonBackoff exit_event plugin_config nat
  | MonSpawning nat

record world =
  w_sup :: supervisor
  w_inflight :: "spawn_ticket list"
  w_children :: "child list"
  w_queue :: "exit_event list"
  w_monitor :: monitor
  w_signals :: "(nat \<times> signal) list"
  w_ops :: "sys_op list"
  w_published :: "event list"

definition spawn_begin ::
  "spawn_host \<Rightarrow> plugin_config \<Rightarrow> nat \<Rightarrow> nat option \<Rightarrow> world \<Rightarrow> spawn_ticket result \<times> world" where
  "spawn_begin h c count replace_epoch w =
    (let s = w_sup w
     in if replace_epoch = None \<and> is_running s (pc_plugin_id c)
        then (Inl (PluginAlreadyRunning (pc_plugin_id c)), w)
        else let (ops, cgroup) = spawn_cgroup h c;
                 t = \<lparr>st_config = c, st_restart_count = count, st_epoch = sv_next_epoch s + 1,
                      st_command = build_command h s c, st_cgroup = cgroup\<rparr>
             in (Inr t, w\<lparr>w_sup := s\<lparr>sv_next_epoch := sv_next_epoch s + 1\<rparr>,
                          w_inflight := w_inflight w @ [t], w_ops := w_ops w @ ops\<rparr>))"

definition cleanup_pids_cgroup :: "string option \<Rightarrow> sys_op list" where
  "cleanup_pids_cgroup cgroup = (case cgroup of Some p \<Rightarrow> [RemoveDir p] | None \<Rightarrow> [])"

definition spawn_pids :: "spawn_host \<Rightarrow> plugin_config \<Rightarrow> nat option \<Rightarrow> handshake \<Rightarrow> (nat \<times> nat option) result" where
  "spawn_pids h c child_id hand =
    (if pc_sandbox c
     then (case hand of
         LineTimeout \<Rightarrow> Inl (Internal ''sandbox shim did not report a plugin pid within 15s'')
       | LineError e \<Rightarrow> Inl (Io e)
       | PidLine line \<Rightarrow>
           (case Option.bind line (\<lambda>l. parse_uint (2 ^ 32) (trim l)) of
              Some p \<Rightarrow>
                if p > 0 then (case child_id of Some sp \<Rightarrow> Inr (p, Some sp) | None \<Rightarrow> Inl (Internal ''no shim pid''))
                else Inl (Internal (''sandbox shim exited before the plugin started (line: '' @ hs_debug_line h line @ '')''))
            | None \<Rightarrow> Inl (Internal (''sandbox shim exited before the plugin started (line: '' @ hs_debug_line h line @ '')''))))
     else (case child_id of Some p \<Rightarrow> Inr (p, None) | None \<Rightarrow> Inl (Internal ''no pid'')))"

text \<open>A shim that exits without a pid line is killed and its cgroup removed; the other failures of the
  handshake return without either.\<close>

definition pid_line_failed :: "plugin_config \<Rightarrow> handshake \<Rightarrow> bool" where
  "pid_line_failed c hand \<longleftrightarrow> pc_sandbox c \<and> (case hand of
      PidLine line \<Rightarrow> (case Option.bind line (\<lambda>l. parse_uint (2 ^ 32) (trim l)) of Some p \<Rightarrow> p = 0 | None \<Rightarrow> True)
    | _ \<Rightarrow> False)"

definition spawn_end :: "spawn_host \<Rightarrow> spawn_ticket \<Rightarrow> spawn_outcome \<Rightarrow> world \<Rightarrow> plugin_process result \<times> world" where
  "spawn_end h t out w =
    (let c = st_config t; pid = pc_plugin_id c;
         w0 = w\<lparr>w_inflight := filter (\<lambda>u. st_epoch u \<noteq> st_epoch t) (w_inflight w),
                w_monitor := (if w_monitor w = MonSpawning (st_epoch t) then MonIdle else w_monitor w)\<rparr>
     in case out of
          SpawnError e \<Rightarrow> (Inl (Io e), w0\<lparr>w_ops := w_ops w0 @ cleanup_pids_cgroup (st_cgroup t)\<rparr>)
        | ChildStarted child_id hand \<Rightarrow>
            let w1 = w0\<lparr>w_sup := (w_sup w0)\<lparr>sv_log_buffers := dm_insert pid [] (sv_log_buffers (w_sup w0))\<rparr>\<rparr>
            in case spawn_pids h c child_id hand of
                 Inl e \<Rightarrow>
                   (Inl e, if pid_line_failed c hand
                           then w1\<lparr>w_signals := w_signals w1 @ (case child_id of Some p \<Rightarrow> [(p, SIGKILL)] | None \<Rightarrow> []),
                                   w_ops := w_ops w1 @ cleanup_pids_cgroup (st_cgroup t)\<rparr>
                           else w1)
               | Inr (p, shim) \<Rightarrow>
                   let s1 = w_sup w1;
                       entry = \<lparr>se_config = c, se_restart_count = st_restart_count t, se_pid = p,
                                se_shim_pid = shim, se_epoch = st_epoch t\<rparr>;
                       ch = \<lparr>ch_plugin_id = pid, ch_epoch = st_epoch t, ch_pid = p, ch_shim_pid = shim,
                             ch_cgroup = st_cgroup t\<rparr>
                   in (Inr \<lparr>pp_plugin_id = pid, pp_pid = p\<rparr>,
                       w1\<lparr>w_sup := s1\<lparr>sv_entries := dm_insert pid entry (sv_entries s1)\<rparr>,
                          w_children := w_children w1 @ [ch]\<rparr>))"

text \<open>\<^verbatim>\<open>spawn_internal\<close> run without interference: begun and ended at once.\<close>

definition spawn_internal ::
  "spawn_host \<Rightarrow> plugin_config \<Rightarrow> nat \<Rightarrow> nat option \<Rightarrow> spawn_outcome \<Rightarrow> world \<Rightarrow> plugin_process result \<times> world" where
  "spawn_internal h c count replace_epoch out w =
    (case spawn_begin h c count replace_epoch w of
       (Inl e, w1) \<Rightarrow> (Inl e, w1)
     | (Inr t, w1) \<Rightarrow> spawn_end h t out w1)"

definition spawn_plugin :: "spawn_host \<Rightarrow> plugin_config \<Rightarrow> spawn_outcome \<Rightarrow> world \<Rightarrow> plugin_process result \<times> world" where
  "spawn_plugin h c out w = spawn_internal h c 0 None out w"

text \<open>The wait task of a child: the orphan sweep of a sandboxed plugin, the removal of the
  cgroup (which the code retries while the directory still has tasks), and the exit event.\<close>

definition child_exited :: "child \<Rightarrow> bool \<Rightarrow> bool \<Rightarrow> world \<Rightarrow> world" where
  "child_exited ch plugin_alive success w =
     w\<lparr>w_children := filter (\<lambda>x. ch_epoch x \<noteq> ch_epoch ch) (w_children w),
       w_signals := w_signals w @ (if ch_shim_pid ch \<noteq> None \<and> plugin_alive then [(ch_pid ch, SIGKILL)] else []),
       w_ops := w_ops w @ cleanup_pids_cgroup (ch_cgroup ch),
       w_queue := w_queue w @ [\<lparr>xe_plugin_id = ch_plugin_id ch, xe_epoch = ch_epoch ch, xe_pid = ch_pid ch,
                               xe_success = success\<rparr>]\<rparr>"

section \<open>Stopping and restarting\<close>

text \<open>\<open>exits_in_time\<close> says whether the process tree is reaped within the grace period.\<close>

definition stop_plugin :: "string \<Rightarrow> bool \<Rightarrow> world \<Rightarrow> unit result \<times> world" where
  "stop_plugin plugin_id exits_in_time w =
    (let s = w_sup w
     in case dm_get (sv_entries s) plugin_id of
          None \<Rightarrow> (Inl (PluginNotFound plugin_id), w)
        | Some e \<Rightarrow>
            (Inr (),
             w\<lparr>w_sup := s\<lparr>sv_entries := dm_remove plugin_id (sv_entries s),
                          sv_stopped_epochs := dm_insert plugin_id (se_epoch e) (sv_stopped_epochs s),
                          sv_forced_restarts := dm_remove plugin_id (sv_forced_restarts s)\<rparr>,
               w_signals := w_signals w @ (signal_target e, SIGTERM)
                 # (if exits_in_time then [] else [(signal_target e, SIGKILL)])\<rparr>))"

definition stop_grace :: "sup_entry \<Rightarrow> nat" where
  "stop_grace e = (if pc_grace_seconds (se_config e) > 0 then pc_grace_seconds (se_config e) else 5)"

definition restart_plugin :: "string \<Rightarrow> world \<Rightarrow> unit result \<times> world" where
  "restart_plugin plugin_id w =
    (let s = w_sup w
     in case dm_get (sv_entries s) plugin_id of
          None \<Rightarrow> (Inl (PluginNotFound plugin_id), w)
        | Some e \<Rightarrow>
            (Inr (), w\<lparr>w_sup := s\<lparr>sv_forced_restarts := dm_insert plugin_id () (sv_forced_restarts s)\<rparr>,
                       w_signals := w_signals w @ [(signal_target e, SIGTERM)]\<rparr>))"

section \<open>The monitor loop\<close>

definition should_restart :: "bool \<Rightarrow> sup_entry \<Rightarrow> bool \<Rightarrow> bool" where
  "should_restart forced e success \<longleftrightarrow> forced \<or> (case pc_restart_policy (se_config e) of
      Never \<Rightarrow> False
    | Always \<Rightarrow> se_restart_count e < pc_max_restarts (se_config e)
    | OnFailure \<Rightarrow> \<not> success \<and> se_restart_count e < pc_max_restarts (se_config e))"

definition died_event :: "exit_event \<Rightarrow> nat \<Rightarrow> bool \<Rightarrow> event" where
  "died_event ev count will_restart =
     \<lparr>ev_event_id = ''sys-died-'' @ xe_plugin_id ev @ ''-'' @ show_nat count,
      ev_event_type = ''system.plugin_died'',
      ev_payload_json = ''{'' @ quote @ ''plugin_id'' @ quote @ '':'' @ quote @ xe_plugin_id ev @ quote
        @ '','' @ quote @ ''restart_count'' @ quote @ '':'' @ show_nat count
        @ '','' @ quote @ ''will_restart'' @ quote @ '':'' @ (if will_restart then ''true'' else ''false'') @ ''}'',
      ev_retry_count = 0\<rparr>"

text \<open>One exit event, up to the backoff sleep or to the end of its handling.\<close>

definition monitor_exit :: "exit_event \<Rightarrow> world \<Rightarrow> world" where
  "monitor_exit ev w =
    (let s = w_sup w; pid = xe_plugin_id ev;
         forced = dm_get (sv_forced_restarts s) pid \<noteq> None;
         s1 = s\<lparr>sv_forced_restarts := dm_remove pid (sv_forced_restarts s)\<rparr>;
         w1 = w\<lparr>w_sup := s1\<rparr>;
         was_stopped = (case dm_get (sv_stopped_epochs s1) pid of Some k \<Rightarrow> k = xe_epoch ev | None \<Rightarrow> False)
     in case dm_get (sv_entries s1) pid of
          None \<Rightarrow> w1
        | Some e \<Rightarrow>
            if se_epoch e \<noteq> xe_epoch ev \<or> was_stopped then w1
            else let will_restart = should_restart forced e (xe_success ev);
                     w2 = (if sv_has_bus s1
                           then w1\<lparr>w_published := w_published w1 @ [died_event ev (se_restart_count e) will_restart]\<rparr>
                           else w1)
                 in if will_restart
                    then w2\<lparr>w_monitor := MonBackoff ev (se_config e) (se_restart_count e + 1)\<rparr>
                    else w2\<lparr>w_sup := s1\<lparr>sv_entries := dm_remove pid (sv_entries s1),
                                       sv_stopped_counts := dm_insert pid (se_restart_count e) (sv_stopped_counts s1)\<rparr>\<rparr>)"

text \<open>The end of the backoff sleep: a stop of the dead instance cancels the restart.\<close>

definition backoff_over :: "spawn_host \<Rightarrow> world \<Rightarrow> world" where
  "backoff_over h w = (case w_monitor w of
      MonBackoff ev c count \<Rightarrow>
        if dm_get (sv_stopped_epochs (w_sup w)) (pc_plugin_id c) = Some (xe_epoch ev)
        then w\<lparr>w_monitor := MonIdle\<rparr>
        else (case spawn_begin h c count (Some (xe_epoch ev)) w of
            (Inl _, w1) \<Rightarrow> w1\<lparr>w_monitor := MonIdle\<rparr>
          | (Inr t, w1) \<Rightarrow> w1\<lparr>w_monitor := MonSpawning (st_epoch t)\<rparr>)
    | _ \<Rightarrow> w)"

section \<open>Interleavings\<close>

text \<open>What can happen next: a caller's request, the end of a spawn, the death of a child, or progress
  of the monitor loop. A step that is not possible in a state changes nothing.\<close>

datatype sup_action =
    StartRequest plugin_config
  | SpawnEnded nat spawn_outcome
  | StopRequest string bool
  | RestartRequest string
  | ChildDies nat bool bool
  | MonitorNext
  | BackoffOver

definition sup_step :: "spawn_host \<Rightarrow> sup_action \<Rightarrow> world \<Rightarrow> world" where
  "sup_step h x w = (case x of
      StartRequest c \<Rightarrow> snd (spawn_begin h c 0 None w)
    | SpawnEnded epoch out \<Rightarrow> (case find (\<lambda>t. st_epoch t = epoch) (w_inflight w) of
          Some t \<Rightarrow> snd (spawn_end h t out w) | None \<Rightarrow> w)
    | StopRequest pid in_time \<Rightarrow> snd (stop_plugin pid in_time w)
    | RestartRequest pid \<Rightarrow> snd (restart_plugin pid w)
    | ChildDies epoch alive success \<Rightarrow> (case find (\<lambda>ch. ch_epoch ch = epoch) (w_children w) of
          Some ch \<Rightarrow> child_exited ch alive success w | None \<Rightarrow> w)
    | MonitorNext \<Rightarrow> (if w_monitor w = MonIdle
          then (case w_queue w of ev # evs \<Rightarrow> monitor_exit ev (w\<lparr>w_queue := evs\<rparr>) | [] \<Rightarrow> w) else w)
    | BackoffOver \<Rightarrow> backoff_over h w)"

definition sup_run :: "spawn_host \<Rightarrow> sup_action list \<Rightarrow> world \<Rightarrow> world" where
  "sup_run h xs w = fold (sup_step h) xs w"

definition world_of :: "supervisor \<Rightarrow> world" where
  "world_of s = \<lparr>w_sup = s, w_inflight = [], w_children = [], w_queue = [], w_monitor = MonIdle,
     w_signals = [], w_ops = [], w_published = []\<rparr>"

section \<open>Watchdog and shutdown\<close>

text \<open>One supervised plugin in a round of the watchdog: a plugin whose last pong is older than the
  deadline is killed, any other registered one is pinged. The resource gauges are metrics.\<close>

definition watchdog_one ::
  "wire \<Rightarrow> clock \<Rightarrow> nat \<Rightarrow> registry \<Rightarrow> string \<times> sup_entry \<Rightarrow> (nat \<times> signal) list \<times> kio
   \<Rightarrow> (nat \<times> signal) list \<times> kio" where
  "watchdog_one W clk deadline r p st =
    (case (p, st) of ((pid, e), (sigs, io)) \<Rightarrow>
       if (case last_pong r pid of Some t \<Rightarrow> clk_instant clk - t > deadline | None \<Rightarrow> False)
       then (sigs @ [(signal_target e, SIGKILL)], io)
       else case get_plugin r pid of
           None \<Rightarrow> (sigs, io)
         | Some reg \<Rightarrow> (case w_encode W (envelope_of [] (PPing (clk_millis clk))) of
               None \<Rightarrow> (sigs, io)
             | Some pl \<Rightarrow> (sigs, snd (io_try_send (pe_write_tx reg) (OutFrame (build_frame W ''client'' 0 pl)) io))))"

definition watchdog_round ::
  "wire \<Rightarrow> clock \<Rightarrow> nat \<Rightarrow> nat \<Rightarrow> registry \<Rightarrow> supervisor \<Rightarrow> kio \<Rightarrow> (nat \<times> signal) list \<times> kio" where
  "watchdog_round W clk interval timeout r s io =
     fold (watchdog_one W clk (interval + timeout) r) (sv_entries s) ([], io)"

text \<open>\<^verbatim>\<open>PluginSupervisor::graceful_shutdown\<close>: the signals with the seconds after which they are sent.\<close>

definition shutdown_grace :: "nat \<Rightarrow> sup_entry \<Rightarrow> nat" where
  "shutdown_grace default_grace e =
     (if pc_grace_seconds (se_config e) > 0 then pc_grace_seconds (se_config e) else default_grace)"

definition sup_graceful_shutdown :: "supervisor \<Rightarrow> nat \<Rightarrow> (nat \<times> nat \<times> signal) list" where
  "sup_graceful_shutdown s default_grace =
     map (\<lambda>e. (0, signal_target e, SIGTERM)) (dm_values (sv_entries s))
     @ map (\<lambda>e. (shutdown_grace default_grace e, signal_target e, SIGKILL)) (dm_values (sv_entries s))"

end
