(* ===== verification/Supervisor_Props.thy ===== *)
theory Supervisor_Props
  imports Supervisor
begin

text \<open>
  Properties of the supervisor over all interleavings of its tasks: an explicit stop is final,
  when it is not, and a crashing plugin is given up after its restart budget.
\<close>

section \<open>Invariant\<close>

text \<open>Entries and the restart the monitor is about to make are filed under the id of their
  configuration.\<close>

definition sup_ok :: "world \<Rightarrow> bool" where
  "sup_ok w \<longleftrightarrow> (\<forall>q e. dm_get (sv_entries (w_sup w)) q = Some e \<longrightarrow> pc_plugin_id (se_config e) = q)"

lemma spawn_begin_effect:
  "w_children (snd (spawn_begin h c n r w)) = w_children w"
  "w_queue (snd (spawn_begin h c n r w)) = w_queue w"
  "w_monitor (snd (spawn_begin h c n r w)) = w_monitor w"
  "sv_entries (w_sup (snd (spawn_begin h c n r w))) = sv_entries (w_sup w)"
  "sv_stopped_epochs (w_sup (snd (spawn_begin h c n r w))) = sv_stopped_epochs (w_sup w)"
  "sv_forced_restarts (w_sup (snd (spawn_begin h c n r w))) = sv_forced_restarts (w_sup w)"
  by (auto simp: spawn_begin_def Let_def split: prod.splits)

lemma spawn_begin_inflight:
  "list_all P (w_inflight w) \<Longrightarrow> (\<And>t. st_config t = c \<Longrightarrow> P t) \<Longrightarrow>
   list_all P (w_inflight (snd (spawn_begin h c n r w)))"
  by (auto simp: spawn_begin_def Let_def split: prod.splits)

lemma spawn_end_entries:
  "dm_get (sv_entries (w_sup (snd (spawn_end h t out w)))) q
   \<in> {dm_get (sv_entries (w_sup w)) q} \<union> {Some e |e. q = pc_plugin_id (st_config t) \<and> se_config e = st_config t}"
  by (auto simp: spawn_end_def Let_def split: spawn_outcome.splits sum.splits prod.splits)

lemma spawn_end_effect:
  "sv_stopped_epochs (w_sup (snd (spawn_end h t out w))) = sv_stopped_epochs (w_sup w)"
  "set (w_inflight (snd (spawn_end h t out w))) \<subseteq> set (w_inflight w)"
  "w_monitor (snd (spawn_end h t out w)) \<in> {w_monitor w, MonIdle}"
  by (auto simp: spawn_end_def Let_def split: spawn_outcome.splits sum.splits prod.splits)

lemma child_exited_effect [simp]:
  "w_sup (child_exited ch a b w) = w_sup w" "w_inflight (child_exited ch a b w) = w_inflight w"
  "w_monitor (child_exited ch a b w) = w_monitor w"
  by (simp_all add: child_exited_def)

lemma monitor_exit_entries:
  "dm_get (sv_entries (w_sup (monitor_exit ev w))) q = Some e \<Longrightarrow> dm_get (sv_entries (w_sup w)) q = Some e"
  by (auto simp: monitor_exit_def Let_def split: option.splits if_splits)

lemma monitor_exit_effect:
  "sv_stopped_epochs (w_sup (monitor_exit ev w)) = sv_stopped_epochs (w_sup w)"
  "w_inflight (monitor_exit ev w) = w_inflight w"
  by (auto simp: monitor_exit_def Let_def split: option.splits)

lemma monitor_exit_monitor:
  assumes "w_monitor (monitor_exit ev w) = MonBackoff ev' c n" "w_monitor w = MonIdle"
  obtains e where "dm_get (sv_entries (w_sup w)) (xe_plugin_id ev) = Some e" "c = se_config e" "ev' = ev"
    "se_epoch e = xe_epoch ev"
  using assms by (auto simp: monitor_exit_def Let_def split: option.splits if_splits)

lemma backoff_over_alt:
  "backoff_over h w = (case w_monitor w of
      MonBackoff ev c n \<Rightarrow>
        if dm_get (sv_stopped_epochs (w_sup w)) (pc_plugin_id c) = Some (xe_epoch ev) then w\<lparr>w_monitor := MonIdle\<rparr>
        else (snd (spawn_begin h c n (Some (xe_epoch ev)) w))
          \<lparr>w_monitor := (case fst (spawn_begin h c n (Some (xe_epoch ev)) w) of
              Inl _ \<Rightarrow> MonIdle | Inr t \<Rightarrow> MonSpawning (st_epoch t))\<rparr>
    | _ \<Rightarrow> w)"
  by (simp add: backoff_over_def split: monitor.split prod.split sum.split)

lemma backoff_over_effect:
  "sv_entries (w_sup (backoff_over h w)) = sv_entries (w_sup w)"
  "sv_stopped_epochs (w_sup (backoff_over h w)) = sv_stopped_epochs (w_sup w)"
  "w_monitor (backoff_over h w) \<noteq> MonBackoff ev c n"
  by (simp_all add: backoff_over_alt spawn_begin_effect split: monitor.split sum.split)

lemma spawn_end_ok: "sup_ok w \<Longrightarrow> sup_ok (snd (spawn_end h t out w))"
  unfolding sup_ok_def
proof (intro allI impI)
  fix q e assume "\<forall>q e. dm_get (sv_entries (w_sup w)) q = Some e \<longrightarrow> pc_plugin_id (se_config e) = q"
    and "dm_get (sv_entries (w_sup (snd (spawn_end h t out w)))) q = Some e"
  then show "pc_plugin_id (se_config e) = q" using spawn_end_entries [of h t out w q] by auto
qed

lemma sup_ok_step: "sup_ok w \<Longrightarrow> sup_ok (sup_step h x w)"
proof (cases x)
  case (SpawnEnded k out)
  assume "sup_ok w"
  then show ?thesis
    using SpawnEnded by (simp add: sup_step_def spawn_end_ok split: option.splits)
next
  case MonitorNext
  assume "sup_ok w"
  then show ?thesis
    using MonitorNext by (auto simp: sup_ok_def sup_step_def dest: monitor_exit_entries split: list.splits)
qed (auto simp: sup_ok_def sup_step_def spawn_begin_effect backoff_over_effect stop_plugin_def
       restart_plugin_def Let_def split: option.splits if_splits)

interpretation sup: step_system "world_of (supervisor_with_events path n bus b m)" "sup_step h" sup_ok for path n bus b m h
proof
  show "sup_ok (world_of (supervisor_with_events path n bus b m))"
    by (simp add: sup_ok_def world_of_def supervisor_with_events_def dm_get_def)
qed (rule sup_ok_step)

section \<open>An explicit stop is final\<close>

text \<open>No spawn of the plugin is in flight, and a restart the monitor may be sleeping on is one of the
  instance with epoch \<open>k\<close>.\<close>

definition no_older_restart :: "string \<Rightarrow> nat \<Rightarrow> world \<Rightarrow> bool" where
  "no_older_restart p k w \<longleftrightarrow> list_all (\<lambda>t. pc_plugin_id (st_config t) \<noteq> p) (w_inflight w)
     \<and> (case w_monitor w of MonBackoff ev c n \<Rightarrow> pc_plugin_id c = p \<longrightarrow> xe_epoch ev = k | _ \<Rightarrow> True)"

definition stays_stopped :: "string \<Rightarrow> nat \<Rightarrow> world \<Rightarrow> bool" where
  "stays_stopped p k w \<longleftrightarrow> dm_get (sv_entries (w_sup w)) p = None
     \<and> dm_get (sv_stopped_epochs (w_sup w)) p = Some k \<and> no_older_restart p k w"

lemma stays_stopped_monitor_exit:
  assumes "sup_ok w" "stays_stopped p k w" "w_monitor w = MonIdle"
  shows "stays_stopped p k (monitor_exit ev w)"
proof -
  have "dm_get (sv_entries (w_sup (monitor_exit ev w))) p = None"
    using assms(2) monitor_exit_entries [of ev w p] by (cases "dm_get (sv_entries (w_sup (monitor_exit ev w))) p")
      (auto simp: stays_stopped_def)
  moreover have "pc_plugin_id c \<noteq> p" if "w_monitor (monitor_exit ev w) = MonBackoff ev' c n" for ev' c n
    using monitor_exit_monitor [OF that assms(3)] assms(1,2)
    by (metis sup_ok_def stays_stopped_def option.distinct(1))
  ultimately show ?thesis
    using assms(2) by (auto simp: stays_stopped_def no_older_restart_def monitor_exit_effect split: monitor.splits)
qed

lemma stays_stopped_backoff_over:
  assumes "stays_stopped p k w"
  shows "stays_stopped p k (backoff_over h w)"
proof (cases "w_monitor w")
  case (MonBackoff ev c n)
  have "list_all (\<lambda>t. pc_plugin_id (st_config t) \<noteq> p) (w_inflight (backoff_over h w))"
  proof (cases "pc_plugin_id c = p")
    case True
    then show ?thesis
      using assms MonBackoff by (simp add: stays_stopped_def no_older_restart_def backoff_over_def)
  next
    case False
    then show ?thesis
      using assms MonBackoff spawn_begin_inflight [of "\<lambda>t. pc_plugin_id (st_config t) \<noteq> p" w c h n "Some (xe_epoch ev)"]
      by (simp add: stays_stopped_def no_older_restart_def backoff_over_alt)
  qed
  then show ?thesis
    using assms backoff_over_effect(3) [of h w]
    by (auto simp: stays_stopped_def no_older_restart_def backoff_over_effect split: monitor.splits)
qed (use assms in \<open>auto simp: backoff_over_def\<close>)

lemma stays_stopped_step:
  assumes ok: "sup_ok w" and st: "stays_stopped p k w"
    and x: "\<And>c. x = StartRequest c \<Longrightarrow> pc_plugin_id c \<noteq> p"
  shows "stays_stopped p k (sup_step h x w)"
proof (cases x)
  case (StartRequest c)
  then show ?thesis
    using st x [OF StartRequest] spawn_begin_inflight [of "\<lambda>t. pc_plugin_id (st_config t) \<noteq> p" w c h 0 None]
    by (auto simp: sup_step_def stays_stopped_def no_older_restart_def spawn_begin_effect)
next
  case (SpawnEnded j out)
  show ?thesis
  proof (cases "find (\<lambda>t. st_epoch t = j) (w_inflight w)")
    case (Some t)
    then have "pc_plugin_id (st_config t) \<noteq> p"
      using st by (auto simp: stays_stopped_def no_older_restart_def list_all_iff find_Some_iff)
    then show ?thesis
      using st SpawnEnded Some spawn_end_entries [of h t out w p] spawn_end_effect [of h t out w]
      by (auto simp: sup_step_def stays_stopped_def no_older_restart_def list_all_iff)
  qed (use st SpawnEnded in \<open>simp add: sup_step_def\<close>)
next
  case MonitorNext
  have "stays_stopped p k (w\<lparr>w_queue := evs\<rparr>)" "sup_ok (w\<lparr>w_queue := evs\<rparr>)" for evs
    using st ok by (auto simp: stays_stopped_def no_older_restart_def sup_ok_def)
  then show ?thesis
    using st MonitorNext by (auto simp: sup_step_def stays_stopped_monitor_exit split: list.splits)
next
  case BackoffOver
  then show ?thesis using stays_stopped_backoff_over [OF st] by (simp add: sup_step_def)
qed (use st in \<open>auto simp: sup_step_def stays_stopped_def no_older_restart_def stop_plugin_def
       restart_plugin_def Let_def split: option.splits\<close>)

lemma stays_stopped_run:
  "sup_ok w \<Longrightarrow> stays_stopped p k w \<Longrightarrow> (\<And>c. StartRequest c \<in> set xs \<Longrightarrow> pc_plugin_id c \<noteq> p) \<Longrightarrow>
   stays_stopped p k (sup_run h xs w)"
proof (induction xs arbitrary: w)
  case (Cons x xs)
  then show ?case
    using stays_stopped_step [of w p k x h] by (simp add: sup_run_def sup_ok_step)
qed (simp add: sup_run_def)

lemma stop_stays_stopped:
  "dm_get (sv_entries (w_sup w)) p = Some e \<Longrightarrow> no_older_restart p (se_epoch e) w \<Longrightarrow>
   stays_stopped p (se_epoch e) (snd (stop_plugin p in_time w))"
  by (auto simp: stop_plugin_def Let_def stays_stopped_def no_older_restart_def)

text \<open>A configuration and a machine for the examples.\<close>

definition sample_config :: plugin_config where
  "sample_config = \<lparr>pc_plugin_id = ''cam'', pc_binary_path = ''/opt/cam/cam'', pc_args = [], pc_env = [],
     pc_restart_policy = OnFailure, pc_max_restarts = 3, pc_sandbox = False, pc_grace_seconds = 0,
     pc_max_procs = None, pc_max_vmem_mb = None, pc_max_fs_access = FsFull, pc_readonly_paths = [],
     pc_writable_paths = []\<rparr>"

definition sample_host :: spawn_host where
  "sample_host = \<lparr>hs_env = [], hs_current_exe = None, hs_create_dir = (\<lambda>_. True),
     hs_cgroup = \<lparr>cg_v2 = False, cg_self = None, cg_subtree_control = (\<lambda>_. None)\<rparr>,
     hs_sys = (\<lambda>_. None), hs_uid = 0, hs_gid = 0, hs_debug_line = (\<lambda>_. [])\<rparr>"

definition started :: spawn_outcome where
  "started = ChildStarted (Some 7) (PidLine (Some ''7''))"

definition sample_world :: world where
  "sample_world = world_of (supervisor_with_events ''/run/vyn.sock'' 10 True 100 900)"

definition crashed_once :: "sup_action list" where
  "crashed_once = [StartRequest sample_config, SpawnEnded 1 started, ChildDies 1 False False, MonitorNext]"

text \<open>
  \<^bold>\<open>C29.\<close> An explicit stop is final. In every state the supervisor can reach, whatever its tasks are
  doing, once a running plugin has been stopped it is not supervised again and no spawn of it is
  begun, through every later interleaving of exits, restarts and backoffs that contains no new
  request to start it - provided that at the moment of the stop no spawn of it is in flight and
  the monitor is not sleeping on the restart of an older instance of it.
\<close>

theorem stop_is_final:
  assumes "sv_entries s = []" "w = sup_run h xs (world_of s)"
    and "dm_get (sv_entries (w_sup w)) p = Some e" "no_older_restart p (se_epoch e) w"
    and "\<And>c. StartRequest c \<in> set ys \<Longrightarrow> pc_plugin_id c \<noteq> p"
  shows "\<not> is_running (w_sup (sup_run h ys (snd (stop_plugin p in_time w)))) p
    \<and> list_all (\<lambda>t. pc_plugin_id (st_config t) \<noteq> p) (w_inflight (sup_run h ys (snd (stop_plugin p in_time w))))"
proof -
  have "sup_ok (world_of s)" using assms(1) by (simp add: sup_ok_def world_of_def dm_get_def)
  then have "sup_ok w" unfolding assms(2) sup_run_def by (rule sup.inv_run)
  then have "sup_ok (snd (stop_plugin p in_time w))"
    using sup_ok_step [of w h "StopRequest p in_time"] by (simp add: sup_step_def)
  from stays_stopped_run [OF this stop_stays_stopped [OF assms(3,4)] assms(5)]
  show ?thesis by (simp add: stays_stopped_def is_running_def no_older_restart_def)
qed

theorem stop_is_final_witness:
  "\<not> is_running (w_sup (sup_run sample_host [BackoffOver, MonitorNext]
      (snd (stop_plugin ''cam'' True (sup_run sample_host crashed_once sample_world))))) ''cam''"
proof (rule stop_is_final [where s = "supervisor_with_events ''/run/vyn.sock'' 10 True 100 900" and xs = crashed_once, THEN conjunct1])
  show "sup_run sample_host crashed_once sample_world
      = sup_run sample_host crashed_once (world_of (supervisor_with_events ''/run/vyn.sock'' 10 True 100 900))"
    by (simp add: sample_world_def)
  show "dm_get (sv_entries (w_sup (sup_run sample_host crashed_once sample_world))) ''cam''
    = Some \<lparr>se_config = sample_config, se_restart_count = 0, se_pid = 7, se_shim_pid = None, se_epoch = 1\<rparr>"
    by code_simp
  show "no_older_restart ''cam'' (se_epoch \<lparr>se_config = sample_config, se_restart_count = 0, se_pid = 7,
      se_shim_pid = None, se_epoch = 1\<rparr>) (sup_run sample_host crashed_once sample_world)"
    by code_simp
qed (simp_all add: supervisor_with_events_def)


section \<open>The restart budget\<close>

text \<open>The only plugin of a quiet supervisor runs its \<open>n\<close>-th restart as instance \<open>k\<close>.\<close>

definition runs_as :: "plugin_config \<Rightarrow> nat \<Rightarrow> nat \<Rightarrow> world \<Rightarrow> bool" where
  "runs_as c n k w \<longleftrightarrow>
     (\<exists>p sp. dm_get (sv_entries (w_sup w)) (pc_plugin_id c)
           = Some \<lparr>se_config = c, se_restart_count = n, se_pid = p, se_shim_pid = sp, se_epoch = k\<rparr>)
     \<and> (\<exists>ch. w_children w = [ch] \<and> ch_epoch ch = k \<and> ch_plugin_id ch = pc_plugin_id c)
     \<and> w_queue w = [] \<and> w_monitor w = MonIdle \<and> w_inflight w = [] \<and> sv_next_epoch (w_sup w) = k
     \<and> sv_forced_restarts (w_sup w) = [] \<and> sv_stopped_epochs (w_sup w) = []"

text \<open>The instance fails, the monitor sees it, sleeps, and the new instance comes up.\<close>

definition crash_cycle :: "nat \<Rightarrow> sup_action list" where
  "crash_cycle k = [ChildDies k False False, MonitorNext, BackoffOver, SpawnEnded (k + 1) started]"

lemma spawn_pids_started:
  "spawn_pids h c (Some 7) (PidLine (Some ''7'')) = Inr (7, if pc_sandbox c then Some 7 else None)"
proof -
  have t: "trim ''7'' = ''7''" by code_simp
  have r: "read_nat ''7'' = 7" "list_all is_ascii_digit ''7''" by code_simp+
  have "parse_uint (2 ^ 32) ''7'' = Some 7" using r by (simp add: parse_uint_def)
  with t show ?thesis by (simp add: spawn_pids_def)
qed

lemma spawn_end_started:
  "snd (spawn_end h t started w) = (let c = st_config t; s = w_sup w; shim = (if pc_sandbox c then Some 7 else None) in
     w\<lparr>w_inflight := filter (\<lambda>u. st_epoch u \<noteq> st_epoch t) (w_inflight w),
       w_monitor := (if w_monitor w = MonSpawning (st_epoch t) then MonIdle else w_monitor w),
       w_sup := s\<lparr>sv_log_buffers := dm_insert (pc_plugin_id c) [] (sv_log_buffers s),
         sv_entries := dm_insert (pc_plugin_id c) \<lparr>se_config = c, se_restart_count = st_restart_count t,
           se_pid = 7, se_shim_pid = shim, se_epoch = st_epoch t\<rparr> (sv_entries s)\<rparr>,
       w_children := w_children w @ [\<lparr>ch_plugin_id = pc_plugin_id c, ch_epoch = st_epoch t, ch_pid = 7,
         ch_shim_pid = shim, ch_cgroup = st_cgroup t\<rparr>]\<rparr>)"
  by (simp add: spawn_end_def started_def spawn_pids_started Let_def)

lemma should_restart_in_budget:
  "pc_restart_policy (se_config e) \<noteq> Never \<Longrightarrow>
   should_restart False e False \<longleftrightarrow> se_restart_count e < pc_max_restarts (se_config e)"
  by (cases "pc_restart_policy (se_config e)") (auto simp: should_restart_def)

lemma start_runs:
  assumes "sv_entries s = []" "sv_next_epoch s = 0" "sv_forced_restarts s = []" "sv_stopped_epochs s = []"
  shows "runs_as c 0 1 (sup_run h [StartRequest c, SpawnEnded 1 started] (world_of s))"
proof -
  obtain ops cg where "spawn_cgroup h c = (ops, cg)" by (cases "spawn_cgroup h c")
  then show ?thesis
    using assms by (simp add: sup_run_def sup_step_def spawn_begin_def is_running_def dm_get_def world_of_def
      spawn_end_started Let_def runs_as_def dm_insert_def)
qed

lemma runs_as_dies:
  fixes h :: spawn_host
  assumes "runs_as c n k w" "pc_restart_policy c \<noteq> Never"
  defines "v \<equiv> sup_run h [ChildDies k False False, MonitorNext] w"
  shows "n < pc_max_restarts c \<Longrightarrow> \<exists>ev. w_monitor v = MonBackoff ev c (n + 1) \<and> w_children v = [] \<and> w_queue v = []
      \<and> w_inflight v = [] \<and> sv_next_epoch (w_sup v) = k \<and> sv_forced_restarts (w_sup v) = [] \<and> sv_stopped_epochs (w_sup v) = []"
    and "\<not> n < pc_max_restarts c \<Longrightarrow> dm_get (sv_entries (w_sup v)) (pc_plugin_id c) = None
      \<and> dm_get (sv_stopped_counts (w_sup v)) (pc_plugin_id c) = Some n \<and> w_monitor v = MonIdle \<and> w_queue v = []
      \<and> w_inflight v = [] \<and> w_children v = []"
proof -
  obtain p sp ch where w: "dm_get (sv_entries (w_sup w)) (pc_plugin_id c)
      = Some \<lparr>se_config = c, se_restart_count = n, se_pid = p, se_shim_pid = sp, se_epoch = k\<rparr>"
    "w_children w = [ch]" "ch_epoch ch = k" "ch_plugin_id ch = pc_plugin_id c"
    "w_queue w = []" "w_monitor w = MonIdle" "w_inflight w = []" "sv_next_epoch (w_sup w) = k"
    "sv_forced_restarts (w_sup w) = []" "sv_stopped_epochs (w_sup w) = []"
    using assms(1) unfolding runs_as_def by blast
  note b = should_restart_in_budget [where e = "\<lparr>se_config = c, se_restart_count = n, se_pid = p,
      se_shim_pid = sp, se_epoch = k\<rparr>", simplified, OF assms(2)]
  show "n < pc_max_restarts c \<Longrightarrow> \<exists>ev. w_monitor v = MonBackoff ev c (n + 1) \<and> w_children v = [] \<and> w_queue v = []
      \<and> w_inflight v = [] \<and> sv_next_epoch (w_sup v) = k \<and> sv_forced_restarts (w_sup v) = [] \<and> sv_stopped_epochs (w_sup v) = []"
    by (simp add: v_def sup_run_def sup_step_def child_exited_def monitor_exit_def w dm_nil b Let_def)
  show "\<not> n < pc_max_restarts c \<Longrightarrow> dm_get (sv_entries (w_sup v)) (pc_plugin_id c) = None
      \<and> dm_get (sv_stopped_counts (w_sup v)) (pc_plugin_id c) = Some n \<and> w_monitor v = MonIdle \<and> w_queue v = []
      \<and> w_inflight v = [] \<and> w_children v = []"
    by (simp add: v_def sup_run_def sup_step_def child_exited_def monitor_exit_def w dm_nil b Let_def)
qed

lemma crash_cycle_runs:
  assumes "runs_as c n k w" "pc_restart_policy c \<noteq> Never" "n < pc_max_restarts c"
  shows "runs_as c (n + 1) (k + 1) (sup_run h (crash_cycle k) w)"
proof -
  let ?v = "sup_run h [ChildDies k False False, MonitorNext] w"
  obtain ev where v: "w_monitor ?v = MonBackoff ev c (n + 1)" "w_children ?v = []" "w_queue ?v = []"
    "w_inflight ?v = []" "sv_next_epoch (w_sup ?v) = k" "sv_forced_restarts (w_sup ?v) = []" "sv_stopped_epochs (w_sup ?v) = []"
    using runs_as_dies(1) [OF assms, of h] by blast
  obtain ops cg where cg: "spawn_cgroup h c = (ops, cg)" by (cases "spawn_cgroup h c")
  have "sup_run h (crash_cycle k) w = sup_step h (SpawnEnded (k + 1) started) (backoff_over h ?v)"
    by (simp add: sup_run_def crash_cycle_def sup_step_def)
  then show ?thesis
    using v cg by (simp add: backoff_over_def sup_step_def spawn_begin_def spawn_end_started Let_def runs_as_def dm_nil)
qed

definition crash_loop :: "plugin_config \<Rightarrow> nat \<Rightarrow> sup_action list" where
  "crash_loop c n = [StartRequest c, SpawnEnded 1 started] @ concat (map crash_cycle [1..<n + 1])"

lemma crash_loop_runs:
  assumes "sv_entries s = []" "sv_next_epoch s = 0" "sv_forced_restarts s = []" "sv_stopped_epochs s = []"
    and "pc_restart_policy c \<noteq> Never"
  shows "n \<le> pc_max_restarts c \<Longrightarrow> runs_as c n (n + 1) (sup_run h (crash_loop c n) (world_of s))"
proof (induction n)
  case 0
  then show ?case using start_runs [OF assms(1-4), of c h] by (simp add: crash_loop_def)
next
  case (Suc n)
  then have "runs_as c n (n + 1) (sup_run h (crash_loop c n) (world_of s))" by simp
  from crash_cycle_runs [OF this assms(5), of h] Suc.prems show ?case
    by (simp add: crash_loop_def sup_run_def)
qed

text \<open>
  \<^bold>\<open>C30.\<close> A plugin that keeps crashing is given up. Under a restarting policy, with every restart
  succeeding and every instance failing, the \<open>n\<close>-th crash is followed by the \<open>n\<close>-th restart as long
  as the budget lasts. The next crash ends it: the plugin is no longer supervised, its final restart
  count is the budget, and nothing is in flight that could bring it back.
\<close>

theorem crash_loop_gives_up:
  assumes "sv_entries s = []" "sv_next_epoch s = 0" "sv_forced_restarts s = []" "sv_stopped_epochs s = []"
    and "pc_restart_policy c \<noteq> Never"
  shows "(\<forall>n \<le> pc_max_restarts c. is_running (w_sup (sup_run h (crash_loop c n) (world_of s))) (pc_plugin_id c)
        \<and> restart_count (w_sup (sup_run h (crash_loop c n) (world_of s))) (pc_plugin_id c) = Some n)
     \<and> (let w = sup_run h (crash_loop c (pc_max_restarts c) @ [ChildDies (pc_max_restarts c + 1) False False, MonitorNext])
                  (world_of s)
        in \<not> is_running (w_sup w) (pc_plugin_id c)
           \<and> restart_count (w_sup w) (pc_plugin_id c) = Some (pc_max_restarts c)
           \<and> w_monitor w = MonIdle \<and> w_queue w = [] \<and> w_inflight w = [] \<and> w_children w = [])"
proof -
  note runs = crash_loop_runs [OF assms, of _ h]
  have "is_running (w_sup (sup_run h (crash_loop c n) (world_of s))) (pc_plugin_id c)
      \<and> restart_count (w_sup (sup_run h (crash_loop c n) (world_of s))) (pc_plugin_id c) = Some n"
    if "n \<le> pc_max_restarts c" for n
    using runs [OF that] by (auto simp: runs_as_def is_running_def restart_count_def)
  moreover note runs_as_dies(2) [OF runs assms(5), of "pc_max_restarts c" h]
  ultimately show ?thesis by (simp add: sup_run_def Let_def is_running_def restart_count_def)
qed

theorem crash_loop_gives_up_witness:
  "restart_count (w_sup (sup_run sample_host (crash_loop sample_config 3 @ [ChildDies 4 False False, MonitorNext])
     sample_world)) ''cam'' = Some 3"
proof -
  have "sv_entries (w_sup sample_world) = [] \<and> sv_next_epoch (w_sup sample_world) = 0
      \<and> sv_forced_restarts (w_sup sample_world) = [] \<and> sv_stopped_epochs (w_sup sample_world) = []
      \<and> pc_restart_policy sample_config \<noteq> Never \<and> pc_max_restarts sample_config = 3
      \<and> pc_plugin_id sample_config = ''cam'' \<and> world_of (w_sup sample_world) = sample_world"
    by (simp add: sample_world_def world_of_def supervisor_with_events_def sample_config_def)
  then show ?thesis using crash_loop_gives_up [of "w_sup sample_world" sample_config sample_host] by (simp add: Let_def)
qed

end
