(* ===== verification/Confinement.thy ===== *)
theory Confinement
  imports Supervisor_Props
begin

text \<open>
  What confines a plugin process: the filesystem restriction of its configuration reaches the
  shim intact through the environment and grants write access to nothing else, a hostile plugin
  id stays inside its cgroup directory, limits are applied after the namespaces are entered, and
  the shim escalates a terminal signal exactly once.
\<close>

section \<open>The restriction travels through the environment\<close>

lemma split_join_paths:
  "\<forall>p \<in> set ps. sep \<notin> set p \<Longrightarrow> ps \<noteq> [] \<Longrightarrow> split_on sep (join_strs [sep] ps) = ps"
proof (induction ps rule: induct_list012)
  case (2 p)
  then show ?case by (simp add: split_on_no_sep)
next
  case (3 p q ps)
  then show ?case by (simp add: split_on_append)
qed simp

definition plain_paths :: "string list \<Rightarrow> bool" where
  "plain_paths ps \<longleftrightarrow> list_all (\<lambda>p. p \<noteq> [] \<and> PATH_SEP \<notin> set p) ps"

lemma parse_join_paths:
  assumes "plain_paths ps" "dm_get env name = Some (join_paths_env ps)"
  shows "parse_paths_env env name = ps"
proof (cases "ps = []")
  case True
  then show ?thesis using assms(2) by (simp add: parse_paths_env_def join_paths_env_def)
next
  case False
  have "filter (\<lambda>s. s \<noteq> []) ps = ps" using assms(1) by (auto simp: plain_paths_def list_all_iff filter_id_conv)
  then show ?thesis
    using assms False split_join_paths [of ps PATH_SEP]
    by (auto simp: parse_paths_env_def join_paths_env_def plain_paths_def list_all_iff)
qed

lemma fs_parse_as_str [simp]: "fs_parse (fs_as_str m) = Some m"
  by (cases m) (simp_all add: fs_parse_def)

text \<open>Operator-supplied variables do not define \<open>k\<close>.\<close>

definition env_leaves :: "string list \<Rightarrow> string \<Rightarrow> bool" where
  "env_leaves kvs k \<longleftrightarrow> list_all (\<lambda>kv. \<forall>v. split_once kv CHR ''='' \<noteq> Some (k, v)) kvs"

lemma fold_set_env_var:
  "env_leaves kvs k \<Longrightarrow> dm_get (fold set_env_var kvs env) k = dm_get env k"
proof (induction kvs arbitrary: env)
  case (Cons kv kvs)
  then have "dm_get (set_env_var kv env) k = dm_get env k"
    by (auto simp: env_leaves_def set_env_var_def split: option.split)
  with Cons show ?case by (simp add: env_leaves_def)
qed simp

text \<open>The environment of the child: the inherited one, overridden by the command's.\<close>

definition child_environ :: "environ \<Rightarrow> command \<Rightarrow> environ" where
  "child_environ inherited cmd = cmd_env cmd @ inherited"

definition granted_writable :: "spawn_host \<Rightarrow> supervisor \<Rightarrow> plugin_config \<Rightarrow> string list" where
  "granted_writable h s c = pc_writable_paths c @ (case plugin_data_dir h s c of Some p \<Rightarrow> [p] | None \<Rightarrow> [])"

lemma dm_get_append: "dm_get (a @ b) k = (case dm_get a k of Some v \<Rightarrow> Some v | None \<Rightarrow> dm_get b k)"
  by (simp add: dm_get_def map_add_def split: option.split)

lemma shim_environment:
  assumes "pc_sandbox c" "pc_max_fs_access c \<noteq> FsFull"
    and "env_leaves (pc_env c) k" "k \<noteq> ''VYN_SOCKET_PATH''" "k \<noteq> ''VYN_DATA_DIR''"
    and "dm_get (shim_env c (granted_writable h s c)) k = Some v"
  shows "dm_get (child_environ inherited (build_command h s c)) k = Some v"
  using assms by (cases "plugin_data_dir h s c")
    (simp_all add: child_environ_def build_command_def granted_writable_def Let_def dm_get_append fold_set_env_var)

lemma shim_restriction:
  assumes "pc_sandbox c" "pc_max_fs_access c \<noteq> FsFull"
    and "\<forall>k \<in> {MAX_FS_ACCESS_ENV, RO_PATHS_ENV, RW_PATHS_ENV}. env_leaves (pc_env c) k"
    and "plain_paths (pc_readonly_paths c)" "plain_paths (granted_writable h s c)"
  shows "from_env (child_environ inherited (build_command h s c))
    = Some \<lparr>fsr_mode = pc_max_fs_access c, fsr_readonly_paths = pc_readonly_paths c,
            fsr_writable_paths = granted_writable h s c\<rparr>"
proof -
  let ?E = "child_environ inherited (build_command h s c)"
  note env = shim_environment [OF assms(1,2), where h = h and s = s and inherited = inherited]
  have "dm_get ?E MAX_FS_ACCESS_ENV = Some (fs_as_str (pc_max_fs_access c))"
    "dm_get ?E RO_PATHS_ENV = Some (join_paths_env (pc_readonly_paths c))"
    "dm_get ?E RW_PATHS_ENV = Some (join_paths_env (granted_writable h s c))"
    using assms(2,3) by (auto intro!: env simp: MAX_FS_ACCESS_ENV_def RO_PATHS_ENV_def RW_PATHS_ENV_def shim_env_def Let_def)
  then show ?thesis
    using assms(2) parse_join_paths [OF assms(4)] parse_join_paths [OF assms(5)] by (simp add: from_env_def)
qed

section \<open>The ruleset grants no more\<close>

lemma rule_for_access:
  "rule_for H p d f = Inr (Some (q, a)) \<Longrightarrow> q = p \<and> (a = d \<or> a = f)"
  by (auto simp: rule_for_def split: if_splits option.splits)

lemma collect_rules_wanted:
  "collect_rules H ws = Inr rules \<Longrightarrow> (q, a) \<in> set rules \<Longrightarrow> \<exists>d f. (q, d, f) \<in> set ws \<and> (a = d \<or> a = f)"
proof (induction ws arbitrary: rules)
  case (Cons w ws)
  obtain p d f where w: "w = (p, d, f)" by (cases w)
  from Cons.prems(1) w obtain r rs where r: "rule_for H p d f = Inr r" "collect_rules H ws = Inr rs"
    and rules: "rules = (case r of Some x \<Rightarrow> [x] | None \<Rightarrow> []) @ rs"
    by (auto split: sum.splits)
  show ?case
  proof (cases "(q, a) \<in> set rs")
    case True
    with Cons.IH [OF r(2)] show ?thesis by auto
  next
    case False
    with Cons.prems(2) rules have "r = Some (q, a)" by (auto split: option.splits)
    with r(1) have "q = p \<and> (a = d \<or> a = f)" using rule_for_access by blast
    with w show ?thesis by auto
  qed
qed simp

lemma wanted_write:
  "(q, d, f) \<in> set (wanted_rules H r b sp) \<Longrightarrow> can_write d \<or> can_write f \<Longrightarrow> q \<in> set (fsr_writable_paths r)"
  by (auto simp: wanted_rules_def split: option.splits if_splits)

text \<open>
  A sandboxed plugin writes only where it was granted. If its configuration restricts the
  filesystem, then whatever environment the kernel itself runs in, the shim reads back exactly the
  configured mode and paths, so a restriction is always applied; and every rule of a ruleset that
  comes into force and allows writing is for a configured writable path or the plugin's own data
  directory. The paths are non-empty and free of the separator, and the operator's variables do not
  redefine the three the supervisor uses.
\<close>

lemma sandboxed_write_confined:
  assumes "pc_sandbox c" "pc_max_fs_access c \<noteq> FsFull"
    and "\<forall>k \<in> {MAX_FS_ACCESS_ENV, RO_PATHS_ENV, RW_PATHS_ENV}. env_leaves (pc_env c) k"
    and "plain_paths (pc_readonly_paths c)" "plain_paths (granted_writable h s c)"
  shows "\<exists>r. from_env (child_environ inherited (build_command h s c)) = Some r
    \<and> fsr_mode r = pc_max_fs_access c
    \<and> (\<forall>H restrict_self socket rules p a. fs_apply H restrict_self r (pc_binary_path c) socket = Inr rules
        \<longrightarrow> (p, a) \<in> set rules \<longrightarrow> can_write a \<longrightarrow> p \<in> set (granted_writable h s c))"
proof -
  let ?r = "\<lparr>fsr_mode = pc_max_fs_access c, fsr_readonly_paths = pc_readonly_paths c,
            fsr_writable_paths = granted_writable h s c\<rparr>"
  have "p \<in> set (granted_writable h s c)"
    if "fs_apply H restrict_self ?r b socket = Inr rules" "(p, a) \<in> set rules" "can_write a"
    for H restrict_self b socket rules p a
  proof -
    have "collect_rules H (wanted_rules H ?r b socket) = Inr rules"
      using that(1) by (auto simp: fs_apply_def split: sum.splits if_splits)
    from collect_rules_wanted [OF this that(2)] that(3) show ?thesis using wanted_write by fastforce
  qed
  then show ?thesis using shim_restriction [OF assms] by fastforce
qed

section \<open>The cgroup directory\<close>

text \<open>Whatever the plugin id, the scope is one directory level below the kernel's own.\<close>

lemma sanitize_char_safe: "sanitize_char c \<noteq> CHR ''/''"
  by (auto simp: sanitize_char_def str_defs)

lemma sanitize_plugin_id_safe:
  "sanitize_plugin_id s \<noteq> [] \<and> sanitize_plugin_id s \<notin> {''.'', ''..''} \<and> CHR ''/'' \<notin> set (sanitize_plugin_id s)
   \<and> length (sanitize_plugin_id s) \<le> 63"
proof -
  have "CHR ''/'' \<notin> set (map sanitize_char (take 63 (char_starts s)))"
    using sanitize_char_safe by (metis (no_types, lifting) ex_map_conv)
  then show ?thesis by (auto simp: sanitize_plugin_id_def Let_def)
qed

lemma try_scope_pids_max:
  "try_scope G sys name n a = (ops, Some scope) \<Longrightarrow>
   WriteFile (path_join scope ''pids.max'') (show_nat n @ [newline]) \<in> set ops \<and> (\<exists>dir. scope = path_join (path_join dir VYN_CGROUP_DIR) name)"
  by (auto simp: try_scope_def Let_def split: if_splits prod.splits)

lemma try_scopes_pids_max:
  "try_scopes G sys name n as = (ops, Some scope) \<Longrightarrow>
   WriteFile (path_join scope ''pids.max'') (show_nat n @ [newline]) \<in> set ops \<and> (\<exists>dir. scope = path_join (path_join dir VYN_CGROUP_DIR) name)"
proof (induction as arbitrary: ops)
  case (Cons a as)
  obtain ops1 r where a: "try_scope G sys name n a = (ops1, r)" by (cases "try_scope G sys name n a")
  show ?case
  proof (cases r)
    case None
    with Cons a show ?thesis by (auto split: prod.splits)
  next
    case (Some sc)
    with Cons.prems a try_scope_pids_max [of G sys name n a ops1 sc] show ?thesis by auto
  qed
qed simp

text \<open>A prepared scope carries the budget and is named by the sanitised id.\<close>

lemma prepared_scope_has_budget:
  "prepare_pids_cgroup G sys pid n = (ops, Some scope) \<Longrightarrow>
   WriteFile (path_join scope ''pids.max'') (show_nat n @ [newline]) \<in> set ops
   \<and> (\<exists>dir. scope = path_join (path_join dir VYN_CGROUP_DIR) (sanitize_plugin_id pid))"
  by (auto simp: prepare_pids_cgroup_def dest: try_scopes_pids_max split: if_splits option.splits)

section \<open>Limits\<close>

lemma run_ops_none: "snd (run_ops sys ops) = None \<Longrightarrow> fst (run_ops sys ops) = ops"
  by (induction ops) (auto split: option.splits prod.splits)

text \<open>A sandboxed plugin that gets as far as its program has left the host network, and its address
  space is capped unless the operator disabled the cap.\<close>

lemma sandbox_pre_exec_complete:
  assumes "sandbox_pre_exec sys uid gid me procs vmem cg = (ops, None)"
  shows "UnshareNet \<in> set ops \<and> (vmem \<noteq> 0 \<longrightarrow> SetRlimitAs (vmem * 1024 * 1024 mod 2 ^ 64) \<in> set ops)
    \<and> (uid \<noteq> 0 \<longrightarrow> UnshareUser \<in> set ops)"
proof -
  let ?pre = "(if uid \<noteq> 0 then
      [UnshareUser, WriteFile ''/proc/self/setgroups'' (''deny'' @ [newline]),
       WriteFile ''/proc/self/uid_map'' (''0 '' @ show_nat uid @ '' 1'' @ [newline]),
       WriteFile ''/proc/self/gid_map'' (''0 '' @ show_nat gid @ '' 1'' @ [newline])] else []) @ [UnshareNet]"
  let ?lim = "if vmem = 0 then [] else [SetRlimitAs (vmem * 1024 * 1024 mod 2 ^ 64)]"
  have "snd (run_ops sys ?pre) = None" "snd (run_ops sys ?lim) = None"
    and ops: "ops = fst (run_ops sys ?pre) @ fst (apply_resource_limits sys me procs vmem cg)"
    using assms by (auto simp only: sandbox_pre_exec_def apply_resource_limits_def Let_def fst_conv snd_conv
        split: option.splits prod.splits)
  from this(1,2) [THEN run_ops_none] ops show ?thesis
    by (auto simp: apply_resource_limits_def Let_def split: prod.splits)
qed

section \<open>Escalation of the shim\<close>

text \<open>At most one \<^verbatim>\<open>SIGKILL\<close>, only for a forwarded signal, and not before the grace period ends.\<close>

definition shim_ok :: "shim_state \<Rightarrow> bool" where
  "shim_ok s \<longleftrightarrow> sh_kills s = (if sh_sigkill_sent s then 1 else 0) \<and> (sh_sigkill_sent s \<longrightarrow> sh_kill_deadline s \<noteq> None)"

lemma shim_round_ok: "shim_ok s \<Longrightarrow> shim_ok (shim_round g p s)"
  by (auto simp: shim_ok_def shim_round_def shim_escalate_def Let_def split: wait_status.split option.splits)

interpretation shim: step_system shim_start "shim_round g" shim_ok for g
  by unfold_locales (simp add: shim_ok_def shim_start_def, rule shim_round_ok)

lemma shim_kills_at_most_once: "sh_kills (shim_reap g ps shim_start) \<le> 1"
  using shim.inv_reach [where es = ps and g = g] by (auto simp: shim_reap_def shim_ok_def)

lemma shim_round_no_forward:
  "sh_kill_deadline s = None \<Longrightarrow> sh_kills s = 0 \<Longrightarrow> \<not> sp_forwarded p \<Longrightarrow>
   sh_kill_deadline (shim_round g p s) = None \<and> sh_kills (shim_round g p s) = 0"
  by (auto simp: shim_round_def shim_escalate_def Let_def split: wait_status.split)

lemma shim_leaves_alone:
  "\<forall>p \<in> set ps. \<not> sp_forwarded p \<Longrightarrow> sh_kills (shim_reap g ps shim_start) = 0"
proof -
  have "sh_kill_deadline s = None \<Longrightarrow> sh_kills s = 0 \<Longrightarrow> \<forall>p \<in> set ps. \<not> sp_forwarded p \<Longrightarrow>
      sh_kills (fold (shim_round g) ps s) = 0" for s
    by (induction ps arbitrary: s) (auto simp: shim_round_no_forward)
  then show "\<forall>p \<in> set ps. \<not> sp_forwarded p \<Longrightarrow> sh_kills (shim_reap g ps shim_start) = 0"
    by (simp add: shim_reap_def shim_start_def)
qed

text \<open>A plugin still alive at a poll after the deadline has been killed.\<close>

lemma shim_escalates:
  "sh_result s = None \<Longrightarrow> sp_status p = StillAlive \<Longrightarrow> sh_kill_deadline s = Some d \<Longrightarrow> d \<le> sp_now2 p \<Longrightarrow>
   sh_sigkill_sent (shim_round g p s)"
  by (simp add: shim_round_def shim_escalate_def Let_def)

end
