(* ===== verification/Shim.thy ===== *)
theory Shim
  imports Confinement
begin

text \<open>
  The sandbox shim, \<^verbatim>\<open>src/plugins/shim.rs\<close>: the namespaces it enters, the steps its child takes
  before it executes the plugin, the readiness handshake and the signal handler. Together with the
  supervisor's side of the handshake they show that a sandboxed plugin is supervised only when
  every layer of its confinement is in force.
\<close>

section \<open>Entering the sandbox\<close>

datatype shim_op =
    SocketPair
  | InstallHandler string
  | BlockSignals
  | PdeathSig
  | UnshareSandbox
  | WriteProc string string
  | MountRootPrivate
  | ClearMask
  | MountProc
  | DupStderr
  | LandlockEnforce "landlock_rule list"
  | SeccompEnforce "string list"
  | WriteReady
  | ExecPlugin string "string list"
  | UnblockSignals

text \<open>The context an error of an operation is reported with; without one it is the error itself.\<close>

fun shim_context :: "shim_op \<Rightarrow> string option" where
  "shim_context SocketPair = Some ''socketpair''"
| "shim_context PdeathSig = Some ''set_pdeathsig''"
| "shim_context UnshareSandbox = Some ''unshare(CLONE_NEWUSER|CLONE_NEWPID|CLONE_NEWNS)''"
| "shim_context (WriteProc name _) = Some (''write '' @ name)"
| "shim_context MountRootPrivate = Some ''make / rprivate''"
| "shim_context _ = None"

text \<open>What a shim asks of the machine: its system calls, the file system and the Landlock crate, its
  environment and its ids.\<close>

record shim_host =
  ho_sys :: "shim_op \<Rightarrow> string option"
  ho_fs :: host_fs
  ho_restrict_self :: "landlock_rule list \<Rightarrow> string + bool"
  ho_env :: environ
  ho_uid :: nat
  ho_gid :: nat

definition shim_setup :: "shim_host \<Rightarrow> shim_op list" where
  "shim_setup H = [SocketPair, InstallHandler ''SIGTERM'', InstallHandler ''SIGINT'', InstallHandler ''SIGHUP'',
     BlockSignals, PdeathSig, UnshareSandbox, WriteProc ''setgroups'' ''deny'',
     WriteProc ''uid_map'' (''0 '' @ show_nat (ho_uid H) @ '' 1'' @ [newline]),
     WriteProc ''gid_map'' (''0 '' @ show_nat (ho_gid H) @ '' 1'' @ [newline]), MountRootPrivate]"

definition seccomp_apply :: "shim_host \<Rightarrow> shim_op list \<times> string option" where
  "seccomp_apply H = run_ops (ho_sys H) [SeccompEnforce denied]"

definition landlock_apply :: "shim_host \<Rightarrow> fs_restriction option \<Rightarrow> string \<Rightarrow> string option \<Rightarrow> string + shim_op list" where
  "landlock_apply H restriction plugin_binary socket_path = (case restriction of
      None \<Rightarrow> Inr []
    | Some r \<Rightarrow> (case fs_apply (ho_fs H) (ho_restrict_self H) r plugin_binary socket_path of
          Inl e \<Rightarrow> Inl e
        | Inr rules \<Rightarrow> Inr [LandlockEnforce rules]))"

text \<open>The child's \<^verbatim>\<open>pre_exec\<close> closure: the operations performed and the error that ended it.\<close>

definition shim_pre_exec :: "shim_host \<Rightarrow> fs_restriction option \<Rightarrow> string \<Rightarrow> string option \<Rightarrow> shim_op list \<times> string option" where
  "shim_pre_exec H restriction plugin_binary socket_path =
    (case run_ops (ho_sys H) [PdeathSig, ClearMask, MountProc, DupStderr] of
       (ops, Some e) \<Rightarrow> (ops, Some e)
     | (ops, None) \<Rightarrow> (case landlock_apply H restriction plugin_binary socket_path of
           Inl e \<Rightarrow> (ops, Some e)
         | Inr lock \<Rightarrow> (case seccomp_apply H of
               (filt, Some e) \<Rightarrow> (ops @ lock @ filt, Some e)
             | (filt, None) \<Rightarrow> (case run_ops (ho_sys H) [WriteReady] of
                   (ready, res) \<Rightarrow> (ops @ lock @ filt @ ready, res)))))"

text \<open>What polling the readiness socket yields: the bytes read, a failed read, or neither in ten
  seconds.\<close>

datatype ready_poll = ReadyBytes string | ReadFailed | NotReady

text \<open>A run of the shim: the operations performed, the line printed for the supervisor, whether the
  child was killed before that, and the result, absent while the plugin lives.\<close>

record shim_report =
  sr_ops :: "shim_op list"
  sr_pid_line :: "string option"
  sr_killed :: bool
  sr_result :: "(string + int) option"

definition shim_failed :: "shim_op list \<Rightarrow> bool \<Rightarrow> string \<Rightarrow> shim_report" where
  "shim_failed ops killed e = \<lparr>sr_ops = ops, sr_pid_line = None, sr_killed = killed, sr_result = Some (Inl e)\<rparr>"

definition shim_run ::
  "shim_host \<Rightarrow> string \<Rightarrow> string list \<Rightarrow> nat \<Rightarrow> ready_poll \<Rightarrow> shim_poll list \<Rightarrow> shim_report" where
  "shim_run H plugin_binary args child_pid poll polls =
    (let restriction = from_env (ho_env H); socket_path = dm_get (ho_env H) ''VYN_SOCKET_PATH''
     in case run_ops (ho_sys H) (shim_setup H) of
          (ops, Some e) \<Rightarrow> shim_failed ops False (case shim_context (last ops) of Some c \<Rightarrow> c | None \<Rightarrow> e)
        | (ops, None) \<Rightarrow> (case shim_pre_exec H restriction plugin_binary socket_path of
              (pre, Some _) \<Rightarrow> shim_failed (ops @ pre) False ''spawn plugin''
            | (pre, None) \<Rightarrow> (case run_ops (ho_sys H) [ExecPlugin plugin_binary args] of
                  (ex, Some _) \<Rightarrow> shim_failed (ops @ pre @ ex) False ''spawn plugin''
                | (ex, None) \<Rightarrow> (case run_ops (ho_sys H) [UnblockSignals] of
                      (un, Some e) \<Rightarrow> shim_failed (ops @ pre @ ex @ un) False e
                    | (un, None) \<Rightarrow> (case poll of
                          ReadFailed \<Rightarrow> shim_failed (ops @ pre @ ex @ un) False ''read readiness''
                        | NotReady \<Rightarrow> shim_failed (ops @ pre @ ex @ un) True ''plugin did not signal readiness within 10s''
                        | ReadyBytes b \<Rightarrow>
                            if b \<noteq> ''R'' then shim_failed (ops @ pre @ ex @ un) True ''plugin did not signal readiness''
                            else \<lparr>sr_ops = ops @ pre @ ex @ un, sr_pid_line = Some (show_nat child_pid), sr_killed = False,
                                  sr_result = sh_result (shim_reap (shim_grace_secs (ho_env H)) polls shim_start)\<rparr>)))))"

text \<open>The signal handler: a signal is passed to the plugin once there is one; before that the shim
  dies of it.\<close>

datatype signal_action = PassTo int string | DieOf string

definition forward_signal :: "int \<Rightarrow> string \<Rightarrow> signal_action \<times> bool" where
  "forward_signal child sig = (if child > 0 then (PassTo child sig, True) else (DieOf sig, False))"

section \<open>Admission\<close>

lemma shim_pre_exec_complete:
  assumes "shim_pre_exec H restriction b sp = (pre, None)"
  shows "\<exists>lock. landlock_apply H restriction b sp = Inr lock
    \<and> pre = [PdeathSig, ClearMask, MountProc, DupStderr] @ lock @ [SeccompEnforce denied, WriteReady]"
  using assms by (auto simp: shim_pre_exec_def seccomp_apply_def split: option.splits sum.splits prod.splits)

lemma shim_run_admits:
  assumes "sr_pid_line (shim_run H b args child poll polls) = Some l"
  shows "l = show_nat child \<and> poll = ReadyBytes ''R''
    \<and> (\<exists>lock. landlock_apply H (from_env (ho_env H)) b (dm_get (ho_env H) ''VYN_SOCKET_PATH'') = Inr lock
        \<and> sr_ops (shim_run H b args child poll polls)
          = shim_setup H @ ([PdeathSig, ClearMask, MountProc, DupStderr] @ lock @ [SeccompEnforce denied, WriteReady])
            @ [ExecPlugin b args, UnblockSignals])"
proof -
  let ?r = "from_env (ho_env H)" and ?sp = "dm_get (ho_env H) ''VYN_SOCKET_PATH''"
  obtain ops res where s: "run_ops (ho_sys H) (shim_setup H) = (ops, res)" by fastforce
  obtain pre res2 where p: "shim_pre_exec H ?r b ?sp = (pre, res2)" by fastforce
  have none: "res = None" "res2 = None"
    using assms s p by (auto simp: shim_run_def shim_failed_def Let_def split: option.splits)
  have "ops = shim_setup H" using run_ops_none [of "ho_sys H" "shim_setup H"] s none by simp
  with shim_pre_exec_complete [of H ?r b ?sp pre] assms s p none show ?thesis
    by (auto simp: shim_run_def shim_failed_def Let_def split: option.splits ready_poll.splits if_splits)
qed

section \<open>The handshake\<close>

text \<open>The printed pid is what the supervisor reads.\<close>

lemma show_nat_digits: "list_all is_ascii_digit (show_nat n)"
proof (induction n rule: show_nat.induct)
  case (1 n)
  have d: "is_ascii_digit (digit_char k)" if "k < 10" for k
    using that by (simp add: is_ascii_digit_def byte_val_digit_char)
  show ?case using 1 by (subst show_nat.simps) (simp add: d)
qed

lemma white_space_no_digit:
  "list_all (\<lambda>w. w \<noteq> [] \<and> \<not> is_ascii_digit (hd w) \<and> \<not> is_ascii_digit (last w)) white_space"
  by code_simp

lemma starts_with_hd: "starts_with s w \<Longrightarrow> w \<noteq> [] \<Longrightarrow> s \<noteq> [] \<and> hd s = hd w"
  by (auto simp: starts_with_iff)

lemma trim_digits:
  assumes "list_all is_ascii_digit s"
  shows "trim s = s"
proof -
  have "trim_start_of white_space s = s"
  proof (rule trim_start_of_fixed)
    fix w assume "w \<in> set white_space" "w \<noteq> []"
    with white_space_no_digit have "\<not> is_ascii_digit (hd w)" by (auto simp: list_all_iff)
    with \<open>w \<noteq> []\<close> assms starts_with_hd [of s w] show "\<not> starts_with s w" by (metis hd_in_set list_all_iff)
  qed
  moreover have "trim_start_of (map rev white_space) (rev s) = rev s"
  proof (rule trim_start_of_fixed)
    fix w assume "w \<in> set (map rev white_space)" "w \<noteq> []"
    then obtain v where v: "v \<in> set white_space" "w = rev v" "v \<noteq> []" by auto
    with white_space_no_digit have "\<not> is_ascii_digit (hd w)" by (auto simp: list_all_iff hd_rev)
    with \<open>w \<noteq> []\<close> assms starts_with_hd [of "rev s" w] show "\<not> starts_with (rev s) w"
      by (metis hd_in_set list_all_iff set_rev)
  qed
  ultimately show ?thesis by (simp add: trim_def)
qed

lemma parse_show_nat: "parse_uint bound (trim (show_nat n)) = (if n < bound then Some n else None)"
proof -
  have d: "list_all is_ascii_digit (show_nat n)" by (rule show_nat_digits)
  have ne: "show_nat n \<noteq> []" by (subst show_nat.simps) simp
  have "hd (show_nat n) \<noteq> CHR ''+''"
    using d ne by (cases "show_nat n") (auto simp: is_ascii_digit_def byte_val_def)
  then have "(case show_nat n of c # cs \<Rightarrow> if c = CHR ''+'' then cs else show_nat n | [] \<Rightarrow> show_nat n) = show_nat n"
    using ne by (cases "show_nat n") auto
  then show ?thesis using d ne by (simp add: parse_uint_def trim_digits [OF d] Let_def)
qed

text \<open>The arguments the supervisor gives the shim name the plugin and its arguments.\<close>

lemma shim_command:
  "pc_sandbox c \<Longrightarrow> cmd_args (build_command h s c) = ''__shim'' # pc_binary_path c # pc_args c"
  by (simp add: build_command_def Let_def)


definition sandboxed_config :: plugin_config where
  "sandboxed_config = sample_config\<lparr>pc_sandbox := True, pc_max_fs_access := FsReadOnly,
     pc_readonly_paths := [''/etc/cam''], pc_writable_paths := [''/var/cam''], pc_env := [''LANG=C'']\<rparr>"

definition sample_shim :: shim_host where
  "sample_shim = \<lparr>ho_sys = (\<lambda>_. None),
     ho_fs = \<lparr>hf_exists = (\<lambda>_. True), hf_is_dir = (\<lambda>_. True), hf_open = (\<lambda>_. None), hf_canonicalize = (\<lambda>_. None), hf_path_dirs = None\<rparr>,
     ho_restrict_self = (\<lambda>_. Inr True),
     ho_env = child_environ [] (build_command sample_host (set_data_dir ''/data'' (w_sup sample_world)) sandboxed_config),
     ho_uid = 1000, ho_gid = 1000\<rparr>"


end
