(* ===== verification/Loader.thy ===== *)
theory Loader
  imports Confinement
begin

text \<open>
  The plugin loader, \<^verbatim>\<open>src/plugins/loader.rs\<close>, and the manager it starts plugins through,
  \<^verbatim>\<open>src/plugins/manager.rs\<close>. The manifest type and its validation belong to the wire crate: a
  parameter. The worklist loop of \<^verbatim>\<open>topo_sort\<close> is a partial function, because it does not end on
  every input.
\<close>

section \<open>From configuration entry to supervisor configuration\<close>

definition restart_policy_of :: "string \<Rightarrow> restart_policy" where
  "restart_policy_of s = (if s = ''always'' then Always else if s = ''on-failure'' then OnFailure
     else if s = ''never'' then Never else OnFailure)"

definition config_from_def :: "plugin_def \<Rightarrow> plugin_config" where
  "config_from_def d = \<lparr>pc_plugin_id = pd_id d, pc_binary_path = pd_binary d, pc_args = pd_args d,
     pc_env = pd_env d, pc_restart_policy = restart_policy_of (pd_restart d),
     pc_max_restarts = pd_max_restarts d, pc_sandbox = pd_sandbox d, pc_grace_seconds = pd_grace_seconds d,
     pc_max_procs = pd_max_procs d, pc_max_vmem_mb = pd_max_vmem_mb d,
     pc_max_fs_access = (case Option.bind (pd_max_fs_access d) fs_parse of Some m \<Rightarrow> m | None \<Rightarrow> FsFull),
     pc_readonly_paths = pd_readonly_paths d, pc_writable_paths = pd_writable_paths d\<rparr>"

section \<open>Manifest validation\<close>

record manifest_action =
  ma_name :: string
  ma_permission :: "string option"

record install_manifest =
  nm_permissions :: "string list"
  nm_requires :: "string list"
  nm_actions :: "manifest_action list option"
  nm_events :: "string list option"

record loader_env =
  le_wire :: wire
  le_exists :: "string \<Rightarrow> bool"
  le_kernel_version :: "string + string"
  le_validate_manifest :: "string \<Rightarrow> string \<Rightarrow> install_manifest result"

definition permission_granted :: "string list \<Rightarrow> string \<Rightarrow> bool" where
  "permission_granted granted perm \<longleftrightarrow> list_ex (\<lambda>g. normalize_permission g = normalize_permission perm) granted"

definition validate_plugin_def :: "loader_env \<Rightarrow> plugin_def \<Rightarrow> install_manifest option result" where
  "validate_plugin_def E d = (case path_parent (pd_binary d) of
      None \<Rightarrow> Inr None
    | Some dir \<Rightarrow>
        if dir = [] then Inr None
        else let manifest_path = path_join dir ''plugin.json''
             in if \<not> le_exists E manifest_path then Inr None
                else case le_kernel_version E of
                    Inl e \<Rightarrow> Inl (Internal (''kernel version parse: '' @ e))
                  | Inr v \<Rightarrow> (case le_validate_manifest E manifest_path v of
                        Inl e \<Rightarrow> Inl e
                      | Inr m \<Rightarrow>
                          (case (if pd_permissions d = [] then None
                                 else find (\<lambda>p. \<not> permission_granted (pd_permissions d) p) (nm_permissions m)) of
                             Some perm \<Rightarrow> Inl (PermissionDenied (''Plugin '' @ [CHR 0x27] @ pd_id d @ [CHR 0x27]
                               @ '' requests permission '' @ [CHR 0x27] @ perm @ [CHR 0x27] @ '' which is not granted in config''))
                           | None \<Rightarrow> Inr (Some m))))"

section \<open>Topological sort\<close>

type_synonym deps = "(string, string list) dashmap"

definition active_ids :: "plugin_def list \<Rightarrow> string list \<Rightarrow> string list" where
  "active_ids defs refused = filter (\<lambda>i. i \<notin> set refused) (map pd_id defs)"

text \<open>The edges in the order in which both counting loops visit them: a dependency and its dependant.\<close>

definition edges :: "string list \<Rightarrow> deps \<Rightarrow> string list \<Rightarrow> (string \<times> string) list" where
  "edges active deps refused =
     concat (map (\<lambda>i. map (\<lambda>d. (d, i)) (filter (\<lambda>d. d \<notin> set refused) (or_default deps i))) active)"

definition count_of :: "(string, nat) dashmap \<Rightarrow> string \<Rightarrow> nat" where
  "count_of m k = (case dm_get m k of Some n \<Rightarrow> n | None \<Rightarrow> 0)"

definition in_degrees :: "string list \<Rightarrow> (string \<times> string) list \<Rightarrow> (string, nat) dashmap" where
  "in_degrees active es =
     fold (\<lambda>(_, i) m. dm_insert i (count_of m i + 1) m) es (fold (\<lambda>i. dm_insert i 0) active [])"

definition reverse_edges :: "(string \<times> string) list \<Rightarrow> (string, string list) dashmap" where
  "reverse_edges es = fold (\<lambda>(d, i) m. dm_insert d (or_default m d @ [i]) m) es []"

text \<open>One dependant of the id just taken: its count drops, and it is queued when the count is zero.\<close>

definition release :: "string \<Rightarrow> (string, nat) dashmap \<times> string list \<Rightarrow> (string, nat) dashmap \<times> string list" where
  "release i st = (case st of (m, q) \<Rightarrow>
     let c = count_of m i - 1 in (dm_insert i c m, if c = 0 then q @ [i] else q))"

partial_function (option) kahn ::
  "(string, string list) dashmap \<Rightarrow> string list \<Rightarrow> (string, nat) dashmap \<Rightarrow> string list \<Rightarrow> string list option" where
  "kahn radj q m order = (case q of
      [] \<Rightarrow> Some order
    | i # q1 \<Rightarrow> (case fold release (or_default radj i) (m, q1) of
          (m2, q2) \<Rightarrow> kahn radj q2 m2 (order @ [i])))"

definition topo_sort :: "plugin_def list \<Rightarrow> deps \<Rightarrow> string list \<Rightarrow> (string list + string list) option" where
  "topo_sort defs deps refused =
    (let active = active_ids defs refused;
         es = edges active deps refused;
         m = in_degrees active es
     in case kahn (reverse_edges es) (filter (\<lambda>i. count_of m i = 0) active) m [] of
          None \<Rightarrow> None
        | Some order \<Rightarrow>
            Some (if length order < length active then Inl (filter (\<lambda>i. i \<notin> set order) active)
                  else Inr order))"

section \<open>Loading everything\<close>

record manager =
  mg_world :: world
  mg_registry :: registry

definition manager_start :: "spawn_host \<Rightarrow> plugin_config \<Rightarrow> spawn_outcome \<Rightarrow> manager \<Rightarrow> plugin_process result \<times> manager" where
  "manager_start h c out g = (case spawn_plugin h c out (mg_world g) of (r, w) \<Rightarrow> (r, g\<lparr>mg_world := w\<rparr>))"

definition manager_stop :: "string \<Rightarrow> bool \<Rightarrow> manager \<Rightarrow> unit result \<times> manager" where
  "manager_stop plugin_id in_time g = (case stop_plugin plugin_id in_time (mg_world g) of
     (r, w) \<Rightarrow> (r, g\<lparr>mg_world := w, mg_registry := unregister plugin_id (mg_registry g)\<rparr>))"

definition manager_restart :: "string \<Rightarrow> manager \<Rightarrow> unit result \<times> manager" where
  "manager_restart plugin_id g = (case restart_plugin plugin_id (mg_world g) of (r, w) \<Rightarrow> (r, g\<lparr>mg_world := w\<rparr>))"

definition is_supervised :: "manager \<Rightarrow> string \<Rightarrow> bool" where
  "is_supervised g plugin_id = is_running (w_sup (mg_world g)) plugin_id"

definition is_connected :: "manager \<Rightarrow> string \<Rightarrow> bool" where
  "is_connected g plugin_id \<longleftrightarrow> get_plugin (mg_registry g) plugin_id \<noteq> None"

definition manager_logs :: "manager \<Rightarrow> string \<Rightarrow> nat \<Rightarrow> string list" where
  "manager_logs g plugin_id n = get_logs (w_sup (mg_world g)) plugin_id n"

text \<open>The requirements the manifest declares for its actions.\<close>

definition manifest_requirements :: "wire \<Rightarrow> install_manifest \<Rightarrow> (string, string) dashmap" where
  "manifest_requirements W m = (case nm_actions m of
      None \<Rightarrow> []
    | Some actions \<Rightarrow> fold (\<lambda>a reqs. case Option.bind (ma_permission a) (resolve_permission W) of
          Some pt \<Rightarrow> dm_insert (ma_name a) pt reqs | None \<Rightarrow> reqs) actions [])"

record load_scan =
  ls_manifests :: "(string, install_manifest option) dashmap"
  ls_refused :: "string list"
  ls_registry :: registry

definition scan_def :: "loader_env \<Rightarrow> plugin_def \<Rightarrow> load_scan \<Rightarrow> load_scan" where
  "scan_def E d s = (case validate_plugin_def E d of
      Inl e \<Rightarrow> s\<lparr>ls_refused := List.insert (pd_id d) (ls_refused s)\<rparr>
    | Inr m \<Rightarrow>
        let reqs = (case m of Some mf \<Rightarrow> manifest_requirements (le_wire E) mf | None \<Rightarrow> [])
        in s\<lparr>ls_manifests := dm_insert (pd_id d) m (ls_manifests s),
             ls_registry := (if reqs = [] then ls_registry s
                             else set_action_requirements (pd_id d) reqs (ls_registry s))\<rparr>)"

definition required_ids :: "(string, install_manifest option) dashmap \<Rightarrow> string \<Rightarrow> string list" where
  "required_ids ms i = (case dm_get ms i of Some (Some m) \<Rightarrow> nm_requires m | _ \<Rightarrow> [])"

definition resolve_def ::
  "string list \<Rightarrow> (string, install_manifest option) dashmap \<Rightarrow> plugin_def \<Rightarrow> deps \<times> string list \<Rightarrow> deps \<times> string list" where
  "resolve_def id_set ms d st = (case st of (deps, refused) \<Rightarrow>
     if pd_id d \<in> set refused then (deps, refused)
     else let reqs = required_ids ms (pd_id d)
          in if list_ex (\<lambda>r. r \<notin> set id_set) reqs then (deps, List.insert (pd_id d) refused)
             else (dm_insert (pd_id d) reqs deps, refused))"

text \<open>The ids to start, in order, and the ids refused.\<close>

definition load_order ::
  "plugin_def list \<Rightarrow> deps \<Rightarrow> string list \<Rightarrow> (string list \<times> string list) option" where
  "load_order defs deps refused = (case topo_sort defs deps refused of
      None \<Rightarrow> None
    | Some (Inr order) \<Rightarrow> Some (order, refused)
    | Some (Inl cyc) \<Rightarrow>
        let refused1 = fold List.insert cyc refused
        in Some (filter (\<lambda>i. i \<notin> set refused1) (map pd_id defs), refused1))"

text \<open>Starting one id of the order; \<open>outs\<close> gives what the operating system answers.\<close>

definition load_one ::
  "spawn_host \<Rightarrow> (string \<Rightarrow> spawn_outcome) \<Rightarrow> plugin_def list \<Rightarrow> (string, install_manifest option) dashmap
   \<Rightarrow> string list \<Rightarrow> string \<Rightarrow> manager \<times> event_bus option \<Rightarrow> manager \<times> event_bus option" where
  "load_one h outs defs ms refused i st = (case st of (g, bus) \<Rightarrow>
     (case find (\<lambda>d. pd_id d = i) defs of
        None \<Rightarrow> (g, bus)
      | Some d \<Rightarrow>
          if i \<in> set refused then (g, bus)
          else case manager_start h (config_from_def d) (outs i) g of
              (Inl e, g1) \<Rightarrow> (g1, bus)
            | (Inr p, g1) \<Rightarrow>
                (g1, case dm_get ms (pd_id d) of
                       Some (Some m) \<Rightarrow> map_option (\<lambda>b.
                         let events = (case nm_events m of Some es \<Rightarrow> es | None \<Rightarrow> [])
                         in if events = [] then b else subscribe (pd_id d) events b) bus
                     | _ \<Rightarrow> bus)))"

definition load_all ::
  "loader_env \<Rightarrow> spawn_host \<Rightarrow> (string \<Rightarrow> spawn_outcome) \<Rightarrow> plugin_def list \<Rightarrow> manager \<times> event_bus option
   \<Rightarrow> (manager \<times> event_bus option) option" where
  "load_all E h outs defs st = (case st of (g, bus) \<Rightarrow>
     if defs = [] then Some (g, bus)
     else let scan = fold (scan_def E) defs \<lparr>ls_manifests = [], ls_refused = [], ls_registry = mg_registry g\<rparr>;
              ms = ls_manifests scan;
              (deps, refused) = fold (resolve_def (map pd_id defs) ms) defs ([], ls_refused scan)
          in case load_order defs deps refused of
               None \<Rightarrow> None
             | Some (order, refused1) \<Rightarrow>
                 Some (fold (load_one h outs defs ms refused1) order (g\<lparr>mg_registry := ls_registry scan\<rparr>, bus)))"

end
