(* ===== verification/Loader_Props.thy ===== *)
theory Loader_Props
  imports Loader
begin

text \<open>
  Correctness of the load order: for distinct plugin ids the worklist loop ends, and its answer is
  an order with dependencies first exactly when the dependencies are acyclic. Without distinct ids
  it can run forever.
\<close>

section \<open>The tables\<close>

lemma count_of_insert [simp]: "count_of (dm_insert k n m) j = (if j = k then n else count_of m j)"
  by (simp add: count_of_def)

text \<open>The number of edges into an id from ids not in \<open>P\<close>.\<close>

definition open_edges :: "(string \<times> string) list \<Rightarrow> string set \<Rightarrow> string \<Rightarrow> nat" where
  "open_edges es P i = length (filter (\<lambda>(d, j). j = i \<and> d \<notin> P) es)"

lemma count_of_zeros: "count_of (fold (\<lambda>i. dm_insert i 0) is m) j = (if j \<in> set is then 0 else count_of m j)"
  by (induction "is" arbitrary: m) auto

lemma count_of_edges:
  "count_of (fold (\<lambda>(_, i) m. dm_insert i (count_of m i + 1) m) es m) j = count_of m j + open_edges es {} j"
  by (induction es arbitrary: m) (auto simp: open_edges_def)

lemma count_of_in_degrees: "count_of (in_degrees active es) i = open_edges es {} i"
  unfolding in_degrees_def count_of_edges count_of_zeros by (simp add: count_of_def dm_get_def)

definition dependants :: "(string \<times> string) list \<Rightarrow> string \<Rightarrow> string list" where
  "dependants es d = map snd (filter (\<lambda>e. fst e = d) es)"

lemma or_default_reverse_fold:
  "or_default (fold (\<lambda>(d, i) m. dm_insert d (or_default m d @ [i]) m) es m) d = or_default m d @ dependants es d"
  by (induction es arbitrary: m) (auto simp: dependants_def)

lemma or_default_reverse_edges: "or_default (reverse_edges es) d = dependants es d"
  by (simp add: reverse_edges_def or_default_reverse_fold) (simp add: or_default_def dm_get_def)

section \<open>One round\<close>

text \<open>Releasing the dependants of an id: every count drops by the number of its edges, and exactly
  the ids whose count reaches zero are queued, once each.\<close>

lemma release_all:
  assumes "\<And>i. count_list ds i \<le> count_of m i"
  shows "\<exists>m2 new. fold release ds (m, q) = (m2, q @ new) \<and> (\<forall>i. count_of m2 i = count_of m i - count_list ds i)
    \<and> distinct new \<and> set new = {i \<in> set ds. count_of m i = count_list ds i}"
  using assms
proof (induction ds arbitrary: m q)
  case (Cons d ds)
  let ?c = "count_of m d - 1" and ?m = "dm_insert d (count_of m d - 1) m"
  let ?q = "if ?c = 0 then q @ [d] else q"
  have le: "count_list ds i \<le> count_of ?m i" for i
    using Cons.prems [of i] by (auto split: if_splits)
  from Cons.IH [OF le, of ?q] obtain m2 new where
    new: "fold release ds (?m, ?q) = (m2, ?q @ new)" "\<forall>i. count_of m2 i = count_of ?m i - count_list ds i"
      "distinct new" "set new = {i \<in> set ds. count_of ?m i = count_list ds i}" by blast
  have pos: "0 < count_of m d" using Cons.prems [of d] by simp
  have zero: "d \<notin> set ds" if "?c = 0" using le [of d] that by (simp add: count_list_0_iff)
  let ?new = "(if ?c = 0 then [d] else []) @ new"
  have "fold release (d # ds) (m, q) = (m2, q @ ?new)" using new(1) by (simp add: release_def Let_def)
  moreover have "\<forall>i. count_of m2 i = count_of m i - count_list (d # ds) i" using new(2) by auto
  moreover have "distinct ?new" using new(3,4) zero by auto
  moreover have "i \<in> set ?new \<longleftrightarrow> i \<in> set (d # ds) \<and> count_of m i = count_list (d # ds) i" for i
  proof (cases "i = d")
    case True
    show ?thesis
    proof (cases "?c = 0")
      case True
      with zero pos \<open>i = d\<close> show ?thesis by (simp add: count_list_0_iff)
    next
      case False
      have "d \<in> set new \<longleftrightarrow> d \<in> set ds \<and> count_of m d - 1 = count_list ds d" by (simp add: new(4))
      moreover have "count_of m d - 1 = count_list ds d \<longleftrightarrow> count_of m d = Suc (count_list ds d)" using pos by linarith
      moreover have "d \<in> set ds" if "count_of m d = Suc (count_list ds d)"
        using that False by (metis count_notin diff_Suc_1)
      ultimately have "d \<in> set new \<longleftrightarrow> count_of m d = Suc (count_list ds d)" by blast
      then show ?thesis using False \<open>i = d\<close> by simp
    qed
  qed (simp add: new(4))
  then have "set ?new = {i \<in> set (d # ds). count_of m i = count_list (d # ds) i}" by blast
  ultimately show ?case by (intro exI [of _ m2] exI [of _ ?new] conjI)
qed simp

section \<open>The loop\<close>

text \<open>Between rounds: ids taken and ids queued are distinct active ids, the counts are the edges from ids
  not yet taken, an id is taken or queued exactly when its count is zero, and every id taken has
  its dependencies before it.\<close>

definition deps_first :: "(string \<times> string) list \<Rightarrow> string list \<Rightarrow> bool" where
  "deps_first es order \<longleftrightarrow> (\<forall>n < length order. \<forall>d. (d, order ! n) \<in> set es \<longrightarrow> d \<in> set (take n order))"

definition kahn_inv ::
  "string list \<Rightarrow> (string \<times> string) list \<Rightarrow> string list \<Rightarrow> (string, nat) dashmap \<Rightarrow> string list \<Rightarrow> bool" where
  "kahn_inv active es q m order \<longleftrightarrow> distinct (order @ q) \<and> set (order @ q) \<subseteq> set active
     \<and> (\<forall>i. count_of m i = open_edges es (set order) i)
     \<and> (\<forall>i \<in> set active. i \<in> set (order @ q) \<longleftrightarrow> count_of m i = 0)
     \<and> deps_first es order"

lemma open_edges_insert:
  "d \<notin> P \<Longrightarrow> open_edges es P i = open_edges es (insert d P) i + count_list (dependants es d) i"
  by (induction es) (auto simp: open_edges_def dependants_def)

lemma open_edges_zero: "open_edges es P i = 0 \<longleftrightarrow> (\<forall>d. (d, i) \<in> set es \<longrightarrow> d \<in> P)"
  by (auto simp: open_edges_def filter_empty_conv)

lemma deps_first_snoc:
  "deps_first es order \<Longrightarrow> (\<And>d. (d, i) \<in> set es \<Longrightarrow> d \<in> set order) \<Longrightarrow> deps_first es (order @ [i])"
  by (auto simp: deps_first_def nth_append less_Suc_eq)

lemma kahn_round:
  assumes inv: "kahn_inv active es (i # q) m order" and act: "snd ` set es \<subseteq> set active"
  shows "\<exists>m2 q2. fold release (dependants es i) (m, q) = (m2, q2) \<and> kahn_inv active es q2 m2 (order @ [i])"
proof -
  have i: "i \<notin> set order" "i \<in> set active" "count_of m i = 0"
    and cnt: "\<And>j. count_of m j = open_edges es (insert i (set order)) j + count_list (dependants es i) j"
    using inv open_edges_insert [of i "set order" es] by (auto simp: kahn_inv_def)
  then have "\<And>j. count_list (dependants es i) j \<le> count_of m j" by simp
  from release_all [OF this, of q] obtain m2 new where
    new: "fold release (dependants es i) (m, q) = (m2, q @ new)" "\<forall>j. count_of m2 j = count_of m j - count_list (dependants es i) j"
      "distinct new" "set new = {j \<in> set (dependants es i). count_of m j = count_list (dependants es i) j}" by blast
  have m2: "count_of m2 j = open_edges es (set (order @ [i])) j" for j using new(2) cnt by simp
  have pos: "0 < count_of m j" if "j \<in> set (dependants es i)" for j
  proof -
    have "count_list (dependants es i) j \<noteq> 0" using that by (simp add: count_list_0_iff)
    then show ?thesis using cnt [of j] by simp
  qed
  have sub: "set new \<subseteq> set active" using new(4) act by (auto simp: dependants_def)
  have disj: "j \<notin> set (order @ i # q)" if "j \<in> set new" for j
    using that pos [of j] new(4) inv sub unfolding kahn_inv_def by (metis (mono_tags, lifting) mem_Collect_eq not_less_zero subsetD)
  have iff: "j \<in> set ((order @ [i]) @ q @ new) \<longleftrightarrow> count_of m2 j = 0" if "j \<in> set active" for j
  proof -
    have "j \<in> set (order @ i # q) \<longleftrightarrow> count_of m j = 0" using inv that by (simp add: kahn_inv_def)
    moreover have "j \<in> set new \<longleftrightarrow> count_of m j \<noteq> 0 \<and> count_of m2 j = 0"
      using new(2,4) pos [of j] cnt [of j] count_list_0_iff [of "dependants es i" j] by auto
    moreover have "count_of m j = 0 \<Longrightarrow> count_of m2 j = 0" using new(2) by simp
    ultimately show ?thesis by auto
  qed
  have "deps_first es (order @ [i])"
    using inv i(3) open_edges_zero [of es "set order" i] by (intro deps_first_snoc) (auto simp: kahn_inv_def)
  moreover have "distinct ((order @ [i]) @ q @ new)" using inv new(3) disj by (auto simp: kahn_inv_def)
  moreover have "set ((order @ [i]) @ q @ new) \<subseteq> set active" using inv sub by (auto simp: kahn_inv_def)
  ultimately have "kahn_inv active es (q @ new) m2 (order @ [i])" using iff m2 unfolding kahn_inv_def by blast
  with new(1) show ?thesis by blast
qed

lemma kahn_ends:
  assumes "kahn_inv active es q m order" "snd ` set es \<subseteq> set active"
  shows "\<exists>res m2. kahn (reverse_edges es) q m order = Some res \<and> kahn_inv active es [] m2 res"
  using assms
proof (induction "card (set active) - length order" arbitrary: q m order rule: less_induct)
  case less
  show ?case
  proof (cases q)
    case Nil
    then show ?thesis using less.prems by (subst kahn.simps) auto
  next
    case (Cons i q1)
    from kahn_round [OF less.prems(1) [unfolded Cons] less.prems(2)] obtain m2 q2 where
      r: "fold release (dependants es i) (m, q1) = (m2, q2)" "kahn_inv active es q2 m2 (order @ [i])" by blast
    have "length (order @ q) = card (set (order @ q))" 
      using less.prems(1) distinct_card [of "order @ q"] by (simp add: kahn_inv_def)
    also have "\<dots> \<le> card (set active)" using less.prems(1) by (intro card_mono) (auto simp: kahn_inv_def)
    finally have "card (set active) - length (order @ [i]) < card (set active) - length order" using Cons by simp
    from less.hyps [OF this r(2) less.prems(2)] show ?thesis
      using Cons r(1) by (subst kahn.simps) (simp add: or_default_reverse_edges)
  qed
qed

section \<open>Order and acyclicity\<close>

lemma takeWhile_before: "x \<in> set (take n xs) \<Longrightarrow> length (takeWhile (\<lambda>y. y \<noteq> x) xs) < n"
proof (induction xs arbitrary: n)
  case (Cons y xs)
  then show ?case by (cases n) auto
qed simp

lemma takeWhile_after: "x \<notin> set (take n xs) \<Longrightarrow> n \<le> length xs \<Longrightarrow> n \<le> length (takeWhile (\<lambda>y. y \<noteq> x) xs)"
proof (induction xs arbitrary: n)
  case (Cons y xs)
  then show ?case by (cases n) auto
qed simp

text \<open>An order with dependencies first exists only for an acyclic relation.\<close>

lemma deps_first_acyclic:
  assumes "deps_first es order" "distinct order" "snd ` set es \<subseteq> set order"
  shows "acyclic (set es)"
proof -
  have "(d, i) \<in> measure (\<lambda>x. length (takeWhile (\<lambda>y. y \<noteq> x) order))" if "(d, i) \<in> set es" for d i
  proof -
    from that assms(3) have "i \<in> set order" by (metis image_subset_iff snd_conv)
    then obtain n where n: "n < length order" "order ! n = i" by (auto simp: in_set_conv_nth)
    with that assms(1) have "d \<in> set (take n order)" by (auto simp: deps_first_def)
    moreover have "i \<notin> set (take n order)"
      using n assms(2) by (auto simp: in_set_conv_nth nth_eq_iff_index_eq)
    ultimately show ?thesis using takeWhile_before [of d n order] takeWhile_after [of i n order] n(1) by simp
  qed
  then have "set es \<subseteq> measure (\<lambda>x. length (takeWhile (\<lambda>y. y \<noteq> x) order))" by auto
  then show ?thesis using wf_acyclic wf_measure wf_subset by blast
qed

text \<open>A non-empty set in which everything has a predecessor contains a cycle.\<close>

lemma no_minimum_cyclic:
  assumes "C \<noteq> {}" "\<forall>i \<in> C. \<exists>d \<in> C. (d, i) \<in> set es"
  shows "\<not> acyclic (set es)"
proof
  assume "acyclic (set es)"
  then have "wf (set es)" by (simp add: finite_acyclic_wf)
  then obtain i where "i \<in> C" "\<And>d. (d, i) \<in> set es \<Longrightarrow> d \<notin> C" using assms(1) wfE_min by (metis all_not_in_conv)
  then show False using assms(2) by blast
qed

lemma edges_active: "snd ` set (edges active deps refused) \<subseteq> set active"
  by (auto simp: edges_def)

lemma kahn_inv_start:
  "distinct active \<Longrightarrow> kahn_inv active es (filter (\<lambda>i. count_of (in_degrees active es) i = 0) active) (in_degrees active es) []"
  by (auto simp: kahn_inv_def count_of_in_degrees deps_first_def)

lemma kahn_inv_result:
  assumes inv: "kahn_inv active es [] m order" and "distinct active" and closed: "fst ` set es \<subseteq> set active"
    and act: "snd ` set es \<subseteq> set active"
  shows "if length order < length active
     then \<not> acyclic (set es) \<and> filter (\<lambda>i. i \<notin> set order) active \<noteq> []
        \<and> (\<forall>i \<in> set (filter (\<lambda>i. i \<notin> set order) active). \<exists>d \<in> set (filter (\<lambda>i. i \<notin> set order) active). (d, i) \<in> set es)
     else acyclic (set es) \<and> distinct order \<and> set order = set active \<and> deps_first es order"
proof (cases "length order < length active")
  case True
  let ?C = "set (filter (\<lambda>i. i \<notin> set order) active)"
  have pred: "\<exists>d \<in> ?C. (d, i) \<in> set es" if "i \<in> ?C" for i
  proof -
    from that inv have "open_edges es (set order) i \<noteq> 0" by (auto simp: kahn_inv_def)
    then obtain d where "(d, i) \<in> set es" "d \<notin> set order" by (auto simp: open_edges_zero)
    with closed show ?thesis by force
  qed
  have "\<not> set active \<subseteq> set order"
  proof
    assume "set active \<subseteq> set order"
    then have "card (set active) \<le> card (set order)" by (simp add: card_mono)
    also have "\<dots> \<le> length order" by (rule card_length)
    finally show False using True assms(2) by (simp add: distinct_card)
  qed
  then have ne: "?C \<noteq> {}" by auto
  then have "filter (\<lambda>i. i \<notin> set order) active \<noteq> []" by (metis empty_set)
  moreover have "\<not> acyclic (set es)" using no_minimum_cyclic [OF ne] pred by blast
  ultimately show ?thesis using True pred by simp
next
  case False
  have o: "distinct order" "set order \<subseteq> set active" "deps_first es order" using inv by (auto simp: kahn_inv_def)
  have "card (set active) \<le> card (set order)" using False o(1) assms(2) by (simp add: distinct_card)
  then have "set order = set active" using o(2) by (simp add: card_seteq)
  with False o act deps_first_acyclic [of es order] show ?thesis by simp
qed

text \<open>The dependency relation among the plugins that are not refused.\<close>

definition depends :: "plugin_def list \<Rightarrow> deps \<Rightarrow> string list \<Rightarrow> (string \<times> string) set" where
  "depends defs deps refused =
     {(d, i). i \<in> set (active_ids defs refused) \<and> d \<in> set (or_default deps i) \<and> d \<notin> set refused}"

lemma set_edges: "set (edges (active_ids defs refused) deps refused) = depends defs deps refused"
  by (auto simp: edges_def depends_def)

lemma topo_sort_returns:
  assumes "distinct (map pd_id defs)"
  obtains order m where "kahn_inv (active_ids defs refused) (edges (active_ids defs refused) deps refused) [] m order"
    and "topo_sort defs deps refused = Some (if length order < length (active_ids defs refused)
      then Inl (filter (\<lambda>i. i \<notin> set order) (active_ids defs refused)) else Inr order)"
proof -
  let ?a = "active_ids defs refused"
  let ?es = "edges ?a deps refused"
  have dist: "distinct ?a" using assms by (simp add: active_ids_def)
  obtain order m where o: "kahn (reverse_edges ?es) (filter (\<lambda>i. count_of (in_degrees ?a ?es) i = 0) ?a)
      (in_degrees ?a ?es) [] = Some order" "kahn_inv ?a ?es [] m order"
    using kahn_ends [OF kahn_inv_start [OF dist] edges_active] by blast
  show thesis by (rule that [OF o(2)]) (simp add: topo_sort_def Let_def o(1))
qed

text \<open>
  \<^bold>\<open>C33.\<close> The load order is right. For plugins with distinct ids whose dependencies are all configured,
  \<^verbatim>\<open>topo_sort\<close> returns. It returns an order exactly when the dependencies are acyclic, and then the
  order names every plugin that was not refused once, each after everything it requires.
  Otherwise it returns a non-empty list of plugins each of which requires another of the list, so
  no plugin of a valid configuration is refused for a cycle.
\<close>

theorem topo_sort_correct:
  assumes "distinct (map pd_id defs)"
    and "\<And>d i. (d, i) \<in> depends defs deps refused \<Longrightarrow> d \<in> pd_id ` set defs"
  shows "if acyclic (depends defs deps refused)
     then \<exists>order. topo_sort defs deps refused = Some (Inr order) \<and> distinct order
        \<and> set order = pd_id ` set defs - set refused
        \<and> (\<forall>n < length order. \<forall>d. (d, order ! n) \<in> depends defs deps refused \<longrightarrow> d \<in> set (take n order))
     else \<exists>cyc. topo_sort defs deps refused = Some (Inl cyc) \<and> cyc \<noteq> []
        \<and> (\<forall>i \<in> set cyc. \<exists>d \<in> set cyc. (d, i) \<in> depends defs deps refused)"
proof -
  let ?a = "active_ids defs refused"
  let ?es = "edges ?a deps refused"
  have dist: "distinct ?a" using assms(1) by (simp add: active_ids_def)
  have closed: "fst ` set ?es \<subseteq> set ?a"
  proof
    fix d assume "d \<in> fst ` set ?es"
    then obtain i where e: "(d, i) \<in> depends defs deps refused" unfolding set_edges by auto
    then have "d \<in> pd_id ` set defs" "d \<notin> set refused" using assms(2) [OF e] by (auto simp: depends_def)
    then show "d \<in> set ?a" by (auto simp: active_ids_def)
  qed
  obtain order m where o: "kahn_inv ?a ?es [] m order" "topo_sort defs deps refused
      = Some (if length order < length ?a then Inl (filter (\<lambda>i. i \<notin> set order) ?a) else Inr order)"
    by (rule topo_sort_returns [OF assms(1)])
  have "set ?a = pd_id ` set defs - set refused" by (auto simp: active_ids_def)
  with o(2) kahn_inv_result [OF o(1) dist closed edges_active] show ?thesis
    unfolding set_edges deps_first_def by (auto split: if_splits)
qed

text \<open>Plugins for the examples: \<open>a\<close> and \<open>b\<close>, each with the dependencies given.\<close>

definition plugins_named :: "string list \<Rightarrow> plugin_def list" where
  "plugins_named ids = map sample_plugin_def ids"

lemma plugins_named_ids [simp]: "map pd_id (plugins_named ids) = ids" "pd_id ` set (plugins_named ids) = set ids"
  by (simp_all add: plugins_named_def sample_plugin_def_def image_image comp_def)

theorem topo_sort_correct_witness:
  "\<exists>order. topo_sort (plugins_named [''cam'', ''net'']) [(''cam'', [''net''])] [] = Some (Inr order)
     \<and> set order = {''cam'', ''net''}"
proof -
  let ?d = "plugins_named [''cam'', ''net'']" and ?deps = "[(''cam'', [''net''])]"
  have dep: "depends ?d ?deps [] = {(''net'', ''cam'')}"
    by (auto simp: depends_def active_ids_def or_default_def dm_get_def split: if_splits)
  have "acyclic (depends ?d ?deps [])" unfolding dep by (auto simp: acyclic_def trancl_insert)
  then show ?thesis using topo_sort_correct [of ?d ?deps "[]"] dep by auto
qed

text \<open>Once two ids that require each other have counts of zero, each queues the other for ever.\<close>

lemma kahn_ping_pong:
  "kahn radj q m order = Some res \<Longrightarrow> or_default radj a = [b] \<Longrightarrow> or_default radj b = [a] \<Longrightarrow>
   q = [a] \<or> q = [b] \<Longrightarrow> count_of m a = 0 \<Longrightarrow> count_of m b = 0 \<Longrightarrow> False"
proof -
  let ?P = "\<lambda>radj q m order res. or_default radj a = [b] \<longrightarrow> or_default radj b = [a] \<longrightarrow>
    q = [a] \<or> q = [b] \<longrightarrow> count_of m a = 0 \<longrightarrow> count_of m b = 0 \<longrightarrow> False"
  assume k: "kahn radj q m order = Some res" "or_default radj a = [b]" "or_default radj b = [a]"
    "q = [a] \<or> q = [b]" "count_of m a = 0" "count_of m b = 0"
  have "?P radj q m order res"
  proof (rule kahn.raw_induct [where P = ?P, OF _ k(1)])
    fix kahn' :: "(string, string list) dashmap \<Rightarrow> string list \<Rightarrow> (string, nat) dashmap \<Rightarrow> string list \<Rightarrow> string list option"
    fix radj q m order y
    assume ih: "\<And>radj q m order y. kahn' radj q m order = Some y \<Longrightarrow> ?P radj q m order y"
      and s: "(case q of [] \<Rightarrow> Some order | i # q1 \<Rightarrow> (case fold release (or_default radj i) (m, q1) of
        (m2, q2) \<Rightarrow> kahn' radj q2 m2 (order @ [i]))) = Some y"
    show "?P radj q m order y"
    proof (intro impI)
      assume r: "or_default radj a = [b]" "or_default radj b = [a]" "q = [a] \<or> q = [b]"
        "count_of m a = 0" "count_of m b = 0"
      then consider "kahn' radj [b] (dm_insert b 0 m) (order @ [a]) = Some y"
        | "kahn' radj [a] (dm_insert a 0 m) (order @ [b]) = Some y"
        using s by (auto simp: release_def)
      then show False
      proof cases
        case 1
        from ih [OF this] r show False by (simp split: if_splits)
      next
        case 2
        from ih [OF this] r show False by (simp split: if_splits)
      qed
    qed
  qed
  with k show False by blast
qed

text \<open>
  The hypothesis on the ids is needed: with an id configured twice, \<^verbatim>\<open>topo_sort\<close> can run forever.
  The two entries are both taken from the queue and both release the plugin that requires them, so
  its count reaches zero although its other requirement is not met; if that requirement is mutual,
  the two plugins then queue each other without end and the order grows without bound.
\<close>

theorem topo_sort_duplicate_diverges:
  "topo_sort (plugins_named [''lib'', ''lib'', ''cam'', ''net'']) [(''cam'', [''net'', ''lib'']), (''net'', [''cam''])] [] = None"
proof -
  let ?d = "plugins_named [''lib'', ''lib'', ''cam'', ''net'']" and ?deps = "[(''cam'', [''net'', ''lib'']), (''net'', [''cam''])]"
  have a: "active_ids ?d [] = [''lib'', ''lib'', ''cam'', ''net'']" by code_simp
  have e: "edges [''lib'', ''lib'', ''cam'', ''net''] ?deps [] = [(''net'', ''cam''), (''lib'', ''cam''), (''cam'', ''net'')]"
    by code_simp
  let ?es = "[(''net'', ''cam''), (''lib'', ''cam''), (''cam'', ''net'')] :: (string \<times> string) list"
  let ?m = "in_degrees [''lib'', ''lib'', ''cam'', ''net''] ?es" and ?r = "reverse_edges ?es"
  have r: "or_default ?r ''lib'' = [''cam'']" "or_default ?r ''cam'' = [''net'']" "or_default ?r ''net'' = [''cam'']"
    by code_simp+
  have q: "filter (\<lambda>i. count_of ?m i = 0) [''lib'', ''lib'', ''cam'', ''net''] = [''lib'', ''lib'']"
    "count_of ?m ''cam'' = 2" "count_of ?m ''net'' = 1" by code_simp+
  let ?m1 = "dm_insert ''cam'' 1 ?m" and ?m2 = "dm_insert ''cam'' 0 (dm_insert ''cam'' 1 ?m)"
  let ?m3 = "dm_insert ''net'' 0 ?m2"
  have "kahn ?r [''lib'', ''lib''] ?m [] = kahn ?r [''net''] ?m3 [''lib'', ''lib'', ''cam'']"
    using r q(2,3) by (simp add: kahn.simps [of ?r "[''lib'', ''lib'']"] kahn.simps [of ?r "[''lib'']"]
        kahn.simps [of ?r "[''cam'']"] release_def)
  also have "\<dots> = None"
  proof (rule ccontr)
    assume "kahn ?r [''net''] ?m3 [''lib'', ''lib'', ''cam''] \<noteq> None"
    then obtain res where k: "kahn ?r [''net''] ?m3 [''lib'', ''lib'', ''cam''] = Some res" by blast
    show False by (rule kahn_ping_pong [OF k r(2,3)]) simp_all
  qed
  finally show ?thesis unfolding topo_sort_def a e Let_def q(1) by simp
qed

section \<open>What the loader passes to the sort\<close>

lemma resolve_defs_known:
  assumes "fold (resolve_def ids ms) ds (deps0, refused0) = (deps, refused)"
    and "\<And>i d. d \<in> set (or_default deps0 i) \<Longrightarrow> d \<in> set ids"
  shows "d \<in> set (or_default deps i) \<Longrightarrow> d \<in> set ids"
  using assms
proof (induction ds arbitrary: deps0 refused0)
  case (Cons x ds)
  obtain deps1 refused1 where s: "resolve_def ids ms x (deps0, refused0) = (deps1, refused1)" by force
  have "d \<in> set ids" if "d \<in> set (or_default deps1 i)" for i d
    using that s Cons.prems(3) by (auto simp: resolve_def_def Let_def list_ex_iff split: if_splits)
  then show ?case using Cons.IH [of deps1 refused1] Cons.prems s by auto
qed simp

text \<open>The sort's hypothesis on the dependencies holds for what the loader hands it.\<close>

lemma resolved_deps_configured:
  assumes "fold (resolve_def (map pd_id defs) ms) defs ([], refused0) = (deps, refused)"
    and "(d, i) \<in> depends defs deps refused"
  shows "d \<in> pd_id ` set defs"
  using resolve_defs_known [OF assms(1), of d i] assms(2) by (auto simp: depends_def or_default_def dm_get_def)

text \<open>Loading a configuration with distinct ids ends, whatever the manifests require.\<close>

lemma load_all_ends:
  assumes "distinct (map pd_id defs)"
  shows "\<exists>r. load_all E h outs defs (g, bus) = Some r"
proof -
  let ?s = "fold (scan_def E) defs \<lparr>ls_manifests = [], ls_refused = [], ls_registry = mg_registry g\<rparr>"
  obtain deps refused where f: "fold (resolve_def (map pd_id defs) (ls_manifests ?s)) defs ([], ls_refused ?s) = (deps, refused)"
    by force
  obtain t where "topo_sort defs deps refused = Some t" using topo_sort_returns [OF assms] by blast
  then show ?thesis by (cases t) (simp_all add: load_all_def load_order_def f Let_def)
qed

end
