(* ===== verification/Jwt.thy ===== *)
theory Jwt
  imports Wire
begin

text \<open>
  Token validation and minting, \<^verbatim>\<open>src/auth/jwt.rs\<close>. The signature check, the claim checks the
  \<^verbatim>\<open>Validation\<close> object asks for, and the encoding belong to the crate \<^verbatim>\<open>jsonwebtoken\<close>: they are
  the two functions of the record \<open>jwt_lib\<close>. What the code relies on is stated as
  hypotheses: a decoded token satisfies the audience the \<^verbatim>\<open>Validation\<close> requires, and decoding
  an encoded, unexpired token gives the claims back.
\<close>

section \<open>Definitions\<close>

definition MIN_JWT_SECRET_BYTES :: nat where "MIN_JWT_SECRET_BYTES = 32"

record plugin_claims =
  cl_sub :: string
  cl_permissions :: "string list"
  cl_ipc_targets :: "string list"
  cl_exp :: nat
  cl_iat :: nat
  cl_aud :: "string option"
  cl_jti :: "string option"

text \<open>The fields of \<^verbatim>\<open>Validation\<close> the code sets; \<open>validation_new\<close> has the crate's defaults.\<close>

record validation =
  vd_validate_exp :: bool
  vd_validate_aud :: bool
  vd_aud :: "string list option"
  vd_required_spec_claims :: "string list"

definition validation_new :: validation where
  "validation_new = \<lparr>vd_validate_exp = True, vd_validate_aud = True, vd_aud = None,
     vd_required_spec_claims = [''exp'']\<rparr>"

record jwt_lib =
  jl_decode :: "bytes \<Rightarrow> validation \<Rightarrow> nat \<Rightarrow> string \<Rightarrow> string + plugin_claims"  \<comment> \<open>key, checks, now, token\<close>
  jl_encode :: "bytes \<Rightarrow> plugin_claims \<Rightarrow> string + string"

record jwt_validator =
  jv_decoding_key :: bytes
  jv_validation :: validation

definition with_audience :: "bytes \<Rightarrow> string option \<Rightarrow> jwt_validator" where
  "with_audience secret audience =
    (let v = validation_new\<lparr>vd_validate_exp := True\<rparr>;
         v1 = (case audience of
             Some aud \<Rightarrow> v\<lparr>vd_aud := Some [aud],
                           vd_required_spec_claims := ''aud'' # vd_required_spec_claims v\<rparr>
           | None \<Rightarrow> v\<lparr>vd_validate_aud := False\<rparr>)
     in \<lparr>jv_decoding_key = secret, jv_validation = v1\<rparr>)"

definition jwt_validator_new :: "bytes \<Rightarrow> jwt_validator" where
  "jwt_validator_new secret = with_audience secret None"

definition validate :: "jwt_lib \<Rightarrow> nat \<Rightarrow> jwt_validator \<Rightarrow> string \<Rightarrow> plugin_claims result" where
  "validate J now v token =
    (if token = [] then Inl (Auth ''missing JWT token'')
     else case jl_decode J (jv_decoding_key v) (jv_validation v) now token of
       Inl e \<Rightarrow> Inl (Auth e)
     | Inr claims \<Rightarrow>
         if cl_aud claims \<noteq> None \<and> (case cl_jti claims of Some j \<Rightarrow> j | None \<Rightarrow> []) = []
         then Inl (Auth ''token carries aud but no jti nonce'')
         else Inr claims)"

definition mint_device_token ::
  "jwt_lib \<Rightarrow> nat \<Rightarrow> bytes \<Rightarrow> bytes \<Rightarrow> string \<Rightarrow> string list \<Rightarrow> string list \<Rightarrow> nat \<Rightarrow> string
     \<Rightarrow> string result" where
  "mint_device_token J now nonce secret device_id permissions ipc_targets ttl_secs audience =
    (if length secret < MIN_JWT_SECRET_BYTES
       then Inl (Auth (''jwt_secret is '' @ show_nat (length secret) @ '' bytes, must be at least ''
              @ show_nat MIN_JWT_SECRET_BYTES
              @ '' bytes (HS256 secrets shorter than this are brute-forceable)''))
     else let device_id = trim device_id in
       if device_id = [] then Inl (Auth ''device_id must not be empty'')
       else if ttl_secs = 0 then Inl (Auth ''ttl_secs must be > 0'')
       else case jl_encode J secret
           \<lparr>cl_sub = device_id, cl_permissions = permissions, cl_ipc_targets = ipc_targets,
            cl_exp = (now + ttl_secs) mod 2 ^ 64, cl_iat = now, cl_aud = Some audience,
            cl_jti = Some (hex_of nonce)\<rparr> of
         Inl e \<Rightarrow> Inl (Auth e)
       | Inr token \<Rightarrow> Inr token)"

section \<open>What the crate promises\<close>

text \<open>
  Documented behaviour of \<^verbatim>\<open>decode\<close>: with audience validation on and a required \<^verbatim>\<open>aud\<close> claim,
  a decoded token carries one of the listed audiences; with expiry validation on, it has not
  expired.
\<close>

definition decode_checks :: "jwt_lib \<Rightarrow> bool" where
  "decode_checks J \<longleftrightarrow> (\<forall>k v now tok c. jl_decode J k v now tok = Inr c \<longrightarrow>
     (vd_validate_exp v \<longrightarrow> now \<le> cl_exp c) \<and>
     (vd_validate_aud v \<longrightarrow> ''aud'' \<in> set (vd_required_spec_claims v) \<longrightarrow>
        (\<forall>auds. vd_aud v = Some auds \<longrightarrow> (\<exists>a \<in> set auds. cl_aud c = Some a))))"

text \<open>\<^verbatim>\<open>decode\<close> inverts \<^verbatim>\<open>encode\<close> under the same key while the checks pass.\<close>

definition decode_inverts :: "jwt_lib \<Rightarrow> bytes \<Rightarrow> plugin_claims \<Rightarrow> bool" where
  "decode_inverts J k c \<longleftrightarrow> (\<forall>tok v now. jl_encode J k c = Inr tok \<longrightarrow> now < cl_exp c \<longrightarrow>
     (\<forall>auds. vd_aud v = Some auds \<longrightarrow> (\<exists>a \<in> set auds. cl_aud c = Some a)) \<longrightarrow>
     tok \<noteq> [] \<and> jl_decode J k v now tok = Inr c)"

section \<open>Properties\<close>

lemma validate_ok:
  "validate J now v token = Inr c \<Longrightarrow>
     token \<noteq> [] \<and> jl_decode J (jv_decoding_key v) (jv_validation v) now token = Inr c
     \<and> (cl_aud c \<noteq> None \<longrightarrow> (\<exists>j. cl_jti c = Some j \<and> j \<noteq> []))"
  by (auto simp: validate_def split: if_splits sum.splits option.splits)


definition sample_claims :: plugin_claims where
  "sample_claims = \<lparr>cl_sub = ''dev-1'', cl_permissions = [''network''], cl_ipc_targets = [], cl_exp = 160,
     cl_iat = 100, cl_aud = Some ''home'', cl_jti = Some (hex_of ''ab'')\<rparr>"

text \<open>A one-token codec that checks what the crate checks.\<close>

definition sample_jwt :: jwt_lib where
  "sample_jwt = \<lparr>jl_decode = (\<lambda>k v now tok.
       if tok = ''t'' \<and> (vd_validate_exp v \<longrightarrow> now < 160)
          \<and> (case vd_aud v of Some auds \<Rightarrow> ''home'' \<in> set auds | None \<Rightarrow> True)
       then Inr sample_claims else Inl ''InvalidToken''),
     jl_encode = (\<lambda>k c. Inr ''t'')\<rparr>"

lemma sample_jwt_checks: "decode_checks sample_jwt"
  by (auto simp: decode_checks_def sample_jwt_def sample_claims_def split: if_splits)


text \<open>
  Minting and validating round-trip: with a secret of at least 32 bytes, a device id
  that is not blank and a positive lifetime, minting succeeds whenever encoding does, and the
  token validates under the same secret and audience until it expires, for the trimmed device
  id with exactly the permissions and targets it was minted with.
\<close>

theorem mint_validate_roundtrip:
  assumes "32 \<le> length secret" "trim device_id \<noteq> []" "0 < ttl" "now + ttl < 2 ^ 64" "nonce \<noteq> []"
    and "jl_encode J secret c = Inr token"
    and "c = \<lparr>cl_sub = trim device_id, cl_permissions = perms, cl_ipc_targets = targets,
           cl_exp = now + ttl, cl_iat = now, cl_aud = Some aud, cl_jti = Some (hex_of nonce)\<rparr>"
    and "decode_inverts J secret c" "t < now + ttl"
  shows "mint_device_token J now nonce secret device_id perms targets ttl aud = Inr token
    \<and> validate J t (with_audience secret (Some aud)) token = Inr c"
proof -
  have "hex_of nonce \<noteq> []" using assms(5) length_hex_of [of nonce] by fastforce
  moreover have "token \<noteq> []"
    and "jl_decode J secret (jv_validation (with_audience secret (Some aud))) t token = Inr c"
    using assms(8) [unfolded decode_inverts_def, rule_format, OF assms(6), of t
        "jv_validation (with_audience secret (Some aud))"] assms(7,9)
    by (auto simp: with_audience_def validation_new_def)
  ultimately have "validate J t (with_audience secret (Some aud)) token = Inr c"
    using assms(7) by (simp add: validate_def) (simp add: with_audience_def)
  with assms(1-7) show ?thesis
    by (simp add: mint_device_token_def MIN_JWT_SECRET_BYTES_def Let_def)
qed

theorem mint_validate_roundtrip_witness:
  "mint_device_token sample_jwt 100 ''ab'' ''0123456789abcdef0123456789abcdef'' ''dev-1''
     [''network''] [] 60 ''home'' = Inr ''t''
   \<and> validate sample_jwt 120 (with_audience ''0123456789abcdef0123456789abcdef'' (Some ''home'')) ''t''
     = Inr sample_claims"
proof -
  let ?k = "''0123456789abcdef0123456789abcdef''"
  have trim: "trim ''dev-1'' = ''dev-1''" by code_simp
  have enc: "jl_encode sample_jwt ?k sample_claims = Inr ''t''" by (simp add: sample_jwt_def)
  have c: "sample_claims = \<lparr>cl_sub = trim ''dev-1'', cl_permissions = [''network''], cl_ipc_targets = [],
      cl_exp = 100 + 60, cl_iat = 100, cl_aud = Some ''home'', cl_jti = Some (hex_of ''ab'')\<rparr>"
    unfolding trim by (simp add: sample_claims_def)
  have inv: "decode_inverts sample_jwt ?k sample_claims"
    by (auto simp: decode_inverts_def sample_jwt_def sample_claims_def split: option.split)
  show ?thesis
    by (rule mint_validate_roundtrip [OF _ _ _ _ _ enc c inv]) (simp_all add: trim)
qed

end
