(* ===== verification/Device_Store.thy ===== *)
theory Device_Store
  imports Wire
begin

text \<open>
  Per-device credentials, \<^verbatim>\<open>src/auth/device_store.rs\<close>. The store file is a string on disk that
  every operation reads anew; its JSON form, the HKDF key derivation and AES-256-GCM are the
  functions of the record \<open>dev_lib\<close>. Random bytes and the clock are arguments. A write goes to
  a temporary file that replaces the store by rename, so a failing write leaves the store as
  it was.
\<close>

section \<open>Definitions\<close>

definition NONCE_LEN :: nat where "NONCE_LEN = 12"

datatype device_status = Active | RevokedSt | Expired

record device_record =
  dr_device_id :: string
  dr_name :: string
  dr_created_at :: nat
  dr_expires_at :: nat
  dr_revoked :: bool
  dr_secret_enc :: bytes

record dev_lib =
  dl_hkdf :: "bytes \<Rightarrow> bytes"
  dl_encrypt :: "bytes \<Rightarrow> bytes \<Rightarrow> bytes \<Rightarrow> bytes option"   \<comment> \<open>key, nonce, plaintext\<close>
  dl_decrypt :: "bytes \<Rightarrow> bytes \<Rightarrow> bytes \<Rightarrow> bytes option"   \<comment> \<open>key, nonce, ciphertext\<close>
  dl_parse :: "string \<Rightarrow> string + device_record list"
  dl_print :: "device_record list \<Rightarrow> string + string"

text \<open>The disk as the store sees it: the file's content, and what a read or write would fail with.\<close>

record disk =
  dk_content :: "string option"
  dk_read_error :: "string option"
  dk_write_error :: "string option"

definition record_status :: "device_record \<Rightarrow> nat \<Rightarrow> device_status" where
  "record_status row now = (if dr_revoked row then RevokedSt
     else if now \<ge> dr_expires_at row then Expired else Active)"

record device_store =
  ds_key :: bytes

definition device_store_new :: "dev_lib \<Rightarrow> string \<Rightarrow> device_store" where
  "device_store_new L jwt_master_secret = \<lparr>ds_key = dl_hkdf L jwt_master_secret\<rparr>"

definition seal :: "dev_lib \<Rightarrow> device_store \<Rightarrow> bytes \<Rightarrow> string \<Rightarrow> bytes result" where
  "seal L d nonce secret_hex = (case dl_encrypt L (ds_key d) nonce secret_hex of
      None \<Rightarrow> Inl (Auth ''device store encryption failed'')
    | Some ct \<Rightarrow> Inr (nonce @ ct))"

definition unseal :: "dev_lib \<Rightarrow> device_store \<Rightarrow> bytes \<Rightarrow> string result" where
  "unseal L d enc =
    (if length enc \<le> NONCE_LEN then Inl (Auth ''corrupt device store entry'')
     else case dl_decrypt L (ds_key d) (take NONCE_LEN enc) (drop NONCE_LEN enc) of
       None \<Rightarrow> Inl (Auth (''device store decrypt failed '' @ em_dash @ '' was jwt_secret rotated? re-pair devices ''
                @ ''(rm <data_dir>/devices.json)''))
     | Some pt \<Rightarrow> if from_utf8_ok pt then Inr pt else Inl (Auth ''bad secret encoding''))"

fun check_rows :: "dev_lib \<Rightarrow> device_store \<Rightarrow> device_record list \<Rightarrow> unit result" where
  "check_rows L d [] = Inr ()"
| "check_rows L d (row # rows) = (case unseal L d (dr_secret_enc row) of
      Inl e \<Rightarrow> Inl e | Inr _ \<Rightarrow> check_rows L d rows)"

definition read_all :: "dev_lib \<Rightarrow> device_store \<Rightarrow> disk \<Rightarrow> device_record list result" where
  "read_all L d k = (case dk_read_error k of
      Some e \<Rightarrow> Inl (Io e)
    | None \<Rightarrow> (case dk_content k of
        None \<Rightarrow> Inr []
      | Some raw \<Rightarrow>
          if trim raw = [] then Inr []
          else case dl_parse L raw of
            Inl e \<Rightarrow> Inl (Internal e)
          | Inr rows \<Rightarrow> (case check_rows L d rows of Inl e \<Rightarrow> Inl e | Inr _ \<Rightarrow> Inr rows)))"

definition write_all :: "dev_lib \<Rightarrow> device_record list \<Rightarrow> disk \<Rightarrow> unit result \<times> disk" where
  "write_all L rows k = (case dl_print L rows of
      Inl e \<Rightarrow> (Inl (Internal e), k)
    | Inr json \<Rightarrow> (case dk_write_error k of
        Some e \<Rightarrow> (Inl (Io e), k)
      | None \<Rightarrow> (Inr (), k\<lparr>dk_content := Some json\<rparr>)))"

fun upsert_row :: "device_record \<Rightarrow> device_record list \<Rightarrow> device_record list" where
  "upsert_row new [] = [new]"
| "upsert_row new (row # rows) =
     (if dr_device_id row = dr_device_id new then new # rows else row # upsert_row new rows)"

definition random_device_secret_hex :: "bytes \<Rightarrow> string" where
  "random_device_secret_hex rnd = hex_of rnd"

definition issue ::
  "dev_lib \<Rightarrow> device_store \<Rightarrow> nat \<Rightarrow> bytes \<Rightarrow> bytes \<Rightarrow> string \<Rightarrow> string \<Rightarrow> nat \<Rightarrow> disk \<Rightarrow> string result \<times> disk" where
  "issue L d now rnd nonce device_id name ttl_secs k =
    (let secret_hex = random_device_secret_hex rnd
     in case read_all L d k of
          Inl e \<Rightarrow> (Inl e, k)
        | Inr rows \<Rightarrow> (case seal L d nonce secret_hex of
            Inl e \<Rightarrow> (Inl e, k)
          | Inr enc \<Rightarrow>
              (case write_all L (upsert_row
                  \<lparr>dr_device_id = device_id, dr_name = name, dr_created_at = now,
                   dr_expires_at = (now + ttl_secs) mod 2 ^ 64, dr_revoked = False,
                   dr_secret_enc = enc\<rparr> rows) k of
                 (Inl e, k1) \<Rightarrow> (Inl e, k1)
               | (Inr _, k1) \<Rightarrow> (Inr secret_hex, k1))))"

text \<open>
  \<^verbatim>\<open>expect\<close> after \<^verbatim>\<open>read_all\<close> would panic if a checked row did not decrypt; the model has that
  branch as an error of its own, and \<open>get_row_no_panic\<close> shows it is never taken.
\<close>

definition get_row :: "dev_lib \<Rightarrow> device_store \<Rightarrow> string \<Rightarrow> disk \<Rightarrow> (device_record \<times> string) option result" where
  "get_row L d device_id k = (case read_all L d k of
      Inl e \<Rightarrow> Inl e
    | Inr rows \<Rightarrow> (case find (\<lambda>r. dr_device_id r = device_id) rows of
        None \<Rightarrow> Inr None
      | Some row \<Rightarrow> (case unseal L d (dr_secret_enc row) of
          Inr secret \<Rightarrow> Inr (Some (row, secret))
        | Inl _ \<Rightarrow> Inl (Internal ''panic: read_all already verified decryptability''))))"

definition list_rows :: "dev_lib \<Rightarrow> device_store \<Rightarrow> disk \<Rightarrow> device_record list result" where
  "list_rows L d k = read_all L d k"

definition set_revoked :: "dev_lib \<Rightarrow> device_store \<Rightarrow> string \<Rightarrow> bool \<Rightarrow> disk \<Rightarrow> bool result \<times> disk" where
  "set_revoked L d device_id revoked k = (case read_all L d k of
      Inl e \<Rightarrow> (Inl e, k)
    | Inr rows \<Rightarrow>
        let rows' = map (\<lambda>r. if dr_device_id r = device_id then r\<lparr>dr_revoked := revoked\<rparr> else r) rows;
            changed = list_ex (\<lambda>r. dr_device_id r = device_id) rows
        in if changed
           then (case write_all L rows' k of (Inl e, k1) \<Rightarrow> (Inl e, k1) | (Inr _, k1) \<Rightarrow> (Inr True, k1))
           else (Inr False, k))"

definition remove_row :: "dev_lib \<Rightarrow> device_store \<Rightarrow> string \<Rightarrow> disk \<Rightarrow> bool result \<times> disk" where
  "remove_row L d device_id k = (case read_all L d k of
      Inl e \<Rightarrow> (Inl e, k)
    | Inr rows \<Rightarrow>
        let rows' = filter (\<lambda>r. dr_device_id r \<noteq> device_id) rows
        in if length rows' \<noteq> length rows
           then (case write_all L rows' k of (Inl e, k1) \<Rightarrow> (Inl e, k1) | (Inr _, k1) \<Rightarrow> (Inr True, k1))
           else (Inr False, k))"

definition active_secret :: "dev_lib \<Rightarrow> device_store \<Rightarrow> nat \<Rightarrow> string \<Rightarrow> disk \<Rightarrow> string option result" where
  "active_secret L d now device_id k = (case get_row L d device_id k of
      Inl e \<Rightarrow> Inl e
    | Inr None \<Rightarrow> Inr None
    | Inr (Some (row, secret)) \<Rightarrow> (case record_status row now of
        Active \<Rightarrow> Inr (Some secret)
      | RevokedSt \<Rightarrow> Inl (Auth (''device '' @ [CHR 0x27] @ device_id @ [CHR 0x27]
                      @ '' is revoked '' @ em_dash @ '' re-pair to restore access''))
      | Expired \<Rightarrow> Inl (Auth (''device '' @ [CHR 0x27] @ device_id @ [CHR 0x27]
                      @ '' credential expired '' @ em_dash @ '' re-pair''))))"


section \<open>What the libraries promise\<close>

text \<open>Parsing inverts printing, and the printed form is never blank.\<close>

definition codec_ok :: "dev_lib \<Rightarrow> bool" where
  "codec_ok L \<longleftrightarrow> (\<forall>rows j. dl_print L rows = Inr j \<longrightarrow> dl_parse L j = Inr rows \<and> trim j \<noteq> [])"

text \<open>Decryption under the same key and nonce inverts encryption; a ciphertext carries a tag.\<close>

definition aead_ok :: "dev_lib \<Rightarrow> device_store \<Rightarrow> bool" where
  "aead_ok L d \<longleftrightarrow> (\<forall>n m ct. length n = NONCE_LEN \<longrightarrow> dl_encrypt L (ds_key d) n m = Some ct \<longrightarrow>
     ct \<noteq> [] \<and> dl_decrypt L (ds_key d) n ct = Some m)"

section \<open>Rows on disk\<close>

lemma check_rows_iff: "check_rows L d rows = Inr () \<longleftrightarrow> (\<forall>r \<in> set rows. is_ok (unseal L d (dr_secret_enc r)))"
  by (induction rows) (auto simp: is_ok_def split: sum.splits)

lemma read_all_checked: "read_all L d k = Inr rows \<Longrightarrow> check_rows L d rows = Inr ()"
  by (auto simp: read_all_def split: option.splits if_splits sum.splits)

lemma read_all_no_error: "read_all L d k = Inr rows \<Longrightarrow> dk_read_error k = None"
  by (auto simp: read_all_def split: option.splits)

lemma read_all_written:
  assumes "codec_ok L" "write_all L rows k = (Inr u, k')" "dk_read_error k = None"
    and "check_rows L d rows = Inr ()"
  shows "read_all L d k' = Inr rows"
  using assms by (auto simp: write_all_def read_all_def codec_ok_def split: sum.splits option.splits)

lemma unseal_sealed:
  assumes "aead_ok L d" "length nonce = NONCE_LEN" "seal L d nonce m = Inr enc" "from_utf8_ok m"
  shows "unseal L d enc = Inr m"
  using assms by (auto simp: seal_def unseal_def aead_ok_def split: option.splits)

lemma get_row_no_panic:
  "get_row L d did k = (case read_all L d k of
      Inl e \<Rightarrow> Inl e
    | Inr rows \<Rightarrow> Inr (map_option (\<lambda>row. (row, projr (unseal L d (dr_secret_enc row))))
                       (find (\<lambda>r. dr_device_id r = did) rows)))"
proof (cases "read_all L d k")
  case (Inr rows)
  have "\<exists>x. unseal L d (dr_secret_enc row) = Inr x"
    if "find (\<lambda>r. dr_device_id r = did) rows = Some row" for row
    using that read_all_checked [OF Inr] unfolding check_rows_iff is_ok_iff
    by (auto simp: find_Some_iff)
  with Inr show ?thesis
    by (auto simp: get_row_def split: option.split sum.split)
qed (simp add: get_row_def)

lemma find_upsert_row:
  "find (\<lambda>r. dr_device_id r = x) (upsert_row new rows) =
     (if x = dr_device_id new then Some new else find (\<lambda>r. dr_device_id r = x) rows)"
  by (induction rows) auto

lemma set_upsert_row: "set (upsert_row new rows) \<subseteq> insert new (set rows)"
  by (induction rows) auto

lemma find_map_revoke:
  "find (\<lambda>r. dr_device_id r = x)
     (map (\<lambda>r. if dr_device_id r = did then r\<lparr>dr_revoked := b\<rparr> else r) rows) =
   (if x = did then map_option (\<lambda>r. r\<lparr>dr_revoked := b\<rparr>) (find (\<lambda>r. dr_device_id r = x) rows)
    else find (\<lambda>r. dr_device_id r = x) rows)"
  by (induction rows) auto

lemma find_filter_out:
  "find (\<lambda>r. dr_device_id r = x) (filter (\<lambda>r. dr_device_id r \<noteq> did) rows) =
     (if x = did then None else find (\<lambda>r. dr_device_id r = x) rows)"
  by (induction rows) auto

section \<open>Properties\<close>

text \<open>
  \<^bold>\<open>C9.\<close> Issuing and checking a credential round-trip: after a successful issue the gate
  returns exactly the secret that was handed out, from then until the credential expires, an
  error naming expiry afterwards, and every other device's row and secret is as before.
\<close>

theorem issue_then_active:
  assumes "codec_ok L" "aead_ok L d" "length nonce = 12" "now + ttl < 2 ^ 64"
    and "issue L d now rnd nonce did name ttl k = (Inr s, k')"
  shows "s = hex_of rnd
    \<and> (if t < now + ttl then active_secret L d t did k' = Inr (Some s)
        else \<not> is_ok (active_secret L d t did k'))
    \<and> (x \<noteq> did \<longrightarrow> get_row L d x k' = get_row L d x k)"
proof -
  from assms(5) obtain rows enc where rows: "read_all L d k = Inr rows"
    and enc: "seal L d nonce (hex_of rnd) = Inr enc" and s: "s = hex_of rnd"
    and w: "write_all L (upsert_row \<lparr>dr_device_id = did, dr_name = name, dr_created_at = now,
        dr_expires_at = now + ttl, dr_revoked = False, dr_secret_enc = enc\<rparr> rows) k = (Inr (), k')"
    using assms(4)
    by (auto simp: issue_def Let_def random_device_secret_hex_def split: sum.splits prod.splits)
  let ?new = "\<lparr>dr_device_id = did, dr_name = name, dr_created_at = now,
      dr_expires_at = now + ttl, dr_revoked = False, dr_secret_enc = enc\<rparr>"
  have un: "unseal L d enc = Inr s"
    using unseal_sealed [OF assms(2) _ enc] assms(3) s by (simp add: NONCE_LEN_def)
  have "check_rows L d (upsert_row ?new rows) = Inr ()"
    using read_all_checked [OF rows] un set_upsert_row [of ?new rows] unfolding check_rows_iff by auto
  note read' = read_all_written [OF assms(1) w read_all_no_error [OF rows] this]
  have "get_row L d did k' = Inr (Some (?new, s))"
    by (simp add: get_row_def read' find_upsert_row un)
  moreover have "x \<noteq> did \<Longrightarrow> get_row L d x k' = get_row L d x k"
    by (simp add: get_row_def read' rows find_upsert_row)
  ultimately show ?thesis
    using s by (simp add: active_secret_def record_status_def)
qed

text \<open>The rows a successful revocation or removal leaves on disk.\<close>

lemma set_revoked_rows:
  assumes "codec_ok L" "set_revoked L d did b k = (Inr changed, k1)"
  obtains rows where "read_all L d k = Inr rows" "changed \<longleftrightarrow> (\<exists>r \<in> set rows. dr_device_id r = did)"
    "read_all L d k1 = Inr (map (\<lambda>r. if dr_device_id r = did then r\<lparr>dr_revoked := b\<rparr> else r) rows)"
proof -
  from assms(2) obtain rows where rows: "read_all L d k = Inr rows"
    by (auto simp: set_revoked_def split: sum.splits)
  let ?rev = "map (\<lambda>r. if dr_device_id r = did then r\<lparr>dr_revoked := b\<rparr> else r) rows"
  have crev: "check_rows L d ?rev = Inr ()"
    using read_all_checked [OF rows] unfolding check_rows_iff by auto
  have same: "\<forall>r \<in> set rows. dr_device_id r \<noteq> did \<Longrightarrow> ?rev = rows"
    by (rule map_idI) simp
  have "changed \<longleftrightarrow> (\<exists>r \<in> set rows. dr_device_id r = did)" "read_all L d k1 = Inr ?rev"
    using assms(2) rows read_all_written [OF assms(1) _ read_all_no_error [OF rows] crev] same
    by (auto simp: set_revoked_def Let_def list_ex_iff split: if_splits prod.splits sum.splits)
  with rows show ?thesis by (rule that)
qed

lemma remove_row_rows:
  assumes "codec_ok L" "remove_row L d did k = (Inr gone, k2)"
  obtains rows where "read_all L d k = Inr rows"
    "read_all L d k2 = Inr (filter (\<lambda>r. dr_device_id r \<noteq> did) rows)"
proof -
  from assms(2) obtain rows where rows: "read_all L d k = Inr rows"
    by (auto simp: remove_row_def split: sum.splits)
  let ?rem = "filter (\<lambda>r. dr_device_id r \<noteq> did) rows"
  have crem: "check_rows L d ?rem = Inr ()"
    using read_all_checked [OF rows] unfolding check_rows_iff by auto
  have "read_all L d k2 = Inr ?rem"
    using assms(2) rows read_all_written [OF assms(1) _ read_all_no_error [OF rows] crem]
    by (auto simp: remove_row_def Let_def split: if_splits prod.splits sum.splits)
      (metis filter_id_conv length_filter_less less_irrefl)
  with rows show ?thesis by (rule that)
qed

lemma revoke_closes_gate:
  assumes "codec_ok L" "set_revoked L d did True k = (Inr changed, k1)"
  shows "(if changed then \<not> is_ok (active_secret L d t did k1) else active_secret L d t did k1 = Inr None)
    \<and> (x \<noteq> did \<longrightarrow> get_row L d x k1 = get_row L d x k)"
proof -
  obtain rows where rows: "read_all L d k = Inr rows" "changed \<longleftrightarrow> (\<exists>r \<in> set rows. dr_device_id r = did)"
    "read_all L d k1 = Inr (map (\<lambda>r. if dr_device_id r = did then r\<lparr>dr_revoked := True\<rparr> else r) rows)"
    by (rule set_revoked_rows [OF assms])
  show ?thesis
    unfolding active_secret_def get_row_no_panic rows(1,3)
    using rows(2)
    by (auto simp: find_map_revoke record_status_def find_Some_iff find_None_iff split: option.split)
qed

lemma remove_closes_gate:
  assumes "codec_ok L" "remove_row L d did k = (Inr gone, k2)"
  shows "active_secret L d t did k2 = Inr None \<and> (x \<noteq> did \<longrightarrow> get_row L d x k2 = get_row L d x k)"
proof -
  obtain rows where "read_all L d k = Inr rows"
    "read_all L d k2 = Inr (filter (\<lambda>r. dr_device_id r \<noteq> did) rows)" by (rule remove_row_rows [OF assms])
  then show ?thesis
    by (simp add: active_secret_def get_row_no_panic find_filter_out)
qed

text \<open>
  \<^bold>\<open>C10.\<close> Revoking and removing close the gate: after a successful revoke of a known device the
  gate refuses it at every time, after a removal (or a revoke of an unknown device) it reports
  the device as unknown, and no other device is affected.
\<close>

theorem revoke_remove_close_gate:
  assumes "codec_ok L"
    and "set_revoked L d did True k = (Inr changed, k1)"
    and "remove_row L d did k = (Inr gone, k2)"
  shows "(if changed then \<not> is_ok (active_secret L d t did k1) else active_secret L d t did k1 = Inr None)
    \<and> active_secret L d t did k2 = Inr None
    \<and> (x \<noteq> did \<longrightarrow> get_row L d x k1 = get_row L d x k \<and> get_row L d x k2 = get_row L d x k)"
  using revoke_closes_gate [OF assms(1,2), of t x] remove_closes_gate [OF assms(1,3), of t x] by blast


text \<open>A concrete library: two printable tables, and a cipher that appends a tag.\<close>

definition sample_row :: "bool \<Rightarrow> device_record" where
  "sample_row b = \<lparr>dr_device_id = ''d'', dr_name = ''phone'', dr_created_at = 10, dr_expires_at = 70,
     dr_revoked = b, dr_secret_enc = ''nnnnnnnnnnnn'' @ hex_of ''ab'' @ ''T''\<rparr>"

definition sample_dev_lib :: dev_lib where
  "sample_dev_lib = \<lparr>dl_hkdf = (\<lambda>s. s), dl_encrypt = (\<lambda>k n m. Some (m @ ''T'')),
     dl_decrypt = (\<lambda>k n ct. Some (butlast ct)),
     dl_parse = (\<lambda>j. if j = ''F'' then Inr [sample_row False] else if j = ''R'' then Inr [sample_row True]
                     else if j = ''E'' then Inr [] else Inl ''bad json''),
     dl_print = (\<lambda>rows. if rows = [sample_row False] then Inr ''F''
                     else if rows = [sample_row True] then Inr ''R''
                     else if rows = [] then Inr ''E'' else Inl ''unprintable'')\<rparr>"

abbreviation sample_disk :: "string option \<Rightarrow> disk" where
  "sample_disk c \<equiv> \<lparr>dk_content = c, dk_read_error = None, dk_write_error = None\<rparr>"

lemma sample_trim: "trim ''F'' = ''F''" "trim ''R'' = ''R''" "trim ''E'' = ''E''"
  by code_simp+

lemma sample_codec: "codec_ok sample_dev_lib"
  by (auto simp: codec_ok_def sample_dev_lib_def sample_trim sample_row_def split: if_splits)

lemma sample_aead: "aead_ok sample_dev_lib d"
  by (simp add: aead_ok_def sample_dev_lib_def)

lemma sample_unseal: "unseal sample_dev_lib d (dr_secret_enc (sample_row b)) = Inr (hex_of ''ab'')"
  by (simp add: unseal_def sample_row_def sample_dev_lib_def NONCE_LEN_def butlast_append)

lemma sample_read:
  "read_all sample_dev_lib d (sample_disk (Some ''F'')) = Inr [sample_row False]"
  using sample_unseal by (simp add: read_all_def sample_trim) (simp add: sample_dev_lib_def)

theorem issue_then_active_witness:
  "issue sample_dev_lib \<lparr>ds_key = ''k''\<rparr> 10 ''ab'' ''nnnnnnnnnnnn'' ''d'' ''phone'' 60 (sample_disk None)
     = (Inr (hex_of ''ab''), sample_disk (Some ''F''))
   \<and> active_secret sample_dev_lib \<lparr>ds_key = ''k''\<rparr> 50 ''d'' (sample_disk (Some ''F'')) = Inr (Some (hex_of ''ab''))"
proof -
  have i: "issue sample_dev_lib \<lparr>ds_key = ''k''\<rparr> 10 ''ab'' ''nnnnnnnnnnnn'' ''d'' ''phone'' 60 (sample_disk None)
     = (Inr (hex_of ''ab''), sample_disk (Some ''F''))"
    by (simp add: issue_def read_all_def seal_def write_all_def random_device_secret_hex_def
        sample_dev_lib_def sample_row_def)
  with issue_then_active [OF sample_codec sample_aead _ _ i, of 50 "''e''"] show ?thesis by simp
qed

theorem revoke_remove_close_gate_witness:
  "set_revoked sample_dev_lib \<lparr>ds_key = ''k''\<rparr> ''d'' True (sample_disk (Some ''F''))
     = (Inr True, sample_disk (Some ''R''))
   \<and> \<not> is_ok (active_secret sample_dev_lib \<lparr>ds_key = ''k''\<rparr> 50 ''d'' (sample_disk (Some ''R'')))
   \<and> active_secret sample_dev_lib \<lparr>ds_key = ''k''\<rparr> 50 ''d'' (sample_disk (Some ''E'')) = Inr None"
proof -
  have r: "set_revoked sample_dev_lib \<lparr>ds_key = ''k''\<rparr> ''d'' True (sample_disk (Some ''F''))
      = (Inr True, sample_disk (Some ''R''))"
    by (simp add: set_revoked_def sample_read) (simp add: write_all_def sample_dev_lib_def sample_row_def)
  have g: "remove_row sample_dev_lib \<lparr>ds_key = ''k''\<rparr> ''d'' (sample_disk (Some ''F''))
      = (Inr True, sample_disk (Some ''E''))"
    by (simp add: remove_row_def sample_read) (simp add: write_all_def sample_dev_lib_def sample_row_def)
  from r revoke_remove_close_gate [OF sample_codec r g, of 50 "''e''"] show ?thesis by simp
qed

end
