(* ===== verification/Router.thy ===== *)
theory Router
  imports Commands Jwt Device_Store
begin

text \<open>
  The message router, \<^verbatim>\<open>src/ipc/protocol/router.rs\<close>: one definition per message kind of
  \<^verbatim>\<open>handle_kernel_message\<close>, \<^verbatim>\<open>forward\<close>, \<^verbatim>\<open>broadcast\<close>, and the two arms of the \<^verbatim>\<open>select!\<close> loop of
  \<^verbatim>\<open>run_with_context\<close> as one step each.

  The record \<open>kernel\<close> is the state the router shares with the rest of the kernel. A \<open>turn\<close> is
  what one iteration of the loop takes from outside: the clock, fresh random bytes, and the
  verdicts of the \<^verbatim>\<open>governor\<close> rate limiters, a third-party crate. Every handler returns whether
  the message counts against the sender's protocol-error budget.
\<close>

section \<open>State and configuration\<close>

record kernel =
  k_io :: kio
  k_reg :: registry
  k_bus :: event_bus
  k_store :: event_store
  k_disk :: disk
  k_log :: log_state
  k_bridge_conns :: "chan list"
  k_action_seq :: nat
  k_event_seq :: nat

record turn =
  tn_clk :: clock
  tn_nonce :: bytes
  tn_ipc_denied :: "nat \<Rightarrow> bool"                   \<comment> \<open>\<^verbatim>\<open>ipc_limiter.check_key(conn).is_err()\<close>\<close>
  tn_action_denied :: "string \<Rightarrow> string \<Rightarrow> bool"    \<comment> \<open>the same for (caller, provider)\<close>

record router_cfg =
  rc_wire :: wire
  rc_env :: conf_env
  rc_jwt_lib :: jwt_lib
  rc_dev_lib :: dev_lib
  rc_jwt_validator :: "jwt_validator option"
  rc_start_time :: nat
  rc_config_path :: "string option"
  rc_event_store :: bool
  rc_mac_secret :: "bytes option"
  rc_config_permissions :: "(string, string list) dashmap option"
  rc_ipc_rate_limit_rps :: "nat option"
  rc_action_caller_rate_limit_rps :: "nat option"
  rc_action_caller_max_concurrent :: "nat option"
  rc_action_timeout_ms :: nat
  rc_max_conn_errors :: nat
  rc_max_tracked_error_conns :: nat
  rc_session_idle_timeout_secs :: "nat option"
  rc_device_store :: "device_store option"
  rc_bridge :: bool

record incoming =
  im_conn_id :: nat
  im_frame :: frame
  im_write_tx :: chan
  im_session_key :: nat

abbreviation now_ms :: "turn \<Rightarrow> nat" where "now_ms t \<equiv> clk_millis (tn_clk t)"
abbreviation now_inst :: "turn \<Rightarrow> nat" where "now_inst t \<equiv> clk_instant (tn_clk t)"

definition k_send :: "router_cfg \<Rightarrow> turn \<Rightarrow> chan \<Rightarrow> envelope \<Rightarrow> kernel \<Rightarrow> kernel" where
  "k_send C t tx env k = k\<lparr>k_io := send_envelope (rc_wire C) (now_ms t) tx env (k_io k)\<rparr>"

definition k_error :: "router_cfg \<Rightarrow> turn \<Rightarrow> chan \<Rightarrow> error_code \<Rightarrow> string \<Rightarrow> kernel \<Rightarrow> kernel" where
  "k_error C t tx code msg k = k\<lparr>k_io := send_error (rc_wire C) (now_ms t) tx code msg (k_io k)\<rparr>"

definition k_reject :: "router_cfg \<Rightarrow> turn \<Rightarrow> chan \<Rightarrow> string \<Rightarrow> kernel \<Rightarrow> kernel" where
  "k_reject C t tx reason k =
     k\<lparr>k_io := send_register_reject (rc_wire C) (now_ms t) tx reason (k_io k)\<rparr>"

definition k_publish :: "router_cfg \<Rightarrow> turn \<Rightarrow> event \<Rightarrow> kernel \<Rightarrow> kernel" where
  "k_publish C t e k =
    (let (s, io) = publish (rc_wire C) (tn_clk t) (k_bus k) (k_reg k) e (k_store k) (k_io k)
     in k\<lparr>k_store := s, k_io := io\<rparr>)"

definition k_abort :: "router_cfg \<Rightarrow> turn \<Rightarrow> string \<Rightarrow> string \<Rightarrow> kernel \<Rightarrow> kernel" where
  "k_abort C t internal_id reason k =
    (let (r, io) = abort_stream (rc_wire C) (now_ms t) internal_id reason (k_reg k) (k_io k)
     in k\<lparr>k_reg := r, k_io := io\<rparr>)"

text \<open>The id of the sending plugin; \<^verbatim>\<open>unwrap_or_default\<close> for an unregistered connection.\<close>

definition sender_id_of :: "registry \<Rightarrow> nat \<Rightarrow> string" where
  "sender_id_of r conn = (case get_by_conn_id r conn of Some e \<Rightarrow> pe_plugin_id e | None \<Rightarrow> [])"

section \<open>Registration\<close>

definition protocol_major :: "string \<Rightarrow> string" where
  "protocol_major v = hd (split_on (CHR ''.'') v)"

definition protocol_mismatch :: "wire \<Rightarrow> plugin_register \<Rightarrow> bool" where
  "protocol_mismatch W reg \<longleftrightarrow> rg_protocol_version reg \<noteq> []
     \<and> protocol_major (rg_protocol_version reg) \<noteq> protocol_major (w_protocol_version W)"

text \<open>Token check: a rejection reason, or the manifest with the token's grants.\<close>

definition authenticate :: "router_cfg \<Rightarrow> turn \<Rightarrow> plugin_register \<Rightarrow> plugin_manifest \<Rightarrow> string + plugin_manifest" where
  "authenticate C t reg manifest = (case rc_jwt_validator C of
      None \<Rightarrow> Inr manifest
    | Some v \<Rightarrow> (case validate (rc_jwt_lib C) (clk_secs (tn_clk t)) v (rg_jwt_token reg) of
        Inl _ \<Rightarrow> Inl ''authentication failed''
      | Inr claims \<Rightarrow>
          let device_match = (rg_device_id reg \<noteq> [] \<and> cl_sub claims = rg_device_id reg)
          in if cl_sub claims \<noteq> rg_plugin_id reg \<and> \<not> device_match
             then Inl ''token plugin_id mismatch''
             else Inr (manifest\<lparr>mf_permissions := cl_permissions claims,
                                mf_ipc_targets := cl_ipc_targets claims\<rparr>)))"

definition device_credential :: "router_cfg \<Rightarrow> turn \<Rightarrow> plugin_register \<Rightarrow> disk \<Rightarrow> string + bytes option" where
  "device_credential C t reg dk =
    (if rg_device_id reg \<noteq> [] \<and> rc_mac_secret C \<noteq> None
     then case rc_device_store C of
         None \<Rightarrow> Inr None
       | Some d \<Rightarrow> (case active_secret (rc_dev_lib C) d (clk_secs (tn_clk t)) (rg_device_id reg) dk of
           Inr (Some secret) \<Rightarrow> Inr (Some secret)
         | Inr None \<Rightarrow> Inl (''unknown device '' @ em_dash @ '' pair it first'')
         | Inl e \<Rightarrow> Inl (display_error e))
     else Inr None)"

definition clamp_permissions :: "router_cfg \<Rightarrow> string \<Rightarrow> plugin_manifest \<Rightarrow> plugin_manifest" where
  "clamp_permissions C plugin_id manifest =
    (case (case rc_config_permissions C of None \<Rightarrow> None | Some m \<Rightarrow> dm_get m plugin_id) of
      None \<Rightarrow> manifest
    | Some allowed \<Rightarrow>
        if allowed = [] then manifest
        else let allowed_norm = map normalize_permission allowed
             in manifest\<lparr>mf_permissions :=
                  filter (\<lambda>p. normalize_permission p \<in> set allowed_norm) (mf_permissions manifest)\<rparr>)"

definition is_mux_device :: "plugin_register \<Rightarrow> bool" where
  "is_mux_device reg \<longleftrightarrow> rg_capabilities reg \<noteq> [] \<and> rg_device_id reg \<noteq> []
     \<and> rg_plugin_id reg = rg_device_id reg"

definition meta_of :: "plugin_register \<Rightarrow> device_meta" where
  "meta_of reg = \<lparr>dmt_device_id = rg_device_id reg, dmt_user_id = rg_user_id reg,
     dmt_os = (case try_from_code (rg_os reg) of Some os \<Rightarrow> os | None \<Rightarrow> OsUnspecified),
     dmt_arch = rg_arch reg, dmt_os_version = rg_os_version reg, dmt_capabilities = rg_capabilities reg\<rparr>"

definition do_register ::
  "turn \<Rightarrow> incoming \<Rightarrow> plugin_register \<Rightarrow> plugin_manifest \<Rightarrow> registry \<Rightarrow> unit result \<times> registry" where
  "do_register t msg reg manifest r =
    (if is_mux_device reg
     then register_device (tn_clk t) (rg_device_id reg) (im_conn_id msg) (rg_capabilities reg) manifest
            (im_write_tx msg) (meta_of reg) r
     else register_with_device (tn_clk t) (rg_plugin_id reg) (im_conn_id msg) manifest
            (im_write_tx msg) (meta_of reg) r)"

definition register_ack_of :: "registry \<Rightarrow> string \<Rightarrow> bytes \<Rightarrow> unit result \<Rightarrow> register_ack" where
  "register_ack_of r plugin_id session_nonce res = (case res of
      Inr _ \<Rightarrow> \<lparr>ra_accepted = True, ra_reject_reason = [],
                ra_granted_permissions = (case get_plugin r plugin_id of
                    Some e \<Rightarrow> mf_permissions (pe_manifest e) | None \<Rightarrow> []),
                ra_session_nonce = session_nonce\<rparr>
    | Inl e \<Rightarrow> \<lparr>ra_accepted = False, ra_reject_reason = display_error e,
                ra_granted_permissions = [], ra_session_nonce = []\<rparr>)"

text \<open>The part after the checks: register, acknowledge, arm the MAC, announce.\<close>

definition complete_registration ::
  "router_cfg \<Rightarrow> turn \<Rightarrow> incoming \<Rightarrow> string \<Rightarrow> plugin_register \<Rightarrow> plugin_manifest \<Rightarrow> bytes option \<Rightarrow> kernel \<Rightarrow> kernel" where
  "complete_registration C t msg mid reg manifest device_secret k =
    (let plugin_id = rg_plugin_id reg;
         (res, r) = do_register t msg reg manifest (k_reg k);
         k1 = k\<lparr>k_reg := r\<rparr>;
         session_nonce = (if rc_mac_secret C \<noteq> None \<and> is_ok res then tn_nonce t else []);
         k2 = k_send C t (im_write_tx msg)
                (envelope_of mid (PPluginRegisterAck (register_ack_of r plugin_id session_nonce res))) k1;
         k3 = (case rc_mac_secret C of
             Some secret \<Rightarrow>
               if is_ok res
               then let ikm = (case device_secret of Some s \<Rightarrow> s | None \<Rightarrow> secret);
                        key = w_derive_session_key (rc_wire C) ikm session_nonce plugin_id
                    in k2\<lparr>k_io := (k_io k2)\<lparr>io_chans :=
                          send_await (im_write_tx msg) (EnableMac key (im_session_key msg))
                            (io_chans (k_io k2))\<rparr>\<rparr>
               else k2
           | None \<Rightarrow> k2)
     in if is_ok res
        then k_publish C t \<lparr>ev_event_id = ''sys-joined-'' @ plugin_id @ ''-'' @ show_nat (now_ms t),
               ev_event_type = ''system.plugin_joined'',
               ev_payload_json = plugin_lifecycle_payload (rc_wire C) (k_reg k3) plugin_id,
               ev_retry_count = 0\<rparr> k3
        else k3)"

definition handle_register ::
  "router_cfg \<Rightarrow> turn \<Rightarrow> incoming \<Rightarrow> string \<Rightarrow> plugin_register \<Rightarrow> kernel \<Rightarrow> bool \<times> kernel" where
  "handle_register C t msg mid reg k =
    (let manifest0 = (case rg_manifest reg of Some m \<Rightarrow> m | None \<Rightarrow> default_manifest)
     in if protocol_mismatch (rc_wire C) reg
        then (True, k_error C t (im_write_tx msg) ErrProtocolMismatch
               (''protocol version '' @ rg_protocol_version reg @ '' incompatible with kernel ''
                @ w_protocol_version (rc_wire C)) k)
        else case authenticate C t reg manifest0 of
          Inl reason \<Rightarrow> (True, k_reject C t (im_write_tx msg) reason k)
        | Inr manifest1 \<Rightarrow> (case device_credential C t reg (k_disk k) of
            Inl reason \<Rightarrow> (True, k_reject C t (im_write_tx msg) reason k)
          | Inr device_secret \<Rightarrow>
              (False, complete_registration C t msg mid reg
                 (clamp_permissions C (rg_plugin_id reg) manifest1) device_secret k)))"

section \<open>Liveness and events\<close>

definition handle_ping :: "router_cfg \<Rightarrow> turn \<Rightarrow> incoming \<Rightarrow> string \<Rightarrow> nat \<Rightarrow> kernel \<Rightarrow> bool \<times> kernel" where
  "handle_ping C t msg mid ts k =
     (False, k_send C t (im_write_tx msg) (envelope_of mid (PPong ts (now_ms t))) k)"

definition handle_pong :: "turn \<Rightarrow> incoming \<Rightarrow> kernel \<Rightarrow> bool \<times> kernel" where
  "handle_pong t msg k = (case get_by_conn_id (k_reg k) (im_conn_id msg) of
      Some e \<Rightarrow> (False, k\<lparr>k_reg := record_pong (tn_clk t) (pe_plugin_id e) (k_reg k)\<rparr>)
    | None \<Rightarrow> (False, k))"

definition handle_subscribe :: "incoming \<Rightarrow> string list \<Rightarrow> kernel \<Rightarrow> bool \<times> kernel" where
  "handle_subscribe msg ts k = (case get_by_conn_id (k_reg k) (im_conn_id msg) of
      Some e \<Rightarrow> (False, k\<lparr>k_bus := subscribe (pe_plugin_id e) ts (k_bus k)\<rparr>)
    | None \<Rightarrow> (False, k))"

definition handle_unsubscribe :: "incoming \<Rightarrow> string list \<Rightarrow> kernel \<Rightarrow> bool \<times> kernel" where
  "handle_unsubscribe msg ts k = (case get_by_conn_id (k_reg k) (im_conn_id msg) of
      Some e \<Rightarrow> (False, k\<lparr>k_bus := unsubscribe (pe_plugin_id e) ts (k_bus k)\<rparr>)
    | None \<Rightarrow> (False, k))"

definition handle_event_publish ::
  "router_cfg \<Rightarrow> turn \<Rightarrow> incoming \<Rightarrow> string \<Rightarrow> string \<Rightarrow> bytes \<Rightarrow> kernel \<Rightarrow> bool \<times> kernel" where
  "handle_event_publish C t msg mid event_type payload k =
    (let sender_id = sender_id_of (k_reg k) (im_conn_id msg);
         (status, event_id, k1) =
           (if \<not> is_ok (check_permission (k_reg k) sender_id PERMISSION_EVENT_PUBLISH)
            then (EventPublishPermissionDeny, [], k)
            else let event_id = ''evt-'' @ sender_id @ ''-'' @ show_nat (now_ms t) @ ''-''
                                @ show_nat (k_event_seq k);
                     k0 = k\<lparr>k_event_seq := fetch_add_u64 (k_event_seq k)\<rparr>
                 in (EventPublishOk, event_id,
                     k_publish C t \<lparr>ev_event_id = event_id,
                       ev_event_type = ''plugin.'' @ sender_id @ ''.'' @ event_type,
                       ev_payload_json = payload, ev_retry_count = 0\<rparr> k0))
     in (False, k_send C t (im_write_tx msg)
           (envelope_of mid (PEventPublishAck event_id (Code status) [])) k1))"

definition handle_event_ack :: "router_cfg \<Rightarrow> string \<Rightarrow> kernel \<Rightarrow> bool \<times> kernel" where
  "handle_event_ack C event_id k =
     (False, if rc_event_store C then k\<lparr>k_store := mark_delivered event_id (k_store k)\<rparr> else k)"

section \<open>Actions\<close>

definition limiter_on :: "nat option \<Rightarrow> bool" where
  "limiter_on rps = (case rps of Some r \<Rightarrow> r \<noteq> 0 | None \<Rightarrow> False)"

text \<open>The match on \<^verbatim>\<open>find_action_provider\<close> with its guards: a refusal status or the provider.\<close>

definition route_action ::
  "router_cfg \<Rightarrow> turn \<Rightarrow> registry \<Rightarrow> string \<Rightarrow> string \<Rightarrow> action_status + plugin_entry" where
  "route_action C t r sender_id action = (case find_action_provider r action of
      NotFound \<Rightarrow> Inl ActionNotFound
    | Ambiguous _ \<Rightarrow> Inl ActionNotFound
    | Found provider \<Rightarrow>
        let requirement = (case action_requirement r (pe_plugin_id provider) action of
                Some p \<Rightarrow> Some p | None \<Rightarrow> required_permission_for_action action)
        in if (case requirement of
                 Some perm \<Rightarrow> \<not> is_ok (check_permission r (pe_plugin_id provider) perm)
                              \<or> \<not> is_ok (check_permission r sender_id perm)
               | None \<Rightarrow> False)
             then Inl ActionPermissionDeny
           else if (case rc_action_caller_max_concurrent C of
                 Some cap \<Rightarrow> count_pending_actions_for r sender_id (pe_plugin_id provider) \<ge> cap
               | None \<Rightarrow> False)
             then Inl ActionQuotaExceeded
           else if limiter_on (rc_action_caller_rate_limit_rps C)
                   \<and> tn_action_denied t sender_id (pe_plugin_id provider)
             then Inl ActionQuotaExceeded
           else Inr provider)"

definition internal_action_id :: "nat \<Rightarrow> string" where
  "internal_action_id n = ''kact-'' @ show_nat n"

definition handle_action_request ::
  "router_cfg \<Rightarrow> turn \<Rightarrow> incoming \<Rightarrow> string \<Rightarrow> action_request \<Rightarrow> kernel \<Rightarrow> bool \<times> kernel" where
  "handle_action_request C t msg mid req k =
    (let sender_id = sender_id_of (k_reg k) (im_conn_id msg)
     in case route_action C t (k_reg k) sender_id (aq_action req) of
          Inl st \<Rightarrow>
            (False, k_send C t (im_write_tx msg) (envelope_of mid (PActionResponse
               \<lparr>ar_action_id = aq_action_id req, ar_status = Code st, ar_data_json = [],
                ar_error = action_status_message st\<rparr>)) k)
        | Inr provider \<Rightarrow>
            let internal_id = internal_action_id (k_action_seq k);
                effective_timeout_ms =
                  (if aq_timeout_ms req = 0 then rc_action_timeout_ms C else aq_timeout_ms req);
                pending = \<lparr>pa_requester_write_tx = im_write_tx msg,
                  pa_original_action_id = aq_action_id req, pa_requester_id = sender_id,
                  pa_deadline = now_inst t + effective_timeout_ms,
                  pa_provider_id = pe_plugin_id provider, pa_streaming = aq_streaming req,
                  pa_session_accepted = False, pa_last_activity = now_inst t\<rparr>;
                k1 = k\<lparr>k_action_seq := fetch_add_u64 (k_action_seq k),
                       k_reg := register_pending_action internal_id pending (k_reg k)\<rparr>
            in (False, k_send C t (pe_write_tx provider) (envelope_of mid (PActionRequest
                  \<lparr>aq_action_id = internal_id, aq_action = aq_action req,
                   aq_params_json = aq_params_json req, aq_timeout_ms = aq_timeout_ms req,
                   aq_streaming = aq_streaming req, aq_caller_plugin_id = sender_id\<rparr>)) k1))"

definition handle_action_response ::
  "router_cfg \<Rightarrow> turn \<Rightarrow> incoming \<Rightarrow> string \<Rightarrow> action_response \<Rightarrow> kernel \<Rightarrow> bool \<times> kernel" where
  "handle_action_response C t msg mid resp k =
    (let status_ok = (ar_status resp = Code ActionOk);
         (taken, r) = (case get_by_conn_id (k_reg k) (im_conn_id msg) of
             Some e \<Rightarrow> resolve_action_response (now_inst t) (ar_action_id resp) (pe_plugin_id e)
                         status_ok (k_reg k)
           | None \<Rightarrow> (None, k_reg k));
         k1 = k\<lparr>k_reg := r\<rparr>
     in case taken of
          Some pending \<Rightarrow> (False, k_send C t (pa_requester_write_tx pending)
            (envelope_of mid (PActionResponse (resp\<lparr>ar_action_id := pa_original_action_id pending\<rparr>))) k1)
        | None \<Rightarrow> (False, k1))"

definition handle_request_chunk ::
  "router_cfg \<Rightarrow> turn \<Rightarrow> incoming \<Rightarrow> string \<Rightarrow> string \<Rightarrow> nat \<Rightarrow> bytes \<Rightarrow> bool \<Rightarrow> kernel \<Rightarrow> bool \<times> kernel" where
  "handle_request_chunk C t msg mid action_id sq chunk fin k =
    (let r = k_reg k; sender_id = sender_id_of r (im_conn_id msg)
     in case (case find_pending_internal_id r sender_id action_id of
                None \<Rightarrow> None
              | Some iid \<Rightarrow> map_option (Pair iid) (get_pending_action r iid)) of
          None \<Rightarrow> (False, k)
        | Some (internal_id, pending) \<Rightarrow>
            let k1 = k\<lparr>k_reg := touch_pending_action (now_inst t) internal_id r\<rparr>
            in case get_plugin (k_reg k1) (pa_provider_id pending) of
                 Some provider \<Rightarrow>
                   let (ok, io) = try_send_envelope (rc_wire C) (now_ms t) (pe_write_tx provider)
                         (envelope_of mid (PActionRequestChunk internal_id sq chunk fin)) (k_io k1);
                       k2 = k1\<lparr>k_io := io\<rparr>
                   in (False, if ok then k2 else k_abort C t internal_id ''receiver backpressure'' k2)
               | None \<Rightarrow> (False, k_abort C t internal_id ''provider disconnected'' k1))"

definition handle_response_chunk ::
  "router_cfg \<Rightarrow> turn \<Rightarrow> incoming \<Rightarrow> string \<Rightarrow> string \<Rightarrow> nat \<Rightarrow> bytes \<Rightarrow> kernel \<Rightarrow> bool \<times> kernel" where
  "handle_response_chunk C t msg mid action_id sq chunk k =
    (case (case get_by_conn_id (k_reg k) (im_conn_id msg) of
             None \<Rightarrow> None
           | Some e \<Rightarrow> (case get_pending_action (k_reg k) action_id of
               Some pending \<Rightarrow> if pa_provider_id pending = pe_plugin_id e then Some pending else None
             | None \<Rightarrow> None)) of
       None \<Rightarrow> (False, k)
     | Some pending \<Rightarrow>
         let k1 = k\<lparr>k_reg := touch_pending_action (now_inst t) action_id (k_reg k)\<rparr>;
             (ok, io) = try_send_envelope (rc_wire C) (now_ms t) (pa_requester_write_tx pending)
               (envelope_of mid (PActionResponseChunk (pa_original_action_id pending) sq chunk)) (k_io k1);
             k2 = k1\<lparr>k_io := io\<rparr>
         in (False, if ok then k2 else k_abort C t action_id ''receiver backpressure'' k2))"

text \<open>Which in-flight action a \<^verbatim>\<open>SessionClose\<close> means: by internal id from the provider, else by
  the requester's own id.\<close>

definition resolve_session_close ::
  "registry \<Rightarrow> string \<Rightarrow> string \<Rightarrow> (string \<times> pending_action \<times> bool) option" where
  "resolve_session_close r sender_id action_id =
    (let by_requester = (case find_pending_internal_id r sender_id action_id of
           None \<Rightarrow> None
         | Some iid \<Rightarrow> map_option (\<lambda>p. (iid, p, False)) (get_pending_action r iid))
     in case get_pending_action r action_id of
          Some pending \<Rightarrow> if pa_provider_id pending = sender_id then Some (action_id, pending, True)
                          else by_requester
        | None \<Rightarrow> by_requester)"

definition handle_session_close ::
  "router_cfg \<Rightarrow> turn \<Rightarrow> incoming \<Rightarrow> string \<Rightarrow> string \<Rightarrow> string \<Rightarrow> kernel \<Rightarrow> bool \<times> kernel" where
  "handle_session_close C t msg mid action_id reason k =
    (case get_by_conn_id (k_reg k) (im_conn_id msg) of
       None \<Rightarrow> (True, k_error C t (im_write_tx msg) ErrNotRegistered ''not registered'' k)
     | Some e \<Rightarrow> (case resolve_session_close (k_reg k) (pe_plugin_id e) action_id of
         None \<Rightarrow> (True, k_error C t (im_write_tx msg) ErrUnknown ''no matching session'' k)
       | Some (internal_id, pending, from_provider) \<Rightarrow>
           if \<not> pa_session_accepted pending
           then (True, k_error C t (im_write_tx msg) ErrUnknown
                   ''session not accepted, nothing to close'' k)
           else let k1 = (if from_provider
                  then k\<lparr>k_io := snd (try_send_envelope (rc_wire C) (now_ms t) (pa_requester_write_tx pending)
                         (envelope_of mid (PSessionClose (pa_original_action_id pending) reason)) (k_io k))\<rparr>
                  else case get_plugin (k_reg k) (pa_provider_id pending) of
                    Some provider \<Rightarrow> k\<lparr>k_io := snd (try_send_envelope (rc_wire C) (now_ms t)
                         (pe_write_tx provider) (envelope_of mid (PSessionClose internal_id reason)) (k_io k))\<rparr>
                  | None \<Rightarrow> k)
                in (False, k1\<lparr>k_reg := snd (take_pending_action internal_id (k_reg k1))\<rparr>)))"

section \<open>Kernel commands\<close>

definition READONLY_COMMANDS :: "string list" where
  "READONLY_COMMANDS = [''health_check'', ''list_plugins'', ''get_manifest'']"

definition handle_kernel_command ::
  "router_cfg \<Rightarrow> turn \<Rightarrow> incoming \<Rightarrow> string \<Rightarrow> string \<Rightarrow> string \<Rightarrow> bytes \<Rightarrow> kernel \<Rightarrow> bool \<times> kernel" where
  "handle_kernel_command C t msg mid command_id command params k =
    (let sender_id = sender_id_of (k_reg k) (im_conn_id msg);
         (outcome, l) =
           (if command \<notin> set READONLY_COMMANDS
               \<and> \<not> is_ok (check_permission (k_reg k) sender_id PERMISSION_KERNEL_ADMIN)
            then (permission_denied (sender_id @ '' lacks PERMISSION_KERNEL_ADMIN''), k_log k)
            else dispatch (rc_wire C) (rc_env C) command (k_reg k)
                   ((now_inst t - rc_start_time C) div 1000) (rc_config_path C) params (k_log k))
     in (False, k_send C t (im_write_tx msg) (envelope_of mid (PKernelCommandAck command_id
           (Code (co_status outcome)) (co_data_json outcome) (co_error outcome))) (k\<lparr>k_log := l\<rparr>)))"

section \<open>Messages to the kernel\<close>

fun is_register_payload :: "payload option \<Rightarrow> bool" where
  "is_register_payload (Some (PPluginRegister _)) = True"
| "is_register_payload _ = False"

definition dispatch_payload ::
  "router_cfg \<Rightarrow> turn \<Rightarrow> incoming \<Rightarrow> string \<Rightarrow> payload option \<Rightarrow> kernel \<Rightarrow> bool \<times> kernel" where
  "dispatch_payload C t msg mid p k = (case p of
      Some (PPluginRegister reg) \<Rightarrow> handle_register C t msg mid reg k
    | Some (PPing ts) \<Rightarrow> handle_ping C t msg mid ts k
    | Some (PPong _ _) \<Rightarrow> handle_pong t msg k
    | Some (PSubscribe ts) \<Rightarrow> handle_subscribe msg ts k
    | Some (PUnsubscribe ts) \<Rightarrow> handle_unsubscribe msg ts k
    | Some (PEventPublish et pl) \<Rightarrow> handle_event_publish C t msg mid et pl k
    | Some (PActionRequest req) \<Rightarrow> handle_action_request C t msg mid req k
    | Some (PActionResponse resp) \<Rightarrow> handle_action_response C t msg mid resp k
    | Some (PActionRequestChunk aid sq ch fin) \<Rightarrow> handle_request_chunk C t msg mid aid sq ch fin k
    | Some (PActionResponseChunk aid sq ch) \<Rightarrow> handle_response_chunk C t msg mid aid sq ch k
    | Some (PSessionClose aid reason) \<Rightarrow> handle_session_close C t msg mid aid reason k
    | Some (PKernelCommand cid cmd params) \<Rightarrow> handle_kernel_command C t msg mid cid cmd params k
    | Some (PEventAck eid) \<Rightarrow> handle_event_ack C eid k
    | _ \<Rightarrow> (True, k_error C t (im_write_tx msg) ErrUnknown ''unhandled message'' k))"

definition handle_kernel_message :: "router_cfg \<Rightarrow> turn \<Rightarrow> incoming \<Rightarrow> kernel \<Rightarrow> bool \<times> kernel" where
  "handle_kernel_message C t msg k = (case w_decode (rc_wire C) (fr_payload (im_frame msg)) of
      None \<Rightarrow> (True, k_error C t (im_write_tx msg) ErrDeserialization ''decode failed'' k)
    | Some env \<Rightarrow>
        if \<not> is_register_payload (en_payload env) \<and> \<not> is_registered (k_reg k) (im_conn_id msg)
        then (True, k_error C t (im_write_tx msg) ErrNotRegistered ''not registered'' k)
        else dispatch_payload C t msg (en_message_id env) (en_payload env) k)"


section \<open>Peer-to-peer messages\<close>

text \<open>The frame handed on: the sender's MAC flag and tag are dropped, the rest is kept.\<close>

definition strip_mac :: "frame \<Rightarrow> frame" where
  "strip_mac f = f\<lparr>fr_flags := clear_flag (fr_flags f) FLAG_MAC_PRESENT, fr_mac := None\<rparr>"

definition relay_to_host :: "frame \<Rightarrow> kernel \<Rightarrow> bool \<times> kernel" where
  "relay_to_host f k = (case k_bridge_conns k of
      [] \<Rightarrow> (False, k)
    | tx # _ \<Rightarrow> (let (res, io) = io_try_send tx (OutFrame (strip_mac f)) (k_io k)
                in (res = SendOk, k\<lparr>k_io := io\<rparr>)))"

definition contains_dot :: "string \<Rightarrow> bool" where
  "contains_dot s \<longleftrightarrow> CHR ''.'' \<in> set s"

text \<open>The target gate of \<^verbatim>\<open>forward\<close>: same user, and listed directly or through its mux device.\<close>

definition forward_target_denial :: "registry \<Rightarrow> plugin_entry \<Rightarrow> string \<Rightarrow> string option" where
  "forward_target_denial r sender target =
    (let resolved = get_mux r target;
         targets = mf_ipc_targets (pe_manifest sender);
         allowed = list_ex (\<lambda>x. x = target) targets
           \<or> (contains_dot target \<and> resolved \<noteq> None
               \<and> (case split_once target (CHR ''.'') of
                    Some (dev, _) \<Rightarrow> list_ex (\<lambda>x. x = dev) targets | None \<Rightarrow> False))
     in if (case resolved of Some e \<Rightarrow> pe_user_id e \<noteq> pe_user_id sender | None \<Rightarrow> False)
        then Some ''cross-user IPC denied''
        else if \<not> allowed then Some ''target not in ipc_targets allowlist''
        else None)"

definition raw_stream_denied :: "registry \<Rightarrow> string \<Rightarrow> frame \<Rightarrow> bool" where
  "raw_stream_denied r sender_id f \<longleftrightarrow> has_flag (fr_flags f) FLAG_RAW_BINARY
     \<and> \<not> is_ok (check_permission r sender_id PERMISSION_AUDIO_STREAM)"

text \<open>A capability call on a mux device gets a pending slot under the caller's own action id.\<close>

definition register_mux_pending ::
  "router_cfg \<Rightarrow> turn \<Rightarrow> incoming \<Rightarrow> string \<Rightarrow> string \<Rightarrow> plugin_entry \<Rightarrow> registry \<Rightarrow> registry" where
  "register_mux_pending C t msg sender_id target entry r =
    (case w_decode (rc_wire C) (fr_payload (im_frame msg)) of
       Some env \<Rightarrow> (case en_payload env of
           Some (PActionRequest req) \<Rightarrow>
             if aq_action req = [] \<and> contains_dot target
             then register_pending_action (aq_action_id req)
                    \<lparr>pa_requester_write_tx = im_write_tx msg, pa_original_action_id = aq_action_id req,
                     pa_requester_id = sender_id, pa_deadline = now_inst t + 30000,
                     pa_provider_id = pe_plugin_id entry, pa_streaming = aq_streaming req,
                     pa_session_accepted = False, pa_last_activity = now_inst t\<rparr> r
             else r
         | _ \<Rightarrow> r)
     | None \<Rightarrow> r)"

definition forward_to :: "router_cfg \<Rightarrow> turn \<Rightarrow> incoming \<Rightarrow> string \<Rightarrow> string \<Rightarrow> kernel \<Rightarrow> bool \<times> kernel" where
  "forward_to C t msg sender_id target k = (case get_mux (k_reg k) target of
      Some entry \<Rightarrow>
        let k1 = k\<lparr>k_reg := register_mux_pending C t msg sender_id target entry (k_reg k)\<rparr>
        in (False, k1\<lparr>k_io := snd (io_try_send (pe_write_tx entry)
               (OutFrame (strip_mac (im_frame msg))) (k_io k1))\<rparr>)
    | None \<Rightarrow>
        let (relayed, k1) = (if rc_bridge C then relay_to_host (im_frame msg) k else (False, k))
        in if relayed then (False, k1)
           else (True, k_error C t (im_write_tx msg) ErrUnknown ''plugin not found'' k1))"

definition forward :: "router_cfg \<Rightarrow> turn \<Rightarrow> incoming \<Rightarrow> string \<Rightarrow> kernel \<Rightarrow> bool \<times> kernel" where
  "forward C t msg target k = (case get_by_conn_id (k_reg k) (im_conn_id msg) of
      None \<Rightarrow> (True, k_error C t (im_write_tx msg) ErrNotRegistered ''not registered'' k)
    | Some e \<Rightarrow>
        let sender_id = pe_plugin_id e
        in if \<not> is_ok (check_ipc_send (k_reg k) sender_id)
           then (True, k_error C t (im_write_tx msg) ErrPermissionDenied ''PERMISSION_IPC_SEND required'' k)
           else case get_plugin (k_reg k) sender_id of
             None \<Rightarrow> (True, k_error C t (im_write_tx msg) ErrPermissionDenied ''sender not found'' k)
           | Some sender \<Rightarrow> (case forward_target_denial (k_reg k) sender target of
               Some why \<Rightarrow> (True, k_error C t (im_write_tx msg) ErrPermissionDenied why k)
             | None \<Rightarrow>
                 if raw_stream_denied (k_reg k) sender_id (im_frame msg)
                 then (True, k_error C t (im_write_tx msg) ErrPermissionDenied
                        ''PERMISSION_AUDIO_STREAM required for FLAG_RAW_BINARY frames'' k)
                 else forward_to C t msg sender_id target k))"

definition broadcast_one :: "incoming \<Rightarrow> registry \<Rightarrow> string \<Rightarrow> plugin_entry \<Rightarrow> kio \<Rightarrow> kio" where
  "broadcast_one msg r sender_id entry io =
    (if pe_conn_id entry = im_conn_id msg then io
     else if \<not> is_ok (check_ipc_target r sender_id (pe_plugin_id entry)) then io
     else snd (io_try_send (pe_write_tx entry) (OutFrame (strip_mac (im_frame msg))) io))"

definition broadcast :: "router_cfg \<Rightarrow> turn \<Rightarrow> incoming \<Rightarrow> kernel \<Rightarrow> bool \<times> kernel" where
  "broadcast C t msg k = (case get_by_conn_id (k_reg k) (im_conn_id msg) of
      None \<Rightarrow> (True, k_error C t (im_write_tx msg) ErrNotRegistered ''not registered'' k)
    | Some e \<Rightarrow>
        let sender_id = pe_plugin_id e
        in if \<not> is_ok (check_ipc_send (k_reg k) sender_id)
           then (True, k_error C t (im_write_tx msg) ErrPermissionDenied ''PERMISSION_IPC_SEND required'' k)
           else if raw_stream_denied (k_reg k) sender_id (im_frame msg)
           then (True, k_error C t (im_write_tx msg) ErrPermissionDenied
                  ''PERMISSION_AUDIO_STREAM required for FLAG_RAW_BINARY frames'' k)
           else (False, k\<lparr>k_io := fold (broadcast_one msg (k_reg k) sender_id)
                  (list_plugins (k_reg k)) (k_io k)\<rparr>))"

section \<open>The loop\<close>

record router_state =
  rs_kernel :: kernel
  rs_error_counts :: "(nat, nat \<times> nat) dashmap"     \<comment> \<open>connection, (errors, time of the last)\<close>

definition ERROR_BUDGET_IDLE_TTL :: nat where "ERROR_BUDGET_IDLE_TTL = 300000"

definition expire_one :: "router_cfg \<Rightarrow> turn \<Rightarrow> pending_action \<Rightarrow> kernel \<Rightarrow> kernel" where
  "expire_one C t p k = k_send C t (pa_requester_write_tx p) (envelope_of [] (PActionResponse
     \<lparr>ar_action_id = pa_original_action_id p, ar_status = Code ActionTimeout, ar_data_json = [],
      ar_error = ''action timed out''\<rparr>)) k"

definition idle_one :: "router_cfg \<Rightarrow> turn \<Rightarrow> string \<times> pending_action \<Rightarrow> kernel \<Rightarrow> kernel" where
  "idle_one C t ip k = k\<lparr>k_io := notify_forced_termination (rc_wire C) (now_ms t) (k_reg k) (fst ip) (snd ip)
     ''idle timeout'' (k_io k)\<rparr>"

text \<open>The \<^verbatim>\<open>prune_tick\<close> arm. Evicting idle limiter keys has no effect the model can see.\<close>

definition prune_tick :: "router_cfg \<Rightarrow> turn \<Rightarrow> kernel \<Rightarrow> kernel" where
  "prune_tick C t k =
    (let (expired, r1) = sweep_expired_actions (now_inst t) (k_reg k);
         k1 = fold (expire_one C t) expired (k\<lparr>k_reg := r1\<rparr>)
     in case rc_session_idle_timeout_secs C of
          None \<Rightarrow> k1
        | Some secs \<Rightarrow>
            let (idle, r2) = sweep_idle_sessions (now_inst t) (secs * 1000) (k_reg k1)
            in fold (idle_one C t) idle (k1\<lparr>k_reg := r2\<rparr>))"

definition error_count :: "router_state \<Rightarrow> nat \<Rightarrow> nat" where
  "error_count s conn = (case dm_get (rs_error_counts s) conn of Some (c, _) \<Rightarrow> c | None \<Rightarrow> 0)"

definition charge_error :: "router_cfg \<Rightarrow> nat \<Rightarrow> nat \<Rightarrow> (nat, nat \<times> nat) dashmap \<Rightarrow> (nat, nat \<times> nat) dashmap" where
  "charge_error C now conn m =
    (let m1 = (if length m \<ge> rc_max_tracked_error_conns C
               then dm_retain (\<lambda>_ (_, last). now - last < ERROR_BUDGET_IDLE_TTL) m else m);
         c = (case dm_get m1 conn of Some (c, _) \<Rightarrow> c | None \<Rightarrow> 0)
     in dm_insert conn ((c + 1) mod 2 ^ 32, now) m1)"

definition route_by_target :: "router_cfg \<Rightarrow> turn \<Rightarrow> incoming \<Rightarrow> string \<Rightarrow> kernel \<Rightarrow> bool \<times> kernel" where
  "route_by_target C t msg target k =
    (if target = ''kernel'' then handle_kernel_message C t msg k
     else if target = ''*'' then broadcast C t msg k
     else forward C t msg target k)"

text \<open>The message arm of the loop.\<close>

definition route_message :: "router_cfg \<Rightarrow> turn \<Rightarrow> incoming \<Rightarrow> router_state \<Rightarrow> router_state" where
  "route_message C t msg s =
    (let k = rs_kernel s; conn = im_conn_id msg
     in if limiter_on (rc_ipc_rate_limit_rps C) \<and> tn_ipc_denied t conn
        then s\<lparr>rs_kernel := k_error C t (im_write_tx msg) ErrRateLimited ''IPC rate limit exceeded'' k\<rparr>
        else case w_target_as_str (rc_wire C) (fr_target (im_frame msg)) of
          None \<Rightarrow> s\<lparr>rs_kernel := k_error C t (im_write_tx msg) ErrUnknown ''invalid UTF-8 in frame target'' k\<rparr>
        | Some target \<Rightarrow>
            if error_count s conn \<ge> rc_max_conn_errors C
               \<and> \<not> is_throttle_exempt (rc_wire C) (im_frame msg)
            then s
            else let (errored, k1) = route_by_target C t msg target k
                 in if errored
                    then s\<lparr>rs_kernel := k1,
                           rs_error_counts := charge_error C (now_inst t) conn (rs_error_counts s)\<rparr>
                    else s\<lparr>rs_kernel := k1, rs_error_counts := dm_remove conn (rs_error_counts s)\<rparr>)"

datatype router_event = PruneTick turn | Message turn incoming

fun router_step :: "router_cfg \<Rightarrow> router_event \<Rightarrow> router_state \<Rightarrow> router_state" where
  "router_step C (PruneTick t) s = s\<lparr>rs_kernel := prune_tick C t (rs_kernel s)\<rparr>"
| "router_step C (Message t msg) s = route_message C t msg s"

end
