(* ===== verification/Router_Invariants.thy ===== *)
theory Router_Invariants
  imports Router
begin

text \<open>
  What every router step keeps: the invariants of the registry, the bus, the event store and
  the error-budget map, and the discipline of the write channels (frames are only appended,
  in order). The locale \<open>kernel_effect\<close> is the contract of a handler: a reflexive and transitive
  relation between kernel states that every primitive the handlers are composed of satisfies;
  it is interpreted for invariant preservation and for channel growth.
\<close>

section \<open>Frame facts of the primitives\<close>

lemma k_send_frame [simp]:
  "k_reg (k_send C t tx env k) = k_reg k" "k_bus (k_send C t tx env k) = k_bus k"
  "k_store (k_send C t tx env k) = k_store k" "k_disk (k_send C t tx env k) = k_disk k"
  "k_log (k_send C t tx env k) = k_log k" "k_bridge_conns (k_send C t tx env k) = k_bridge_conns k"
  "k_action_seq (k_send C t tx env k) = k_action_seq k" "k_event_seq (k_send C t tx env k) = k_event_seq k"
  "k_io (k_send C t tx env k) = send_envelope (rc_wire C) (now_ms t) tx env (k_io k)"
  by (simp_all add: k_send_def)

lemma k_error_send: "k_error C t tx code m = k_send C t tx (envelope_of [] (PError (Code code) m []))"
  by (simp add: k_error_def k_send_def send_error_def fun_eq_iff)

lemma k_reject_send: "k_reject C t tx reason = k_send C t tx (envelope_of [] (PPluginRegisterAck
    \<lparr>ra_accepted = False, ra_reject_reason = reason, ra_granted_permissions = [], ra_session_nonce = []\<rparr>))"
  by (simp add: k_reject_def k_send_def send_register_reject_def fun_eq_iff)

lemmas k_reply = k_error_send k_reject_send

lemma k_publish_frame [simp]:
  "k_reg (k_publish C t e k) = k_reg k" "k_bus (k_publish C t e k) = k_bus k"
  "k_disk (k_publish C t e k) = k_disk k" "k_log (k_publish C t e k) = k_log k"
  "k_bridge_conns (k_publish C t e k) = k_bridge_conns k"
  "k_action_seq (k_publish C t e k) = k_action_seq k" "k_event_seq (k_publish C t e k) = k_event_seq k"
  "k_io (k_publish C t e k) = deliver (rc_wire C) (now_ms t) (k_bus k) (k_reg k) e (k_io k)"
  "k_store (k_publish C t e k) = (if eb_store (k_bus k) then persist (clk_secs (tn_clk t)) e (k_store k) else k_store k)"
  by (simp_all add: k_publish_def publish_def Let_def)

lemma k_abort_frame [simp]:
  "k_bus (k_abort C t i w k) = k_bus k" "k_store (k_abort C t i w k) = k_store k"
  "k_disk (k_abort C t i w k) = k_disk k" "k_log (k_abort C t i w k) = k_log k"
  "k_reg (k_abort C t i w k) = snd (take_pending_action i (k_reg k))"
  by (simp_all add: k_abort_def abort_stream_def split: prod.split option.split)

section \<open>Handlers as compositions of primitives\<close>

text \<open>
  \<open>rel k k'\<close> holds for each primitive effect below, and is closed under composition. The
  conditions on a registry change are those the registry's own operations satisfy.
\<close>

locale kernel_effect =
  fixes rel :: "kernel \<Rightarrow> kernel \<Rightarrow> bool"
  assumes refl: "rel k k"
    and trans: "rel k k' \<Longrightarrow> rel k' k'' \<Longrightarrow> rel k k''"
    and send: "rel k (k\<lparr>k_io := send_envelope W now tx env (k_io k)\<rparr>)"
    and enqueue_frame: "rel k (k\<lparr>k_io := snd (io_try_send tx out (k_io k))\<rparr>)"
    and await_frame: "rel k (k\<lparr>k_io := (k_io k)\<lparr>io_chans := send_await tx out (io_chans (k_io k))\<rparr>\<rparr>)"
    and message_id: "rel k (k\<lparr>k_io := snd (kernel_message_id now (k_io k))\<rparr>)"
    and registry_op: "rel k (k\<lparr>k_reg := reg_step op (k_reg k)\<rparr>)"
    and bus_op: "rel k (k\<lparr>k_bus := bus_step bop (k_bus k)\<rparr>)"
    and persist_event: "rel k (k\<lparr>k_store := persist s e (k_store k)\<rparr>)"
    and ack_event: "rel k (k\<lparr>k_store := mark_delivered i (k_store k)\<rparr>)"
    and action_counter: "rel k (k\<lparr>k_action_seq := n\<rparr>)"
    and event_counter: "rel k (k\<lparr>k_event_seq := n\<rparr>)"
    and log_change: "rel k (k\<lparr>k_log := l\<rparr>)"
begin

lemma k_send: "rel k k' \<Longrightarrow> rel k (k_send C t tx env k')"
  using trans send by (auto simp: k_send_def)

lemma k_error: "rel k k' \<Longrightarrow> rel k (k_error C t tx c m k')"
  by (simp add: k_error_send k_send)

lemma k_reject: "rel k k' \<Longrightarrow> rel k (k_reject C t tx w k')"
  by (simp add: k_reject_send k_send)

lemma registry: "rel k k' \<Longrightarrow> r = reg_step op (k_reg k') \<Longrightarrow> rel k (k'\<lparr>k_reg := r\<rparr>)"
  using trans registry_op by blast

lemma deliver_fold:
  "rel k (k\<lparr>k_io := io\<rparr>) \<Longrightarrow> rel k (k\<lparr>k_io := fold (deliver_one W r p) qs io\<rparr>)"
proof (induction qs arbitrary: io)
  case (Cons q qs)
  have "rel k (k\<lparr>k_io := deliver_one W r p q io\<rparr>)"
  proof (cases "get_plugin r q")
    case (Some e)
    have "rel (k\<lparr>k_io := io\<rparr>) (k\<lparr>k_io := snd (io_try_send (pe_write_tx e) (OutFrame (build_frame W q 0 p)) io)\<rparr>)"
      using enqueue_frame [of "k\<lparr>k_io := io\<rparr>"] by simp
    with Cons.prems have "rel k (k\<lparr>k_io := snd (io_try_send (pe_write_tx e) (OutFrame (build_frame W q 0 p)) io)\<rparr>)"
      by (rule trans)
    with Some show ?thesis by (simp add: deliver_one_def)
  qed (use Cons.prems in \<open>simp add: deliver_one_def\<close>)
  from Cons.IH [OF this] show ?case by simp
qed simp

lemma delivery: "rel k (k\<lparr>k_io := deliver W now b r e (k_io k)\<rparr>)"
proof (cases "deliver_targets b (ev_event_type e) = []")
  case False
  have "rel k (k\<lparr>k_io := snd (kernel_message_id now (k_io k))\<rparr>)" by (rule message_id)
  with False show ?thesis
    by (auto simp: deliver_def Let_def split_def split: option.split intro: deliver_fold)
qed (simp add: deliver_def refl)

lemma k_publish: "rel k k' \<Longrightarrow> rel k (k_publish C t e k')"
proof -
  assume k': "rel k k'"
  let ?k1 = "if eb_store (k_bus k') then k'\<lparr>k_store := persist (clk_secs (tn_clk t)) e (k_store k')\<rparr> else k'"
  have step: "rel k' ?k1" by (simp add: persist_event refl)
  have eq: "k_publish C t e k' = ?k1\<lparr>k_io := deliver (rc_wire C) (now_ms t) (k_bus ?k1) (k_reg ?k1) e (k_io ?k1)\<rparr>"
    by (simp add: k_publish_def publish_def Let_def)
  show ?thesis unfolding eq by (rule trans [OF trans [OF k' step] delivery])
qed

lemma try_send_envelope: "rel k (k\<lparr>k_io := snd (try_send_envelope W now tx env (k_io k))\<rparr>)"
  by (simp add: try_send_envelope_send send)

lemma forced_termination:
  "rel k (k\<lparr>k_io := notify_forced_termination W now r i p w (k_io k)\<rparr>)"
proof -
  let ?a = "envelope_of [] (PActionStreamAbort (pa_original_action_id p) w)"
  let ?b = "envelope_of [] (PActionResponse \<lparr>ar_action_id = pa_original_action_id p,
      ar_status = Code ActionStreamBackpressure, ar_data_json = [], ar_error = w\<rparr>)"
  let ?k1 = "k\<lparr>k_io := send_envelope W now (pa_requester_write_tx p) ?a (k_io k)\<rparr>"
  let ?k2 = "if \<not> pa_session_accepted p
      then ?k1\<lparr>k_io := send_envelope W now (pa_requester_write_tx p) ?b (k_io ?k1)\<rparr> else ?k1"
  have "rel k ?k1" by (rule send)
  moreover have "rel ?k1 ?k2" by (simp only: send refl split: if_split) simp
  ultimately have k2: "rel k ?k2" by (rule trans)
  show ?thesis
  proof (cases "get_plugin r (pa_provider_id p)")
    case None
    with k2 show ?thesis
      by (simp add: notify_forced_termination_def Let_def try_send_envelope_send split: if_splits)
  next
    case (Some e)
    have "rel k (?k2\<lparr>k_io := send_envelope W now (pe_write_tx e)
        (envelope_of [] (PActionStreamAbort i w)) (k_io ?k2)\<rparr>)"
      using k2 send trans by blast
    with Some show ?thesis
      by (simp add: notify_forced_termination_def Let_def try_send_envelope_send split: if_splits)
  qed
qed

lemma take_pending: "rel k (k\<lparr>k_reg := snd (take_pending_action i (k_reg k))\<rparr>)"
  using registry_op [of k "RegTakePending i"] by simp

lemma k_abort: "rel k k' \<Longrightarrow> rel k (k_abort C t i w k')"
proof -
  assume k': "rel k k'"
  let ?k1 = "k'\<lparr>k_reg := snd (take_pending_action i (k_reg k'))\<rparr>"
  have k1: "rel k ?k1" using k' take_pending trans by blast
  show ?thesis
  proof (cases "fst (take_pending_action i (k_reg k'))")
    case None
    with k1 show ?thesis by (simp add: k_abort_def abort_stream_def split_def)
  next
    case (Some p)
    have "rel k (?k1\<lparr>k_io := notify_forced_termination (rc_wire C) (now_ms t) (k_reg ?k1) i p w (k_io ?k1)\<rparr>)"
      using k1 forced_termination trans by blast
    with Some show ?thesis by (simp add: k_abort_def abort_stream_def split_def)
  qed
qed

lemma do_register_step: "\<exists>op. snd (do_register t msg reg mf r) = reg_step op r"
proof (cases "is_mux_device reg")
  case True
  then have "snd (do_register t msg reg mf r) = reg_step (RegRegisterDevice (tn_clk t) (rg_device_id reg)
      (im_conn_id msg) (rg_capabilities reg) mf (im_write_tx msg) (meta_of reg)) r"
    by (simp add: do_register_def)
  then show ?thesis by blast
next
  case False
  then have "snd (do_register t msg reg mf r) = reg_step (RegRegister (tn_clk t) (rg_plugin_id reg)
      (im_conn_id msg) mf (im_write_tx msg) (meta_of reg)) r"
    by (simp add: do_register_def)
  then show ?thesis by blast
qed

lemma await_after: "rel k k' \<Longrightarrow>
    rel k (k'\<lparr>k_io := (k_io k')\<lparr>io_chans := send_await tx out (io_chans (k_io k'))\<rparr>\<rparr>)"
  using trans await_frame by blast

lemma complete_registration: "rel k (complete_registration C t msg mid reg mf ds k)"
proof -
  obtain res r where dr: "do_register t msg reg mf (k_reg k) = (res, r)" by fastforce
  then have "rel k (k\<lparr>k_reg := r\<rparr>)"
    using do_register_step [of t msg reg mf "k_reg k"] registry_op by force
  from k_send [OF this] show ?thesis
    unfolding complete_registration_def dr Let_def prod.case
    by (auto split: option.split intro!: k_publish await_after simp del: k_send_frame)
qed

lemma handle_register: "rel k (snd (handle_register C t msg mid reg k))"
  unfolding handle_register_def Let_def
  by (auto split: sum.split intro: complete_registration k_error k_reject refl)

lemma handle_pong: "rel k (snd (handle_pong t msg k))"
  using registry_op [of k "RegPong c q" for c q] by (auto simp: handle_pong_def refl split: option.split)

lemma handle_subscribe: "rel k (snd (handle_subscribe msg ts k))"
  using bus_op [of k "BusSubscribe q ts" for q] by (auto simp: handle_subscribe_def refl split: option.split)

lemma handle_unsubscribe: "rel k (snd (handle_unsubscribe msg ts k))"
  using bus_op [of k "BusUnsubscribe q ts" for q] by (auto simp: handle_unsubscribe_def refl split: option.split)

lemma handle_event_publish: "rel k (snd (handle_event_publish C t msg mid et pl k))"
  unfolding handle_event_publish_def Let_def
  by (auto intro!: k_send k_publish event_counter refl)

lemma handle_action_request: "rel k (snd (handle_action_request C t msg mid req k))"
proof -
  have "rel k (k\<lparr>k_action_seq := n, k_reg := register_pending_action i p (k_reg k)\<rparr>)" for n i p
    using trans [OF action_counter [of k n] registry_op [of "k\<lparr>k_action_seq := n\<rparr>" "RegAddPending i p"]]
    by simp
  then show ?thesis unfolding handle_action_request_def Let_def
    by (auto split: sum.split intro!: k_send intro: refl)
qed

lemma handle_action_response: "rel k (snd (handle_action_response C t msg mid resp k))"
proof (cases "get_by_conn_id (k_reg k) (im_conn_id msg)")
  case None
  then show ?thesis by (simp add: handle_action_response_def refl)
next
  case (Some e)
  obtain taken r where res: "resolve_action_response (now_inst t) (ar_action_id resp) (pe_plugin_id e)
      (ar_status resp = Code ActionOk) (k_reg k) = (taken, r)" by fastforce
  have "rel k (k\<lparr>k_reg := r\<rparr>)"
    using registry_op [of k "RegResolve (now_inst t) (ar_action_id resp) (pe_plugin_id e) (ar_status resp = Code ActionOk)"]
    by (simp add: res)
  with Some res show ?thesis
    by (auto simp: handle_action_response_def Let_def intro!: k_send split: option.split)
qed

lemma touched: "rel k (k\<lparr>k_reg := touch_pending_action now i (k_reg k)\<rparr>)"
  using registry_op [of k "RegTouch now i"] by simp

lemma touched_send: "rel k (k\<lparr>k_reg := touch_pending_action now i (k_reg k),
    k_io := snd (try_send_envelope W n tx env (k_io k))\<rparr>)"
  using trans [OF touched [of k now i] try_send_envelope [of _ W n tx env]] by simp

lemma handle_request_chunk: "rel k (snd (handle_request_chunk C t msg mid aid sq ch fin k))"
  using touched_send k_abort [OF touched_send] k_abort [OF touched]
  by (auto simp: handle_request_chunk_def Let_def refl split_def split: option.split)

lemma handle_response_chunk: "rel k (snd (handle_response_chunk C t msg mid aid sq ch k))"
  using touched_send k_abort [OF touched_send]
  by (auto simp: handle_response_chunk_def Let_def refl split_def split: option.split)

lemma handle_session_close: "rel k (snd (handle_session_close C t msg mid aid reason k))"
proof -
  have "rel k (k'\<lparr>k_reg := snd (take_pending_action i (k_reg k'))\<rparr>)" if "rel k k'" for k' i
    using trans [OF that take_pending] .
  note this [OF try_send_envelope, simplified] this [OF refl]
  then show ?thesis
    by (auto simp: handle_session_close_def Let_def k_error refl split_def split: option.split)
qed

lemma handle_kernel_command: "rel k (snd (handle_kernel_command C t msg mid cid cmd params k))"
  by (auto simp: handle_kernel_command_def Let_def split_def intro!: k_send log_change refl)

lemma handle_event_ack: "rel k (snd (handle_event_ack C eid k))"
  by (simp add: handle_event_ack_def ack_event refl)

lemma dispatch_payload: "rel k (snd (dispatch_payload C t msg mid p k))"
proof -
  have "rel k (snd (handle_ping C t msg mid ts k))" for ts by (simp add: handle_ping_def k_send refl)
  then show ?thesis
    unfolding dispatch_payload_def
    by (auto split: option.split payload.split intro: handle_register handle_pong handle_subscribe
        handle_unsubscribe handle_event_publish handle_action_request handle_action_response
        handle_request_chunk handle_response_chunk handle_session_close handle_kernel_command
        handle_event_ack k_error refl)
qed

lemma handle_kernel_message: "rel k (snd (handle_kernel_message C t msg k))"
  unfolding handle_kernel_message_def
  by (auto split: option.split intro: dispatch_payload k_error refl)

lemma relay_to_host: "rel k (snd (relay_to_host f k))"
  by (auto simp: relay_to_host_def Let_def refl enqueue_frame split_def split: list.split)

lemma mux_pending: "rel k (k\<lparr>k_reg := register_mux_pending C t msg q target e (k_reg k)\<rparr>)"
proof -
  have "rel k (k\<lparr>k_reg := register_pending_action i p (k_reg k)\<rparr>)" for i p
    using registry_op [of k "RegAddPending i p"] by simp
  moreover have "rel k (k\<lparr>k_reg := k_reg k\<rparr>)" by (simp add: refl)
  ultimately show ?thesis
    by (auto simp: register_mux_pending_def simp del: kernel.surjective split: option.split payload.split)
qed

lemma forward_to: "rel k (snd (forward_to C t msg q target k))"
proof (cases "get_mux (k_reg k) target")
  case None
  have "rel k (snd (if rc_bridge C then relay_to_host (im_frame msg) k else (False, k)))"
    by (simp add: relay_to_host refl)
  with None show ?thesis by (auto simp: forward_to_def Let_def split_def k_error)
next
  case (Some e)
  show ?thesis
    using trans [OF mux_pending [of k C t msg q target e]
      enqueue_frame [of _ "pe_write_tx e" "OutFrame (strip_mac (im_frame msg))"]] Some
    by (simp add: forward_to_def Let_def)
qed

lemma forward: "rel k (snd (forward C t msg target k))"
  by (auto simp: forward_def Let_def refl intro: forward_to k_error split: option.split)

lemma broadcast_fold:
  "rel k (k\<lparr>k_io := io\<rparr>) \<Longrightarrow> rel k (k\<lparr>k_io := fold (broadcast_one msg r q) es io\<rparr>)"
proof (induction es arbitrary: io)
  case (Cons e es)
  have "rel k (k\<lparr>k_io := snd (io_try_send (pe_write_tx e) (OutFrame (strip_mac (im_frame msg))) io)\<rparr>)"
    using trans [OF Cons.prems enqueue_frame] by simp
  with Cons.prems have "rel k (k\<lparr>k_io := broadcast_one msg r q e io\<rparr>)" by (simp add: broadcast_one_def)
  from Cons.IH [OF this] show ?case by simp
qed simp

lemma broadcast: "rel k (snd (broadcast C t msg k))"
  by (auto simp: broadcast_def Let_def refl intro: k_error broadcast_fold split: option.split)

lemma route_by_target: "rel k (snd (route_by_target C t msg target k))"
  by (simp add: route_by_target_def handle_kernel_message broadcast forward)

lemma fold_rel:
  assumes "\<And>x k'. rel k k' \<Longrightarrow> rel k (f x k')" and "rel k k'"
  shows "rel k (fold f xs k')"
  using assms(2) by (induction xs arbitrary: k') (simp_all add: assms(1))

lemma prune_tick: "rel k (prune_tick C t k)"
proof -
  obtain expired r1 where sw: "sweep_expired_actions (now_inst t) (k_reg k) = (expired, r1)" by fastforce
  define k1 where "k1 = fold (expire_one C t) expired (k\<lparr>k_reg := r1\<rparr>)"
  have "rel k (k\<lparr>k_reg := r1\<rparr>)" using registry_op [of k "RegSweepExpired (now_inst t)"] by (simp add: sw)
  then have k1: "rel k k1" unfolding k1_def by (rule fold_rel [rotated]) (simp add: expire_one_def k_send)
  show ?thesis
  proof (cases "rc_session_idle_timeout_secs C")
    case None
    with k1 show ?thesis by (simp add: prune_tick_def sw flip: k1_def)
  next
    case (Some secs)
    obtain idle r2 where si: "sweep_idle_sessions (now_inst t) (secs * 1000) (k_reg k1) = (idle, r2)" by fastforce
    have "rel k (k1\<lparr>k_reg := r2\<rparr>)"
      using trans [OF k1 registry_op [of k1 "RegSweepIdle (now_inst t) (secs * 1000)"]] by (simp add: si)
    then have "rel k (fold (idle_one C t) idle (k1\<lparr>k_reg := r2\<rparr>))"
      by (rule fold_rel [rotated]) (simp add: idle_one_def trans [OF _ forced_termination])
    with Some si show ?thesis by (simp add: prune_tick_def sw flip: k1_def)
  qed
qed

lemma route_message: "rel (rs_kernel s) (rs_kernel (route_message C t msg s))"
  using route_by_target [of "rs_kernel s" C t msg]
  by (auto simp: route_message_def Let_def refl intro: k_error split: option.split prod.split)
    (metis snd_conv)+

lemma router_step: "rel (rs_kernel s) (rs_kernel (router_step C ev s))"
  by (cases ev) (simp_all add: prune_tick route_message)

lemma router_run: "rel (rs_kernel s) (rs_kernel (fold (router_step C) evs s))"
  by (induction evs arbitrary: s) (auto intro: refl trans router_step)

end

section \<open>The contract at work\<close>

definition kernel_ok :: "kernel \<Rightarrow> bool" where
  "kernel_ok k \<longleftrightarrow> reg_ok (k_reg k) \<and> bus_ok (k_bus k) \<and> dm_ok (k_store k)"

lemma persist_ok [simp]: "dm_ok s \<Longrightarrow> dm_ok (persist t e s)"
  by (simp add: persist_def split: option.split)

interpretation inv: kernel_effect "\<lambda>k k'. kernel_ok k \<longrightarrow> kernel_ok k'"
  by unfold_locales (auto simp: kernel_ok_def mark_delivered_def intro: reg_step_reg_ok bus_step_ok)

definition chans_grow :: "kernel \<Rightarrow> kernel \<Rightarrow> bool" where
  "chans_grow k k' \<longleftrightarrow> extends (io_chans (k_io k)) (io_chans (k_io k'))"

lemma io_try_send_extends [simp]: "extends (io_chans io) (io_chans (snd (io_try_send tx out io)))"
  by (simp add: io_try_send_simps)

interpretation grow: kernel_effect chans_grow
  by unfold_locales (auto simp: chans_grow_def kernel_message_id_def send_await_def intro: extends_trans)

definition keeps :: "kernel \<Rightarrow> kernel \<Rightarrow> bool" where
  "keeps k k' \<longleftrightarrow> k_disk k' = k_disk k \<and> k_bridge_conns k' = k_bridge_conns k
     \<and> (\<forall>i row. dm_get (k_store k) i = Some row \<longrightarrow> (\<exists>row'. dm_get (k_store k') i = Some row'
          \<and> (row' = row \<or> row' = row\<lparr>er_status := EvDelivered\<rparr>)))"

interpretation kept: kernel_effect keeps
proof unfold_locales
  show "keeps k (k\<lparr>k_store := persist s e (k_store k)\<rparr>)" for k s e
    by (auto simp: keeps_def persist_def split: option.split)
  show "keeps k (k\<lparr>k_store := mark_delivered i (k_store k)\<rparr>)" for k i
    by (auto simp: keeps_def mark_delivered_def get_update_row)
  show "keeps k k''" if "keeps k k'" "keeps k' k''" for k k' k''
    using that by (fastforce simp: keeps_def)
qed (simp_all add: keeps_def)

lemma charge_error_ok: "dm_ok m \<Longrightarrow> dm_ok (charge_error C now conn m)"
  by (simp add: charge_error_def Let_def dm_ok_intros)

definition router_ok :: "router_state \<Rightarrow> bool" where
  "router_ok s \<longleftrightarrow> kernel_ok (rs_kernel s) \<and> dm_ok (rs_error_counts s)"

lemma router_step_ok: "router_ok s \<Longrightarrow> router_ok (router_step C ev s)"
proof -
  assume ok: "router_ok s"
  then have "kernel_ok (rs_kernel (router_step C ev s))"
    using inv.router_step [of s C ev] by (simp add: router_ok_def)
  moreover have "dm_ok (rs_error_counts (router_step C ev s))"
    using ok by (cases ev) (auto simp: router_ok_def route_message_def Let_def charge_error_ok dm_ok_intros
        split: option.split prod.split)
  ultimately show ?thesis by (simp add: router_ok_def)
qed

text \<open>A kernel that has just booted: no plugin, no subscription, whatever is on disk.\<close>

definition router_start :: "kio \<Rightarrow> bool \<Rightarrow> disk \<Rightarrow> log_state \<Rightarrow> chan list \<Rightarrow> router_state" where
  "router_start io persistent dk lg bridge = \<lparr>rs_kernel = \<lparr>k_io = io, k_reg = registry_new,
     k_bus = (if persistent then bus_with_store else bus_new), k_store = [], k_disk = dk, k_log = lg,
     k_bridge_conns = bridge, k_action_seq = 0, k_event_seq = 0\<rparr>, rs_error_counts = []\<rparr>"

lemma router_start_ok: "router_ok (router_start io st dk lg br)"
  by (simp add: router_ok_def kernel_ok_def router_start_def reg_ok_new bus_ok_new dm_ok_def)

interpretation rt: step_system "router_start io st dk lg br" "router_step C" router_ok for io st dk lg br C
  by unfold_locales (rule router_start_ok, rule router_step_ok)

text \<open>
  Whatever messages, clocks and limiter verdicts the router meets after boot, in
  whatever order, the registry's indexes describe its plugins, the bus's two indexes agree,
  and the event table and the error-budget table have one row per key.
\<close>

theorem router_reach_ok:
  "let s = fold (router_step C) evs (router_start io st dk lg br); k = rs_kernel s
   in reg_ok (k_reg k) \<and> bus_ok (k_bus k) \<and> dm_ok (k_store k) \<and> dm_ok (rs_error_counts s)"
  using rt.inv_reach [of C evs io st dk lg br] by (simp add: router_ok_def kernel_ok_def Let_def)

text \<open>
  The router never loses or reorders what it has queued for a connection and never
  opens, closes or resizes a channel; it never writes the credential file or the list of
  bridge connections, and no event row disappears on its account.
\<close>

theorem router_append_only:
  "let k = rs_kernel s; k' = rs_kernel (fold (router_step C) evs s)
   in (\<exists>new. queued (io_chans (k_io k')) c = queued (io_chans (k_io k)) c @ new)
    \<and> ch_cap (io_chans (k_io k') c) = ch_cap (io_chans (k_io k) c)
    \<and> ch_open (io_chans (k_io k') c) = ch_open (io_chans (k_io k) c)
    \<and> k_disk k' = k_disk k \<and> k_bridge_conns k' = k_bridge_conns k
    \<and> {i. dm_get (k_store k) i \<noteq> None} \<subseteq> {i. dm_get (k_store k') i \<noteq> None}"
  using grow.router_run [of s C evs] kept.router_run [of s C evs]
  by (fastforce simp: chans_grow_def extends_def keeps_def Let_def)

end
