(* ===== verification/Router_Samples.thy ===== *)
theory Router_Samples
  imports Router_Invariants
begin

text \<open>
  A small concrete kernel for the evaluated examples: plugin \<open>a\<close> on connection 3 may message
  plugin \<open>b\<close> on connection 4, which provides the action \<open>do\<close>; connection 7 has not registered.
\<close>

definition sample_clk :: clock where
  "sample_clk = \<lparr>clk_secs = 1, clk_millis = 7, clk_instant = 7\<rparr>"

definition sample_turn :: turn where
  "sample_turn = \<lparr>tn_clk = sample_clk, tn_nonce = ''nn'', tn_ipc_denied = (\<lambda>_. False),
     tn_action_denied = (\<lambda>_ _. False)\<rparr>"

definition sample_cfg :: "envelope option \<Rightarrow> router_cfg" where
  "sample_cfg d = \<lparr>rc_wire = sample_wire\<lparr>w_decode := \<lambda>_. d\<rparr>, rc_env = sample_env, rc_jwt_lib = sample_jwt,
     rc_dev_lib = sample_dev_lib, rc_jwt_validator = None, rc_start_time = 0, rc_config_path = None,
     rc_event_store = False, rc_mac_secret = None, rc_config_permissions = None, rc_ipc_rate_limit_rps = None,
     rc_action_caller_rate_limit_rps = None, rc_action_caller_max_concurrent = Some 2,
     rc_action_timeout_ms = 30000, rc_max_conn_errors = 2, rc_max_tracked_error_conns = 100,
     rc_session_idle_timeout_secs = None, rc_device_store = None, rc_bridge = False\<rparr>"

definition sample_meta :: device_meta where
  "sample_meta = \<lparr>dmt_device_id = [], dmt_user_id = [], dmt_os = OsUnspecified, dmt_arch = [],
     dmt_os_version = [], dmt_capabilities = []\<rparr>"

definition sample_manifest_a :: plugin_manifest where
  "sample_manifest_a = default_manifest\<lparr>mf_permissions := [''PERMISSION_IPC_SEND''], mf_ipc_targets := [''b'']\<rparr>"

definition sample_manifest_b :: plugin_manifest where
  "sample_manifest_b = default_manifest\<lparr>mf_actions := [''do'']\<rparr>"

definition sample_entry :: "string \<Rightarrow> nat \<Rightarrow> plugin_manifest \<Rightarrow> chan \<Rightarrow> plugin_entry" where
  "sample_entry i c m tx = \<lparr>pe_plugin_id = i, pe_conn_id = c, pe_manifest = m, pe_write_tx = tx,
     pe_registered_at = 1, pe_state = Registered, pe_device_id = ''local'', pe_user_id = ''default''\<rparr>"

abbreviation sample_a :: plugin_entry where "sample_a \<equiv> sample_entry ''a'' 3 sample_manifest_a 30"
abbreviation sample_b :: plugin_entry where "sample_b \<equiv> sample_entry ''b'' 4 sample_manifest_b 40"

definition sample_reg :: registry where
  "sample_reg = snd (register_with_device sample_clk ''b'' 4 sample_manifest_b 40 sample_meta
     (snd (register_with_device sample_clk ''a'' 3 sample_manifest_a 30 sample_meta registry_new)))"

lemma sample_reg_ok: "reg_ok sample_reg"
  by (simp add: sample_reg_def register_with_device_reg_ok reg_ok_new)

lemma sample_lookups:
  "get_by_conn_id sample_reg 3 = Some sample_a" "get_by_conn_id sample_reg 4 = Some sample_b"
  "get_by_conn_id sample_reg 7 = None" "is_registered sample_reg 7 = False"
  "get_plugin sample_reg ''a'' = Some sample_a" "get_plugin sample_reg ''b'' = Some sample_b"
  "get_plugin sample_reg ''c'' = None" "list_plugins sample_reg = [sample_a, sample_b]"
  "find_action_provider sample_reg ''do'' = Found sample_b" "action_requirement sample_reg ''b'' ''do'' = None"
  "pending_actions sample_reg = []"
  by code_simp+

definition sample_io :: kio where
  "sample_io = \<lparr>io_chans = (\<lambda>_. \<lparr>ch_queue = [], ch_cap = 4, ch_open = True\<rparr>), io_msg_seq = 0\<rparr>"

definition sample_kernel :: kernel where
  "sample_kernel = \<lparr>k_io = sample_io, k_reg = sample_reg, k_bus = bus_new, k_store = [],
     k_disk = sample_disk None, k_log = \<lparr>lg_handle = True, lg_modify_ok = True, lg_filter = ''info''\<rparr>,
     k_bridge_conns = [], k_action_seq = 0, k_event_seq = 0\<rparr>"

lemma sample_kernel_ok: "kernel_ok sample_kernel"
  by (simp add: kernel_ok_def sample_kernel_def sample_reg_ok bus_ok_new dm_ok_def)

definition sample_state :: router_state where
  "sample_state = \<lparr>rs_kernel = sample_kernel, rs_error_counts = []\<rparr>"

lemma sample_state_ok: "router_ok sample_state"
  using sample_kernel_ok by (simp add: router_ok_def sample_state_def dm_ok_def)

text \<open>A message on connection \<open>c\<close>, whose channel is \<open>10 * c\<close>, addressed to \<open>target\<close>.\<close>

definition sample_msg :: "nat \<Rightarrow> string \<Rightarrow> incoming" where
  "sample_msg c target = \<lparr>im_conn_id = c, im_frame = build_frame sample_wire target 0 ''payload'',
     im_write_tx = 10 * c, im_session_key = c\<rparr>"

lemma sample_simps:
  "k_io sample_kernel = sample_io" "k_reg sample_kernel = sample_reg" "k_bus sample_kernel = bus_new"
  "k_bridge_conns sample_kernel = []" "k_action_seq sample_kernel = 0" "k_store sample_kernel = []"
  "queued (io_chans sample_io) c = []" "chan_accepts (io_chans sample_io) c"
  "im_conn_id (sample_msg n tg) = n" "im_write_tx (sample_msg n tg) = 10 * n"
  "im_frame (sample_msg n tg) = build_frame sample_wire tg 0 ''payload''"
  "rs_kernel sample_state = sample_kernel" "rs_error_counts sample_state = []"
  "rc_wire (sample_cfg d) = sample_wire\<lparr>w_decode := \<lambda>_. d\<rparr>" "rc_bridge (sample_cfg d) = False"
  "pe_plugin_id (sample_entry i c m x) = i" "pe_conn_id (sample_entry i c m x) = c"
  "pe_manifest (sample_entry i c m x) = m" "pe_write_tx (sample_entry i c m x) = x"
  "pe_user_id (sample_entry i c m x) = ''default''"
  by (simp_all add: sample_kernel_def sample_io_def chan_accepts_def sample_msg_def sample_state_def
      sample_cfg_def sample_entry_def)

lemma sample_permissions:
  "has_permission sample_a PERMISSION_IPC_SEND" "mf_ipc_targets sample_manifest_a = [''b'']"
  by code_simp+

lemma sample_get_mux: "get_mux sample_reg ''b'' = Some sample_b"
  by (simp add: get_mux_def sample_lookups)

end
