(* ===== verification/Router_Security.thy ===== *)
theory Router_Security
  imports Router_Samples
begin

text \<open>
  Who may do what through the router: an unregistered connection only hears refusals, peer
  messages pass the default-deny gates, an action runs only with both grants and under the
  caller's own name, an in-flight action belongs to its two parties, and a registration
  grants no more than the token and the operator allow.
\<close>

section \<open>Effects confined to channels\<close>

lemma kernel_io_self [simp]: "k\<lparr>k_io := k_io k\<rparr> = k"
  by simp

lemma k_error_only_io:
  "\<exists>io. k_error C t tx c m k = k\<lparr>k_io := io\<rparr> \<and> touches {tx} (io_chans (k_io k)) (io_chans io)"
  by (auto simp: k_error_def)

lemma is_registered_get: "reg_ok r \<Longrightarrow> get_by_conn_id r c = None \<longleftrightarrow> \<not> is_registered r c"
  by (simp add: is_registered_iff)

text \<open>
  \<^bold>\<open>C12.\<close> A connection that has not registered can do nothing but register: any other
  message it sends, to the kernel, to a peer or to everyone, changes no state besides what is
  queued on its own channel.
\<close>

theorem unregistered_isolated:
  assumes "router_ok s" "\<not> is_registered (k_reg (rs_kernel s)) (im_conn_id msg)"
    and "\<forall>env. w_decode (rc_wire C) (fr_payload (im_frame msg)) = Some env
           \<longrightarrow> \<not> is_register_payload (en_payload env)"
  shows "\<exists>io. rs_kernel (route_message C t msg s) = (rs_kernel s)\<lparr>k_io := io\<rparr>
    \<and> touches {im_write_tx msg} (io_chans (k_io (rs_kernel s))) (io_chans io)"
proof -
  let ?k = "rs_kernel s"
  have none: "get_by_conn_id (k_reg ?k) (im_conn_id msg) = None"
    using assms(1,2) by (simp add: router_ok_def kernel_ok_def is_registered_get)
  have "\<exists>c m. snd (route_by_target C t msg target ?k) = k_error C t (im_write_tx msg) c m ?k" for target
    using none assms(2,3)
    by (auto simp: route_by_target_def handle_kernel_message_def broadcast_def forward_def split: option.split)
  then have "\<exists>io. snd (route_by_target C t msg target ?k) = ?k\<lparr>k_io := io\<rparr>
      \<and> touches {im_write_tx msg} (io_chans (k_io ?k)) (io_chans io)" for target
    using k_error_only_io by metis
  moreover have "\<exists>io. ?k = ?k\<lparr>k_io := io\<rparr> \<and> touches {im_write_tx msg} (io_chans (k_io ?k)) (io_chans io)"
    by (rule exI [of _ "k_io ?k"]) simp
  ultimately show ?thesis using k_error_only_io
    by (auto simp: route_message_def Let_def split_def split: option.split)
qed

theorem unregistered_isolated_witness:
  "\<exists>io. rs_kernel (route_message (sample_cfg (Some (envelope_of ''m'' (PPing 5)))) sample_turn (sample_msg 7 ''kernel'') sample_state)
     = sample_kernel\<lparr>k_io := io\<rparr> \<and> touches {70} (io_chans sample_io) (io_chans io)"
  using unregistered_isolated [OF sample_state_ok, of "sample_msg 7 ''kernel''"
      "sample_cfg (Some (envelope_of ''m'' (PPing 5)))" sample_turn]
  by (simp add: sample_simps sample_lookups envelope_of_def)

section \<open>Peer-to-peer messages\<close>

definition may_name :: "registry \<Rightarrow> plugin_entry \<Rightarrow> string \<Rightarrow> bool" where
  "may_name r sender target \<longleftrightarrow> target \<in> set (mf_ipc_targets (pe_manifest sender))
     \<or> (get_mux r target \<noteq> None
        \<and> (\<exists>dev cap. target = dev @ ''.'' @ cap \<and> dev \<in> set (mf_ipc_targets (pe_manifest sender))))"

lemma forward_target_denial_None:
  assumes "forward_target_denial r sender target = None"
  shows "may_name r sender target" "get_mux r target = Some e \<Longrightarrow> pe_user_id e = pe_user_id sender"
proof -
  have "target \<in> set (mf_ipc_targets (pe_manifest sender)) \<or> (get_mux r target \<noteq> None
      \<and> (case split_once target (CHR ''.'') of Some (dev, _) \<Rightarrow> dev \<in> set (mf_ipc_targets (pe_manifest sender))
           | None \<Rightarrow> False))"
    using assms by (auto simp: forward_target_denial_def Let_def list_ex_iff split: option.splits if_splits)
  then show "may_name r sender target"
    by (auto simp: may_name_def split: option.splits dest!: split_once_Some)
  show "get_mux r target = Some e \<Longrightarrow> pe_user_id e = pe_user_id sender"
    using assms by (auto simp: forward_target_denial_def Let_def split: if_splits)
qed

lemma raw_stream_denied_iff:
  "get_plugin r q = Some e \<Longrightarrow> raw_stream_denied r q f \<longleftrightarrow>
     has_flag (fr_flags f) FLAG_RAW_BINARY \<and> \<not> has_permission e PERMISSION_AUDIO_STREAM"
  by (simp add: raw_stream_denied_def check_permission_ok_iff)

lemma io_try_send_queued:
  "queued (io_chans (snd (io_try_send tx out io))) c \<noteq> queued (io_chans io) c \<Longrightarrow>
     c = tx \<and> queued (io_chans (snd (io_try_send tx out io))) c = queued (io_chans io) c @ [out]"
  by (auto simp: io_try_send_simps enqueue_def split: if_splits)

lemma k_error_other: "c \<noteq> tx \<Longrightarrow> io_chans (k_io (k_error C t tx code m k)) c = io_chans (k_io k) c"
  using k_error_only_io [of C t tx code m k] by (auto simp: touches_def)

lemma forward_to_effect:
  assumes "c \<noteq> im_write_tx msg"
    and "queued (io_chans (k_io (snd (forward_to C t msg q target k)))) c \<noteq> queued (io_chans (k_io k)) c"
  shows "queued (io_chans (k_io (snd (forward_to C t msg q target k)))) c =
      queued (io_chans (k_io k)) c @ [OutFrame (strip_mac (im_frame msg))]
    \<and> (case get_mux (k_reg k) target of
         Some e \<Rightarrow> c = pe_write_tx e
       | None \<Rightarrow> rc_bridge C \<and> (\<exists>rest. k_bridge_conns k = c # rest))"
proof (cases "get_mux (k_reg k) target")
  case None
  have "rc_bridge C" using assms None by (auto simp: forward_to_def k_error_other split: if_splits)
  with assms None have "queued (io_chans (k_io (snd (relay_to_host (im_frame msg) k)))) c \<noteq> queued (io_chans (k_io k)) c"
    and "queued (io_chans (k_io (snd (forward_to C t msg q target k)))) c =
         queued (io_chans (k_io (snd (relay_to_host (im_frame msg) k)))) c"
    by (auto simp: forward_to_def k_error_other split_def Let_def split: if_splits)
  with None \<open>rc_bridge C\<close> show ?thesis
    by (auto simp: relay_to_host_def Let_def split_def dest: io_try_send_queued split: list.splits)
next
  case (Some e)
  with assms show ?thesis
    by (auto simp: forward_to_def Let_def dest: io_try_send_queued)
qed



text \<open>The receivers of a broadcast: listed by the sender, of its user, on another connection.\<close>

definition hears_broadcast :: "registry \<Rightarrow> plugin_entry \<Rightarrow> nat \<Rightarrow> plugin_entry \<Rightarrow> bool" where
  "hears_broadcast r sender conn e \<longleftrightarrow> pe_conn_id e \<noteq> conn
     \<and> pe_plugin_id e \<in> set (mf_ipc_targets (pe_manifest sender)) \<and> pe_user_id e = pe_user_id sender"

lemma list_plugins_iff:
  assumes "reg_ok r"
  shows "e \<in> set (list_plugins r) \<longleftrightarrow> get_plugin r (pe_plugin_id e) = Some e"
proof -
  have "dm_ok (by_plugin_id r)" using assms by (simp add: reg_ok_def maps_ok_def)
  then show ?thesis using get_plugin_id [OF assms]
    by (auto simp: list_plugins_def dm_values_iff get_plugin_def)
qed

lemma broadcast_one_cases:
  assumes "reg_ok r" "get_plugin r q = Some sender" "e \<in> set (list_plugins r)"
  shows "broadcast_one msg r q e io =
    (if hears_broadcast r sender (im_conn_id msg) e
     then snd (io_try_send (pe_write_tx e) (OutFrame (strip_mac (im_frame msg))) io) else io)"
proof -
  have "get_plugin r (pe_plugin_id e) = Some e"
    using assms(1,3) by (auto simp: list_plugins_iff)
  with assms(2) show ?thesis
    by (auto simp: broadcast_one_def hears_broadcast_def check_ipc_target_ok_iff)
qed

lemma fold_try_send_queued:
  assumes "distinct (map pe_write_tx es)"
  shows "queued (io_chans (fold (\<lambda>e io. if P e then snd (io_try_send (pe_write_tx e) out io) else io) es io)) c =
    queued (io_chans io) c @
      (if chan_accepts (io_chans io) c \<and> (\<exists>e\<in>set es. P e \<and> pe_write_tx e = c) then [out] else [])"
  using assms
proof (induction es arbitrary: io)
  case (Cons e es)
  let ?io = "if P e then snd (io_try_send (pe_write_tx e) out io) else io"
  have other: "io_chans ?io c = io_chans io c" if "c \<noteq> pe_write_tx e"
    using that by (simp add: io_try_send_simps enqueue_def)
  show ?case
  proof (cases "pe_write_tx e = c")
    case True
    then have "\<not> (\<exists>e'\<in>set es. P e' \<and> pe_write_tx e' = c)" using Cons.prems
      by (metis distinct.simps(2) image_eqI list.map(2) list.set_map)
    with True Cons.IH [of ?io] Cons.prems show ?thesis
      by (auto simp: io_try_send_simps)
  next
    case False
    with Cons.IH [of ?io] Cons.prems other show ?thesis
      by (simp add: chan_accepts_def)
  qed
qed simp

text \<open>
  \<^bold>\<open>C14.\<close> A broadcast reaches exactly its audience: when the plugins write to distinct
  channels, a channel other than the sender's own gains the stripped frame, once, if and only
  if the sender is registered, may send, may stream (for a raw frame), the channel has room,
  and its plugin is named in the sender's allowlist and belongs to the sender's user.
\<close>

theorem broadcast_exact:
  assumes "kernel_ok k" "c \<noteq> im_write_tx msg"
    and "distinct (map pe_write_tx (list_plugins (k_reg k)))"
  shows "queued (io_chans (k_io (snd (broadcast C t msg k)))) c = queued (io_chans (k_io k)) c @
    (if (\<exists>sender. get_by_conn_id (k_reg k) (im_conn_id msg) = Some sender
           \<and> has_permission sender PERMISSION_IPC_SEND
           \<and> (has_flag (fr_flags (im_frame msg)) FLAG_RAW_BINARY \<longrightarrow> has_permission sender PERMISSION_AUDIO_STREAM)
           \<and> (\<exists>e\<in>set (list_plugins (k_reg k)). hears_broadcast (k_reg k) sender (im_conn_id msg) e
                \<and> pe_write_tx e = c))
        \<and> chan_accepts (io_chans (k_io k)) c
     then [OutFrame (strip_mac (im_frame msg))] else [])"
proof (cases "get_by_conn_id (k_reg k) (im_conn_id msg)")
  case None
  with assms(2) show ?thesis by (simp add: broadcast_def k_error_other)
next
  case (Some sender)
  let ?r = "k_reg k"
  have ok: "reg_ok ?r" using assms(1) by (simp add: kernel_ok_def)
  with Some have g: "get_plugin ?r (pe_plugin_id sender) = Some sender" by (simp add: get_by_conn_id_iff)
  have "fold (broadcast_one msg ?r (pe_plugin_id sender)) (list_plugins ?r) (k_io k) =
    fold (\<lambda>e io. if hears_broadcast ?r sender (im_conn_id msg) e
        then snd (io_try_send (pe_write_tx e) (OutFrame (strip_mac (im_frame msg))) io) else io)
      (list_plugins ?r) (k_io k)"
    by (rule fold_cong) (auto simp: broadcast_one_cases [OF ok g] fun_eq_iff)
  with Some g fold_try_send_queued [OF assms(3)] assms(2) show ?thesis
    by (auto simp: broadcast_def Let_def k_error_other check_ipc_send_ok_iff raw_stream_denied_iff)
qed

theorem broadcast_exact_witness:
  "queued (io_chans (k_io (snd (broadcast (sample_cfg None) sample_turn (sample_msg 3 ''*'') sample_kernel)))) 40
     = [OutFrame (strip_mac (build_frame sample_wire ''*'' 0 ''payload''))]"
proof -
  have "hears_broadcast sample_reg sample_a 3 sample_b" "\<not> has_flag (fr_flags (build_frame sample_wire ''*'' 0 ''payload'')) FLAG_RAW_BINARY"
    by (simp_all add: hears_broadcast_def sample_simps sample_permissions build_frame_def has_flag_def)
  with broadcast_exact [OF sample_kernel_ok, of 40 "sample_msg 3 ''*''" "sample_cfg None" sample_turn] sample_permissions
  show ?thesis by (simp add: sample_simps sample_lookups)
qed

end
