(* ===== verification/Router_Actions.thy ===== *)
theory Router_Actions
  imports Router_Security
begin

text \<open>
  Actions through the router: who may start one, who may touch one that is in flight, what its
  caller hears back, and when it ends.
\<close>

section \<open>Starting an action\<close>

lemma sender_id_of_Some [simp]: "get_by_conn_id r c = Some e \<Longrightarrow> sender_id_of r c = pe_plugin_id e"
  by (simp add: sender_id_of_def)

definition effective_requirement :: "registry \<Rightarrow> string \<Rightarrow> string \<Rightarrow> string option" where
  "effective_requirement r provider action = (case action_requirement r provider action of
      Some p \<Rightarrow> Some p | None \<Rightarrow> required_permission_for_action action)"

lemma route_action_Inr:
  assumes "reg_ok r" "get_plugin r q = Some caller" "route_action C t r q a = Inr provider"
  shows "declarers r a = {pe_plugin_id provider}" "get_plugin r (pe_plugin_id provider) = Some provider"
    "effective_requirement r (pe_plugin_id provider) a = Some perm \<Longrightarrow>
       has_permission provider perm \<and> has_permission caller perm"
    "rc_action_caller_max_concurrent C = Some cap \<Longrightarrow>
       count_pending_actions_for r q (pe_plugin_id provider) < cap"
proof -
  have found: "find_action_provider r a = Found provider"
    using assms(3) by (auto simp: route_action_def Let_def split: action_lookup.splits if_splits)
  with find_action_provider_spec [OF assms(1), of a]
  show "declarers r a = {pe_plugin_id provider}" and p: "get_plugin r (pe_plugin_id provider) = Some provider"
    by simp_all
  show "has_permission provider perm \<and> has_permission caller perm"
    if "effective_requirement r (pe_plugin_id provider) a = Some perm"
    using that assms(3) found p assms(2)
    by (auto simp: route_action_def Let_def effective_requirement_def check_permission_ok_iff
        split: option.splits if_splits)
  show "count_pending_actions_for r q (pe_plugin_id provider) < cap" if "rc_action_caller_max_concurrent C = Some cap"
    using that assms(3) found by (auto simp: route_action_def Let_def split: option.splits if_splits)
qed

definition new_slot :: "router_cfg \<Rightarrow> turn \<Rightarrow> incoming \<Rightarrow> action_request \<Rightarrow> string \<Rightarrow> string \<Rightarrow> pending_action" where
  "new_slot C t msg req caller provider = \<lparr>pa_requester_write_tx = im_write_tx msg,
     pa_original_action_id = aq_action_id req, pa_requester_id = caller,
     pa_deadline = now_inst t + (if aq_timeout_ms req = 0 then rc_action_timeout_ms C else aq_timeout_ms req),
     pa_provider_id = provider, pa_streaming = aq_streaming req, pa_session_accepted = False,
     pa_last_activity = now_inst t\<rparr>"

lemma handle_action_request_Inr:
  assumes "get_by_conn_id (k_reg k) (im_conn_id msg) = Some caller"
    and "route_action C t (k_reg k) (pe_plugin_id caller) (aq_action req) = Inr provider"
  shows "snd (handle_action_request C t msg mid req k) =
    k_send C t (pe_write_tx provider) (envelope_of mid (PActionRequest
        (req\<lparr>aq_action_id := internal_action_id (k_action_seq k), aq_caller_plugin_id := pe_plugin_id caller\<rparr>)))
      (k\<lparr>k_action_seq := fetch_add_u64 (k_action_seq k),
         k_reg := register_pending_action (internal_action_id (k_action_seq k))
           (new_slot C t msg req (pe_plugin_id caller) (pe_plugin_id provider)) (k_reg k)\<rparr>)"
  using assms by (cases req) (simp add: handle_action_request_def new_slot_def Let_def)

lemma handle_action_request_Inl:
  assumes "get_by_conn_id (k_reg k) (im_conn_id msg) = Some caller"
    and "route_action C t (k_reg k) (pe_plugin_id caller) (aq_action req) = Inl st"
  shows "k_reg (snd (handle_action_request C t msg mid req k)) = k_reg k"
    "c \<noteq> im_write_tx msg \<Longrightarrow> queued (io_chans (k_io (snd (handle_action_request C t msg mid req k)))) c
       = queued (io_chans (k_io k)) c"
  using assms by (simp_all add: handle_action_request_def Let_def send_envelope_queued)

lemma get_pending_register [simp]:
  "get_pending_action (register_pending_action i p r) j = (if j = i then Some p else get_pending_action r j)"
  by (simp add: get_pending_action_def register_pending_action_def)


definition sample_request :: action_request where
  "sample_request = \<lparr>aq_action_id = ''r1'', aq_action = ''do'', aq_params_json = [], aq_timeout_ms = 50,
     aq_streaming = False, aq_caller_plugin_id = ''root''\<rparr>"

lemma sample_route: "route_action (sample_cfg d) sample_turn sample_reg ''a'' ''do'' = Inr sample_b"
  by (simp add: route_action_def sample_lookups sample_simps required_permission_for_action_def)
    (simp add: sample_cfg_def limiter_on_def count_pending_actions_for_def sample_lookups dm_values_def)


section \<open>Actions in flight\<close>

lemma find_pending_internal_id_slot:
  assumes "reg_ok r" "find_pending_internal_id r q a = Some i"
  shows "\<exists>p. get_pending_action r i = Some p \<and> pa_requester_id p = q \<and> pa_original_action_id p = a"
proof -
  have "dm_ok (pending_actions r)" using assms(1) by (simp add: reg_ok_def maps_ok_def)
  then show ?thesis using assms(2)
    by (auto simp: find_pending_internal_id_def get_pending_action_def find_Some_iff
        simp flip: dm_mem_iff) (metis nth_mem)
qed

lemma resolve_get_pending:
  "get_pending_action (snd (resolve_action_response now i q ok r)) j =
    (case get_pending_action r i of
       None \<Rightarrow> get_pending_action r j
     | Some p \<Rightarrow> if j \<noteq> i \<or> pa_provider_id p \<noteq> q then get_pending_action r j
         else if ok \<and> pa_streaming p then Some (p\<lparr>pa_session_accepted := True, pa_last_activity := now\<rparr>)
         else None)"
  by (auto simp: resolve_action_response_def get_pending_action_def Let_def split: option.split)

lemma take_get_pending:
  "get_pending_action (snd (take_pending_action i r)) j = (if j = i then None else get_pending_action r j)"
  by (auto simp: take_pending_action_def get_pending_action_def split: option.split)

lemma touch_get_pending:
  "get_pending_action (touch_pending_action now i r) j =
    (if j = i then map_option (\<lambda>p. p\<lparr>pa_last_activity := now\<rparr>) (get_pending_action r j) else get_pending_action r j)"
  by (auto simp: touch_pending_action_def get_pending_action_def split: option.split)

lemmas pending_lookup = resolve_get_pending take_get_pending touch_get_pending

lemma do_register_pending: "get_pending_action (snd (do_register t msg reg mf r)) j = get_pending_action r j"
proof (cases "is_mux_device reg")
  case True
  then show ?thesis
    by (auto simp: do_register_def get_pending_action_def intro: register_device_cases [of "tn_clk t"
        "rg_device_id reg" "im_conn_id msg" "rg_capabilities reg" mf "im_write_tx msg" "meta_of reg" r])
next
  case False
  then show ?thesis
    by (auto simp: do_register_def get_pending_action_def intro: register_with_device_cases [of "tn_clk t"
        "rg_plugin_id reg" "im_conn_id msg" mf "im_write_tx msg" "meta_of reg" r])
qed

lemma record_pong_pending [simp]: "get_pending_action (record_pong c q r) j = get_pending_action r j"
  by (simp add: get_pending_action_def record_pong_fields)

text \<open>A slot that \<open>q\<close> is not a party of is out of reach of each handler that \<open>q\<close> can drive.\<close>

definition stranger :: "string \<Rightarrow> pending_action \<Rightarrow> bool" where
  "stranger q p \<longleftrightarrow> pa_provider_id p \<noteq> q \<and> pa_requester_id p \<noteq> q"

lemma complete_registration_pending:
  "get_pending_action (k_reg (complete_registration C t msg mid reg mf ds k)) j = get_pending_action (k_reg k) j"
  using do_register_pending [of t msg reg mf "k_reg k" j]
  by (auto simp: complete_registration_def Let_def split_def split: option.split)

lemma handle_register_pending:
  "get_pending_action (k_reg (snd (handle_register C t msg mid reg k))) j = get_pending_action (k_reg k) j"
  by (auto simp: handle_register_def Let_def complete_registration_pending k_reply split: sum.split)

lemma stranger_response:
  assumes "get_by_conn_id (k_reg k) (im_conn_id msg) = Some e" "get_pending_action (k_reg k) i = Some p"
    "stranger (pe_plugin_id e) p"
  shows "get_pending_action (k_reg (snd (handle_action_response C t msg mid resp k))) i = Some p"
  using assms resolve_get_pending [of "now_inst t" "ar_action_id resp" "pe_plugin_id e"
      "ar_status resp = Code ActionOk" "k_reg k" i]
  by (auto simp: handle_action_response_def Let_def split_def stranger_def split: option.splits if_splits)

lemma stranger_request_chunk:
  assumes "reg_ok (k_reg k)" "get_by_conn_id (k_reg k) (im_conn_id msg) = Some e"
    "get_pending_action (k_reg k) i = Some p" "stranger (pe_plugin_id e) p"
  shows "get_pending_action (k_reg (snd (handle_request_chunk C t msg mid aid sq ch fin k))) i = Some p"
proof -
  have "find_pending_internal_id (k_reg k) (pe_plugin_id e) aid \<noteq> Some i"
    using find_pending_internal_id_slot [OF assms(1)] assms(3,4) by (fastforce simp: stranger_def)
  with assms(2,3) show ?thesis
    by (auto simp: handle_request_chunk_def Let_def split_def pending_lookup split: option.split)
qed

lemma stranger_response_chunk:
  assumes "get_by_conn_id (k_reg k) (im_conn_id msg) = Some e" "get_pending_action (k_reg k) i = Some p"
    "stranger (pe_plugin_id e) p"
  shows "get_pending_action (k_reg (snd (handle_response_chunk C t msg mid aid sq ch k))) i = Some p"
  using assms by (auto simp: handle_response_chunk_def Let_def split_def pending_lookup stranger_def
      split: option.split)

lemma resolve_session_close_party:
  assumes "reg_ok r" "resolve_session_close r q a = Some (i, p, b)"
  shows "get_pending_action r i = Some p \<and> \<not> stranger q p"
  using assms find_pending_internal_id_slot [OF assms(1)]
  by (fastforce simp: resolve_session_close_def Let_def stranger_def split: option.splits if_splits)

lemma stranger_session_close:
  assumes "reg_ok (k_reg k)" "get_by_conn_id (k_reg k) (im_conn_id msg) = Some e"
    "get_pending_action (k_reg k) i = Some p" "stranger (pe_plugin_id e) p"
  shows "get_pending_action (k_reg (snd (handle_session_close C t msg mid aid reason k))) i = Some p"
proof -
  have "j \<noteq> i" if "resolve_session_close (k_reg k) (pe_plugin_id e) aid = Some (j, p', b)" for j p' b
    using resolve_session_close_party [OF assms(1) that] assms(3,4) by auto
  with assms(2,3) show ?thesis
    by (auto simp: handle_session_close_def Let_def k_error_send take_get_pending split: option.split)
qed

text \<open>
  \<^bold>\<open>C16.\<close> An action in flight belongs to its two parties. Whatever a registered plugin sends to
  the kernel (a forged response, a stream chunk, a session close, another registration, a
  request of its own), the slot of an action it neither requested nor provides is unchanged,
  as long as the correlation counter has not come round to that very slot.
\<close>

theorem pending_owned_by_parties:
  assumes "kernel_ok k" "get_by_conn_id (k_reg k) (im_conn_id msg) = Some e"
    and "get_pending_action (k_reg k) i = Some p"
    and "pa_provider_id p \<noteq> pe_plugin_id e" "pa_requester_id p \<noteq> pe_plugin_id e"
    and "i \<noteq> internal_action_id (k_action_seq k)"
  shows "get_pending_action (k_reg (snd (handle_kernel_message C t msg k))) i = Some p"
proof -
  have ok: "reg_ok (k_reg k)" using assms(1) by (simp add: kernel_ok_def)
  have s: "stranger (pe_plugin_id e) p" using assms(4,5) by (simp add: stranger_def)
  have request: "get_pending_action (k_reg (snd (handle_action_request C t msg mid req k))) i = Some p" for mid req
    using assms(2,3,6) by (simp add: handle_action_request_def Let_def split: sum.split)
  show ?thesis
    unfolding handle_kernel_message_def dispatch_payload_def
    using assms(3) request handle_register_pending stranger_response [OF assms(2,3) s]
      stranger_request_chunk [OF ok assms(2,3) s] stranger_response_chunk [OF assms(2,3) s]
      stranger_session_close [OF ok assms(2,3) s]
    by (auto simp: k_error_send handle_ping_def handle_pong_def handle_subscribe_def handle_unsubscribe_def
        handle_event_publish_def handle_kernel_command_def handle_event_ack_def Let_def split_def
        split: option.split payload.split)
qed

definition sample_slot :: pending_action where
  "sample_slot = \<lparr>pa_requester_write_tx = 50, pa_original_action_id = ''r9'', pa_requester_id = ''x'', pa_deadline = 5,
     pa_provider_id = ''y'', pa_streaming = False, pa_session_accepted = False, pa_last_activity = 2\<rparr>"

definition sample_busy :: kernel where
  "sample_busy = sample_kernel\<lparr>k_reg := register_pending_action ''kact-9'' sample_slot sample_reg, k_action_seq := 10\<rparr>"

lemma sample_busy_ok: "kernel_ok sample_busy"
  using reg_step_reg_ok [OF sample_reg_ok, of "RegAddPending ''kact-9'' sample_slot"] sample_kernel_ok
  by (simp add: kernel_ok_def sample_busy_def)

lemma sample_busy_simps:
  "get_pending_action (k_reg sample_busy) ''kact-9'' = Some sample_slot" "k_action_seq sample_busy = 10"
  "k_io sample_busy = sample_io" "get_by_conn_id (k_reg sample_busy) 3 = Some sample_a"
  "length (pending_actions (k_reg sample_busy)) = 1" "internal_action_id 10 = ''kact-10''"
proof -
  show "get_by_conn_id (k_reg sample_busy) 3 = Some sample_a"
    using sample_lookups(1) by (simp add: sample_busy_def get_by_conn_id_def register_pending_action_def split: option.splits)
  show "length (pending_actions (k_reg sample_busy)) = 1"
    by (simp add: sample_busy_def register_pending_action_def sample_lookups dm_insert_def)
  show "internal_action_id 10 = ''kact-10''" by code_simp
qed (simp_all add: sample_busy_def sample_simps)

theorem pending_owned_by_parties_witness:
  "get_pending_action (k_reg (snd (handle_kernel_message (sample_cfg (Some (envelope_of ''m'' (PActionResponse
       \<lparr>ar_action_id = ''kact-9'', ar_status = Code ActionOk, ar_data_json = [], ar_error = []\<rparr>))))
     sample_turn (sample_msg 3 ''kernel'') sample_busy))) ''kact-9'' = Some sample_slot"
  by (rule pending_owned_by_parties [OF sample_busy_ok, of _ sample_a])
    (simp_all add: sample_simps sample_busy_simps, simp_all add: sample_slot_def)

text \<open>
  \<^bold>\<open>C17.\<close> The answer comes home. When a routed request is followed by its provider's response
  to the internal id, the caller's channel gains exactly that response under the caller's own
  action id (if there is room), and the slot is gone, unless the response accepts a stream,
  which marks it accepted and keeps it.
\<close>

theorem action_roundtrip:
  assumes "get_by_conn_id (k_reg k) (im_conn_id msg) = Some caller"
    and "route_action C t (k_reg k) (pe_plugin_id caller) (aq_action req) = Inr provider"
    and "get_by_conn_id (k_reg k) (im_conn_id msg') = Some provider"
    and "pe_write_tx provider \<noteq> im_write_tx msg"
    and "k1 = snd (handle_action_request C t msg mid req k)"
    and "k2 = snd (handle_action_response C t' msg' mid' (resp\<lparr>ar_action_id := internal_action_id (k_action_seq k)\<rparr>) k1)"
  shows "queued (io_chans (k_io k2)) (im_write_tx msg) = queued (io_chans (k_io k)) (im_write_tx msg) @
      (if chan_accepts (io_chans (k_io k)) (im_write_tx msg)
       then (case fst (build_outbound (rc_wire C) (now_ms t') (envelope_of mid'
              (PActionResponse (resp\<lparr>ar_action_id := aq_action_id req\<rparr>))) (k_io k1)) of
              Some out \<Rightarrow> [out] | None \<Rightarrow> [])
       else [])
    \<and> get_pending_action (k_reg k2) (internal_action_id (k_action_seq k)) =
      (if ar_status resp = Code ActionOk \<and> aq_streaming req
       then Some ((new_slot C t msg req (pe_plugin_id caller) (pe_plugin_id provider))
              \<lparr>pa_session_accepted := True, pa_last_activity := now_inst t'\<rparr>)
       else None)"
proof -
  let ?i = "internal_action_id (k_action_seq k)"
  let ?slot = "new_slot C t msg req (pe_plugin_id caller) (pe_plugin_id provider)"
  note k1 = assms(5) [unfolded handle_action_request_Inr [OF assms(1,2)]]
  have reg1: "k_reg k1 = register_pending_action ?i ?slot (k_reg k)" by (simp add: k1)
  have conn: "get_by_conn_id (k_reg k1) (im_conn_id msg') = Some provider"
    using assms(3) unfolding reg1 by (simp add: get_by_conn_id_def register_pending_action_def split: option.splits)
  have io1: "io_chans (k_io k1) (im_write_tx msg) = io_chans (k_io k) (im_write_tx msg)"
    using send_envelope_touches_one [of "pe_write_tx provider" "{pe_write_tx provider}"] assms(4)
    by (auto simp: k1 touches_def)
  let ?res = "resolve_action_response (now_inst t') ?i (pe_plugin_id provider) (ar_status resp = Code ActionOk) (k_reg k1)"
  have "\<exists>p. fst ?res = Some p \<and> pa_requester_write_tx p = im_write_tx msg \<and> pa_original_action_id p = aq_action_id req"
    unfolding reg1 by (simp add: resolve_action_response_def register_pending_action_def new_slot_def Let_def)
  with conn have k2: "k2 = k_send C t' (im_write_tx msg)
      (envelope_of mid' (PActionResponse (resp\<lparr>ar_action_id := aq_action_id req\<rparr>))) (k1\<lparr>k_reg := snd ?res\<rparr>)"
    unfolding assms(6) by (auto simp: handle_action_response_def Let_def split_def)
  have "get_pending_action (snd ?res) ?i =
      (if ar_status resp = Code ActionOk \<and> aq_streaming req
       then Some (?slot\<lparr>pa_session_accepted := True, pa_last_activity := now_inst t'\<rparr>) else None)"
    by (simp add: resolve_get_pending reg1) (simp add: new_slot_def)
  with io1 show ?thesis by (simp add: k2 send_envelope_queued chan_accepts_def)
qed

theorem action_roundtrip_witness:
  "\<exists>k1. get_pending_action (k_reg k1) (internal_action_id 0) \<noteq> None
     \<and> get_pending_action (k_reg (snd (handle_action_response (sample_cfg None) sample_turn (sample_msg 4 ''kernel'') ''m''
         \<lparr>ar_action_id = internal_action_id 0, ar_status = Code ActionOk, ar_data_json = [], ar_error = []\<rparr> k1)))
         (internal_action_id 0) = None
     \<and> length (queued (io_chans (k_io (snd (handle_action_response (sample_cfg None) sample_turn (sample_msg 4 ''kernel'') ''m''
         \<lparr>ar_action_id = internal_action_id 0, ar_status = Code ActionOk, ar_data_json = [], ar_error = []\<rparr> k1)))) 30) = 1"
proof -
  let ?resp = "\<lparr>ar_action_id = internal_action_id 0, ar_status = Code ActionOk, ar_data_json = [], ar_error = []\<rparr>"
  let ?k1 = "snd (handle_action_request (sample_cfg None) sample_turn (sample_msg 3 ''kernel'') ''m'' sample_request sample_kernel)"
  have r: "aq_action sample_request = ''do''" "\<not> aq_streaming sample_request" by (simp_all add: sample_request_def)
  have open_slot: "get_pending_action (k_reg ?k1) (internal_action_id 0) \<noteq> None"
    using handle_action_request_Inr [of sample_kernel "sample_msg 3 ''kernel''" sample_a "sample_cfg None" sample_turn
        sample_request sample_b "''m''"]
    by (simp add: sample_simps sample_lookups sample_route r)
  have "fst (build_outbound (rc_wire (sample_cfg None)) now env io) \<noteq> None" for now env io
    by (simp add: build_outbound_def sample_simps split_def Let_def)
  with open_slot action_roundtrip [of sample_kernel "sample_msg 3 ''kernel''" sample_a "sample_cfg None" sample_turn
      sample_request sample_b "sample_msg 4 ''kernel''" ?k1 "''m''" _ sample_turn "''m''" ?resp, OF _ _ _ _ refl refl]
  show ?thesis
    by (intro exI [of _ ?k1]) (auto simp: sample_simps sample_lookups sample_route r split: option.split)
qed

section \<open>The end of an action\<close>

definition timeout_envelope :: "pending_action \<Rightarrow> envelope" where
  "timeout_envelope p = envelope_of [] (PActionResponse \<lparr>ar_action_id = pa_original_action_id p,
     ar_status = Code ActionTimeout, ar_data_json = [], ar_error = ''action timed out''\<rparr>)"

lemma expire_one_send: "expire_one C t p = k_send C t (pa_requester_write_tx p) (timeout_envelope p)"
  by (simp add: expire_one_def timeout_envelope_def fun_eq_iff)

lemma build_outbound_total:
  assumes "\<And>e. w_encode W e \<noteq> None" "en_message_id env = []"
  shows "\<exists>mid b. fst (build_outbound W now env io) = Some (OutFrame (build_frame W ''client'' 0 b))
    \<and> w_encode W (env\<lparr>en_message_id := mid, en_timestamp := now, en_sender_id := ''kernel''\<rparr>) = Some b"
  using assms by (auto simp: build_outbound_def Let_def kernel_message_id_def split: option.split)

definition told_timeout :: "wire \<Rightarrow> nat \<Rightarrow> pending_action \<Rightarrow> outbound list \<Rightarrow> bool" where
  "told_timeout W now p q \<longleftrightarrow> (\<exists>mid b. OutFrame (build_frame W ''client'' 0 b) \<in> set q
     \<and> w_encode W ((timeout_envelope p)\<lparr>en_message_id := mid, en_timestamp := now, en_sender_id := ''kernel''\<rparr>) = Some b)"

lemma told_timeout_grow:
  assumes "told_timeout W now p (queued (io_chans (k_io k)) c)" "chans_grow k k'"
  shows "told_timeout W now p (queued (io_chans (k_io k')) c)"
proof -
  from assms(2) obtain new where "queued (io_chans (k_io k')) c = queued (io_chans (k_io k)) c @ new"
    unfolding chans_grow_def extends_def by blast
  with assms(1) show ?thesis by (auto simp: told_timeout_def)
qed

lemma expire_fold_told:
  assumes "\<And>e. w_encode (rc_wire C) e \<noteq> None" "p \<in> set ps" "pa_requester_write_tx p = c"
    and "ch_open (io_chans (k_io k) c)"
    and "length (queued (io_chans (k_io k)) c) + length ps \<le> ch_cap (io_chans (k_io k) c)"
  shows "told_timeout (rc_wire C) (now_ms t) p (queued (io_chans (k_io (fold (expire_one C t) ps k))) c)"
  using assms(2,4,5)
proof (induction ps arbitrary: k)
  case (Cons x xs)
  let ?k1 = "expire_one C t x k"
  have g: "chans_grow k ?k1" by (simp add: expire_one_send grow.k_send grow.refl)
  have len: "length (queued (io_chans (k_io ?k1)) c) \<le> Suc (length (queued (io_chans (k_io k)) c))"
    by (auto simp: expire_one_send send_envelope_queued split: option.split)
  show ?case
  proof (cases "p \<in> set xs")
    case True
    from g Cons.prems len have "ch_open (io_chans (k_io ?k1) c)"
      "length (queued (io_chans (k_io ?k1)) c) + length xs \<le> ch_cap (io_chans (k_io ?k1) c)"
      by (auto simp: chans_grow_def extends_def)
    from Cons.IH [OF True this] show ?thesis by simp
  next
    case False
    with Cons.prems have x: "x = p" by simp
    have acc: "chan_accepts (io_chans (k_io k)) c" using Cons.prems by (simp add: chan_accepts_def)
    obtain mid b where "fst (build_outbound (rc_wire C) (now_ms t) (timeout_envelope p) (k_io k)) =
        Some (OutFrame (build_frame (rc_wire C) ''client'' 0 b))"
      "w_encode (rc_wire C) ((timeout_envelope p)\<lparr>en_message_id := mid, en_timestamp := now_ms t,
        en_sender_id := ''kernel''\<rparr>) = Some b"
      using build_outbound_total [OF assms(1), of "timeout_envelope p"]
      unfolding timeout_envelope_def by (fastforce simp: envelope_of_def)
    with acc have "told_timeout (rc_wire C) (now_ms t) p (queued (io_chans (k_io ?k1)) c)"
      unfolding told_timeout_def by (auto simp: x expire_one_send send_envelope_queued assms(3))
    moreover have "chans_grow ?k1 (fold (expire_one C t) xs ?k1)"
      by (rule grow.fold_rel) (simp_all add: expire_one_send grow.k_send grow.refl)
    ultimately show ?thesis using told_timeout_grow by simp
  qed
qed simp

lemma fold_io_reg:
  assumes "\<And>x k. k_reg (f x k) = k_reg k"
  shows "k_reg (fold f xs k) = k_reg k"
  by (induction xs arbitrary: k) (simp_all add: assms)

lemma prune_tick_slots:
  assumes "reg_ok (k_reg k)"
  shows "get_pending_action (k_reg (prune_tick C t k)) i = (case get_pending_action (k_reg k) i of
      None \<Rightarrow> None
    | Some p \<Rightarrow> if action_expired (now_inst t) p
          \<or> (\<exists>secs. rc_session_idle_timeout_secs C = Some secs \<and> session_idle (now_inst t) (secs * 1000) p)
        then None else Some p)"
proof -
  let ?m = "pending_actions (k_reg k)"
  have ok: "dm_ok ?m" using assms by (simp add: reg_ok_def maps_ok_def)
  have e: "k_reg (fold (expire_one C t) xs k') = k_reg k'" for xs k'
    by (rule fold_io_reg) (simp add: expire_one_send)
  have d: "k_reg (fold (idle_one C t) xs k') = k_reg k'" for xs k'
    by (rule fold_io_reg) (simp add: idle_one_def)
  show ?thesis
    by (auto simp: prune_tick_def Let_def sweep_expired_spec [OF ok] sweep_idle_spec e d ok
        get_pending_action_def dm_get_retain split: option.split)
qed

lemma prune_tick_grows: "chans_grow (fold (expire_one C t) (fst (sweep_expired_actions (now_inst t) (k_reg k)))
    (k\<lparr>k_reg := snd (sweep_expired_actions (now_inst t) (k_reg k))\<rparr>)) (prune_tick C t k)"
proof -
  have "chans_grow k1 (fold (idle_one C t) idle (k1\<lparr>k_reg := r\<rparr>))" for k1 idle r
    by (rule grow.fold_rel) (auto simp: chans_grow_def idle_one_def)
  then show ?thesis by (simp add: prune_tick_def split_def grow.refl Let_def split: option.split)
qed

text \<open>
  \<^bold>\<open>C18.\<close> No call hangs for ever. At the first tick past its deadline an action nobody has
  accepted as a stream is gone from the table; its caller, if its channel is open with room for
  the answers of that tick, finds an ACTION_TIMEOUT for its own action id there; and an action
  that is neither expired nor an idle session is untouched. Encoding an envelope into a
  growable buffer is documented not to fail.
\<close>

theorem expired_actions_answered:
  assumes "\<And>env. w_encode (rc_wire C) env \<noteq> None" "kernel_ok k"
    and "get_pending_action (k_reg k) i = Some p" "\<not> pa_session_accepted p" "pa_deadline p \<le> now_inst t"
    and "ch_open (io_chans (k_io k) (pa_requester_write_tx p))"
    and "length (queued (io_chans (k_io k)) (pa_requester_write_tx p)) + length (pending_actions (k_reg k))
           \<le> ch_cap (io_chans (k_io k) (pa_requester_write_tx p))"
  shows "get_pending_action (k_reg (prune_tick C t k)) i = None
    \<and> told_timeout (rc_wire C) (now_ms t) p
        (queued (io_chans (k_io (prune_tick C t k))) (pa_requester_write_tx p))
    \<and> (\<forall>j q. get_pending_action (k_reg k) j = Some q \<longrightarrow> \<not> pa_session_accepted q \<longrightarrow> now_inst t < pa_deadline q
         \<longrightarrow> get_pending_action (k_reg (prune_tick C t k)) j = Some q)"
proof -
  have ok: "reg_ok (k_reg k)" using assms(2) by (simp add: kernel_ok_def)
  then have dm: "dm_ok (pending_actions (k_reg k))" by (simp add: reg_ok_def maps_ok_def)
  define ps where "ps = map snd (filter (\<lambda>e. action_expired (now_inst t) (snd e)) (pending_actions (k_reg k)))"
  have exp: "action_expired (now_inst t) p" using assms(4,5) by (simp add: action_expired_def)
  have "p \<in> set ps"
    using assms(3) exp dm_mem_iff [OF dm] by (force simp: ps_def get_pending_action_def image_iff)
  moreover have "length ps \<le> length (pending_actions (k_reg k))" by (simp add: ps_def)
  ultimately have "told_timeout (rc_wire C) (now_ms t) p (queued (io_chans (k_io
      (fold (expire_one C t) ps (k\<lparr>k_reg := r\<rparr>)))) (pa_requester_write_tx p))" for r
    using expire_fold_told [OF assms(1), of p ps "pa_requester_write_tx p" "k\<lparr>k_reg := r\<rparr>" t] assms(6,7)
    by simp
  from told_timeout_grow [OF this prune_tick_grows [of C t k, unfolded sweep_expired_spec [OF dm], folded ps_def, simplified]]
  show ?thesis
    using exp assms(3)
    by (simp add: prune_tick_slots [OF ok] action_expired_def session_idle_def)
qed

theorem expired_actions_answered_witness:
  "get_pending_action (k_reg (prune_tick (sample_cfg None) sample_turn sample_busy)) ''kact-9'' = None
   \<and> told_timeout (sample_wire\<lparr>w_decode := \<lambda>_. None\<rparr>) 7 sample_slot
       (queued (io_chans (k_io (prune_tick (sample_cfg None) sample_turn sample_busy))) 50)"
proof -
  have "pa_requester_write_tx sample_slot = 50" "pa_deadline sample_slot = 5" "\<not> pa_session_accepted sample_slot"
    "now_inst sample_turn = 7" "now_ms sample_turn = 7"
    by (simp_all add: sample_slot_def sample_turn_def sample_clk_def)
  moreover have "ch_cap (io_chans sample_io 50) = 4" "ch_open (io_chans sample_io 50)" by (simp_all add: sample_io_def)
  ultimately show ?thesis
    using expired_actions_answered [OF _ sample_busy_ok sample_busy_simps(1), of "sample_cfg None" sample_turn]
    by (simp add: sample_simps sample_busy_simps)
qed

end
