(* ===== verification/Router_Sessions.thy ===== *)
theory Router_Sessions
  imports Router_Actions
begin

text \<open>
  Registration and the error budget: what a registration grants, the order in which it arms
  the frame MAC, and how many replies a misbehaving connection can draw from the kernel.
\<close>

section \<open>What a registration grants\<close>

lemma do_register_new:
  assumes "get_plugin r pid = None" "get_plugin (snd (do_register t msg reg mf r)) pid = Some e"
  shows "pid = rg_plugin_id reg \<and> pe_plugin_id e = pid \<and> pe_conn_id e = im_conn_id msg \<and> pe_write_tx e = im_write_tx msg
    \<and> mf_permissions (pe_manifest e) = mf_permissions mf \<and> mf_ipc_targets (pe_manifest e) = mf_ipc_targets mf"
proof (cases "is_mux_device reg")
  case True
  then have "rg_plugin_id reg = rg_device_id reg" by (simp add: is_mux_device_def)
  with True assms show ?thesis
    by (cases rule: register_device_cases [of "tn_clk t" "rg_device_id reg" "im_conn_id msg" "rg_capabilities reg"
        mf "im_write_tx msg" "meta_of reg" r]) (auto simp: do_register_def get_plugin_def split: if_splits)
next
  case False
  with assms show ?thesis
    by (cases rule: register_with_device_cases [of "tn_clk t" "rg_plugin_id reg" "im_conn_id msg" mf
        "im_write_tx msg" "meta_of reg" r]) (auto simp: do_register_def get_plugin_def split: if_splits)
qed

lemma complete_registration_reg:
  "k_reg (complete_registration C t msg mid reg mf ds k) = snd (do_register t msg reg mf (k_reg k))"
  by (auto simp: complete_registration_def Let_def split_def split: option.split)

lemma handle_register_new:
  assumes "get_plugin (k_reg k) pid = None" "get_plugin (k_reg (snd (handle_register C t msg mid reg k))) pid = Some e"
  obtains mf ds where "authenticate C t reg (case rg_manifest reg of Some m \<Rightarrow> m | None \<Rightarrow> default_manifest) = Inr mf"
    "device_credential C t reg (k_disk k) = Inr ds"
    "snd (handle_register C t msg mid reg k) =
       complete_registration C t msg mid reg (clamp_permissions C (rg_plugin_id reg) mf) ds k"
  using assms
  by (auto simp: handle_register_def Let_def k_reply split: sum.splits if_splits)

definition operator_allowlist :: "router_cfg \<Rightarrow> string \<Rightarrow> string list" where
  "operator_allowlist C pid = (case rc_config_permissions C of None \<Rightarrow> []
     | Some m \<Rightarrow> (case dm_get m pid of Some allowed \<Rightarrow> allowed | None \<Rightarrow> []))"

lemma clamp_permissions_set:
  "set (mf_permissions (clamp_permissions C pid mf)) = {p \<in> set (mf_permissions mf).
     operator_allowlist C pid = [] \<or> normalize_permission p \<in> normalize_permission ` set (operator_allowlist C pid)}"
  "mf_ipc_targets (clamp_permissions C pid mf) = mf_ipc_targets mf"
  by (auto simp: clamp_permissions_def operator_allowlist_def Let_def split: option.split)

text \<open>
  \<^bold>\<open>C19.\<close> A registration grants no more than both the token and the operator allow. When a
  plugin id appears in the registry, it is the id that was asked for, bound to the connection
  that asked; on a kernel with token checking a valid token names that plugin or its device,
  every permission is one of the token's and the IPC allowlist is the token's; every
  permission is on the operator's list when there is one; and a device registration on a
  kernel with a credential store had an active credential there.
\<close>

theorem registration_grants_bounded:
  assumes "get_plugin (k_reg k) pid = None"
    and "get_plugin (k_reg (snd (handle_register C t msg mid reg k))) pid = Some e"
  shows "pid = rg_plugin_id reg \<and> pe_plugin_id e = pid
    \<and> pe_conn_id e = im_conn_id msg \<and> pe_write_tx e = im_write_tx msg
    \<and> (\<forall>v. rc_jwt_validator C = Some v \<longrightarrow>
        (\<exists>claims. validate (rc_jwt_lib C) (clk_secs (tn_clk t)) v (rg_jwt_token reg) = Inr claims
          \<and> (cl_sub claims = pid \<or> (rg_device_id reg \<noteq> [] \<and> cl_sub claims = rg_device_id reg))
          \<and> set (mf_permissions (pe_manifest e)) \<subseteq> set (cl_permissions claims)
          \<and> mf_ipc_targets (pe_manifest e) = cl_ipc_targets claims))
    \<and> (operator_allowlist C pid \<noteq> [] \<longrightarrow> (\<forall>p\<in>set (mf_permissions (pe_manifest e)).
          normalize_permission p \<in> normalize_permission ` set (operator_allowlist C pid)))
    \<and> (rg_device_id reg \<noteq> [] \<and> rc_mac_secret C \<noteq> None \<longrightarrow> (\<forall>d. rc_device_store C = Some d \<longrightarrow>
          (\<exists>secret. active_secret (rc_dev_lib C) d (clk_secs (tn_clk t)) (rg_device_id reg) (k_disk k)
             = Inr (Some secret))))"
proof -
  obtain mf ds where auth: "authenticate C t reg (case rg_manifest reg of Some m \<Rightarrow> m | None \<Rightarrow> default_manifest) = Inr mf"
    and dev: "device_credential C t reg (k_disk k) = Inr ds"
    and k': "snd (handle_register C t msg mid reg k) =
       complete_registration C t msg mid reg (clamp_permissions C (rg_plugin_id reg) mf) ds k"
    by (rule handle_register_new [OF assms])
  have new: "pid = rg_plugin_id reg \<and> pe_plugin_id e = pid \<and> pe_conn_id e = im_conn_id msg
      \<and> pe_write_tx e = im_write_tx msg
      \<and> mf_permissions (pe_manifest e) = mf_permissions (clamp_permissions C pid mf)
      \<and> mf_ipc_targets (pe_manifest e) = mf_ipc_targets mf"
    using do_register_new [OF assms(1), of t msg reg "clamp_permissions C (rg_plugin_id reg) mf" e] assms(2)
    by (auto simp: k' complete_registration_reg clamp_permissions_set)
  have "\<exists>claims. validate (rc_jwt_lib C) (clk_secs (tn_clk t)) v (rg_jwt_token reg) = Inr claims
      \<and> (cl_sub claims = rg_plugin_id reg \<or> (rg_device_id reg \<noteq> [] \<and> cl_sub claims = rg_device_id reg))
      \<and> mf_permissions mf = cl_permissions claims \<and> mf_ipc_targets mf = cl_ipc_targets claims"
    if "rc_jwt_validator C = Some v" for v
    using auth that by (auto simp: authenticate_def Let_def split: sum.splits if_splits)
  moreover have "\<exists>secret. active_secret (rc_dev_lib C) d (clk_secs (tn_clk t)) (rg_device_id reg) (k_disk k) = Inr (Some secret)"
    if "rg_device_id reg \<noteq> [] \<and> rc_mac_secret C \<noteq> None" "rc_device_store C = Some d" for d
    using dev that by (auto simp: device_credential_def split: sum.splits option.splits)
  ultimately show ?thesis
    using new by (fastforce simp: clamp_permissions_set)
qed

definition sample_auth :: router_cfg where
  "sample_auth = (sample_cfg None)\<lparr>rc_jwt_validator := Some (with_audience ''k'' (Some ''home'')),
     rc_mac_secret := Some ''master'', rc_config_permissions := Some [(''dev-1'', [''PERMISSION_NETWORK''])]\<rparr>"

definition sample_register :: "string \<Rightarrow> plugin_register" where
  "sample_register i = \<lparr>rg_plugin_id = i, rg_version = [], rg_manifest = None, rg_jwt_token = ''t'', rg_device_id = [],
     rg_user_id = [], rg_os = Code OsUnspecified, rg_arch = [], rg_os_version = [], rg_capabilities = [],
     rg_protocol_version = []\<rparr>"

definition sample_grant :: plugin_manifest where
  "sample_grant = default_manifest\<lparr>mf_permissions := [''network''], mf_ipc_targets := []\<rparr>"

lemma sample_authenticate:
  "authenticate sample_auth sample_turn (sample_register ''dev-1'') default_manifest = Inr sample_grant"
  by (simp add: authenticate_def sample_auth_def sample_register_def sample_turn_def sample_clk_def sample_cfg_def
      validate_def with_audience_def validation_new_def sample_jwt_def sample_claims_def hex_of_def hex_byte_def
      sample_grant_def)

lemma sample_registered:
  "get_plugin (snd (register_with_device sample_clk ''dev-1'' 7 sample_grant 70 sample_meta sample_reg)) ''dev-1''
     = Some (sample_entry ''dev-1'' 7 sample_grant 70)"
  "get_plugin sample_reg ''dev-1'' = None" "normalize_permission ''network'' = normalize_permission ''PERMISSION_NETWORK''"
  by code_simp+

lemma sample_clamp: "clamp_permissions sample_auth ''dev-1'' sample_grant = sample_grant"
  using sample_registered(3) by (simp add: clamp_permissions_def sample_auth_def dm_get_def sample_grant_def)

lemma sample_handle_register:
  "get_plugin (k_reg (snd (handle_register sample_auth sample_turn (sample_msg 7 ''kernel'') ''m''
     (sample_register ''dev-1'') sample_kernel))) ''dev-1'' = Some (sample_entry ''dev-1'' 7 sample_grant 70)"
proof -
  have "device_credential sample_auth sample_turn (sample_register ''dev-1'') dk = Inr None" for dk
    by (simp add: device_credential_def sample_register_def)
  moreover have "do_register sample_turn (sample_msg 7 ''kernel'') (sample_register ''dev-1'') sample_grant sample_reg =
      register_with_device sample_clk ''dev-1'' 7 sample_grant 70 sample_meta sample_reg"
    by (simp add: do_register_def is_mux_device_def sample_register_def meta_of_def sample_meta_def sample_simps
        sample_turn_def)
  moreover have "\<not> protocol_mismatch W (sample_register ''dev-1'')" "rg_manifest (sample_register ''dev-1'') = None"
    "rg_plugin_id (sample_register ''dev-1'') = ''dev-1''" for W
    by (simp_all add: protocol_mismatch_def sample_register_def)
  ultimately show ?thesis
    by (simp add: handle_register_def sample_authenticate complete_registration_reg sample_clamp sample_simps
        sample_registered)
qed

theorem registration_grants_bounded_witness:
  "get_plugin (k_reg (snd (handle_register sample_auth sample_turn (sample_msg 7 ''kernel'') ''m''
      (sample_register ''dev-1'') sample_kernel))) ''dev-1'' = Some (sample_entry ''dev-1'' 7 sample_grant 70)
   \<and> (\<exists>claims. validate sample_jwt 1 (with_audience ''k'' (Some ''home'')) ''t'' = Inr claims
        \<and> set (mf_permissions sample_grant) \<subseteq> set (cl_permissions claims))"
proof -
  have "rc_jwt_validator sample_auth = Some (with_audience ''k'' (Some ''home''))" "rc_jwt_lib sample_auth = sample_jwt"
    "clk_secs (tn_clk sample_turn) = 1" "rg_jwt_token (sample_register ''dev-1'') = ''t''"
    by (simp_all add: sample_auth_def sample_cfg_def sample_turn_def sample_clk_def sample_register_def)
  with registration_grants_bounded [OF _ sample_handle_register] sample_handle_register sample_registered(2)
  show ?thesis by (simp add: sample_simps) blast
qed

section \<open>Arming the frame MAC\<close>

lemma do_register_new_ok:
  assumes "get_plugin r pid = None" "get_plugin (snd (do_register t msg reg mf r)) pid = Some e"
  shows "is_ok (fst (do_register t msg reg mf r))"
proof (cases "is_mux_device reg")
  case True
  with assms show ?thesis
    by (cases rule: register_device_cases [of "tn_clk t" "rg_device_id reg" "im_conn_id msg" "rg_capabilities reg"
        mf "im_write_tx msg" "meta_of reg" r]) (auto simp: do_register_def)
next
  case False
  with assms show ?thesis
    by (cases rule: register_with_device_cases [of "tn_clk t" "rg_plugin_id reg" "im_conn_id msg" mf
        "im_write_tx msg" "meta_of reg" r]) (auto simp: do_register_def)
qed

lemma k_publish_grow: "\<exists>rest. queued (io_chans (k_io (k_publish C t ev k))) c = queued (io_chans (k_io k)) c @ rest"
  using grow.k_publish [OF grow.refl, of k C t ev] unfolding chans_grow_def extends_def by blast

lemma register_ack_granted:
  assumes "is_ok res" "get_plugin r pid = Some e"
  shows "register_ack_of r pid nonce res = \<lparr>ra_accepted = True, ra_reject_reason = [],
     ra_granted_permissions = mf_permissions (pe_manifest e), ra_session_nonce = nonce\<rparr>"
  using assms by (cases res) (simp_all add: register_ack_of_def)

text \<open>
  \<^bold>\<open>C20.\<close> The MAC is armed after the acknowledgement, never before it. On a kernel with a MAC
  secret, a connection whose channel has room and whose plugin has just been registered finds
  next in its queue the acknowledgement, carrying the fresh nonce and exactly the permissions
  the registry recorded, and right behind it the order to start tagging, with the key derived
  from that nonce and the device's own secret (the master secret for a local plugin); anything
  else comes after.
\<close>

theorem mac_armed_after_ack:
  assumes "rc_mac_secret C = Some secret" "get_plugin (k_reg k) pid = None"
    and "get_plugin (k_reg (snd (handle_register C t msg mid reg k))) pid = Some e"
    and "chan_accepts (io_chans (k_io k)) (im_write_tx msg)"
  shows "\<exists>ds rest. device_credential C t reg (k_disk k) = Inr ds
    \<and> queued (io_chans (k_io (snd (handle_register C t msg mid reg k)))) (im_write_tx msg) =
        queued (io_chans (k_io k)) (im_write_tx msg)
        @ (case fst (build_outbound (rc_wire C) (now_ms t) (envelope_of mid (PPluginRegisterAck
              \<lparr>ra_accepted = True, ra_reject_reason = [], ra_granted_permissions = mf_permissions (pe_manifest e),
               ra_session_nonce = tn_nonce t\<rparr>)) (k_io k)) of Some ack \<Rightarrow> [ack] | None \<Rightarrow> [])
        @ [EnableMac (w_derive_session_key (rc_wire C) (case ds of Some s \<Rightarrow> s | None \<Rightarrow> secret) (tn_nonce t) pid)
             (im_session_key msg)] @ rest"
proof -
  obtain mf ds where dev: "device_credential C t reg (k_disk k) = Inr ds"
    and k': "snd (handle_register C t msg mid reg k) =
       complete_registration C t msg mid reg (clamp_permissions C (rg_plugin_id reg) mf) ds k"
    by (rule handle_register_new [OF assms(2,3)])
  obtain res r where dr: "do_register t msg reg (clamp_permissions C (rg_plugin_id reg) mf) (k_reg k) = (res, r)" by fastforce
  have new: "get_plugin r pid = Some e" using assms(3) by (simp add: k' complete_registration_reg dr)
  have ok: "is_ok res" and pid: "pid = rg_plugin_id reg"
    using do_register_new_ok [OF assms(2), of t msg reg "clamp_permissions C (rg_plugin_id reg) mf" e]
      do_register_new [OF assms(2), of t msg reg "clamp_permissions C (rg_plugin_id reg) mf" e] new
    by (simp_all add: dr)
  have open_chan: "ch_open (io_chans (k_io k) (im_write_tx msg))" using assms(4) by (simp add: chan_accepts_def)
  have keeps_open: "ch_open (io_chans (send_envelope W n tx env io) c) = ch_open (io_chans io c)" for W n tx env io c
    using send_envelope_extends_one [of io W n tx env] by (simp add: extends_def)
  define k3 where "k3 = (let k2 = k_send C t (im_write_tx msg) (envelope_of mid (PPluginRegisterAck
        (register_ack_of r pid (tn_nonce t) res))) (k\<lparr>k_reg := r\<rparr>)
     in k2\<lparr>k_io := (k_io k2)\<lparr>io_chans := send_await (im_write_tx msg) (EnableMac (w_derive_session_key (rc_wire C)
          (case ds of Some s \<Rightarrow> s | None \<Rightarrow> secret) (tn_nonce t) pid) (im_session_key msg)) (io_chans (k_io k2))\<rparr>\<rparr>)"
  have "\<exists>ev. complete_registration C t msg mid reg (clamp_permissions C (rg_plugin_id reg) mf) ds k = k_publish C t ev k3"
    using assms(1) ok by (auto simp: complete_registration_def Let_def dr k3_def pid)
  moreover have "queued (io_chans (k_io k3)) (im_write_tx msg) = queued (io_chans (k_io k)) (im_write_tx msg)
        @ (case fst (build_outbound (rc_wire C) (now_ms t) (envelope_of mid (PPluginRegisterAck
              (register_ack_of r pid (tn_nonce t) res))) (k_io k)) of Some ack \<Rightarrow> [ack] | None \<Rightarrow> [])
        @ [EnableMac (w_derive_session_key (rc_wire C) (case ds of Some s \<Rightarrow> s | None \<Rightarrow> secret) (tn_nonce t) pid)
             (im_session_key msg)]"
    using assms(4) open_chan by (simp add: k3_def Let_def send_await_def keeps_open send_envelope_queued)
  ultimately show ?thesis
    using dev k_publish_grow [of C t _ k3 "im_write_tx msg"]
    unfolding k' register_ack_granted [OF ok new] by (metis append.assoc)
qed

theorem mac_armed_after_ack_witness:
  "\<exists>ack rest. queued (io_chans (k_io (snd (handle_register sample_auth sample_turn (sample_msg 7 ''kernel'') ''m''
      (sample_register ''dev-1'') sample_kernel)))) 70
     = [OutFrame ack, EnableMac (''master'' @ ''nn'' @ ''dev-1'') 7] @ rest"
proof -
  have "device_credential sample_auth sample_turn (sample_register ''dev-1'') dk = Inr None" for dk
    by (simp add: device_credential_def sample_register_def)
  moreover have "rc_mac_secret sample_auth = Some ''master''" "tn_nonce sample_turn = ''nn''"
    "rc_wire sample_auth = sample_wire\<lparr>w_decode := \<lambda>_. None\<rparr>" "im_session_key (sample_msg 7 ''kernel'') = 7"
    by (simp_all add: sample_auth_def sample_cfg_def sample_turn_def sample_msg_def)
  ultimately show ?thesis
    using mac_armed_after_ack [OF _ _ sample_handle_register, of "''master''"] sample_registered(2)
    by (simp add: sample_simps build_outbound_def envelope_of_def default_envelope_def) blast
qed

section \<open>The error budget\<close>

text \<open>A message that does not even decode, addressed to the kernel.\<close>

definition malformed :: "router_cfg \<Rightarrow> incoming \<Rightarrow> bool" where
  "malformed C msg \<longleftrightarrow> w_decode (rc_wire C) (fr_payload (im_frame msg)) = None
     \<and> w_target_as_str (rc_wire C) (fr_target (im_frame msg)) = Some ''kernel''"

definition budget_window :: "nat \<Rightarrow> router_state \<Rightarrow> nat \<Rightarrow> bool" where
  "budget_window t0 s conn \<longleftrightarrow> (case dm_get (rs_error_counts s) conn of Some (_, at) \<Rightarrow> t0 \<le> at | None \<Rightarrow> True)"

lemma charge_error_count:
  assumes "dm_ok (rs_error_counts s)" "budget_window t0 s conn" "now < t0 + ERROR_BUDGET_IDLE_TTL"
  shows "dm_get (charge_error C now conn (rs_error_counts s)) conn = Some ((error_count s conn + 1) mod 2 ^ 32, now)"
  using assms
  by (auto simp: charge_error_def Let_def dm_get_retain budget_window_def error_count_def ERROR_BUDGET_IDLE_TTL_def
      split: option.splits)

lemma malformed_step:
  assumes "malformed C msg" "limiter_on (rc_ipc_rate_limit_rps C) \<longrightarrow> \<not> tn_ipc_denied t (im_conn_id msg)"
  shows "route_message C t msg s = (if error_count s (im_conn_id msg) \<ge> rc_max_conn_errors C then s
    else s\<lparr>rs_kernel := k_error C t (im_write_tx msg) ErrDeserialization ''decode failed'' (rs_kernel s),
           rs_error_counts := charge_error C (now_inst t) (im_conn_id msg) (rs_error_counts s)\<rparr>)"
  using assms
  by (auto simp: malformed_def route_message_def Let_def is_throttle_exempt_def route_by_target_def
      handle_kernel_message_def)


lemma sample_malformed: "malformed (sample_cfg None) (sample_msg 7 ''kernel'')"
proof -
  have "takeWhile (\<lambda>c. c \<noteq> CHR 0x00) (target_bytes ''kernel'') = ''kernel''" by code_simp
  then show ?thesis by (simp add: malformed_def sample_simps build_frame_def)
qed


lemma envelope_of_fields: "en_payload (envelope_of m p) = Some p" "en_message_id (envelope_of m p) = m"
  by (simp_all add: envelope_of_def)

text \<open>
  A registration that passes the checks but that the registry refuses counts as a good
  message: the connection is told no and registers nothing, and its error budget is cleared
  all the same.
\<close>

theorem refused_registration_clears_budget:
  "let s = sample_state\<lparr>rs_error_counts := [(7, (1, 0))]\<rparr>;
       s' = route_message (sample_cfg (Some (envelope_of ''m'' (PPluginRegister (sample_register ''a'')))))
              sample_turn (sample_msg 7 ''kernel'') s
   in k_reg (rs_kernel s') = k_reg (rs_kernel s) \<and> error_count s 7 = 1 \<and> error_count s' 7 = 0"
proof -
  let ?C = "sample_cfg (Some (envelope_of ''m'' (PPluginRegister (sample_register ''a''))))"
  let ?reg = "sample_register ''a''" and ?msg = "sample_msg 7 ''kernel''"
  have target: "takeWhile (\<lambda>c. c \<noteq> CHR 0x00) (target_bytes ''kernel'') = ''kernel''" by code_simp
  have pass: "\<not> protocol_mismatch W ?reg" "authenticate ?C sample_turn ?reg mf = Inr mf"
    "device_credential ?C sample_turn ?reg dk = Inr None" for W mf dk
    by (simp_all add: protocol_mismatch_def sample_register_def authenticate_def sample_cfg_def device_credential_def)
  have "snd (register_with_device sample_clk ''a'' 7 mf 70 sample_meta sample_reg) = sample_reg" for mf
    using sample_lookups(5) by (cases rule: register_with_device_cases [of sample_clk "''a''" 7 mf 70 sample_meta sample_reg])
      (auto simp: get_plugin_def)
  moreover have "do_register sample_turn ?msg ?reg mf sample_reg = register_with_device sample_clk ''a'' 7 mf 70 sample_meta sample_reg" for mf
    by (simp add: do_register_def is_mux_device_def sample_register_def meta_of_def sample_meta_def sample_simps sample_turn_def)
  moreover have "rc_max_conn_errors ?C = 2" "\<not> limiter_on (rc_ipc_rate_limit_rps ?C)"
    by (simp_all add: sample_cfg_def limiter_on_def)
  ultimately show ?thesis
    by (simp add: route_message_def Let_def route_by_target_def handle_kernel_message_def sample_simps target build_frame_def
        envelope_of_fields dispatch_payload_def handle_register_def pass complete_registration_reg error_count_def dm_get_def
        dm_remove_def split_def)
qed

text \<open>
  \<^bold>\<open>C24.\<close> A capability call to a mux device opens its slot under the action id the caller
  chose. Whatever was in flight under that id, of whichever parties, is replaced: the slot now
  answers to this caller and this device.
\<close>

theorem mux_request_takes_over_slot:
  assumes "get_mux (k_reg k) target = Some entry" "contains_dot target"
    and "w_decode (rc_wire C) (fr_payload (im_frame msg)) = Some env"
    and "en_payload env = Some (PActionRequest req)" "aq_action req = []"
  shows "\<exists>p. get_pending_action (k_reg (snd (forward_to C t msg q target k))) (aq_action_id req) = Some p
    \<and> pa_requester_id p = q \<and> pa_requester_write_tx p = im_write_tx msg \<and> pa_provider_id p = pe_plugin_id entry"
  using assms by (simp add: forward_to_def register_mux_pending_def Let_def)

theorem mux_request_takes_over_slot_witness:
  "get_pending_action (k_reg (sample_busy\<lparr>k_reg := snd (register_device sample_clk ''d'' 6 [''cam''] default_manifest 60 sample_meta
       (k_reg sample_busy))\<rparr>)) ''kact-9'' = Some sample_slot
   \<and> (\<exists>p. get_pending_action (k_reg (snd (forward_to (sample_cfg (Some (envelope_of ''m'' (PActionRequest
          (sample_request\<lparr>aq_action_id := ''kact-9'', aq_action := []\<rparr>))))) sample_turn (sample_msg 3 ''d.cam'') ''a'' ''d.cam''
          (sample_busy\<lparr>k_reg := snd (register_device sample_clk ''d'' 6 [''cam''] default_manifest 60 sample_meta (k_reg sample_busy))\<rparr>))))
          ''kact-9'' = Some p \<and> pa_requester_id p = ''a'')"
proof -
  let ?r = "snd (register_device sample_clk ''d'' 6 [''cam''] default_manifest 60 sample_meta (k_reg sample_busy))"
  let ?req = "sample_request\<lparr>aq_action_id := ''kact-9'', aq_action := []\<rparr>"
  let ?env = "envelope_of ''m'' (PActionRequest ?req)"
  have m: "map_option pe_plugin_id (get_mux ?r ''d.cam'') = Some ''d''" "contains_dot ''d.cam''"
    "get_pending_action ?r ''kact-9'' = Some sample_slot"
    by code_simp+
  then obtain e where e: "get_mux ?r ''d.cam'' = Some e" by auto
  show ?thesis
    using mux_request_takes_over_slot [of "sample_busy\<lparr>k_reg := ?r\<rparr>" "''d.cam''" e "sample_cfg (Some ?env)"
        "sample_msg 3 ''d.cam''" ?env ?req sample_turn "''a''"] m e
    by (auto simp: sample_simps envelope_of_fields)
qed

section \<open>Privileged effects\<close>

text \<open>
  \<^bold>\<open>C22.\<close> Only an administrator reconfigures the kernel: if handling a message changes the log
  filter, the message was a \<open>reload_config\<close> command from a registered plugin that holds
  PERMISSION_KERNEL_ADMIN, and the kernel was started from a configuration file.
\<close>

theorem reload_needs_admin:
  assumes "kernel_ok k" "k_log (snd (handle_kernel_message C t msg k)) \<noteq> k_log k"
  shows "\<exists>e mid cid params path. get_by_conn_id (k_reg k) (im_conn_id msg) = Some e
    \<and> has_permission e PERMISSION_KERNEL_ADMIN \<and> rc_config_path C = Some path
    \<and> (\<exists>env. w_decode (rc_wire C) (fr_payload (im_frame msg)) = Some env
         \<and> en_payload env = Some (PKernelCommand cid ''reload_config'' params))"
proof -
  have ok: "reg_ok (k_reg k)" using assms(1) by (simp add: kernel_ok_def)
  have "k_log (snd (handle_register C t msg mid reg k)) = k_log k" for mid reg
    by (auto simp: handle_register_def complete_registration_def Let_def k_reply split_def split: sum.split option.split)
  moreover have "k_log (snd (handle_action_request C t msg mid req k)) = k_log k" for mid req
    by (auto simp: handle_action_request_def Let_def split: sum.split)
  moreover have "k_log (snd (handle_action_response C t msg mid r k)) = k_log k" for mid r
    by (auto simp: handle_action_response_def Let_def split_def split: option.split)
  moreover have "k_log (snd (handle_request_chunk C t msg mid a b c d k)) = k_log k" for mid a b c d
    by (auto simp: handle_request_chunk_def Let_def split_def split: option.split)
  moreover have "k_log (snd (handle_response_chunk C t msg mid a b c k)) = k_log k" for mid a b c
    by (auto simp: handle_response_chunk_def Let_def split_def split: option.split)
  moreover have "k_log (snd (handle_session_close C t msg mid a b k)) = k_log k" for mid a b
    by (auto simp: handle_session_close_def Let_def k_reply split: option.split)
  moreover have "k_log (snd (handle_event_publish C t msg mid a b k)) = k_log k" for mid a b
    by (auto simp: handle_event_publish_def Let_def)
  ultimately obtain env cid cmd params where d: "w_decode (rc_wire C) (fr_payload (im_frame msg)) = Some env"
      "en_payload env = Some (PKernelCommand cid cmd params)" "is_registered (k_reg k) (im_conn_id msg)"
      "k_log (snd (handle_kernel_command C t msg (en_message_id env) cid cmd params k)) \<noteq> k_log k"
    using assms(2) unfolding handle_kernel_message_def dispatch_payload_def
    by (auto simp: k_reply handle_ping_def handle_pong_def handle_subscribe_def handle_unsubscribe_def handle_event_ack_def
        split: option.splits payload.splits if_splits)
  obtain e where e: "get_by_conn_id (k_reg k) (im_conn_id msg) = Some e" using d(3) ok by (auto simp: is_registered_iff)
  then have g: "get_plugin (k_reg k) (pe_plugin_id e) = Some e" using ok by (simp add: get_by_conn_id_iff)
  have cmd: "cmd = ''reload_config''" "rc_config_path C \<noteq> None"
    using d(4) by (auto simp: handle_kernel_command_def Let_def split_def dispatch_def reload_config_command_def
        split: if_splits option.splits)
  with d(4) e g have "has_permission e PERMISSION_KERNEL_ADMIN"
    by (auto simp: handle_kernel_command_def Let_def check_permission_ok_iff READONLY_COMMANDS_def split: if_splits)
  with d(1,2) e cmd show ?thesis by auto
qed

definition sample_admin_manifest :: plugin_manifest where
  "sample_admin_manifest = default_manifest\<lparr>mf_permissions := [''kernel_admin'', ''event_publish'']\<rparr>"

definition sample_admin_reg :: registry where
  "sample_admin_reg = snd (register_with_device sample_clk ''r'' 5 sample_admin_manifest 50 sample_meta sample_reg)"

definition sample_admin :: kernel where
  "sample_admin = sample_kernel\<lparr>k_reg := sample_admin_reg,
     k_log := \<lparr>lg_handle = True, lg_modify_ok = True, lg_filter = ''debug''\<rparr>\<rparr>"

lemma sample_admin_ok: "kernel_ok sample_admin"
  using sample_kernel_ok register_with_device_reg_ok [OF sample_reg_ok]
  by (simp add: kernel_ok_def sample_admin_def sample_admin_reg_def)

lemma sample_admin_lookups:
  "get_by_conn_id sample_admin_reg 5 = Some (sample_entry ''r'' 5 sample_admin_manifest 50)"
  "get_plugin sample_admin_reg ''r'' = Some (sample_entry ''r'' 5 sample_admin_manifest 50)"
  "has_permission (sample_entry ''r'' 5 sample_admin_manifest 50) PERMISSION_KERNEL_ADMIN"
  "has_permission (sample_entry ''r'' 5 sample_admin_manifest 50) PERMISSION_EVENT_PUBLISH"
  "is_registered sample_admin_reg 5"
  by code_simp+

lemma sample_load: "\<exists>c. load_config sample_env ''c.yaml'' = Inr c \<and> cf_log_level c = ''info''"
proof -
  have y: "is_yaml_file ''d/x.yaml''" "\<not> is_yaml_file ''d/README''" by code_simp+
  show ?thesis
    unfolding load_config_def merge_plugin_dropins_def resolve_plugins_dir_def sample_env_def
        sample_env0_def sample_conf0_def clamp_invalid_numerics_def default_config_def
    by (simp add: y sample_plugin_def_def Let_def)
qed

theorem reload_needs_admin_witness:
  "k_log (snd (handle_kernel_message ((sample_cfg (Some (envelope_of ''m'' (PKernelCommand ''1'' ''reload_config'' []))))
       \<lparr>rc_config_path := Some ''c.yaml''\<rparr>) sample_turn (sample_msg 5 ''kernel'') sample_admin)) \<noteq> k_log sample_admin
   \<and> (\<exists>e. get_by_conn_id sample_admin_reg 5 = Some e \<and> has_permission e PERMISSION_KERNEL_ADMIN)"
proof -
  let ?C = "(sample_cfg (Some (envelope_of ''m'' (PKernelCommand ''1'' ''reload_config'' []))))\<lparr>rc_config_path := Some ''c.yaml''\<rparr>"
  obtain c where c: "load_config sample_env ''c.yaml'' = Inr c" "cf_log_level c = ''info''" using sample_load by blast
  have info: "sanitize_log_level ''info'' = ''info''" by code_simp
  have "rc_env ?C = sample_env" by (simp add: sample_cfg_def)
  with c info have "k_log (snd (handle_kernel_message ?C sample_turn (sample_msg 5 ''kernel'') sample_admin)) \<noteq> k_log sample_admin"
    using sample_admin_lookups
    by (simp add: handle_kernel_message_def sample_simps sample_admin_def envelope_of_fields dispatch_payload_def
        handle_kernel_command_def dispatch_def reload_config_command_def set_log_level_def Let_def sender_id_of_def
        check_permission_ok_iff)
  with reload_needs_admin [OF sample_admin_ok this] show ?thesis
    by (auto simp: sample_simps sample_admin_def)
qed

text \<open>
  \<^bold>\<open>C23.\<close> Event names cannot be forged. Every event a message adds to the outbox is either the
  kernel's own \<open>system.plugin_joined\<close>, added while handling a registration, or the event of a
  registered plugin that holds PERMISSION_EVENT_PUBLISH, in that plugin's own namespace.
\<close>

theorem event_namespace:
  assumes "kernel_ok k" "dm_get (k_store k) i = None"
    and "dm_get (k_store (snd (handle_kernel_message C t msg k))) i = Some row"
    and "w_decode (rc_wire C) (fr_payload (im_frame msg)) = Some env"
  shows "(is_register_payload (en_payload env) \<and> er_event_type row = ''system.plugin_joined'')
    \<or> (\<exists>e ty. get_by_conn_id (k_reg k) (im_conn_id msg) = Some e \<and> has_permission e PERMISSION_EVENT_PUBLISH
         \<and> er_event_type row = ''plugin.'' @ pe_plugin_id e @ ''.'' @ ty)"
proof -
  have ok: "reg_ok (k_reg k)" using assms(1) by (simp add: kernel_ok_def)
  have row: "er_event_type row = ev_event_type ev" if "dm_get (persist n ev (k_store k)) i = Some row" for n ev
    using that assms(2) by (auto simp: persist_def split: option.splits if_splits)
  have "er_event_type row = ''system.plugin_joined''"
    if "dm_get (k_store (snd (handle_register C t msg mid reg k))) i = Some row" for mid reg
    using that assms(2) row
    by (fastforce simp: handle_register_def complete_registration_def Let_def k_reply split_def
        split: sum.splits option.splits if_splits)
  moreover have "\<exists>e ty. get_by_conn_id (k_reg k) (im_conn_id msg) = Some e \<and> has_permission e PERMISSION_EVENT_PUBLISH
         \<and> er_event_type row = ''plugin.'' @ pe_plugin_id e @ ''.'' @ ty"
    if "dm_get (k_store (snd (handle_event_publish C t msg mid a b k))) i = Some row"
      "is_registered (k_reg k) (im_conn_id msg)" for mid a b
  proof -
    from that(2) ok obtain e where e: "get_by_conn_id (k_reg k) (im_conn_id msg) = Some e" by (auto simp: is_registered_iff)
    then have "get_plugin (k_reg k) (pe_plugin_id e) = Some e" using ok by (simp add: get_by_conn_id_iff)
    with e that(1) assms(2) row show ?thesis
      by (fastforce simp: handle_event_publish_def Let_def check_permission_ok_iff split: if_splits)
  qed
  moreover have "dm_get (mark_delivered j (k_store k)) i = None" for j
    using assms(2) by (auto simp: mark_delivered_def get_update_row)
  ultimately show ?thesis
    using assms(2-4) unfolding handle_kernel_message_def dispatch_payload_def
    by (auto simp: k_reply handle_ping_def handle_pong_def handle_subscribe_def handle_unsubscribe_def handle_event_ack_def
        handle_action_request_def handle_action_response_def handle_request_chunk_def handle_response_chunk_def
        handle_session_close_def handle_kernel_command_def Let_def split_def
        split: option.splits payload.splits if_splits sum.splits)
qed

theorem event_namespace_witness:
  "\<exists>row. dm_get (k_store (snd (handle_kernel_message (sample_cfg (Some (envelope_of ''m'' (PEventPublish ''x'' []))))
      sample_turn (sample_msg 5 ''kernel'') (sample_admin\<lparr>k_bus := bus_with_store\<rparr>)))) ''evt-r-7-0'' = Some row
    \<and> (\<exists>ty. er_event_type row = ''plugin.r.'' @ ty)"
proof -
  let ?C = "sample_cfg (Some (envelope_of ''m'' (PEventPublish ''x'' [])))"
  let ?k = "sample_admin\<lparr>k_bus := bus_with_store\<rparr>"
  have "now_ms sample_turn = 7" "show_nat 7 = ''7''" "show_nat 0 = ''0''" "k_event_seq sample_admin = 0"
    by (simp add: sample_turn_def sample_clk_def, code_simp, code_simp, simp add: sample_admin_def sample_kernel_def)
  then obtain row where row: "dm_get (k_store (snd (handle_kernel_message ?C sample_turn (sample_msg 5 ''kernel'') ?k))) ''evt-r-7-0'' = Some row"
    using sample_admin_lookups
    by (simp add: handle_kernel_message_def sample_simps sample_admin_def envelope_of_fields dispatch_payload_def
        handle_event_publish_def Let_def sender_id_of_def check_permission_ok_iff persist_def bus_with_store_def
        dm_get_def dm_insert_def split_def)
  have ok: "kernel_ok ?k" using sample_admin_ok by (simp add: kernel_ok_def bus_ok_new)
  from event_namespace [OF ok _ row, of "envelope_of ''m'' (PEventPublish ''x'' [])"] row show ?thesis
    by (auto simp: sample_simps sample_admin_def envelope_of_fields sample_admin_lookups dm_get_def)
qed

end
