(* ===== verification/Lifecycle.thy ===== *)
theory Lifecycle
  imports Loader_Props Router_Sessions
begin

text \<open>
  Boot and shutdown of the kernel: \<^verbatim>\<open>src/kernel/orchestrator/\<close> and the TLS material of
  \<^verbatim>\<open>src/utils/tls.rs\<close>. What \<^verbatim>\<open>run_with_components\<close> decides before it spawns its tasks is a plan, the
  configuration each task is started with; the tasks themselves are the other theories. Also
  the disconnect loop, the reload on \<^verbatim>\<open>SIGHUP\<close> and the graceful shutdown.
\<close>

section \<open>TLS material\<close>

text \<open>Certificate generation is the rcgen crate's; files are written through \<open>sys\<close>, and the directory
  gets mode 0700.\<close>

record tls_host =
  th_env :: conf_env
  th_exists :: "string \<Rightarrow> bool"
  th_hostname :: "string option"
  th_generate :: "string list \<Rightarrow> string + string \<times> string"
  th_sys :: sys

definition ensure_self_signed :: "tls_host \<Rightarrow> string \<Rightarrow> string \<Rightarrow> string \<Rightarrow> sys_op list \<times> string option" where
  "ensure_self_signed T dir cert_path key_path =
    (if th_exists T cert_path \<and> th_exists T key_path then ([], None)
     else case th_generate T [''localhost'', ''127.0.0.1'', case th_hostname T of Some h \<Rightarrow> h | None \<Rightarrow> ''localhost''] of
         Inl e \<Rightarrow> ([], Some (''self-signed cert generation failed: '' @ e))
       | Inr (cert, key) \<Rightarrow> run_ops (th_sys T)
           [MkDirAll dir, Chmod dir 448, WriteFile cert_path cert, WriteFile key_path key])"

definition resolve_tls_paths :: "tls_host \<Rightarrow> config \<Rightarrow> string + string option \<times> string option" where
  "resolve_tls_paths T c =
    (if \<not> cf_tls c then Inr (None, None)
     else case (cf_tls_cert_path c, cf_tls_key_path c) of
         (Some cert, Some key) \<Rightarrow> Inr (Some cert, Some key)
       | (None, None) \<Rightarrow> (case default_tls_dir (th_env T) of
             None \<Rightarrow> Inl ''cannot resolve a private dir for auto-generated TLS material''
           | Some dir \<Rightarrow>
               let cert_path = path_join dir ''cert.pem''; key_path = path_join dir ''key.pem''
               in case snd (ensure_self_signed T dir cert_path key_path) of
                    Some e \<Rightarrow> Inl e
                  | None \<Rightarrow> Inr (Some cert_path, Some key_path))
       | _ \<Rightarrow> Inl (''tls is on but only one of tls_cert_path/tls_key_path is set '' @ em_dash @ '' provide both or neither''))"

section \<open>Boot\<close>

text \<open>The address the API listens on; parsing an explicit one is the standard library's.\<close>

datatype bind_ip = BindUnspecified | BindLocalhost | BindExplicit string

record boot_host =
  bh_wire :: wire
  bh_jwt_lib :: jwt_lib
  bh_dev_lib :: dev_lib
  bh_tls :: tls_host
  bh_event_store :: "string \<Rightarrow> bool"
  bh_bind_socket :: "string \<Rightarrow> string option"
  bh_parse_ip :: "string \<Rightarrow> bool"
  bh_now :: nat

record boot_plan =
  bp_router :: router_cfg
  bp_tls_cert :: "string option"
  bp_tls_key :: "string option"
  bp_bind_ip :: bind_ip
  bp_bridge :: "bridge_config option"
  bp_device_id :: string
  bp_supervisor :: supervisor
  bp_plugins :: "plugin_def list"

definition resolve_bind_ip :: "boot_host \<Rightarrow> config \<Rightarrow> string + bind_ip" where
  "resolve_bind_ip B c = (case cf_bind c of
      Some b \<Rightarrow> if bh_parse_ip B b then Inr (BindExplicit b)
                else Inl (''invalid bind address '' @ [CHR 0x27] @ b @ [CHR 0x27])
    | None \<Rightarrow> if cf_role c = Host \<and> cf_jwt_secret c \<noteq> None then Inr BindUnspecified else Inr BindLocalhost)"

definition config_permissions :: "config \<Rightarrow> (string, string list) dashmap" where
  "config_permissions c = fold (\<lambda>d. dm_insert (pd_id d) (pd_permissions d)) (cf_plugins c) []"

definition boot_validator :: "config \<Rightarrow> jwt_validator option" where
  "boot_validator c = map_option (\<lambda>s. with_audience s (cf_jwt_audience c)) (cf_jwt_secret c)"

definition boot_router_cfg :: "boot_host \<Rightarrow> config \<Rightarrow> router_cfg" where
  "boot_router_cfg B c =
     \<lparr>rc_wire = bh_wire B, rc_env = th_env (bh_tls B), rc_jwt_lib = bh_jwt_lib B, rc_dev_lib = bh_dev_lib B,
      rc_jwt_validator = boot_validator c, rc_start_time = bh_now B, rc_config_path = cf_config_file c,
      rc_event_store = bh_event_store B (cf_data_dir c), rc_mac_secret = cf_jwt_secret c,
      rc_config_permissions = Some (config_permissions c), rc_ipc_rate_limit_rps = cf_ipc_rate_limit_rps c,
      rc_action_caller_rate_limit_rps = cf_action_caller_rate_limit_rps c,
      rc_action_caller_max_concurrent = cf_action_caller_max_concurrent c,
      rc_action_timeout_ms = cf_action_timeout_ms c, rc_max_conn_errors = cf_max_conn_errors c,
      rc_max_tracked_error_conns = cf_max_tracked_error_conns c,
      rc_session_idle_timeout_secs = cf_session_idle_timeout_secs c,
      rc_device_store = map_option (device_store_new (bh_dev_lib B)) (cf_jwt_secret c),
      rc_bridge = (cf_role c = Client \<and> cf_bridge c \<noteq> None)\<rparr>"

definition boot_supervisor :: "config \<Rightarrow> supervisor" where
  "boot_supervisor c = set_data_dir (cf_data_dir c)
     (supervisor_with_events (cf_socket_path c) (cf_log_buffer_lines c) True
       (cf_restart_backoff_base_ms c) (cf_restart_backoff_max_ms c))"

text \<open>The checks of \<^verbatim>\<open>run_with_components\<close> in their order: the socket, the length of the secret, its
  presence, the TLS pair, the bind address.\<close>

definition boot :: "boot_host \<Rightarrow> config \<Rightarrow> string + boot_plan" where
  "boot B c = (case bh_bind_socket B (cf_socket_path c) of
      Some e \<Rightarrow> Inl e
    | None \<Rightarrow>
        if (case cf_jwt_secret c of Some s \<Rightarrow> length s < MIN_JWT_SECRET_BYTES | None \<Rightarrow> False)
        then Inl (''jwt_secret is '' @ show_nat (length (the (cf_jwt_secret c))) @ '' bytes, must be at least ''
               @ show_nat MIN_JWT_SECRET_BYTES @ '' bytes (HS256 secrets shorter than this are brute-forceable)'')
        else if boot_validator c = None \<and> \<not> cf_allow_no_auth c
        then Inl ''refusing to start without authentication: set `jwt_secret`, or set `allow_no_auth: true` in config to run without auth (insecure)''
        else case resolve_tls_paths (bh_tls B) c of
            Inl e \<Rightarrow> Inl e
          | Inr (cert, key) \<Rightarrow> (case resolve_bind_ip B c of
                Inl e \<Rightarrow> Inl e
              | Inr ip \<Rightarrow> Inr \<lparr>bp_router = boot_router_cfg B c, bp_tls_cert = cert, bp_tls_key = key, bp_bind_ip = ip,
                    bp_bridge = (if cf_role c = Client then cf_bridge c else None),
                    bp_device_id = resolve_device_id (th_env (bh_tls B)) c,
                    bp_supervisor = boot_supervisor c, bp_plugins = cf_plugins c\<rparr>))"

section \<open>Reload\<close>

definition reload_config_on_sighup :: "conf_env \<Rightarrow> string option \<Rightarrow> log_state \<Rightarrow> (string + config) \<times> log_state" where
  "reload_config_on_sighup E config_file l = (case config_file of
      None \<Rightarrow> (Inl ''no config file to reload from'', l)
    | Some path \<Rightarrow> (case load_config E path of
          Inl e \<Rightarrow> (Inl e, l)
        | Inr cfg \<Rightarrow> (Inr cfg, snd (set_log_level (cf_log_level cfg) l))))"

section \<open>Disconnection\<close>

text \<open>One connection id taken by the disconnect loop: subscribers are told, then the plugin's
  subscriptions and registration go.\<close>

definition left_event :: "wire \<Rightarrow> clock \<Rightarrow> registry \<Rightarrow> string \<Rightarrow> event" where
  "left_event W clk r pid =
     \<lparr>ev_event_id = ''sys-left-'' @ pid @ ''-'' @ show_nat (clk_millis clk), ev_event_type = ''system.plugin_left'',
      ev_payload_json = plugin_lifecycle_payload W r pid, ev_retry_count = 0\<rparr>"

definition disconnect_one :: "wire \<Rightarrow> clock \<Rightarrow> nat \<Rightarrow> kernel \<Rightarrow> kernel" where
  "disconnect_one W clk conn_id k = (case get_by_conn_id (k_reg k) conn_id of
      None \<Rightarrow> k
    | Some e \<Rightarrow>
        let pid = pe_plugin_id e;
            (store, io) = publish W clk (k_bus k) (k_reg k) (left_event W clk (k_reg k) pid) (k_store k) (k_io k)
        in k\<lparr>k_store := store, k_io := io, k_bus := unsubscribe_all pid (k_bus k), k_reg := unregister pid (k_reg k)\<rparr>)"

section \<open>Shutdown\<close>

definition shutdown_notice :: "wire \<Rightarrow> supervisor \<Rightarrow> nat \<Rightarrow> plugin_entry \<Rightarrow> kio \<Rightarrow> kio" where
  "shutdown_notice W s default_grace e io =
    (let grace = (case grace_seconds_for s (pe_plugin_id e) of Some g \<Rightarrow> g | None \<Rightarrow> default_grace)
     in case w_encode W (envelope_of [] (PPluginShutdown ''kernel shutdown'' grace)) of
          None \<Rightarrow> io
        | Some p \<Rightarrow> io\<lparr>io_chans := send_await (pe_write_tx e) (OutFrame (build_frame W ''self'' 0 p)) (io_chans io)\<rparr>)"

text \<open>\<^verbatim>\<open>Kernel::graceful_shutdown\<close>: the notices, and the signals with their delays.\<close>

definition graceful_shutdown ::
  "wire \<Rightarrow> registry \<Rightarrow> supervisor \<Rightarrow> nat \<Rightarrow> kio \<Rightarrow> kio \<times> (nat \<times> nat \<times> signal) list" where
  "graceful_shutdown W r s default_grace io =
    (if list_plugins r = [] then (io, [])
     else (fold (shutdown_notice W s default_grace) (list_plugins r) io, sup_graceful_shutdown s default_grace))"

section \<open>The tasks of a running kernel\<close>

text \<open>Besides the router, three tasks change the shared state: the disconnect loops, the retry worker
  of the outbox, and a stop request, which unregisters through the manager.\<close>

datatype kernel_event =
    Routed router_event
  | Disconnected clock nat
  | RetryRound clock nat nat
  | StopRegistered string

definition retry_round :: "wire \<Rightarrow> clock \<Rightarrow> nat \<Rightarrow> nat \<Rightarrow> kernel \<Rightarrow> kernel" where
  "retry_round W clk max_retries retention k =
    (case retry_worker_round W clk max_retries retention (k_bus k) (k_reg k) (k_store k) (k_io k) of
       (store, io) \<Rightarrow> k\<lparr>k_store := store, k_io := io\<rparr>)"

fun kernel_step :: "router_cfg \<Rightarrow> kernel_event \<Rightarrow> router_state \<Rightarrow> router_state" where
  "kernel_step C (Routed ev) s = router_step C ev s"
| "kernel_step C (Disconnected clk c) s = s\<lparr>rs_kernel := disconnect_one (rc_wire C) clk c (rs_kernel s)\<rparr>"
| "kernel_step C (RetryRound clk m ret) s = s\<lparr>rs_kernel := retry_round (rc_wire C) clk m ret (rs_kernel s)\<rparr>"
| "kernel_step C (StopRegistered pid) s = s\<lparr>rs_kernel := (rs_kernel s)\<lparr>k_reg := unregister pid (k_reg (rs_kernel s))\<rparr>\<rparr>"

section \<open>Lemmas\<close>

lemma disconnect_one_Some:
  assumes "get_by_conn_id (k_reg k) c = Some e"
  shows "k_reg (disconnect_one W clk c k) = unregister (pe_plugin_id e) (k_reg k)"
    and "k_bus (disconnect_one W clk c k) = unsubscribe_all (pe_plugin_id e) (k_bus k)"
    and "k_store (disconnect_one W clk c k) = (if eb_store (k_bus k)
           then persist (clk_secs clk) (left_event W clk (k_reg k) (pe_plugin_id e)) (k_store k) else k_store k)"
    and "k_io (disconnect_one W clk c k)
           = deliver W (clk_millis clk) (k_bus k) (k_reg k) (left_event W clk (k_reg k) (pe_plugin_id e)) (k_io k)"
  using assms by (simp_all add: disconnect_one_def publish_def Let_def)

lemma disconnect_one_ok: "kernel_ok k \<Longrightarrow> kernel_ok (disconnect_one W clk c k)"
proof (cases "get_by_conn_id (k_reg k) c")
  case (Some e)
  assume "kernel_ok k"
  then show ?thesis
    by (simp add: kernel_ok_def disconnect_one_Some [OF Some] unregister_reg_ok unsubscribe_all_bus_ok)
qed (simp add: disconnect_one_def)

lemma retry_round_ok: "kernel_ok k \<Longrightarrow> kernel_ok (retry_round W clk m ret k)"
  by (auto simp: kernel_ok_def retry_round_def retry_worker_round_def Let_def worker_sweep_ok split: prod.splits)

lemma kernel_step_ok: "router_ok s \<Longrightarrow> router_ok (kernel_step C ev s)"
proof (cases ev)
  case (StopRegistered pid)
  assume "router_ok s"
  then show ?thesis using StopRegistered by (simp add: router_ok_def kernel_ok_def unregister_reg_ok)
qed (auto simp: router_ok_def disconnect_one_ok retry_round_ok router_step_ok [unfolded router_ok_def])

interpretation kn: step_system "router_start io st dk lg br" "kernel_step C" router_ok for io st dk lg br C
  by unfold_locales (rule router_start_ok, rule kernel_step_ok)

lemma unsubscribe_all_abs: "bus_ok b \<Longrightarrow> (p, t) \<notin> bus_abs (unsubscribe_all p b)"
  using bus_step_refines [of b "BusUnsubscribeAll p"] by simp

lemma conn_of_plugin:
  "reg_ok r \<Longrightarrow> get_by_conn_id r c = Some e \<Longrightarrow> dm_get (by_plugin_id r) (pe_plugin_id e) = Some e \<and> pe_conn_id e = c"
  by (fastforce simp: reg_ok_def conns_ok_def entries_ok_def get_by_conn_id_def split: option.splits)


section \<open>Boot is fail-closed\<close>

text \<open>
  \<^bold>\<open>C35.\<close> The kernel does not come up unprotected by accident. If it boots, then either the operator
  allowed running without authentication or there is a secret of at least 32 bytes; token
  validation, frame authentication and the device gate are all on or all off, and on exactly when
  there is a secret; the API is bound beyond the loopback interface only with a secret or at an
  address the operator gave; and with TLS on it has both a certificate and a key.
\<close>

theorem boot_fail_closed:
  assumes "boot B c = Inr p"
  shows "(cf_allow_no_auth c \<or> (\<exists>s. cf_jwt_secret c = Some s \<and> 32 \<le> length s))
    \<and> rc_jwt_validator (bp_router p) = map_option (\<lambda>s. with_audience s (cf_jwt_audience c)) (cf_jwt_secret c)
    \<and> rc_mac_secret (bp_router p) = cf_jwt_secret c
    \<and> (rc_device_store (bp_router p) = None \<longleftrightarrow> cf_jwt_secret c = None)
    \<and> (case bp_bind_ip p of BindUnspecified \<Rightarrow> cf_jwt_secret c \<noteq> None | BindExplicit b \<Rightarrow> cf_bind c = Some b | BindLocalhost \<Rightarrow> True)
    \<and> (cf_tls c \<longrightarrow> bp_tls_cert p \<noteq> None \<and> bp_tls_key p \<noteq> None)"
proof -
  obtain cert key ip where tls: "resolve_tls_paths (bh_tls B) c = Inr (cert, key)" and ip: "resolve_bind_ip B c = Inr ip"
    and p: "bp_router p = boot_router_cfg B c" "bp_tls_cert p = cert" "bp_tls_key p = key" "bp_bind_ip p = ip"
    and sec: "\<forall>s. cf_jwt_secret c = Some s \<longrightarrow> 32 \<le> length s" "boot_validator c \<noteq> None \<or> cf_allow_no_auth c"
    using assms by (auto simp: boot_def MIN_JWT_SECRET_BYTES_def split: option.splits if_splits sum.splits)
  have "cf_tls c \<longrightarrow> cert \<noteq> None \<and> key \<noteq> None"
    using tls by (auto simp: resolve_tls_paths_def Let_def split: if_splits option.splits dest: sym)
  moreover have "case ip of BindUnspecified \<Rightarrow> cf_jwt_secret c \<noteq> None | BindExplicit b \<Rightarrow> cf_bind c = Some b | BindLocalhost \<Rightarrow> True"
    using ip by (auto simp: resolve_bind_ip_def split: option.splits if_splits)
  moreover have "cf_allow_no_auth c \<or> (\<exists>s. cf_jwt_secret c = Some s \<and> 32 \<le> length s)"
    using sec by (auto simp: boot_validator_def)
  ultimately show ?thesis using p by (simp add: boot_router_cfg_def boot_validator_def)
qed

definition sample_boot :: boot_host where
  "sample_boot = \<lparr>bh_wire = sample_wire, bh_jwt_lib = sample_jwt, bh_dev_lib = sample_dev_lib,
     bh_tls = \<lparr>th_env = sample_env, th_exists = (\<lambda>_. False), th_hostname = None, th_generate = (\<lambda>_. Inl []), th_sys = (\<lambda>_. None)\<rparr>,
     bh_event_store = (\<lambda>_. True), bh_bind_socket = (\<lambda>_. None), bh_parse_ip = (\<lambda>_. False), bh_now = 0\<rparr>"

definition secured_conf :: config where
  "secured_conf = (default_config sample_env)\<lparr>cf_tls := False, cf_role := Host, cf_bind := None,
     cf_jwt_secret := Some ''0123456789abcdef0123456789abcdef''\<rparr>"

theorem boot_fail_closed_witness:
  "\<exists>p. boot sample_boot secured_conf = Inr p \<and> bp_bind_ip p = BindUnspecified
     \<and> rc_mac_secret (bp_router p) = Some ''0123456789abcdef0123456789abcdef''"
proof -
  have "\<exists>p. boot sample_boot secured_conf = Inr p \<and> bp_bind_ip p = BindUnspecified"
    by (simp add: boot_def sample_boot_def secured_conf_def MIN_JWT_SECRET_BYTES_def boot_validator_def
        resolve_tls_paths_def resolve_bind_ip_def)
  then obtain p where p: "boot sample_boot secured_conf = Inr p" "bp_bind_ip p = BindUnspecified" by blast
  with boot_fail_closed [OF p(1)] show ?thesis by (simp add: secured_conf_def)
qed

section \<open>Shutdown\<close>

text \<open>Each registered plugin is given the grace period the supervisor will enforce for it.\<close>

lemma notice_matches_kill:
  "dm_ok (sv_entries s) \<Longrightarrow> dm_get (sv_entries s) pid = Some e \<Longrightarrow>
   ((case grace_seconds_for s pid of Some g \<Rightarrow> g | None \<Rightarrow> default_grace), signal_target e, SIGKILL)
     \<in> set (sup_graceful_shutdown s default_grace)"
  by (auto simp: sup_graceful_shutdown_def grace_seconds_for_def shutdown_grace_def Let_def dm_values_iff image_iff
      intro!: bexI [of _ e])

text \<open>With nothing registered the supervised processes get no signal at all.\<close>

lemma shutdown_without_registrations: "list_plugins r = [] \<Longrightarrow> graceful_shutdown W r s g io = (io, [])"
  by (simp add: graceful_shutdown_def)

end
