(* ===== verification/Api.thy ===== *)
theory Api
  imports Lifecycle
begin

text \<open>
  The HTTP API, \<^verbatim>\<open>src/api/\<close>: the authentication, rate-limit and authorisation layers
  (\<^verbatim>\<open>middleware.rs\<close>, \<^verbatim>\<open>rate_limit.rs\<close>), the handlers (\<^verbatim>\<open>routes.rs\<close>) and the table that says which
  layers stand before which handler (\<^verbatim>\<open>server.rs\<close>). Matching a path against the table and
  serialising a body are axum's and serde's: a request arrives as the route it matched, a response
  is a status with the value of its body. The verdict of the rate limiter is an input.
\<close>

section \<open>Requests and responses\<close>

datatype route =
    Health
  | Metrics
  | Plugins
  | Plugin string
  | PluginLogs string "nat option"
  | Devices
  | StartPlugin string
  | StopPlugin string
  | RestartPlugin string

record api_request =
  rq_route :: route
  rq_authorization :: "string option"

record api_error =
  ae_code :: nat
  ae_message :: string
  ae_retryable :: bool

record health =
  he_status :: string
  he_version :: string
  he_uptime_secs :: nat
  he_plugins :: nat

record plugin_info =
  pi_plugin_id :: string
  pi_state :: string
  pi_registered_at :: nat
  pi_permissions :: "string list"
  pi_device_id :: string
  pi_last_seen :: nat

record device_info_view =
  dv_device_id :: string
  dv_os :: string
  dv_arch :: string
  dv_os_version :: string
  dv_capabilities :: "string list"
  dv_last_seen :: nat
  dv_state :: string
  dv_created :: nat
  dv_expires :: nat

datatype body =
    NoBody
  | TextBody string
  | ErrorBody api_error
  | HealthBody health
  | PluginsBody "plugin_info list"
  | PluginBody plugin_info
  | DevicesBody "device_info_view list"
  | LogsBody "string list"

record response =
  rp_status :: nat
  rp_body :: body

record app_state =
  as_manager :: manager
  as_jwt_validator :: "jwt_validator option"
  as_started_at :: nat
  as_plugin_defs :: "plugin_def list"

text \<open>What answering asks of its surroundings: the token library and the clock, the limiter's verdict
  on a subject, the loader's and the supervisor's view of the machine, what a spawn or a stop
  meets, the version, and the rendered metrics.\<close>

record api_host =
  ah_jwt_lib :: jwt_lib
  ah_now :: nat
  ah_instant :: nat
  ah_within_limit :: "string \<Rightarrow> bool"
  ah_loader :: loader_env
  ah_spawn :: spawn_host
  ah_outcome :: spawn_outcome
  ah_exits_in_time :: bool
  ah_version :: string
  ah_metrics :: string

definition status_only :: "nat \<Rightarrow> response" where
  "status_only s = \<lparr>rp_status = s, rp_body = NoBody\<rparr>"

definition ok_body :: "body \<Rightarrow> response" where
  "ok_body b = \<lparr>rp_status = 200, rp_body = b\<rparr>"

definition api_error_body :: "nat \<Rightarrow> string \<Rightarrow> bool \<Rightarrow> response" where
  "api_error_body code message retryable =
     \<lparr>rp_status = code, rp_body = ErrorBody \<lparr>ae_code = code, ae_message = message, ae_retryable = retryable\<rparr>\<rparr>"

definition not_found :: "string \<Rightarrow> response" where
  "not_found msg = api_error_body 404 msg False"

definition conflict :: "string \<Rightarrow> response" where
  "conflict msg = api_error_body 409 msg False"

definition unprocessable :: "string \<Rightarrow> response" where
  "unprocessable msg = api_error_body 422 msg False"

definition forbidden :: "string \<Rightarrow> response" where
  "forbidden msg = api_error_body 403 msg False"

definition quoted :: "string \<Rightarrow> string" where
  "quoted s = [CHR 0x27] @ s @ [CHR 0x27]"

section \<open>Layers\<close>

text \<open>What a request carries after authentication: the verified claims, or nothing when there is no
  validator.\<close>

definition auth_middleware :: "api_host \<Rightarrow> app_state \<Rightarrow> api_request \<Rightarrow> response + plugin_claims option" where
  "auth_middleware A s req = (case as_jwt_validator s of
      None \<Rightarrow> Inr None
    | Some v \<Rightarrow> (case Option.bind (rq_authorization req) (\<lambda>h. strip_prefix h ''Bearer '') of
          None \<Rightarrow> Inl (status_only 401)
        | Some token \<Rightarrow> (case validate (ah_jwt_lib A) (ah_now A) v token of
              Inl _ \<Rightarrow> Inl (status_only 401)
            | Inr claims \<Rightarrow> Inr (Some claims))))"

definition rate_limit_middleware :: "api_host \<Rightarrow> plugin_claims option \<Rightarrow> response option" where
  "rate_limit_middleware A ext = (case ext of
      Some claims \<Rightarrow>
        if ah_within_limit A (cl_sub claims) then None
        else Some \<lparr>rp_status = 429, rp_body = TextBody ''Too Many Requests''\<rparr>
    | None \<Rightarrow> None)"

definition require_kernel_admin :: "plugin_claims option \<Rightarrow> response option" where
  "require_kernel_admin ext = (case ext of
      Some claims \<Rightarrow>
        if ''PERMISSION_KERNEL_ADMIN'' \<in> set (cl_permissions claims) then None else Some (status_only 403)
    | None \<Rightarrow> None)"

section \<open>Handlers\<close>

definition health_check :: "api_host \<Rightarrow> app_state \<Rightarrow> response" where
  "health_check A s = ok_body (HealthBody \<lparr>he_status = ''ok'', he_version = ah_version A,
     he_uptime_secs = ah_instant A - as_started_at s, he_plugins = length (list_plugins (mg_registry (as_manager s)))\<rparr>)"

definition plugin_info_of :: "registry \<Rightarrow> plugin_entry \<Rightarrow> plugin_info" where
  "plugin_info_of r e = \<lparr>pi_plugin_id = pe_plugin_id e, pi_state = plugin_state_str (pe_state e),
     pi_registered_at = pe_registered_at e, pi_permissions = mf_permissions (pe_manifest e),
     pi_device_id = pe_device_id e,
     pi_last_seen = (case get_device r (pe_device_id e) of Some d \<Rightarrow> di_last_seen d | None \<Rightarrow> 0)\<rparr>"

definition api_list_plugins :: "app_state \<Rightarrow> response" where
  "api_list_plugins s = (let r = mg_registry (as_manager s)
     in ok_body (PluginsBody (map (plugin_info_of r) (list_plugins r))))"

definition api_get_plugin :: "app_state \<Rightarrow> string \<Rightarrow> response" where
  "api_get_plugin s i = (let r = mg_registry (as_manager s)
     in case get_plugin r i of Some e \<Rightarrow> ok_body (PluginBody (plugin_info_of r e)) | None \<Rightarrow> status_only 404)"

definition device_view :: "device_info \<Rightarrow> device_info_view" where
  "device_view d = \<lparr>dv_device_id = di_device_id d, dv_os = device_os_str (di_os d), dv_arch = di_arch d,
     dv_os_version = di_os_version d, dv_capabilities = di_capabilities d, dv_last_seen = di_last_seen d,
     dv_state = device_state_str (di_state d), dv_created = di_created d, dv_expires = di_expires d\<rparr>"

definition api_list_devices :: "app_state \<Rightarrow> response" where
  "api_list_devices s = ok_body (DevicesBody (map device_view (list_devices (mg_registry (as_manager s)))))"

definition api_start_plugin :: "api_host \<Rightarrow> string \<Rightarrow> app_state \<Rightarrow> response \<times> app_state" where
  "api_start_plugin A i s =
    (if is_supervised (as_manager s) i then (conflict (''plugin '' @ quoted i @ '' is already running''), s)
     else case find (\<lambda>d. pd_id d = i) (as_plugin_defs s) of
         None \<Rightarrow> (not_found (''plugin '' @ quoted i @ '' is not declared in config''), s)
       | Some d \<Rightarrow> (case validate_plugin_def (ah_loader A) d of
             Inl (PermissionDenied _) \<Rightarrow> (forbidden ''plugin requests a permission not granted by config'', s)
           | Inl _ \<Rightarrow> (unprocessable ''plugin definition failed validation'', s)
           | Inr _ \<Rightarrow> (case manager_start (ah_spawn A) (config_from_def d) (ah_outcome A) (as_manager s) of
                 (Inr _, g) \<Rightarrow> (status_only 200, s\<lparr>as_manager := g\<rparr>)
               | (Inl _, g) \<Rightarrow> (unprocessable (''failed to start plugin '' @ quoted i), s\<lparr>as_manager := g\<rparr>))))"

definition api_stop_plugin :: "api_host \<Rightarrow> string \<Rightarrow> app_state \<Rightarrow> response \<times> app_state" where
  "api_stop_plugin A i s =
    (if get_plugin (mg_registry (as_manager s)) i = None
     then (not_found (''plugin '' @ quoted i @ '' is not registered''), s)
     else case manager_stop i (ah_exits_in_time A) (as_manager s) of
         (Inr _, g) \<Rightarrow> (status_only 200, s\<lparr>as_manager := g\<rparr>)
       | (Inl (PluginNotFound _), g) \<Rightarrow>
           (not_found (''plugin '' @ quoted i @ '' exited before stop completed''), s\<lparr>as_manager := g\<rparr>)
       | (Inl _, g) \<Rightarrow> (unprocessable (''failed to stop plugin '' @ quoted i), s\<lparr>as_manager := g\<rparr>))"

definition api_restart_plugin :: "string \<Rightarrow> app_state \<Rightarrow> response \<times> app_state" where
  "api_restart_plugin i s =
    (if get_plugin (mg_registry (as_manager s)) i = None
     then (not_found (''plugin '' @ quoted i @ '' is not registered''), s)
     else case manager_restart i (as_manager s) of
         (Inr _, g) \<Rightarrow> (status_only 202, s\<lparr>as_manager := g\<rparr>)
       | (Inl _, g) \<Rightarrow> (unprocessable (''failed to restart plugin '' @ quoted i), s\<lparr>as_manager := g\<rparr>))"

definition MAX_LOG_LINES :: nat where "MAX_LOG_LINES = 10000"

definition api_get_plugin_logs :: "app_state \<Rightarrow> string \<Rightarrow> nat option \<Rightarrow> response" where
  "api_get_plugin_logs s i ls =
    (if get_plugin (mg_registry (as_manager s)) i = None \<and> \<not> is_supervised (as_manager s) i
     then not_found (''plugin '' @ quoted i @ '' is not registered'')
     else let n = min (case ls of Some n \<Rightarrow> n | None \<Rightarrow> 100) MAX_LOG_LINES
          in ok_body (LogsBody (manager_logs (as_manager s) i n)))"

section \<open>The router\<close>

fun is_public :: "route \<Rightarrow> bool" where
  "is_public Health = True"
| "is_public _ = False"

fun is_lifecycle :: "route \<Rightarrow> bool" where
  "is_lifecycle (StartPlugin _) = True"
| "is_lifecycle (StopPlugin _) = True"
| "is_lifecycle (RestartPlugin _) = True"
| "is_lifecycle _ = False"

fun api_handler :: "api_host \<Rightarrow> route \<Rightarrow> app_state \<Rightarrow> response \<times> app_state" where
  "api_handler A Health s = (health_check A s, s)"
| "api_handler A Metrics s = (ok_body (TextBody (ah_metrics A)), s)"
| "api_handler A Plugins s = (api_list_plugins s, s)"
| "api_handler A (Plugin i) s = (api_get_plugin s i, s)"
| "api_handler A (PluginLogs i n) s = (api_get_plugin_logs s i n, s)"
| "api_handler A Devices s = (api_list_devices s, s)"
| "api_handler A (StartPlugin i) s = api_start_plugin A i s"
| "api_handler A (StopPlugin i) s = api_stop_plugin A i s"
| "api_handler A (RestartPlugin i) s = api_restart_plugin i s"

text \<open>The layers of \<^verbatim>\<open>create_router_full\<close>, outermost first: authentication, the rate limit, which is
  only mounted with a validator, and for the lifecycle routes the permission.\<close>

definition api_serve :: "api_host \<Rightarrow> api_request \<Rightarrow> app_state \<Rightarrow> response \<times> app_state" where
  "api_serve A req s =
    (if is_public (rq_route req) then api_handler A (rq_route req) s
     else case auth_middleware A s req of
         Inl r \<Rightarrow> (r, s)
       | Inr ext \<Rightarrow> (case (if as_jwt_validator s \<noteq> None then rate_limit_middleware A ext else None) of
             Some r \<Rightarrow> (r, s)
           | None \<Rightarrow> (case (if is_lifecycle (rq_route req) then require_kernel_admin ext else None) of
                 Some r \<Rightarrow> (r, s)
               | None \<Rightarrow> api_handler A (rq_route req) s)))"

definition build_rate_limiter :: "nat option \<Rightarrow> nat option \<Rightarrow> nat \<times> nat" where
  "build_rate_limiter rps burst =
    (max 1 (case rps of Some n \<Rightarrow> n | None \<Rightarrow> 100), max 1 (case burst of Some n \<Rightarrow> n | None \<Rightarrow> 20))"

section \<open>Authorisation\<close>

lemma auth_middleware_Inr:
  "auth_middleware A s req = Inr ext \<Longrightarrow> as_jwt_validator s = Some v \<Longrightarrow>
   \<exists>token claims. rq_authorization req = Some (''Bearer '' @ token)
     \<and> validate (ah_jwt_lib A) (ah_now A) v token = Inr claims \<and> ext = Some claims"
  by (auto simp: auth_middleware_def bind_eq_Some_conv strip_prefix_Some_iff split: option.splits sum.splits)

lemma read_routes_unchanged: "\<not> is_lifecycle r \<Longrightarrow> snd (api_handler A r s) = s"
  by (cases r) simp_all

text \<open>The supervised instances after a request: only a start adds one, with a declared definition.\<close>

lemma spawn_plugin_entries:
  "dm_get (sv_entries (w_sup (snd (spawn_plugin h c out w)))) q
   \<in> {dm_get (sv_entries (w_sup w)) q} \<union> {Some e |e. q = pc_plugin_id c \<and> se_config e = c}"
proof (cases "spawn_begin h c 0 None w")
  case (Pair res w1)
  then show ?thesis
  proof (cases res)
    case (Inl e)
    with Pair have "w1 = w" by (auto simp: spawn_begin_def Let_def split: if_splits prod.splits)
    with Inl Pair show ?thesis by (simp add: spawn_plugin_def spawn_internal_def)
  next
    case (Inr t)
    with Pair have "st_config t = c" "sv_entries (w_sup w1) = sv_entries (w_sup w)"
      by (auto simp: spawn_begin_def Let_def split: if_splits prod.splits)
    with Inr Pair spawn_end_entries [of h t out w1 q] show ?thesis
      by (simp add: spawn_plugin_def spawn_internal_def)
  qed
qed

definition supervised :: "app_state \<Rightarrow> string \<Rightarrow> sup_entry option" where
  "supervised s q = dm_get (sv_entries (w_sup (mg_world (as_manager s)))) q"

lemma api_start_cases:
  obtains (same) "snd (api_start_plugin A i s) = s"
  | (started) d where "find (\<lambda>d. pd_id d = i) (as_plugin_defs s) = Some d" "is_ok (validate_plugin_def (ah_loader A) d)"
      "snd (api_start_plugin A i s)
        = s\<lparr>as_manager := snd (manager_start (ah_spawn A) (config_from_def d) (ah_outcome A) (as_manager s))\<rparr>"
proof (cases "is_supervised (as_manager s) i")
  case False
  note sup = this
  show ?thesis
  proof (cases "find (\<lambda>d. pd_id d = i) (as_plugin_defs s)")
    case (Some d)
    show ?thesis
    proof (cases "validate_plugin_def (ah_loader A) d")
      case (Inl e)
      then have "snd (api_start_plugin A i s) = s" using sup Some by (cases e) (simp_all add: api_start_plugin_def)
      then show ?thesis by (rule same)
    next
      case (Inr m)
      obtain res g where g: "manager_start (ah_spawn A) (config_from_def d) (ah_outcome A) (as_manager s) = (res, g)"
        by fastforce
      then have "snd (api_start_plugin A i s) = s\<lparr>as_manager := g\<rparr>"
        using sup Some Inr by (cases res) (simp_all add: api_start_plugin_def)
      then show ?thesis using started [OF Some] Inr g by simp
    qed
  qed (use sup same in \<open>simp add: api_start_plugin_def\<close>)
qed (use same in \<open>simp add: api_start_plugin_def\<close>)

lemma api_start_entries:
  assumes "supervised (snd (api_start_plugin A i s)) q = Some e" "supervised s q \<noteq> Some e"
  shows "q = i \<and> (\<exists>d \<in> set (as_plugin_defs s). pd_id d = i \<and> se_config e = config_from_def d
      \<and> is_ok (validate_plugin_def (ah_loader A) d))"
proof (cases rule: api_start_cases [of A i s])
  case (started d)
  let ?c = "config_from_def d"
  have d: "d \<in> set (as_plugin_defs s)" "pd_id d = i" using started(1) by (auto simp: find_Some_iff)
  have "q = pc_plugin_id ?c \<and> se_config e = ?c"
    using spawn_plugin_entries [of "ah_spawn A" ?c "ah_outcome A" "mg_world (as_manager s)" q] assms started(3)
    by (auto simp: supervised_def manager_start_def split: prod.splits)
  moreover have "pc_plugin_id ?c = i" using d(2) by (simp add: config_from_def_def)
  ultimately show ?thesis using d started(2) by blast
qed (use assms in simp)

lemma api_stop_manager:
  "as_manager (snd (api_stop_plugin A i s)) \<in> {as_manager s, snd (manager_stop i (ah_exits_in_time A) (as_manager s))}"
proof -
  obtain res g where "manager_stop i (ah_exits_in_time A) (as_manager s) = (res, g)" by fastforce
  then show ?thesis
    by (cases res; cases "projl res") (simp_all add: api_stop_plugin_def)
qed

lemma api_stop_entries:
  assumes "supervised (snd (api_stop_plugin A i s)) q = Some e"
  shows "supervised s q = Some e"
proof -
  have "dm_get (sv_entries (w_sup (mg_world (snd (manager_stop i (ah_exits_in_time A) g))))) q = Some e \<Longrightarrow>
      dm_get (sv_entries (w_sup (mg_world g))) q = Some e" for g
    by (auto simp: manager_stop_def stop_plugin_def Let_def split: option.splits if_splits)
  then show ?thesis using assms api_stop_manager [of A i s] by (auto simp: supervised_def)
qed

lemma api_restart_manager:
  "as_manager (snd (api_restart_plugin i s)) \<in> {as_manager s, snd (manager_restart i (as_manager s))}"
proof -
  obtain res g where "manager_restart i (as_manager s) = (res, g)" by fastforce
  then show ?thesis by (cases res) (simp_all add: api_restart_plugin_def)
qed

lemma api_restart_entries: "supervised (snd (api_restart_plugin i s)) q = supervised s q"
proof -
  have "sv_entries (w_sup (mg_world (snd (manager_restart i g)))) = sv_entries (w_sup (mg_world g))" for g
    by (auto simp: manager_restart_def restart_plugin_def Let_def split: option.splits)
  then show ?thesis using api_restart_manager [of i s] by (auto simp: supervised_def)
qed

lemma api_handler_entries:
  assumes "supervised (snd (api_handler A r s)) q = Some e" "supervised s q \<noteq> Some e"
  shows "r = StartPlugin q \<and> (\<exists>d \<in> set (as_plugin_defs s). pd_id d = q \<and> se_config e = config_from_def d
      \<and> is_ok (validate_plugin_def (ah_loader A) d))"
proof (cases "is_lifecycle r")
  case True
  then consider (start) i where "r = StartPlugin i" | (stop) i where "r = StopPlugin i"
    | (restart) i where "r = RestartPlugin i" by (cases r) simp_all
  then show ?thesis
  proof cases
    case start
    then show ?thesis using assms api_start_entries [of A i s q e] by simp
  next
    case stop
    then show ?thesis using assms api_stop_entries [of A i s q e] by simp
  next
    case restart
    then show ?thesis using assms api_restart_entries [of i s q] by simp
  qed
qed (use assms read_routes_unchanged [of r A s] in simp)

text \<open>
  \<^bold>\<open>C36.\<close> The API acts only for those it should. With a validator, every route but the health
  check answers 401 without a valid bearer token and leaves the kernel as it was. Whatever a request
  changes, it is a lifecycle request, and with a validator its token is valid, names
  \<^verbatim>\<open>PERMISSION_KERNEL_ADMIN\<close>, and its verified subject is within the rate limit. And an instance
  that is supervised afterwards and was not before is one a start request named: it runs a definition
  declared in the configuration under that id and accepted by the loader, never another binary.
\<close>

theorem api_acts_only_authorised:
  assumes "api_serve A req s = (resp, s')"
  shows "(\<forall>v. as_jwt_validator s = Some v \<longrightarrow> \<not> is_public (rq_route req)
      \<longrightarrow> (\<forall>token claims. rq_authorization req = Some (''Bearer '' @ token)
              \<longrightarrow> validate (ah_jwt_lib A) (ah_now A) v token \<noteq> Inr claims)
      \<longrightarrow> resp = status_only 401 \<and> s' = s)
    \<and> (s' \<noteq> s \<longrightarrow> is_lifecycle (rq_route req)
        \<and> (\<forall>v. as_jwt_validator s = Some v \<longrightarrow> (\<exists>token claims. rq_authorization req = Some (''Bearer '' @ token)
              \<and> validate (ah_jwt_lib A) (ah_now A) v token = Inr claims \<and> ah_within_limit A (cl_sub claims)
              \<and> ''PERMISSION_KERNEL_ADMIN'' \<in> set (cl_permissions claims))))
    \<and> (\<forall>q e. supervised s' q = Some e \<longrightarrow> supervised s q \<noteq> Some e \<longrightarrow> rq_route req = StartPlugin q
        \<and> (\<exists>d \<in> set (as_plugin_defs s). pd_id d = q \<and> se_config e = config_from_def d
              \<and> is_ok (validate_plugin_def (ah_loader A) d)))"
proof (intro conjI)
  have handled: "(resp, s') = api_handler A (rq_route req) s \<and> (\<forall>v. as_jwt_validator s = Some v \<longrightarrow> \<not> is_public (rq_route req) \<longrightarrow>
        (\<exists>token claims. rq_authorization req = Some (''Bearer '' @ token)
          \<and> validate (ah_jwt_lib A) (ah_now A) v token = Inr claims \<and> ah_within_limit A (cl_sub claims)
          \<and> (is_lifecycle (rq_route req) \<longrightarrow> ''PERMISSION_KERNEL_ADMIN'' \<in> set (cl_permissions claims))))"
    if "s' \<noteq> s"
  proof -
    have "(resp, s') = api_handler A (rq_route req) s"
      using assms that by (auto simp: api_serve_def split: if_splits sum.splits option.splits)
    moreover have "\<exists>token claims. rq_authorization req = Some (''Bearer '' @ token)
          \<and> validate (ah_jwt_lib A) (ah_now A) v token = Inr claims \<and> ah_within_limit A (cl_sub claims)
          \<and> (is_lifecycle (rq_route req) \<longrightarrow> ''PERMISSION_KERNEL_ADMIN'' \<in> set (cl_permissions claims))"
      if v: "as_jwt_validator s = Some v" and p: "\<not> is_public (rq_route req)" for v
    proof -
      obtain ext where ext: "auth_middleware A s req = Inr ext"
        using assms \<open>s' \<noteq> s\<close> p by (auto simp: api_serve_def split: sum.splits)
      from auth_middleware_Inr [OF this v] obtain token claims
        where c: "rq_authorization req = Some (''Bearer '' @ token)"
          "validate (ah_jwt_lib A) (ah_now A) v token = Inr claims" "ext = Some claims" by blast
      then show ?thesis using assms \<open>s' \<noteq> s\<close> p ext v
        by (auto simp: api_serve_def rate_limit_middleware_def require_kernel_admin_def split: if_splits)
    qed
    ultimately show ?thesis by blast
  qed
  have priv: "is_lifecycle r \<Longrightarrow> \<not> is_public r" for r by (cases r) simp_all
  show "s' \<noteq> s \<longrightarrow> is_lifecycle (rq_route req)
        \<and> (\<forall>v. as_jwt_validator s = Some v \<longrightarrow> (\<exists>token claims. rq_authorization req = Some (''Bearer '' @ token)
              \<and> validate (ah_jwt_lib A) (ah_now A) v token = Inr claims \<and> ah_within_limit A (cl_sub claims)
              \<and> ''PERMISSION_KERNEL_ADMIN'' \<in> set (cl_permissions claims)))"
    using handled read_routes_unchanged [of "rq_route req" A s] priv by (metis snd_conv)
  show "\<forall>q e. supervised s' q = Some e \<longrightarrow> supervised s q \<noteq> Some e \<longrightarrow> rq_route req = StartPlugin q
        \<and> (\<exists>d \<in> set (as_plugin_defs s). pd_id d = q \<and> se_config e = config_from_def d
              \<and> is_ok (validate_plugin_def (ah_loader A) d))"
    using handled api_handler_entries by (metis snd_conv)
  show "\<forall>v. as_jwt_validator s = Some v \<longrightarrow> \<not> is_public (rq_route req)
      \<longrightarrow> (\<forall>token claims. rq_authorization req = Some (''Bearer '' @ token)
              \<longrightarrow> validate (ah_jwt_lib A) (ah_now A) v token \<noteq> Inr claims)
      \<longrightarrow> resp = status_only 401 \<and> s' = s"
    using assms auth_middleware_Inr [of A s req]
    by (auto simp: api_serve_def auth_middleware_def strip_prefix_Some_iff bind_eq_Some_conv split: sum.splits option.splits)
qed

definition sample_api :: api_host where
  "sample_api = \<lparr>ah_jwt_lib = \<lparr>jl_decode = (\<lambda>k v now tok. if tok = ''t''
         then Inr (sample_claims\<lparr>cl_permissions := [''PERMISSION_KERNEL_ADMIN'']\<rparr>) else Inl ''InvalidToken''),
       jl_encode = (\<lambda>k c. Inr ''t'')\<rparr>,
     ah_now = 120, ah_instant = 0, ah_within_limit = (\<lambda>_. True),
     ah_loader = \<lparr>le_wire = sample_wire, le_exists = (\<lambda>_. False), le_kernel_version = Inr ''1.7.0'',
       le_validate_manifest = (\<lambda>_ _. Inl (Internal []))\<rparr>,
     ah_spawn = sample_host, ah_outcome = started, ah_exits_in_time = True, ah_version = ''1.7.0'', ah_metrics = []\<rparr>"

definition sample_app :: app_state where
  "sample_app = \<lparr>as_manager = \<lparr>mg_world = sample_world, mg_registry = registry_new\<rparr>,
     as_jwt_validator = Some (with_audience ''k'' None), as_started_at = 0, as_plugin_defs = [sample_plugin_def ''cam'']\<rparr>"

definition sample_start :: "string option \<Rightarrow> api_request" where
  "sample_start auth = \<lparr>rq_route = StartPlugin ''cam'', rq_authorization = auth\<rparr>"

theorem api_acts_only_authorised_witness:
  "api_serve sample_api (sample_start (Some ''Bearer u'')) sample_app = (status_only 401, sample_app)
   \<and> (\<exists>e. supervised (snd (api_serve sample_api (sample_start (Some ''Bearer t'')) sample_app)) ''cam'' = Some e
        \<and> se_config e = config_from_def (sample_plugin_def ''cam''))"
proof -
  obtain resp s' where s': "api_serve sample_api (sample_start (Some ''Bearer t'')) sample_app = (resp, s')" by fastforce
  let ?c = "config_from_def (sample_plugin_def ''cam'')"
  have v: "validate_plugin_def (ah_loader sample_api) (sample_plugin_def ''cam'') = Inr None"
    by (simp add: validate_plugin_def_def sample_api_def split: option.splits)
  have t: "find (\<lambda>d. pd_id d = ''cam'') (as_plugin_defs sample_app) = Some (sample_plugin_def ''cam'')"
    "\<not> is_supervised (as_manager sample_app) ''cam''" by (code_simp, code_simp)
  have "snd (api_start_plugin sample_api ''cam'' sample_app)
      = sample_app\<lparr>as_manager := snd (manager_start sample_host ?c started (as_manager sample_app))\<rparr>"
    using v t by (simp add: api_start_plugin_def sample_api_def split: prod.splits sum.splits)
  moreover have "dm_get (sv_entries (w_sup (snd (spawn_plugin sample_host ?c started sample_world)))) ''cam'' \<noteq> None"
    using t(2) by (simp add: spawn_plugin_def spawn_internal_def spawn_begin_def spawn_end_started Let_def
        is_supervised_def sample_app_def config_from_def_def sample_plugin_def_def split: prod.splits)
  moreover have "snd (api_serve sample_api (sample_start (Some ''Bearer t'')) sample_app)
      = snd (api_start_plugin sample_api ''cam'' sample_app)"
    by (simp add: api_serve_def auth_middleware_def rate_limit_middleware_def require_kernel_admin_def validate_def
        sample_app_def sample_start_def sample_api_def strip_prefix_def starts_with_def sample_claims_def hex_of_def hex_byte_def)
  ultimately have "supervised (snd (api_serve sample_api (sample_start (Some ''Bearer t'')) sample_app)) ''cam'' \<noteq> None"
    by (simp add: supervised_def manager_start_def sample_app_def split: prod.splits)
  then obtain e where e: "supervised s' ''cam'' = Some e" using s' by auto
  have "supervised sample_app ''cam'' = None" by code_simp
  with e api_acts_only_authorised [OF s'] have "se_config e = config_from_def (sample_plugin_def ''cam'')"
    by (auto simp: sample_app_def)
  moreover obtain resp2 s2 where s2: "api_serve sample_api (sample_start (Some ''Bearer u'')) sample_app = (resp2, s2)"
    by fastforce
  have "resp2 = status_only 401 \<and> s2 = sample_app"
    using api_acts_only_authorised [OF s2]
    by (auto simp: sample_app_def sample_start_def sample_api_def validate_def)
  ultimately show ?thesis using e s' s2 by simp
qed

end
