(* ===== verification/Connection.thy ===== *)
theory Connection
  imports Router_Sessions
begin

text \<open>
  One socket connection, \<^verbatim>\<open>src/ipc/connection.rs\<close>: the read loop (MAC verification on a secured
  connection, reassembly of fragmented frames, delivery to the router) and the write loop
  (tagging, arming of the MAC). Reading and writing bytes is the wire crate's; a read result or
  a write result is an input here. The session-key cells shared by the two loops are a map from
  cell ids to keys.
\<close>

section \<open>Reassembly buffers\<close>

record reassembly_buf =
  rb_fragments :: "(nat, bytes) dashmap"
  rb_total :: nat
  rb_target :: bytes
  rb_first_seen :: nat
  rb_buffered_bytes :: nat

definition rb_is_complete :: "reassembly_buf \<Rightarrow> bool" where
  "rb_is_complete b \<longleftrightarrow> length (rb_fragments b) = rb_total b"

definition reassemble :: "reassembly_buf \<Rightarrow> bytes" where
  "reassemble b = concat (map (\<lambda>s. case dm_get (rb_fragments b) s of Some d \<Rightarrow> d | None \<Rightarrow> [])
     (sort (dm_keys (rb_fragments b))))"

definition prune_stale_reassembly ::
  "nat \<Rightarrow> nat \<Rightarrow> (nat, reassembly_buf) dashmap \<Rightarrow> (nat, reassembly_buf) dashmap" where
  "prune_stale_reassembly now fragment_timeout m =
     dm_retain (\<lambda>_ b. \<not> now - rb_first_seen b \<ge> fragment_timeout) m"

section \<open>The read loop\<close>

record connection =
  cn_conn_id :: nat
  cn_write_tx :: chan
  cn_session_key :: nat
  cn_fragment_timeout :: nat
  cn_max_reassembly_streams :: nat
  cn_reassembly :: "(nat, reassembly_buf) dashmap"

text \<open>What one frame does: nothing yet, a message for the router, or the end of the
  connection, possibly announced to the peer.\<close>

datatype conn_step =
    Buffered connection
  | Deliver incoming connection
  | Drop "error_code option"

definition tag_present :: "frame \<Rightarrow> bool" where
  "tag_present f \<longleftrightarrow> has_flag (fr_flags f) FLAG_MAC_PRESENT \<and> fr_mac f \<noteq> None"

definition frame_tag_valid :: "wire \<Rightarrow> bytes \<Rightarrow> frame \<Rightarrow> bool" where
  "frame_tag_valid W k f \<longleftrightarrow> tag_present f
     \<and> w_verify_tag W k (w_serialize_header W f) (fr_payload f) (the (fr_mac f))"

text \<open>\<^verbatim>\<open>usize\<close> arithmetic: the update of \<^verbatim>\<open>buffered_bytes\<close> subtracts first, and wraps.\<close>

definition usize_sub :: "nat \<Rightarrow> nat \<Rightarrow> nat" where
  "usize_sub a b = (a + 2 ^ 64 - b) mod 2 ^ 64"

definition usize_add :: "nat \<Rightarrow> nat \<Rightarrow> nat" where
  "usize_add a b = (a + b) mod 2 ^ 64"

definition new_reassembly_buf :: "nat \<Rightarrow> nat \<Rightarrow> bytes \<Rightarrow> reassembly_buf" where
  "new_reassembly_buf now tot target =
     \<lparr>rb_fragments = [], rb_total = tot, rb_target = target, rb_first_seen = now, rb_buffered_bytes = 0\<rparr>"

definition incoming_of :: "connection \<Rightarrow> frame \<Rightarrow> incoming" where
  "incoming_of cn f = \<lparr>im_conn_id = cn_conn_id cn, im_frame = f, im_write_tx = cn_write_tx cn,
     im_session_key = cn_session_key cn\<rparr>"

definition assembled_frame :: "wire \<Rightarrow> frame \<Rightarrow> reassembly_buf \<Rightarrow> frame" where
  "assembled_frame W f b =
    (let payload = reassemble b
     in \<lparr>fr_magic = fr_magic f, fr_flags = clear_flag (fr_flags f) FLAG_FRAGMENTED,
         fr_length = of_nat (length payload), fr_target = rb_target b, fr_crc32 = w_crc32 W payload,
         fr_payload = payload, fr_mac = None\<rparr>)"

definition on_fragment :: "wire \<Rightarrow> nat \<Rightarrow> connection \<Rightarrow> frame \<Rightarrow> conn_step" where
  "on_fragment W now cn f = (case w_parse_frag_header W (fr_payload f) of
      None \<Rightarrow> Drop None
    | Some h \<Rightarrow>
        if fh_total h = 0 \<or> fh_sequence h \<ge> fh_total h then Drop None
        else let m = cn_reassembly cn
             in if (case dm_get m (fh_stream_id h) of
                      Some existing \<Rightarrow> rb_total existing \<noteq> fh_total h
                    | None \<Rightarrow> length m \<ge> cn_max_reassembly_streams cn)
                then Drop None
                else let frag_data = drop (w_frag_header_size W) (fr_payload f);
                         entry = (case dm_get m (fh_stream_id h) of
                             Some existing \<Rightarrow> existing
                           | None \<Rightarrow> new_reassembly_buf now (fh_total h) (fr_target f));
                         replaced_len = (case dm_get (rb_fragments entry) (fh_sequence h) of
                             Some d \<Rightarrow> length d | None \<Rightarrow> 0)
                     in if usize_sub (usize_add (rb_buffered_bytes entry) (length frag_data)) replaced_len
                           > w_max_payload_size W
                        then Drop None
                        else let entry1 = entry\<lparr>
                                   rb_buffered_bytes := usize_add (rb_buffered_bytes entry)
                                     (usize_sub (length frag_data) replaced_len),
                                   rb_fragments := dm_insert (fh_sequence h) frag_data (rb_fragments entry)\<rparr>
                             in if rb_is_complete entry1
                                then let cn1 = cn\<lparr>cn_reassembly := dm_remove (fh_stream_id h) m\<rparr>
                                     in Deliver (incoming_of cn1 (assembled_frame W f entry1)) cn1
                                else Buffered (cn\<lparr>cn_reassembly := dm_insert (fh_stream_id h) entry1 m\<rparr>))"

definition on_frame :: "wire \<Rightarrow> nat \<Rightarrow> bytes option \<Rightarrow> connection \<Rightarrow> frame \<Rightarrow> conn_step" where
  "on_frame W now key cn f =
    (if (case key of Some k \<Rightarrow> \<not> frame_tag_valid W k f | None \<Rightarrow> False)
     then Drop (Some (if tag_present f then ErrMacInvalid else ErrMacMissing))
     else let cn1 = cn\<lparr>cn_reassembly :=
                prune_stale_reassembly now (cn_fragment_timeout cn) (cn_reassembly cn)\<rparr>
          in if has_flag (fr_flags f) FLAG_FRAGMENTED then on_fragment W now cn1 f
             else Deliver (incoming_of cn1 f) cn1)"

text \<open>\<^verbatim>\<open>ConnectionHandler::send_error\<close>: the last frame queued on a connection that is dropped.\<close>

definition conn_send_error :: "wire \<Rightarrow> error_code \<Rightarrow> outbound list" where
  "conn_send_error W code = (case w_encode W (envelope_of [] (PError (Code code) [] [])) of
      None \<Rightarrow> [] | Some p \<Rightarrow> [OutFrame (build_frame W ''client'' 0 p)])"

text \<open>What \<^verbatim>\<open>read_frame\<close> yields, with the time and the key found in the cell at that moment;
  any error ends the loop.\<close>

datatype read_event = ReadFrame nat "bytes option" frame | ReadError vynkor_error

record conn_log =
  cl_delivered :: "incoming list"
  cl_queued :: "outbound list"
  cl_open :: bool

definition empty_log :: conn_log where
  "empty_log = \<lparr>cl_delivered = [], cl_queued = [], cl_open = True\<rparr>"

text \<open>\<^verbatim>\<open>router_open n\<close> says whether the router still takes the \<open>n\<close>-th message.\<close>

fun conn_run :: "wire \<Rightarrow> (nat \<Rightarrow> bool) \<Rightarrow> connection \<Rightarrow> conn_log \<Rightarrow> read_event list \<Rightarrow> conn_log" where
  "conn_run W router_open cn l [] = l"
| "conn_run W router_open cn l (ReadError e # evs) = l\<lparr>cl_open := False\<rparr>"
| "conn_run W router_open cn l (ReadFrame now key f # evs) = (case on_frame W now key cn f of
      Drop None \<Rightarrow> l\<lparr>cl_open := False\<rparr>
    | Drop (Some code) \<Rightarrow> l\<lparr>cl_queued := cl_queued l @ conn_send_error W code, cl_open := False\<rparr>
    | Buffered cn1 \<Rightarrow> conn_run W router_open cn1 l evs
    | Deliver msg cn1 \<Rightarrow>
        if router_open (length (cl_delivered l))
        then conn_run W router_open cn1 (l\<lparr>cl_delivered := cl_delivered l @ [msg]\<rparr>) evs
        else l\<lparr>cl_open := False\<rparr>)"

section \<open>The write loop\<close>

datatype write_result = Written | TooLarge nat | WriteFailed

record writer =
  wr_key :: "bytes option"
  wr_cells :: "nat \<Rightarrow> bytes option"
  wr_socket :: "frame list"
  wr_running :: bool

definition tag_frame :: "wire \<Rightarrow> bytes \<Rightarrow> frame \<Rightarrow> frame" where
  "tag_frame W k f =
    (let f1 = f\<lparr>fr_flags := set_flag (fr_flags f) FLAG_MAC_PRESENT\<rparr>
     in f1\<lparr>fr_mac := Some (w_compute_tag W k (w_serialize_header W f1) (fr_payload f1))\<rparr>)"

definition write_step :: "wire \<Rightarrow> (frame \<Rightarrow> write_result) \<Rightarrow> outbound \<Rightarrow> writer \<Rightarrow> writer" where
  "write_step W wr item w =
    (if \<not> wr_running w then w
     else case item of
         EnableMac k cell \<Rightarrow> w\<lparr>wr_key := Some k, wr_cells := (wr_cells w)(cell := Some k)\<rparr>
       | OutFrame f \<Rightarrow>
           let f1 = (case wr_key w of Some k \<Rightarrow> tag_frame W k f | None \<Rightarrow> f)
           in case wr f1 of
                Written \<Rightarrow> w\<lparr>wr_socket := wr_socket w @ [f1]\<rparr>
              | TooLarge _ \<Rightarrow> w
              | WriteFailed \<Rightarrow> w\<lparr>wr_running := False\<rparr>)"

definition write_loop :: "wire \<Rightarrow> (frame \<Rightarrow> write_result) \<Rightarrow> outbound list \<Rightarrow> writer \<Rightarrow> writer" where
  "write_loop W wr items w = fold (write_step W wr) items w"

section \<open>Accepting connections\<close>

text \<open>\<^verbatim>\<open>UdsServer::start\<close>, one accepted stream: the connection's id, or refusal at the limit.\<close>

record acceptor =
  ac_counter :: nat
  ac_open_conns :: nat

definition accept_conn :: "nat \<Rightarrow> acceptor \<Rightarrow> nat option \<times> acceptor" where
  "accept_conn max_connections a =
    (if ac_open_conns a \<ge> max_connections then (None, a)
     else (Some (ac_counter a), a\<lparr>ac_counter := fetch_add_u64 (ac_counter a), ac_open_conns := ac_open_conns a + 1\<rparr>))"

definition conn_finished :: "acceptor \<Rightarrow> acceptor" where
  "conn_finished a = a\<lparr>ac_open_conns := ac_open_conns a - 1\<rparr>"

definition connection_new :: "nat \<Rightarrow> chan \<Rightarrow> nat \<Rightarrow> nat \<Rightarrow> nat \<Rightarrow> connection" where
  "connection_new conn_id write_tx cell fragment_timeout max_streams =
     \<lparr>cn_conn_id = conn_id, cn_write_tx = write_tx, cn_session_key = cell, cn_fragment_timeout = fragment_timeout,
      cn_max_reassembly_streams = max_streams, cn_reassembly = []\<rparr>"

end
