(* ===== verification/Connection_Props.thy ===== *)
theory Connection_Props
  imports Connection
begin

text \<open>
  What a connection guarantees: bounded memory whatever the peer sends, reassembly in any
  order, no message past an invalid tag, and outbound tagging that starts only behind the
  acknowledgement.
\<close>

section \<open>Bounded memory\<close>

lemma length_dm_insert: "length (dm_insert k v m) = (if dm_get m k = None then Suc (length m) else length m)"
  by (induction m) (auto simp: dm_defs split: if_splits)

definition dm_bytes :: "('k, bytes) dashmap \<Rightarrow> nat" where
  "dm_bytes m = sum_list (map (\<lambda>e. length (snd e)) m)"

lemma dm_bytes_insert:
  "dm_bytes (dm_insert k v m) + (case dm_get m k of Some d \<Rightarrow> length d | None \<Rightarrow> 0) = dm_bytes m + length v"
  by (induction m) (auto simp: dm_bytes_def dm_insert_def dm_get_def split: option.splits)

lemma dm_bytes_get: "dm_get m k = Some d \<Longrightarrow> length d \<le> dm_bytes m"
  by (induction m) (auto simp: dm_bytes_def dm_get_def split: if_splits)

definition buf_ok :: "wire \<Rightarrow> reassembly_buf \<Rightarrow> bool" where
  "buf_ok W b \<longleftrightarrow> dm_ok (rb_fragments b) \<and> (\<forall>s. dm_get (rb_fragments b) s \<noteq> None \<longrightarrow> s < rb_total b)
     \<and> rb_buffered_bytes b = dm_bytes (rb_fragments b) \<and> rb_buffered_bytes b \<le> w_max_payload_size W"

definition conn_ok :: "wire \<Rightarrow> connection \<Rightarrow> bool" where
  "conn_ok W cn \<longleftrightarrow> dm_ok (cn_reassembly cn) \<and> length (cn_reassembly cn) \<le> cn_max_reassembly_streams cn
     \<and> (\<forall>sid b. dm_get (cn_reassembly cn) sid = Some b \<longrightarrow> buf_ok W b)"

text \<open>The updates wrap, but what they compute is the exact number of bytes held.\<close>

lemma usize_exact:
  fixes b n r :: nat
  assumes "r \<le> b" "b < 2 ^ 63" "n < 2 ^ 63"
  shows "usize_sub (usize_add b n) r = b + n - r" "usize_add b (usize_sub n r) = b + n - r"
proof -
  have bn: "(b + n) mod 2 ^ 64 = b + n" using assms by simp
  show "usize_sub (usize_add b n) r = b + n - r"
    unfolding usize_sub_def usize_add_def bn using assms by (subst le_mod_geq) simp_all
  show "usize_add b (usize_sub n r) = b + n - r"
  proof (cases "r \<le> n")
    case True
    then have "usize_sub n r = n - r" unfolding usize_sub_def using assms by (subst le_mod_geq) simp_all
    with True assms show ?thesis by (simp add: usize_add_def)
  next
    case False
    then have "usize_sub n r = n + 2 ^ 64 - r" using assms by (simp add: usize_sub_def)
    then have "b + usize_sub n r = (b + n - r) + 2 ^ 64" using False assms by simp
    then show ?thesis using assms unfolding usize_add_def by (simp only: mod_add_self2) simp
  qed
qed

lemma buf_insert_ok:
  assumes "buf_ok W b" "s < rb_total b" "w_max_payload_size W < 2 ^ 63" "length d < 2 ^ 63"
    and "r = (case dm_get (rb_fragments b) s of Some x \<Rightarrow> length x | None \<Rightarrow> 0)"
    and "usize_sub (usize_add (rb_buffered_bytes b) (length d)) r \<le> w_max_payload_size W"
  shows "buf_ok W (b\<lparr>rb_buffered_bytes := usize_add (rb_buffered_bytes b) (usize_sub (length d) r),
    rb_fragments := dm_insert s d (rb_fragments b)\<rparr>)"
proof -
  have r: "r \<le> rb_buffered_bytes b"
    using assms(1,5) by (auto simp: buf_ok_def dm_bytes_get split: option.split)
  have b: "rb_buffered_bytes b < 2 ^ 63" using assms(1,3) by (simp add: buf_ok_def)
  note u = usize_exact [OF r b assms(4)]
  have "dm_bytes (dm_insert s d (rb_fragments b)) + r = rb_buffered_bytes b + length d"
    using dm_bytes_insert [of s d "rb_fragments b"] assms(1,5) by (simp add: buf_ok_def)
  with assms(1,2,6) u r show ?thesis by (auto simp: buf_ok_def)
qed

lemma prune_conn_ok:
  assumes "conn_ok W cn"
  shows "conn_ok W (cn\<lparr>cn_reassembly := prune_stale_reassembly now tmo (cn_reassembly cn)\<rparr>)"
proof -
  have "length (prune_stale_reassembly now tmo m) \<le> length m" for m
    by (simp add: prune_stale_reassembly_def dm_retain_def)
  with assms show ?thesis
    by (auto simp: conn_ok_def prune_stale_reassembly_def dm_get_retain split: option.splits if_splits
        intro: le_trans)
qed

lemma new_buf_ok: "buf_ok W (new_reassembly_buf now n tgt)"
  by (simp add: buf_ok_def new_reassembly_buf_def dm_ok_def dm_bytes_def dm_get_def)

lemma dm_remove_length: "length (dm_remove k m) \<le> length m"
  by (simp add: dm_remove_def AList.delete_eq)

definition frag_entry :: "nat \<Rightarrow> connection \<Rightarrow> frame \<Rightarrow> frag_header \<Rightarrow> reassembly_buf" where
  "frag_entry now cn f h = (case dm_get (cn_reassembly cn) (fh_stream_id h) of
      Some existing \<Rightarrow> existing | None \<Rightarrow> new_reassembly_buf now (fh_total h) (fr_target f))"

definition frag_stored :: "wire \<Rightarrow> nat \<Rightarrow> connection \<Rightarrow> frame \<Rightarrow> frag_header \<Rightarrow> reassembly_buf" where
  "frag_stored W now cn f h =
    (let b = frag_entry now cn f h; d = drop (w_frag_header_size W) (fr_payload f);
         r = (case dm_get (rb_fragments b) (fh_sequence h) of Some x \<Rightarrow> length x | None \<Rightarrow> 0)
     in b\<lparr>rb_buffered_bytes := usize_add (rb_buffered_bytes b) (usize_sub (length d) r),
          rb_fragments := dm_insert (fh_sequence h) d (rb_fragments b)\<rparr>)"

text \<open>A fragment that is not refused is stored in its stream's buffer.\<close>

lemma on_fragment_cases:
  obtains (refused) "on_fragment W now cn f = Drop None"
  | (kept) h where "w_parse_frag_header W (fr_payload f) = Some h" "fh_sequence h < fh_total h"
      "rb_total (frag_entry now cn f h) = fh_total h"
      "dm_get (cn_reassembly cn) (fh_stream_id h) = None \<Longrightarrow> length (cn_reassembly cn) < cn_max_reassembly_streams cn"
      "usize_sub (usize_add (rb_buffered_bytes (frag_entry now cn f h)) (length (drop (w_frag_header_size W) (fr_payload f))))
         (case dm_get (rb_fragments (frag_entry now cn f h)) (fh_sequence h) of Some x \<Rightarrow> length x | None \<Rightarrow> 0)
         \<le> w_max_payload_size W"
      "on_fragment W now cn f =
        (if rb_is_complete (frag_stored W now cn f h)
         then let cn1 = cn\<lparr>cn_reassembly := dm_remove (fh_stream_id h) (cn_reassembly cn)\<rparr>
              in Deliver (incoming_of cn1 (assembled_frame W f (frag_stored W now cn f h))) cn1
         else Buffered (cn\<lparr>cn_reassembly := dm_insert (fh_stream_id h) (frag_stored W now cn f h) (cn_reassembly cn)\<rparr>))"
proof (cases "on_fragment W now cn f = Drop None")
  case True
  then show thesis by (rule refused)
next
  case False
  then obtain h where h: "w_parse_frag_header W (fr_payload f) = Some h"
    by (cases "w_parse_frag_header W (fr_payload f)") (simp_all add: on_fragment_def)
  show thesis
    using False
    by (intro kept [OF h])
      (auto simp: on_fragment_def h Let_def frag_entry_def frag_stored_def new_reassembly_buf_def
        split: option.splits if_splits)
qed

lemma frag_stored_ok:
  assumes "conn_ok W cn" "w_max_payload_size W < 2 ^ 63" "length (fr_payload f) < 2 ^ 63"
    and "fh_sequence h < fh_total h" "rb_total (frag_entry now cn f h) = fh_total h"
    and "usize_sub (usize_add (rb_buffered_bytes (frag_entry now cn f h)) (length (drop (w_frag_header_size W) (fr_payload f))))
         (case dm_get (rb_fragments (frag_entry now cn f h)) (fh_sequence h) of Some x \<Rightarrow> length x | None \<Rightarrow> 0)
         \<le> w_max_payload_size W"
  shows "buf_ok W (frag_stored W now cn f h)"
proof -
  have "buf_ok W (frag_entry now cn f h)"
    using assms(1) by (auto simp: frag_entry_def conn_ok_def new_buf_ok split: option.split)
  from buf_insert_ok [OF this _ assms(2) _ refl assms(6)] assms(3,4,5) show ?thesis
    by (simp add: frag_stored_def Let_def)
qed

lemma on_fragment_ok:
  assumes "conn_ok W cn" "w_max_payload_size W < 2 ^ 63" "length (fr_payload f) < 2 ^ 63"
  shows "case on_fragment W now cn f of
      Drop _ \<Rightarrow> True
    | Buffered cn' \<Rightarrow> conn_ok W cn' \<and> cn_max_reassembly_streams cn' = cn_max_reassembly_streams cn
    | Deliver msg cn' \<Rightarrow> conn_ok W cn' \<and> cn_max_reassembly_streams cn' = cn_max_reassembly_streams cn"
proof (cases rule: on_fragment_cases [of W now cn f])
  case (kept h)
  have ok: "buf_ok W (frag_stored W now cn f h)" by (rule frag_stored_ok [OF assms kept(2,3,5)])
  have "length (dm_insert (fh_stream_id h) b (cn_reassembly cn)) \<le> cn_max_reassembly_streams cn" for b
    using kept(4) assms(1) by (auto simp: length_dm_insert conn_ok_def)
  moreover have "length (dm_remove (fh_stream_id h) (cn_reassembly cn)) \<le> cn_max_reassembly_streams cn"
    using dm_remove_length [of "fh_stream_id h" "cn_reassembly cn"] assms(1) by (simp add: conn_ok_def)
  ultimately show ?thesis using assms(1) ok by (auto simp: kept(6) conn_ok_def Let_def)
qed simp

lemma on_frame_ok:
  assumes "conn_ok W cn" "w_max_payload_size W < 2 ^ 63" "length (fr_payload f) < 2 ^ 63"
  shows "case on_frame W now key cn f of
      Drop _ \<Rightarrow> True
    | Buffered cn' \<Rightarrow> conn_ok W cn' \<and> cn_max_reassembly_streams cn' = cn_max_reassembly_streams cn
    | Deliver msg cn' \<Rightarrow> conn_ok W cn' \<and> cn_max_reassembly_streams cn' = cn_max_reassembly_streams cn"
  using on_fragment_ok [OF prune_conn_ok [OF assms(1), of now "cn_fragment_timeout cn"] assms(2,3), of now]
    prune_conn_ok [OF assms(1), of now "cn_fragment_timeout cn"]
  by (simp add: on_frame_def Let_def split: conn_step.splits)

text \<open>The connection after a sequence of frames, as long as none of them ends it.\<close>

fun conn_feed :: "wire \<Rightarrow> connection \<Rightarrow> (nat \<times> bytes option \<times> frame) list \<Rightarrow> connection option" where
  "conn_feed W cn [] = Some cn"
| "conn_feed W cn ((now, key, f) # fs) = (case on_frame W now key cn f of
      Drop _ \<Rightarrow> None
    | Buffered cn' \<Rightarrow> conn_feed W cn' fs
    | Deliver _ cn' \<Rightarrow> conn_feed W cn' fs)"

lemma conn_feed_ok:
  assumes "conn_ok W cn" "w_max_payload_size W < 2 ^ 63" "\<forall>(now, key, f)\<in>set fs. length (fr_payload f) < 2 ^ 63"
    and "conn_feed W cn fs = Some cn'"
  shows "conn_ok W cn' \<and> cn_max_reassembly_streams cn' = cn_max_reassembly_streams cn"
  using assms(1,3,4)
proof (induction fs arbitrary: cn)
  case (Cons x fs)
  obtain now key f where x: "x = (now, key, f)" by (cases x)
  from Cons.prems(2) have "length (fr_payload f) < 2 ^ 63" by (simp add: x)
  from on_frame_ok [OF Cons.prems(1) assms(2) this, of now key] Cons show ?case
    by (auto simp: x split: conn_step.splits)
qed simp

definition held_bytes :: "connection \<Rightarrow> nat" where
  "held_bytes cn = sum_list (map (\<lambda>e. dm_bytes (rb_fragments (snd e))) (cn_reassembly cn))"

lemma conn_ok_held:
  assumes "conn_ok W cn"
  shows "held_bytes cn \<le> cn_max_reassembly_streams cn * w_max_payload_size W"
proof -
  have dm: "dm_ok (cn_reassembly cn)" and len: "length (cn_reassembly cn) \<le> cn_max_reassembly_streams cn"
    using assms by (simp_all add: conn_ok_def)
  have "dm_bytes (rb_fragments (snd e)) \<le> w_max_payload_size W" if "e \<in> set (cn_reassembly cn)" for e
  proof -
    have "dm_get (cn_reassembly cn) (fst e) = Some (snd e)" using that dm_mem_iff [OF dm, of "fst e" "snd e"] by simp
    with assms have "buf_ok W (snd e)" unfolding conn_ok_def by blast
    then show ?thesis by (simp add: buf_ok_def)
  qed
  then have "held_bytes cn \<le> sum_list (map (\<lambda>e. w_max_payload_size W) (cn_reassembly cn))"
    unfolding held_bytes_def by (rule sum_list_mono)
  also have "\<dots> = length (cn_reassembly cn) * w_max_payload_size W" by (simp add: sum_list_triv)
  also have "\<dots> \<le> cn_max_reassembly_streams cn * w_max_payload_size W" using len by simp
  finally show ?thesis .
qed


section \<open>Reassembly\<close>

text \<open>\<open>chunk_buf\<close>: the buffer holds exactly the chunks numbered in \<open>js\<close>; \<open>holds_chunks\<close>: it is
  the buffer of stream \<open>sid\<close>, or there is none yet and room for one.\<close>

declare dm_nil [simp]

definition chunk_buf :: "bytes list \<Rightarrow> nat \<Rightarrow> bytes \<Rightarrow> nat list \<Rightarrow> reassembly_buf \<Rightarrow> bool" where
  "chunk_buf cs t0 tgt js b \<longleftrightarrow> rb_total b = length cs \<and> rb_target b = tgt \<and> rb_first_seen b = t0
     \<and> dm_ok (rb_fragments b) \<and> length (rb_fragments b) = length js
     \<and> (\<forall>i. dm_get (rb_fragments b) i = (if i \<in> set js then Some (cs ! i) else None))
     \<and> rb_buffered_bytes b = sum_list (map (\<lambda>j. length (cs ! j)) js)"

definition holds_chunks :: "bytes list \<Rightarrow> nat \<Rightarrow> nat \<Rightarrow> bytes \<Rightarrow> nat list \<Rightarrow> connection \<Rightarrow> bool" where
  "holds_chunks cs sid t0 tgt js cn \<longleftrightarrow> dm_ok (cn_reassembly cn) \<and> (case dm_get (cn_reassembly cn) sid of
      None \<Rightarrow> js = [] \<and> length (cn_reassembly cn) < cn_max_reassembly_streams cn
    | Some b \<Rightarrow> js \<noteq> [] \<and> chunk_buf cs t0 tgt js b)"

lemma holds_prune:
  assumes "holds_chunks cs sid t0 tgt js cn" "0 < tmo" "now < t0 + tmo"
  shows "holds_chunks cs sid t0 tgt js (cn\<lparr>cn_reassembly := prune_stale_reassembly now tmo (cn_reassembly cn)\<rparr>)"
proof -
  have "length (prune_stale_reassembly now tmo m) \<le> length m" for m
    by (simp add: prune_stale_reassembly_def dm_retain_def)
  moreover have "\<not> tmo \<le> now - t0" using assms(2,3) by simp
  ultimately show ?thesis using assms(1)
    by (auto simp: holds_chunks_def chunk_buf_def prune_stale_reassembly_def dm_get_retain split: option.splits
        intro: le_less_trans)
qed

text \<open>A frame that carries chunk \<open>j\<close> of the stream.\<close>

definition carries :: "wire \<Rightarrow> bytes list \<Rightarrow> nat \<Rightarrow> bytes \<Rightarrow> nat \<Rightarrow> frame \<Rightarrow> bool" where
  "carries W cs sid tgt j f \<longleftrightarrow> has_flag (fr_flags f) FLAG_FRAGMENTED \<and> fr_target f = tgt
     \<and> (\<exists>h. w_parse_frag_header W (fr_payload f) = Some h \<and> fh_sequence h = j \<and> fh_total h = length cs
          \<and> fh_stream_id h = sid) \<and> drop (w_frag_header_size W) (fr_payload f) = cs ! j"

lemma sum_chunks_le:
  assumes "distinct js" "set js \<subseteq> {..<length cs}"
  shows "sum_list (map (\<lambda>j. length (cs ! j)) js) \<le> length (concat cs)"
proof -
  have "sum_list (map (\<lambda>j. length (cs ! j)) js) = (\<Sum>j\<in>set js. length (cs ! j))"
    by (rule sum_list_distinct_conv_sum_set [OF assms(1)])
  also have "\<dots> \<le> (\<Sum>j<length cs. length (cs ! j))" by (rule sum_mono2) (use assms in auto)
  also have "\<dots> = sum_list (map length cs)" by (simp add: sum_list_sum_nth atLeast0LessThan)
  finally show ?thesis by (simp add: length_concat)
qed

lemma reassemble_all:
  assumes "dm_ok m" "\<And>i. dm_get m i = (if i < length cs then Some (cs ! i) else None)"
  shows "reassemble (b\<lparr>rb_fragments := m\<rparr>) = concat cs"
proof -
  have "set (dm_keys m) = {..<length cs}" using assms(2) by (auto simp: dm_keys_iff split: if_splits)
  moreover have "distinct (dm_keys m)" using assms(1) by (simp add: dm_ok_def dm_keys_def)
  ultimately have "sort (dm_keys m) = [0..<length cs]"
    by (intro sorted_distinct_set_unique) (auto simp: atLeast0LessThan)
  then have "reassemble (b\<lparr>rb_fragments := m\<rparr>) = concat (map (\<lambda>s. cs ! s) [0..<length cs])"
    unfolding reassemble_def using assms(2) by (auto intro!: arg_cong [of _ _ concat] map_cong)
  then show ?thesis by (simp add: map_nth)
qed

lemma chunk_buf_insert:
  assumes "chunk_buf cs t0 tgt js b" "distinct (j # js)" "set (j # js) \<subseteq> {..<length cs}"
    and "length (concat cs) < 2 ^ 63"
  shows "chunk_buf cs t0 tgt (j # js) (b\<lparr>rb_buffered_bytes := usize_add (rb_buffered_bytes b) (usize_sub (length (cs ! j)) 0),
      rb_fragments := dm_insert j (cs ! j) (rb_fragments b)\<rparr>)"
    and "usize_sub (usize_add (rb_buffered_bytes b) (length (cs ! j))) 0 \<le> length (concat cs)"
proof -
  have "rb_buffered_bytes b + length (cs ! j) \<le> length (concat cs)"
    using sum_chunks_le [OF assms(2,3)] assms(1) by (simp add: chunk_buf_def)
  with usize_exact [of 0 "rb_buffered_bytes b" "length (cs ! j)"] assms(4)
  have u: "usize_sub (usize_add (rb_buffered_bytes b) (length (cs ! j))) 0 = rb_buffered_bytes b + length (cs ! j)"
      "usize_add (rb_buffered_bytes b) (usize_sub (length (cs ! j)) 0) = rb_buffered_bytes b + length (cs ! j)"
      "rb_buffered_bytes b + length (cs ! j) \<le> length (concat cs)"
    by simp_all
  then show "usize_sub (usize_add (rb_buffered_bytes b) (length (cs ! j))) 0 \<le> length (concat cs)" by simp
  show "chunk_buf cs t0 tgt (j # js) (b\<lparr>rb_buffered_bytes := usize_add (rb_buffered_bytes b) (usize_sub (length (cs ! j)) 0),
      rb_fragments := dm_insert j (cs ! j) (rb_fragments b)\<rparr>)"
    using assms(1,2) u(2) by (auto simp: chunk_buf_def length_dm_insert)
qed

lemma assembled_chunks:
  assumes "chunk_buf cs t0 tgt js b" "set js = {..<length cs}"
  shows "assembled_frame W f b = \<lparr>fr_magic = fr_magic f, fr_flags = clear_flag (fr_flags f) FLAG_FRAGMENTED,
     fr_length = of_nat (length (concat cs)), fr_target = tgt, fr_crc32 = w_crc32 W (concat cs),
     fr_payload = concat cs, fr_mac = None\<rparr>"
proof -
  have "reassemble (b\<lparr>rb_fragments := rb_fragments b\<rparr>) = concat cs"
    by (rule reassemble_all) (use assms in \<open>auto simp: chunk_buf_def\<close>)
  then have "reassemble b = concat cs" by simp
  with assms(1) show ?thesis by (simp add: assembled_frame_def chunk_buf_def Let_def)
qed

text \<open>One more chunk: stored while the set is incomplete, delivered when it is complete.\<close>

lemma chunk_step:
  assumes "holds_chunks cs sid t0 tgt js cn" "js = [] \<longrightarrow> now = t0" "carries W cs sid tgt j f"
    and "distinct (j # js)" "set (j # js) \<subseteq> {..<length cs}"
    and "length (concat cs) \<le> w_max_payload_size W" "w_max_payload_size W < 2 ^ 63"
  obtains (complete) cn' where "Suc (length js) = length cs"
      "on_fragment W now cn f = Deliver (incoming_of cn \<lparr>fr_magic = fr_magic f,
        fr_flags = clear_flag (fr_flags f) FLAG_FRAGMENTED, fr_length = of_nat (length (concat cs)), fr_target = tgt,
        fr_crc32 = w_crc32 W (concat cs), fr_payload = concat cs, fr_mac = None\<rparr>) cn'"
    | (more) cn' where "Suc (length js) < length cs" "on_fragment W now cn f = Buffered cn'"
      "holds_chunks cs sid t0 tgt (j # js) cn'" "cn_fragment_timeout cn' = cn_fragment_timeout cn"
      "incoming_of cn' = incoming_of cn"
proof -
  obtain h where h: "w_parse_frag_header W (fr_payload f) = Some h" "fh_sequence h = j" "fh_total h = length cs"
      "fh_stream_id h = sid" and d: "drop (w_frag_header_size W) (fr_payload f) = cs ! j" and tg: "fr_target f = tgt"
    using assms(3) by (auto simp: carries_def)
  define b where "b = (case dm_get (cn_reassembly cn) sid of Some x \<Rightarrow> x | None \<Rightarrow> new_reassembly_buf now (length cs) tgt)"
  have b: "chunk_buf cs t0 tgt js b"
    using assms(1,2) by (auto simp: b_def holds_chunks_def chunk_buf_def new_reassembly_buf_def split: option.splits)
  define b1 where "b1 = b\<lparr>rb_buffered_bytes := usize_add (rb_buffered_bytes b) (usize_sub (length (cs ! j)) 0),
      rb_fragments := dm_insert j (cs ! j) (rb_fragments b)\<rparr>"
  have b1: "chunk_buf cs t0 tgt (j # js) b1" and fits: "usize_sub (usize_add (rb_buffered_bytes b) (length (cs ! j))) 0 \<le> w_max_payload_size W"
    using chunk_buf_insert [OF b assms(4,5)] assms(6,7) by (auto simp: b1_def)
  have j: "j < length cs" "cs \<noteq> []" "dm_get (rb_fragments b) j = None" "rb_total b = length cs"
    using assms(4,5) b by (auto simp: chunk_buf_def)
  have gate: "\<not> (case dm_get (cn_reassembly cn) sid of Some x \<Rightarrow> rb_total x \<noteq> length cs
      | None \<Rightarrow> cn_max_reassembly_streams cn \<le> length (cn_reassembly cn))"
    using assms(1) by (auto simp: holds_chunks_def chunk_buf_def split: option.splits)
  have step: "on_fragment W now cn f = (if Suc (length js) = length cs
      then Deliver (incoming_of cn (assembled_frame W f b1)) (cn\<lparr>cn_reassembly := dm_remove sid (cn_reassembly cn)\<rparr>)
      else Buffered (cn\<lparr>cn_reassembly := dm_insert sid b1 (cn_reassembly cn)\<rparr>))"
    using gate fits j b1
    unfolding on_fragment_def h(1) option.case Let_def d tg h(2-4) b_def [symmetric]
    by (simp add: rb_is_complete_def chunk_buf_def b1_def incoming_of_def)
  have card: "card (set (j # js)) = Suc (length js)" using distinct_card [OF assms(4)] by simp
  then have "Suc (length js) \<le> length cs" using card_mono [OF finite_lessThan assms(5)] by simp
  moreover have "set (j # js) = {..<length cs}" if "Suc (length js) = length cs"
    using card_subset_eq [OF finite_lessThan assms(5)] card that by simp
  moreover have "holds_chunks cs sid t0 tgt (j # js) (cn\<lparr>cn_reassembly := dm_insert sid b1 (cn_reassembly cn)\<rparr>)"
    using assms(1) b1 by (simp add: holds_chunks_def)
  ultimately show thesis
  proof (cases "Suc (length js) = length cs")
    case True
    with step assembled_chunks [OF b1] \<open>Suc (length js) = length cs \<Longrightarrow> set (j # js) = {..<length cs}\<close>
    show thesis by (intro complete) simp_all
  next
    case False
    with step \<open>Suc (length js) \<le> length cs\<close> \<open>holds_chunks cs sid t0 tgt (j # js) _\<close> show thesis
      by (intro more [of "cn\<lparr>cn_reassembly := dm_insert sid b1 (cn_reassembly cn)\<rparr>"])
        (simp_all add: incoming_of_def fun_eq_iff)
  qed
qed

lemma on_frame_fragment:
  assumes "has_flag (fr_flags f) FLAG_FRAGMENTED" "case key of Some k \<Rightarrow> frame_tag_valid W k f | None \<Rightarrow> True"
  shows "on_frame W now key cn f = on_fragment W now
    (cn\<lparr>cn_reassembly := prune_stale_reassembly now (cn_fragment_timeout cn) (cn_reassembly cn)\<rparr>) f"
  using assms by (simp add: on_frame_def split: option.splits)

lemma chunks_run:
  assumes "holds_chunks cs sid t0 tgt ds cn" "ds = [] \<Longrightarrow> tm (hd rs) = t0" "rs \<noteq> []"
    and "distinct (rs @ ds)" "set (rs @ ds) = {..<length cs}"
    and "\<forall>j\<in>set rs. carries W cs sid tgt j (fr j) \<and> (case key of Some k \<Rightarrow> frame_tag_valid W k (fr j) | None \<Rightarrow> True)
           \<and> tm j < t0 + cn_fragment_timeout cn"
    and "0 < cn_fragment_timeout cn" "length (concat cs) \<le> w_max_payload_size W" "w_max_payload_size W < 2 ^ 63"
    and "ro (length (cl_delivered l))"
  shows "conn_run W ro cn l (map (\<lambda>j. ReadFrame (tm j) key (fr j)) rs) =
    l\<lparr>cl_delivered := cl_delivered l @ [incoming_of cn \<lparr>fr_magic = fr_magic (fr (last rs)),
        fr_flags = clear_flag (fr_flags (fr (last rs))) FLAG_FRAGMENTED, fr_length = of_nat (length (concat cs)), fr_target = tgt,
        fr_crc32 = w_crc32 W (concat cs), fr_payload = concat cs, fr_mac = None\<rparr>]\<rparr>"
  using assms(1-7)
proof (induction rs arbitrary: ds cn)
  case (Cons j rs)
  let ?cn = "cn\<lparr>cn_reassembly := prune_stale_reassembly (tm j) (cn_fragment_timeout cn) (cn_reassembly cn)\<rparr>"
  have j: "carries W cs sid tgt j (fr j)" "case key of Some k \<Rightarrow> frame_tag_valid W k (fr j) | None \<Rightarrow> True"
    "tm j < t0 + cn_fragment_timeout cn" using Cons.prems(6) by simp_all
  have frag: "on_frame W (tm j) key cn (fr j) = on_fragment W (tm j) ?cn (fr j)"
    by (rule on_frame_fragment) (use j in \<open>simp_all add: carries_def\<close>)
  have d: "distinct (j # ds)" "set (j # ds) \<subseteq> {..<length cs}" using Cons.prems(4,5) by auto
  have total: "length rs + Suc (length ds) = length cs"
    using distinct_card [OF Cons.prems(4)] unfolding Cons.prems(5) by simp
  have same: "incoming_of ?cn = incoming_of cn" by (simp add: incoming_of_def fun_eq_iff)
  have first: "ds = [] \<longrightarrow> tm j = t0" using Cons.prems(2) by simp
  show ?case
  proof (cases rule: chunk_step [OF holds_prune [OF Cons.prems(1,7) j(3)] first j(1) d assms(8,9), case_names complete more])
    case (complete cn')
    with total have "rs = []" by simp
    with complete frag same assms(10) show ?thesis by simp
  next
    case (more cn')
    with total have ne: "rs \<noteq> []" by auto
    have "conn_run W ro cn' l (map (\<lambda>j. ReadFrame (tm j) key (fr j)) rs) =
      l\<lparr>cl_delivered := cl_delivered l @ [incoming_of cn' \<lparr>fr_magic = fr_magic (fr (last rs)),
        fr_flags = clear_flag (fr_flags (fr (last rs))) FLAG_FRAGMENTED, fr_length = of_nat (length (concat cs)), fr_target = tgt,
        fr_crc32 = w_crc32 W (concat cs), fr_payload = concat cs, fr_mac = None\<rparr>]\<rparr>"
      using more(4) Cons.prems ne by (intro Cons.IH [OF more(3)]) auto
    with frag more same ne show ?thesis by simp
  qed
qed simp

text \<open>
  \<^bold>\<open>C26.\<close> Reassembly undoes fragmentation. If the chunks of a payload of at most the maximum
  size arrive as the fragments of one stream, in any order, each once, before the stream times
  out and with valid tags where the connection is secured, then the router receives exactly one
  message, from this connection, whose payload is the chunks in sequence order, with matching
  length, checksum and target and without the fragment flag.
\<close>

theorem fragments_any_order:
  assumes "cs \<noteq> []" "distinct js" "set js = {..<length cs}"
    and "\<forall>j\<in>set js. carries W cs sid tgt j (fr j) \<and> (case key of Some k \<Rightarrow> frame_tag_valid W k (fr j) | None \<Rightarrow> True)
           \<and> tm j < tm (hd js) + cn_fragment_timeout cn"
    and "dm_ok (cn_reassembly cn)" "dm_get (cn_reassembly cn) sid = None"
    and "length (cn_reassembly cn) < cn_max_reassembly_streams cn" "0 < cn_fragment_timeout cn"
    and "length (concat cs) \<le> w_max_payload_size W" "w_max_payload_size W < 2 ^ 63" "ro (length (cl_delivered l))"
  shows "\<exists>magic flags. conn_run W ro cn l (map (\<lambda>j. ReadFrame (tm j) key (fr j)) js) =
    l\<lparr>cl_delivered := cl_delivered l @ [incoming_of cn \<lparr>fr_magic = magic, fr_flags = flags,
        fr_length = of_nat (length (concat cs)), fr_target = tgt, fr_crc32 = w_crc32 W (concat cs),
        fr_payload = concat cs, fr_mac = None\<rparr>]\<rparr> \<and> \<not> has_flag flags FLAG_FRAGMENTED"
proof -
  have "0 \<in> set js" unfolding assms(3) using assms(1) by simp
  then have ne: "js \<noteq> []" by force
  have hold: "holds_chunks cs sid (tm (hd js)) tgt [] cn" using assms(5,6,7) by (simp add: holds_chunks_def)
  have "distinct (js @ [])" "set (js @ []) = {..<length cs}" using assms(2,3) by simp_all
  note run = chunks_run [of cs sid "tm (hd js)" tgt "[]" cn tm js W fr key ro l, OF hold refl ne this assms(4,8-11)]
  show ?thesis
    by (rule exI [of _ "fr_magic (fr (last js))"], rule exI [of _ "clear_flag (fr_flags (fr (last js))) FLAG_FRAGMENTED"],
        rule conjI, rule run, rule has_flag_clear)
qed

section \<open>Tags\<close>

text \<open>
  \<^bold>\<open>C27.\<close> Nothing gets past a bad tag. On a secured connection the first frame whose tag is
  missing or does not verify ends the connection: the peer is told which of the two it was, and
  neither that frame nor anything that follows it reaches the router.
\<close>

theorem bad_tag_ends_connection:
  assumes "\<not> frame_tag_valid W k f" "cl_open l"
  shows "conn_run W ro cn l (pre @ ReadFrame now (Some k) f # post) =
    (let r = conn_run W ro cn l pre
     in if cl_open r
        then r\<lparr>cl_queued := cl_queued r @ conn_send_error W (if tag_present f then ErrMacInvalid else ErrMacMissing),
               cl_open := False\<rparr>
        else r)"
  using assms(2)
proof (induction pre arbitrary: cn l)
  case Nil
  with assms(1) show ?case by (simp add: on_frame_def)
next
  case (Cons ev pre)
  show ?case
  proof (cases ev)
    case (ReadFrame now' key' f')
    with Cons show ?thesis
      by (cases "on_frame W now' key' cn f'") (auto simp: Let_def split: option.split)
  qed (simp add: Let_def)
qed

definition sample_frag_wire :: wire where
  "sample_frag_wire = sample_wire\<lparr>w_parse_frag_header := (\<lambda>p. case p of
       s # t # _ \<Rightarrow> Some \<lparr>fh_fragment_id = 0, fh_sequence = byte_val s, fh_total = byte_val t, fh_stream_id = 9\<rparr>
     | _ \<Rightarrow> None), w_frag_header_size := 2, w_max_payload_size := 100\<rparr>"

definition sample_fragment :: "nat \<Rightarrow> frame" where
  "sample_fragment j = \<lparr>fr_magic = FRAME_MAGIC, fr_flags = FLAG_FRAGMENTED, fr_length = 4, fr_target = ''b'', fr_crc32 = 0,
     fr_payload = [char_of j, CHR 0x02] @ ([''ab'', ''cd''] ! j), fr_mac = None\<rparr>"


lemma sample_carries:
  "j < 2 \<Longrightarrow> carries sample_frag_wire [''ab'', ''cd''] 9 ''b'' j (sample_fragment j)"
  by (auto simp: carries_def sample_fragment_def sample_frag_wire_def byte_val_def has_flag_def FLAG_FRAGMENTED_def
      less_2_cases_iff)

theorem fragments_any_order_witness:
  "\<exists>magic flags. conn_run sample_frag_wire (\<lambda>_. True) (connection_new 3 30 3 50 4) empty_log
      (map (\<lambda>j. ReadFrame (10 - j) None (sample_fragment j)) [1, 0]) =
    empty_log\<lparr>cl_delivered := [incoming_of (connection_new 3 30 3 50 4) \<lparr>fr_magic = magic, fr_flags = flags,
        fr_length = 4, fr_target = ''b'', fr_crc32 = w_crc32 sample_frag_wire ''abcd'', fr_payload = ''abcd'', fr_mac = None\<rparr>]\<rparr>
    \<and> \<not> has_flag flags FLAG_FRAGMENTED"
proof -
  let ?cn = "connection_new 3 30 3 50 4"
  have all: "\<forall>j\<in>set [1, 0]. carries sample_frag_wire [''ab'', ''cd''] 9 ''b'' j (sample_fragment j)
      \<and> (case (None :: bytes option) of Some k \<Rightarrow> frame_tag_valid sample_frag_wire k (sample_fragment j) | None \<Rightarrow> True)
      \<and> 10 - j < 10 - hd [1, 0] + cn_fragment_timeout ?cn"
    by (auto simp: sample_carries connection_new_def)
  have cn: "dm_ok (cn_reassembly ?cn)" "dm_get (cn_reassembly ?cn) 9 = None"
    "length (cn_reassembly ?cn) < cn_max_reassembly_streams ?cn" "0 < cn_fragment_timeout ?cn"
    by (simp_all add: connection_new_def)
  have w: "length (concat [''ab'', ''cd'']) \<le> w_max_payload_size sample_frag_wire" "w_max_payload_size sample_frag_wire < 2 ^ 63"
    by (simp_all add: sample_frag_wire_def)
  have js: "[''ab'', ''cd''] \<noteq> []" "distinct [1, 0 :: nat]" "set [1, 0 :: nat] = {..<length [''ab'', ''cd'']}" by auto
  have c: "concat [''ab'', ''cd''] = ''abcd''" "of_nat (length ''abcd'') = (4 :: u32)" "cl_delivered empty_log @ x = x" for x
    by (simp_all add: empty_log_def)
  from fragments_any_order [OF js all cn w, of "\<lambda>_. True" empty_log] show ?thesis unfolding c by blast
qed

theorem bad_tag_ends_connection_witness:
  "cl_delivered (conn_run sample_wire (\<lambda>_. True) (connection_new 3 30 3 50 4) empty_log
      [ReadFrame 1 (Some ''k'') (build_frame sample_wire ''b'' 0 ''x''), ReadFrame 2 None (build_frame sample_wire ''b'' 0 ''y'')]) = []"
proof -
  let ?f = "build_frame sample_wire ''b'' 0 ''x''"
  have "\<not> frame_tag_valid sample_wire ''k'' ?f" by (simp add: frame_tag_valid_def tag_present_def build_frame_def)
  from bad_tag_ends_connection [OF this, of empty_log "\<lambda>_. True" "connection_new 3 30 3 50 4" "[]" 1
      "[ReadFrame 2 None (build_frame sample_wire ''b'' 0 ''y'')]"]
  show ?thesis by (simp add: empty_log_def)
qed

section \<open>The write loop\<close>

text \<open>What the wire crate documents of its tags: a computed tag verifies, and the header does
  not cover the tag.\<close>

definition tags_verify :: "wire \<Rightarrow> bool" where
  "tags_verify W \<longleftrightarrow> (\<forall>k h p. w_verify_tag W k h p (w_compute_tag W k h p))
     \<and> (\<forall>f m. w_serialize_header W (f\<lparr>fr_mac := m\<rparr>) = w_serialize_header W f)"

lemma tag_frame_valid: "tags_verify W \<Longrightarrow> frame_tag_valid W k (tag_frame W k f)"
  by (simp add: frame_tag_valid_def tag_present_def tag_frame_def tags_verify_def Let_def)

definition sent :: "(frame \<Rightarrow> write_result) \<Rightarrow> frame list \<Rightarrow> frame list" where
  "sent wr fs = filter (\<lambda>f. wr f = Written) fs"

lemma write_frames:
  assumes "wr_running w" "\<And>f. wr f \<noteq> WriteFailed"
  shows "write_loop W wr (map OutFrame fs) w = w\<lparr>wr_socket := wr_socket w
    @ sent wr (map (\<lambda>f. case wr_key w of Some k \<Rightarrow> tag_frame W k f | None \<Rightarrow> f) fs)\<rparr>"
  using assms(1)
proof (induction fs arbitrary: w)
  case (Cons f fs)
  then show ?case
    using assms(2) [of "case wr_key w of Some k \<Rightarrow> tag_frame W k f | None \<Rightarrow> f"]
    by (cases "wr (case wr_key w of Some k \<Rightarrow> tag_frame W k f | None \<Rightarrow> f)")
      (simp_all add: write_loop_def write_step_def Let_def sent_def)
qed (simp add: write_loop_def sent_def)

text \<open>
  \<^bold>\<open>C28.\<close> Outbound tagging is exact. What the router queued before the order to enable the MAC is
  on the socket, in order and untouched, before the connection's key cell is armed; everything
  queued behind it is written in order with the MAC flag and a tag that a peer holding that key
  accepts, payload and target unchanged; only frames the wire layer refuses as oversized are
  missing. (As long as the socket does not fail.)
\<close>

theorem tagging_exact:
  assumes "wr_running w" "wr_key w = None" "\<And>f. wr f \<noteq> WriteFailed" "tags_verify W"
  shows "wr_cells (write_loop W wr (map OutFrame fs) w) = wr_cells w
    \<and> wr_socket (write_loop W wr (map OutFrame fs) w) = wr_socket w @ sent wr fs
    \<and> wr_cells (write_loop W wr (map OutFrame fs @ EnableMac k cell # map OutFrame gs) w) = (wr_cells w)(cell := Some k)
    \<and> wr_socket (write_loop W wr (map OutFrame fs @ EnableMac k cell # map OutFrame gs) w) =
        wr_socket w @ sent wr fs @ sent wr (map (tag_frame W k) gs)
    \<and> list_all (\<lambda>g. frame_tag_valid W k (tag_frame W k g) \<and> fr_payload (tag_frame W k g) = fr_payload g
         \<and> fr_target (tag_frame W k g) = fr_target g) gs"
proof -
  let ?w1 = "w\<lparr>wr_socket := wr_socket w @ sent wr fs\<rparr>"
  have first: "write_loop W wr (map OutFrame fs) w = ?w1"
    using write_frames [where fs = fs and W = W, OF assms(1,3)] assms(2) by simp
  have "write_loop W wr (map OutFrame fs @ EnableMac k cell # map OutFrame gs) w =
      write_loop W wr (map OutFrame gs) (write_step W wr (EnableMac k cell) (write_loop W wr (map OutFrame fs) w))"
    by (simp add: write_loop_def)
  also have "write_step W wr (EnableMac k cell) (write_loop W wr (map OutFrame fs) w) =
      ?w1\<lparr>wr_key := Some k, wr_cells := (wr_cells w)(cell := Some k)\<rparr>"
    using assms(1) by (simp add: first write_step_def)
  finally have "write_loop W wr (map OutFrame fs @ EnableMac k cell # map OutFrame gs) w =
      ?w1\<lparr>wr_key := Some k, wr_cells := (wr_cells w)(cell := Some k),
          wr_socket := wr_socket w @ sent wr fs @ sent wr (map (tag_frame W k) gs)\<rparr>"
    using write_frames [where w = "?w1\<lparr>wr_key := Some k, wr_cells := (wr_cells w)(cell := Some k)\<rparr>" and W = W
      and fs = gs and wr = wr, OF _ assms(3)] assms(1) by simp
  moreover have "list_all (\<lambda>g. frame_tag_valid W k (tag_frame W k g) \<and> fr_payload (tag_frame W k g) = fr_payload g
         \<and> fr_target (tag_frame W k g) = fr_target g) gs"
    using tag_frame_valid [OF assms(4)] by (simp add: list_all_iff tag_frame_def Let_def)
  ultimately show ?thesis by (simp add: first)
qed

lemma sample_tags_verify: "tags_verify sample_wire"
  by (simp add: tags_verify_def)

theorem tagging_exact_witness:
  "let w = write_loop sample_wire (\<lambda>_. Written) [OutFrame (build_frame sample_wire ''client'' 0 ''ack''), EnableMac ''k'' 3,
         OutFrame (build_frame sample_wire ''client'' 0 ''x'')] \<lparr>wr_key = None, wr_cells = (\<lambda>_. None), wr_socket = [], wr_running = True\<rparr>
   in wr_socket w = [build_frame sample_wire ''client'' 0 ''ack'', tag_frame sample_wire ''k'' (build_frame sample_wire ''client'' 0 ''x'')]
    \<and> wr_cells w 3 = Some ''k''"
  using tagging_exact [of "\<lparr>wr_key = None, wr_cells = (\<lambda>_. None), wr_socket = [], wr_running = True\<rparr>" "\<lambda>_. Written" sample_wire
      "[build_frame sample_wire ''client'' 0 ''ack'']" "''k''" 3 "[build_frame sample_wire ''client'' 0 ''x'']"] sample_tags_verify
  by (simp add: sent_def Let_def)

end
