(* ===== verification/Gateway.thy ===== *)
theory Gateway
  imports Connection_Props Lifecycle
begin

text \<open>
  The WebSocket gateway, \<^verbatim>\<open>src/api/websocket.rs\<close>: admission of an upgrade request, the slots of
  open connections, and the loop that serves one socket. The socket's messages, the items of its
  write channel and the passing of its registration deadline are the inputs of the loop; bytes are
  parsed by \<^verbatim>\<open>parse_frame\<close> as everywhere else.
\<close>

section \<open>Frames as bytes\<close>

definition be_u16 :: "u16 \<Rightarrow> bytes" where
  "be_u16 w = [char_of (unat w div 256), char_of (unat w mod 256)]"

definition be_u32 :: "u32 \<Rightarrow> bytes" where
  "be_u32 w = [char_of (unat w div 16777216), char_of (unat w div 65536 mod 256),
     char_of (unat w div 256 mod 256), char_of (unat w mod 256)]"

definition frame_to_bytes :: "frame \<Rightarrow> bytes" where
  "frame_to_bytes f = be_u16 (fr_magic f) @ be_u16 (fr_flags f) @ be_u32 (fr_length f) @ fr_target f
     @ be_u32 (fr_crc32 f) @ fr_payload f @ (case fr_mac f of Some tag \<Rightarrow> tag | None \<Rightarrow> [])"

section \<open>Admission\<close>

definition WS_CONN_ID_BASE :: nat where "WS_CONN_ID_BASE = 1000000000"
definition MAX_WS_PARSE_ERRORS :: nat where "MAX_WS_PARSE_ERRORS = 16"

text \<open>The first entry of the subprotocol header that is not \<^verbatim>\<open>vynkor\<close>.\<close>

definition extract_ws_token :: "string option \<Rightarrow> string" where
  "extract_ws_token header = (case header of
      None \<Rightarrow> []
    | Some s \<Rightarrow> (case find (\<lambda>p. p \<noteq> ''vynkor'') (map trim (split_on CHR '','' s)) of Some p \<Rightarrow> p | None \<Rightarrow> []))"

record ws_auth =
  wa_jwt_lib :: jwt_lib
  wa_dev_lib :: dev_lib
  wa_jwt_validator :: "jwt_validator option"
  wa_device_store :: "device_store option"

text \<open>The subject a request is admitted for, none when there is no validator; or refusal.\<close>

definition ws_authorise :: "ws_auth \<Rightarrow> nat \<Rightarrow> string option \<Rightarrow> disk \<Rightarrow> nat + string option" where
  "ws_authorise G now header dk = (case wa_jwt_validator G of
      None \<Rightarrow> Inr None
    | Some v \<Rightarrow> (case validate (wa_jwt_lib G) now v (extract_ws_token header) of
          Inl _ \<Rightarrow> Inl 401
        | Inr claims \<Rightarrow> (case wa_device_store G of
              None \<Rightarrow> Inr (Some (cl_sub claims))
            | Some d \<Rightarrow> (case active_secret (wa_dev_lib G) d now (cl_sub claims) dk of
                  Inl _ \<Rightarrow> Inl 401
                | Inr _ \<Rightarrow> Inr (Some (cl_sub claims))))))"

text \<open>The two counters of the gateway, and what its handlers hold: the connections admitted, and the
  number of handlers that took a slot past the cap and have not given it back.\<close>

record ws_slots =
  gw_conn_counter :: nat
  gw_open_conns :: nat
  gw_live :: "nat list"
  gw_backing_out :: nat

definition ws_slots_new :: ws_slots where
  "ws_slots_new = \<lparr>gw_conn_counter = 0, gw_open_conns = 0, gw_live = [], gw_backing_out = 0\<rparr>"

definition ws_reserve :: "nat \<Rightarrow> ws_slots \<Rightarrow> nat option \<times> ws_slots" where
  "ws_reserve max_connections g =
    (let g1 = g\<lparr>gw_open_conns := gw_open_conns g + 1\<rparr>
     in if gw_open_conns g \<ge> max_connections then (None, g1\<lparr>gw_backing_out := gw_backing_out g + 1\<rparr>)
        else let conn_id = gw_conn_counter g + WS_CONN_ID_BASE
             in (Some conn_id, g1\<lparr>gw_conn_counter := gw_conn_counter g + 1, gw_live := gw_live g @ [conn_id]\<rparr>))"

definition ws_back_out :: "ws_slots \<Rightarrow> ws_slots" where
  "ws_back_out g = (if gw_backing_out g = 0 then g
     else g\<lparr>gw_open_conns := gw_open_conns g - 1, gw_backing_out := gw_backing_out g - 1\<rparr>)"

definition ws_finished :: "nat \<Rightarrow> ws_slots \<Rightarrow> ws_slots" where
  "ws_finished conn_id g = (if conn_id \<notin> set (gw_live g) then g
     else g\<lparr>gw_open_conns := gw_open_conns g - 1, gw_live := removeAll conn_id (gw_live g)\<rparr>)"

text \<open>One upgrade request handled without interference: a status or the id and the registration
  timeout of the new connection.\<close>

definition ws_handler ::
  "ws_auth \<Rightarrow> nat \<Rightarrow> nat \<Rightarrow> nat \<Rightarrow> string option \<Rightarrow> disk \<Rightarrow> ws_slots \<Rightarrow> (nat + nat \<times> nat) \<times> ws_slots" where
  "ws_handler G max_connections register_timeout now header dk g = (case ws_authorise G now header dk of
      Inl status \<Rightarrow> (Inl status, g)
    | Inr _ \<Rightarrow> (case ws_reserve max_connections g of
          (None, g1) \<Rightarrow> (Inl 503, ws_back_out g1)
        | (Some conn_id, g1) \<Rightarrow>
            (Inr (conn_id, if wa_jwt_validator G \<noteq> None then register_timeout else 0), g1)))"

text \<open>The atomic steps of concurrent handlers and sockets.\<close>

datatype slot_event = SlotReserve | SlotBackOut | SlotFinished nat

fun slot_step :: "nat \<Rightarrow> slot_event \<Rightarrow> ws_slots \<Rightarrow> ws_slots" where
  "slot_step n SlotReserve g = snd (ws_reserve n g)"
| "slot_step n SlotBackOut g = ws_back_out g"
| "slot_step n (SlotFinished c) g = ws_finished c g"

section \<open>Serving a socket\<close>

datatype ws_message = WsBinary bytes | WsClose | WsOther | WsEnd | WsError string

text \<open>An event of the loop: a message received, with whether the router still takes messages; an item of
  the write channel, with whether the socket takes it; the closing of that channel; the deadline.\<close>

datatype ws_event =
    WsReceive ws_message bool
  | WsItem outbound bool
  | WsChannelClosed
  | WsDeadline

record ws_conn =
  wc_conn_id :: nat
  wc_write_tx :: chan
  wc_session_key :: nat
  wc_deadline :: bool
  wc_cells :: "nat \<Rightarrow> bytes option"
  wc_parse_errors :: nat
  wc_outbound_key :: "bytes option"
  wc_registered :: bool
  wc_delivered :: "incoming list"
  wc_sent :: "bytes list"
  wc_open :: bool

definition ws_conn_new :: "nat \<Rightarrow> chan \<Rightarrow> nat \<Rightarrow> nat \<Rightarrow> ws_conn" where
  "ws_conn_new conn_id write_tx cell register_timeout =
     \<lparr>wc_conn_id = conn_id, wc_write_tx = write_tx, wc_session_key = cell, wc_deadline = (register_timeout > 0),
      wc_cells = (\<lambda>_. None), wc_parse_errors = 0, wc_outbound_key = None, wc_registered = False,
      wc_delivered = [], wc_sent = [], wc_open = True\<rparr>"

definition ws_key :: "ws_conn \<Rightarrow> bytes option" where
  "ws_key c = wc_cells c (wc_session_key c)"

definition ws_incoming :: "ws_conn \<Rightarrow> frame \<Rightarrow> incoming" where
  "ws_incoming c f = \<lparr>im_conn_id = wc_conn_id c, im_frame = f, im_write_tx = wc_write_tx c,
     im_session_key = wc_session_key c\<rparr>"

definition ws_frame_valid :: "wire \<Rightarrow> bytes \<Rightarrow> frame \<Rightarrow> bool" where
  "ws_frame_valid W k f \<longleftrightarrow> has_flag (fr_flags f) FLAG_MAC_PRESENT \<and> (case fr_mac f of
      Some tag \<Rightarrow> w_verify_tag W k (w_serialize_header W f) (fr_payload f) tag | None \<Rightarrow> False)"

definition ws_binary :: "wire \<Rightarrow> bytes \<Rightarrow> bool \<Rightarrow> ws_conn \<Rightarrow> ws_conn" where
  "ws_binary W data router_open c = (case parse_frame W data of
      Inr f \<Rightarrow>
        if (case ws_key c of Some k \<Rightarrow> \<not> ws_frame_valid W k f | None \<Rightarrow> False) then c\<lparr>wc_open := False\<rparr>
        else if router_open then c\<lparr>wc_delivered := wc_delivered c @ [ws_incoming c f]\<rparr>
        else c\<lparr>wc_open := False\<rparr>
    | Inl _ \<Rightarrow>
        let n = wc_parse_errors c + 1
        in c\<lparr>wc_parse_errors := n, wc_open := (n < MAX_WS_PARSE_ERRORS)\<rparr>)"

definition ws_receive :: "wire \<Rightarrow> ws_message \<Rightarrow> bool \<Rightarrow> ws_conn \<Rightarrow> ws_conn" where
  "ws_receive W msg router_open c = (case msg of
      WsBinary data \<Rightarrow> ws_binary W data router_open c
    | WsOther \<Rightarrow> c
    | _ \<Rightarrow> c\<lparr>wc_open := False\<rparr>)"

definition ws_item :: "wire \<Rightarrow> outbound \<Rightarrow> bool \<Rightarrow> ws_conn \<Rightarrow> ws_conn" where
  "ws_item W item sent_ok c = (case item of
      OutFrame f \<Rightarrow>
        let f1 = (case wc_outbound_key c of Some k \<Rightarrow> tag_frame W k f | None \<Rightarrow> f)
        in if sent_ok then c\<lparr>wc_sent := wc_sent c @ [frame_to_bytes f1]\<rparr> else c\<lparr>wc_open := False\<rparr>
    | EnableMac k cell \<Rightarrow>
        c\<lparr>wc_registered := True, wc_outbound_key := Some k, wc_cells := (wc_cells c)(cell := Some k)\<rparr>)"

definition ws_step :: "wire \<Rightarrow> ws_event \<Rightarrow> ws_conn \<Rightarrow> ws_conn" where
  "ws_step W ev c = (if \<not> wc_open c then c else case ev of
      WsReceive msg router_open \<Rightarrow> ws_receive W msg router_open c
    | WsItem item sent_ok \<Rightarrow> ws_item W item sent_ok c
    | WsChannelClosed \<Rightarrow> c\<lparr>wc_open := False\<rparr>
    | WsDeadline \<Rightarrow> if wc_deadline c \<and> \<not> wc_registered c then c\<lparr>wc_open := False\<rparr> else c)"

text \<open>\<^verbatim>\<open>handle_socket\<close>: the loop, and the notice of the disconnection once it has ended.\<close>

definition handle_socket :: "wire \<Rightarrow> ws_event list \<Rightarrow> ws_conn \<Rightarrow> ws_conn \<times> nat option" where
  "handle_socket W evs c =
    (let c1 = fold (ws_step W) evs c in (c1, if wc_open c1 then None else Some (wc_conn_id c1)))"

section \<open>Slots\<close>

definition slots_ok :: "nat \<Rightarrow> ws_slots \<Rightarrow> bool" where
  "slots_ok n g \<longleftrightarrow> gw_open_conns g = length (gw_live g) + gw_backing_out g \<and> length (gw_live g) \<le> n
     \<and> distinct (gw_live g) \<and> list_all (\<lambda>c. WS_CONN_ID_BASE \<le> c \<and> c < WS_CONN_ID_BASE + gw_conn_counter g) (gw_live g)"

lemma slot_step_ok: "slots_ok n g \<Longrightarrow> slots_ok n (slot_step n ev g)"
proof (cases ev)
  case SlotReserve
  assume "slots_ok n g"
  then show ?thesis using SlotReserve by (auto simp: slots_ok_def ws_reserve_def Let_def list_all_iff)
next
  case SlotBackOut
  assume "slots_ok n g"
  then show ?thesis using SlotBackOut by (auto simp: slots_ok_def ws_back_out_def)
next
  case (SlotFinished c)
  assume ok: "slots_ok n g"
  show ?thesis
  proof (cases "c \<in> set (gw_live g)")
    case True
    with ok have "length (removeAll c (gw_live g)) = length (gw_live g) - 1"
      by (simp add: slots_ok_def distinct_remove1_removeAll [symmetric] length_remove1)
    moreover have "length (gw_live g) + gw_backing_out g - 1 = length (gw_live g) - 1 + gw_backing_out g"
      using True by (cases "gw_live g") auto
    ultimately show ?thesis using ok SlotFinished True
      by (auto simp: slots_ok_def ws_finished_def list_all_iff distinct_removeAll)
  qed (use ok SlotFinished in \<open>simp add: ws_finished_def\<close>)
qed

interpretation slots: step_system ws_slots_new "slot_step n" "slots_ok n" for n
  by unfold_locales (simp add: slots_ok_def ws_slots_new_def, rule slot_step_ok)


section \<open>The loop\<close>

lemma ws_frame_valid_eq: "ws_frame_valid W k f = frame_tag_valid W k f"
  by (cases "fr_mac f") (simp_all add: ws_frame_valid_def frame_tag_valid_def tag_present_def)

lemmas ws_binary_alt = ws_binary_def [unfolded ws_frame_valid_eq]

text \<open>A socket's parse-error budget.\<close>

definition ws_ok :: "ws_conn \<Rightarrow> bool" where
  "ws_ok c \<longleftrightarrow> wc_parse_errors c \<le> MAX_WS_PARSE_ERRORS \<and> (wc_open c \<longrightarrow> wc_parse_errors c < MAX_WS_PARSE_ERRORS)
     \<and> (wc_registered c \<longleftrightarrow> wc_outbound_key c \<noteq> None)"

lemma ws_step_ok: "ws_ok c \<Longrightarrow> ws_ok (ws_step W ev c)"
  by (auto simp: ws_ok_def ws_step_def ws_receive_def ws_binary_def ws_item_def Let_def
      split: ws_event.splits ws_message.splits outbound.splits sum.splits option.splits)

interpretation ws: step_system "ws_conn_new i tx cell t" "ws_step W" ws_ok for i tx cell t W
  by unfold_locales (simp add: ws_ok_def ws_conn_new_def MAX_WS_PARSE_ERRORS_def, rule ws_step_ok)

lemma ws_parse_budget: "wc_parse_errors (fold (ws_step W) evs (ws_conn_new i tx cell t)) \<le> MAX_WS_PARSE_ERRORS"
  using ws.inv_reach [of W evs i tx cell t] by (simp add: ws_ok_def)

text \<open>What a socket connection would have read: each binary message as a frame, with the key its cell
  holds at that moment.\<close>

fun socket_view :: "wire \<Rightarrow> ws_conn \<Rightarrow> ws_event list \<Rightarrow> read_event list" where
  "socket_view W c [] = []"
| "socket_view W c (ev # evs) =
    (case ev of
       WsReceive (WsBinary b) _ \<Rightarrow> (case parse_frame W b of Inr f \<Rightarrow> [ReadFrame 0 (ws_key c) f] | Inl e \<Rightarrow> [ReadError e])
     | _ \<Rightarrow> []) @ socket_view W (ws_step W ev c) evs"

text \<open>Events in which nothing fails outside the peer's frames: they parse, and both ends are open.\<close>

fun plain_event :: "wire \<Rightarrow> ws_event \<Rightarrow> bool" where
  "plain_event W (WsReceive (WsBinary b) router_open) = (router_open \<and> is_ok (parse_frame W b))"
| "plain_event W (WsReceive m _) = (m = WsOther)"
| "plain_event W (WsItem _ sent_ok) = sent_ok"
| "plain_event W _ = False"

lemma parse_frame_whole: "parse_frame W b = Inr f \<Longrightarrow> \<not> has_flag (fr_flags f) FLAG_FRAGMENTED"
  by (auto simp: parse_frame_def split: sum.splits if_splits)

lemma ws_step_closed: "\<not> wc_open c \<Longrightarrow> fold (ws_step W) evs c = c"
  by (induction evs) (simp_all add: ws_step_def)

lemma ws_step_fields:
  "wc_conn_id (ws_step W ev c) = wc_conn_id c" "wc_write_tx (ws_step W ev c) = wc_write_tx c"
  "wc_session_key (ws_step W ev c) = wc_session_key c"
  by (auto simp: ws_step_def ws_receive_def ws_binary_def ws_item_def Let_def
      split: ws_event.splits ws_message.splits outbound.splits sum.splits option.splits)

text \<open>
  \<^bold>\<open>C37.\<close> The gateway authenticates exactly as the socket does. Take a socket in any state and any sequence
  of messages, write items and key armings in which the peer's frames parse: what the gateway hands to
  the router, in order, and whether the connection is still open are what a socket connection
  with the same identity produces when it reads those frames while its key cell has the same contents.
\<close>

theorem gateway_agrees_with_socket:
  assumes "list_all (plain_event W) evs" "wc_open c" "cl_open l" "cl_delivered l = wc_delivered c"
    and "cn_conn_id cn = wc_conn_id c" "cn_write_tx cn = wc_write_tx c" "cn_session_key cn = wc_session_key c"
    and "cn_reassembly cn = []"
  shows "let c' = fold (ws_step W) evs c; l' = conn_run W (\<lambda>_. True) cn l (socket_view W c evs)
    in cl_delivered l' = wc_delivered c' \<and> cl_open l' = wc_open c'"
  using assms
proof (induction evs arbitrary: c l)
  case (Cons ev evs)
  note ih = Cons.IH [of "ws_step W ev c"]
  show ?case
  proof (cases "\<exists>b ro. ev = WsReceive (WsBinary b) ro")
    case True
    then obtain b ro where ev: "ev = WsReceive (WsBinary b) ro" by blast
    with Cons.prems(1) obtain f where f: "parse_frame W b = Inr f" and ro: "ro" by (auto simp: is_ok_iff)
    have on: "on_frame W 0 key cn f = (if (case key of Some k \<Rightarrow> \<not> frame_tag_valid W k f | None \<Rightarrow> False)
        then Drop (Some (if tag_present f then ErrMacInvalid else ErrMacMissing)) else Deliver (incoming_of cn f) cn)" for key
      using Cons.prems(8) parse_frame_whole [OF f] by (cases cn) (simp add: on_frame_def prune_stale_reassembly_def dm_retain_def incoming_of_def)
    have inc: "incoming_of cn f = ws_incoming c f" using Cons.prems(5-7) by (simp add: incoming_of_def ws_incoming_def)
    show ?thesis
    proof (cases "case ws_key c of Some k \<Rightarrow> \<not> frame_tag_valid W k f | None \<Rightarrow> False")
      case True
      then have "ws_step W ev c = c\<lparr>wc_open := False\<rparr>"
        using ev f Cons.prems(2) by (simp add: ws_step_def ws_receive_def ws_binary_alt)
      then show ?thesis using ev f on True Cons.prems(3,4) by (simp add: ws_step_closed Let_def)
    next
      case False
      then have st: "ws_step W ev c = c\<lparr>wc_delivered := wc_delivered c @ [ws_incoming c f]\<rparr>"
        using ev f ro Cons.prems(2) by (simp add: ws_step_def ws_receive_def ws_binary_alt)
      then show ?thesis
        using ih [of "l\<lparr>cl_delivered := cl_delivered l @ [ws_incoming c f]\<rparr>"] ev f on False inc Cons.prems by (simp add: Let_def)
    qed
  next
    case False
    with Cons.prems(1,2) have "wc_open (ws_step W ev c)" "wc_delivered (ws_step W ev c) = wc_delivered c"
      and v: "socket_view W c (ev # evs) = socket_view W (ws_step W ev c) evs"
      by (cases "(W, ev)" rule: plain_event.cases;
          auto simp: ws_step_def ws_receive_def ws_item_def Let_def split: outbound.splits)+
    then show ?thesis using ih [of l] Cons.prems by (simp add: ws_step_fields v del: socket_view.simps)
  qed
qed simp

end
