(* ===== verification/Bridge.thy ===== *)
theory Bridge
  imports Gateway
begin

text \<open>
  The client role, \<^verbatim>\<open>src/bridge/mod.rs\<close> and \<^verbatim>\<open>src/utils/url.rs\<close>: one WebSocket connection to a host
  kernel, on which this kernel registers as a device and relays frames both ways. The URL parser,
  the connection and the socket's sends are the websocket crate's: parameters. The messages the host
  sends are an input. What other tasks do to the kernel while the connection is up is an
  arbitrary function.
\<close>

section \<open>URLs\<close>

definition DEFAULT_WS_PATH :: string where "DEFAULT_WS_PATH = ''/ws''"

definition ws_scheme_for :: "string \<Rightarrow> string option" where
  "ws_scheme_for scheme = (if scheme = ''http'' then Some ''ws'' else if scheme = ''https'' then Some ''wss'' else None)"

text \<open>\<^verbatim>\<open>str::split_once\<close> with a string.\<close>

fun split_once_str :: "string \<Rightarrow> string \<Rightarrow> (string \<times> string) option" where
  "split_once_str sep [] = (if sep = [] then Some ([], []) else None)"
| "split_once_str sep (c # cs) = (if starts_with (c # cs) sep then Some ([], drop (length sep) (c # cs))
     else map_option (\<lambda>(a, b). (c # a, b)) (split_once_str sep cs))"

datatype bridge_error =
    BrConnect string
  | BrRegister string
  | BrWire vynkor_error
  | BrMac
  | BrDisconnected
  | BrShutdown

fun bridge_error_str :: "bridge_error \<Rightarrow> string" where
  "bridge_error_str (BrConnect e) = ''connect: '' @ e"
| "bridge_error_str (BrRegister e) = ''registration rejected: '' @ e"
| "bridge_error_str (BrWire e) = ''wire: '' @ display_error e"
| "bridge_error_str BrMac = ''frame MAC verification failed''"
| "bridge_error_str BrDisconnected = ''disconnected''"
| "bridge_error_str BrShutdown = ''shutdown''"

definition resolve_ws_url :: "string \<Rightarrow> bridge_error + string" where
  "resolve_ws_url host_url =
    (let bad = BrWire (Internal ''host_url must start with ws://, wss://, http://, or https://'')
     in if starts_with host_url ''ws://'' \<or> starts_with host_url ''wss://'' then Inr host_url
        else case split_once_str ''://'' host_url of
            None \<Rightarrow> Inl bad
          | Some (scheme, rest) \<Rightarrow> (case ws_scheme_for scheme of
                None \<Rightarrow> Inl bad
              | Some ws_scheme \<Rightarrow>
                  (case split_once rest CHR ''/'' of
                     Some (h, p) \<Rightarrow> Inr (ws_scheme @ ''://'' @ h @ ''/'' @ p)
                   | None \<Rightarrow> Inr (ws_scheme @ ''://'' @ rest @ DEFAULT_WS_PATH))))"

section \<open>The handle\<close>

definition register_conn :: "chan \<Rightarrow> kernel \<Rightarrow> kernel" where
  "register_conn tx k = k\<lparr>k_bridge_conns := k_bridge_conns k @ [tx]\<rparr>"

definition unregister_conn :: "chan \<Rightarrow> kernel \<Rightarrow> kernel" where
  "unregister_conn tx k = k\<lparr>k_bridge_conns := filter (\<lambda>c. c \<noteq> tx) (k_bridge_conns k)\<rparr>"

definition bridge_is_connected :: "kernel \<Rightarrow> bool" where
  "bridge_is_connected k \<longleftrightarrow> k_bridge_conns k \<noteq> []"

section \<open>Registration\<close>

definition BRIDGE_CONN_ID_BASE :: nat where "BRIDGE_CONN_ID_BASE = 2000000000"
definition BRIDGE_MAX_BACKOFF :: nat where "BRIDGE_MAX_BACKOFF = 30"

record bridge =
  br_config :: bridge_config
  br_device_id :: string

text \<open>The websocket crate: whether it takes the URL and the header value, connects, and sends.\<close>

record bridge_net =
  bn_request :: "string \<Rightarrow> string option"
  bn_header :: "string \<Rightarrow> string option"
  bn_connect :: "string \<Rightarrow> string \<Rightarrow> string option"
  bn_send :: "bytes \<Rightarrow> string option"

definition bridge_token :: "bridge \<Rightarrow> string" where
  "bridge_token b = (case bc_token (br_config b) of Some t \<Rightarrow> t | None \<Rightarrow> [])"

definition bridge_protocol :: "bridge \<Rightarrow> string" where
  "bridge_protocol b = (if bridge_token b = [] then ''vynkor'' else ''vynkor, '' @ bridge_token b)"

definition bridge_register_env :: "bridge \<Rightarrow> envelope" where
  "bridge_register_env b = envelope_of [] (PPluginRegister
     \<lparr>rg_plugin_id = br_device_id b, rg_version = ''1.0.0'',
      rg_manifest = Some (default_manifest\<lparr>mf_permissions := [''PERMISSION_IPC_SEND'', ''PERMISSION_EVENT_PUBLISH'']\<rparr>),
      rg_jwt_token = bridge_token b, rg_device_id = br_device_id b, rg_user_id = [], rg_os = Code OsUnspecified,
      rg_arch = [], rg_os_version = [], rg_capabilities = bc_mirror (br_config b), rg_protocol_version = []\<rparr>)"

fun next_binary :: "ws_message list \<Rightarrow> (bridge_error + bytes) \<times> ws_message list" where
  "next_binary [] = (Inl BrDisconnected, [])"
| "next_binary (WsBinary b # ms) = (Inr b, ms)"
| "next_binary (WsClose # ms) = (Inl BrDisconnected, ms)"
| "next_binary (WsEnd # ms) = (Inl BrDisconnected, ms)"
| "next_binary (WsOther # ms) = next_binary ms"
| "next_binary (WsError e # ms) = (Inl (BrConnect e), ms)"

lemma next_binary_less: "next_binary ms = (Inr b, ms') \<Longrightarrow> length ms' < length ms"
  by (induction ms rule: next_binary.induct) auto

text \<open>What one frame means before the acknowledgement: the session key, an error, or nothing.\<close>

definition session_key_of :: "wire \<Rightarrow> bridge \<Rightarrow> register_ack \<Rightarrow> bytes option" where
  "session_key_of W b ack = (case bc_secret (br_config b) of
      Some secret \<Rightarrow> if ra_session_nonce ack \<noteq> []
        then Some (w_derive_session_key W secret (ra_session_nonce ack) (br_device_id b)) else None
    | None \<Rightarrow> None)"

definition on_ack_frame :: "wire \<Rightarrow> bridge \<Rightarrow> bytes \<Rightarrow> (bridge_error + bytes option) option" where
  "on_ack_frame W b bs = (case parse_frame W bs of
      Inl e \<Rightarrow> Some (Inl (BrWire e))
    | Inr f \<Rightarrow> (case w_decode W (fr_payload f) of
          None \<Rightarrow> Some (Inl (BrWire (Internal ''decode register ack'')))
        | Some env \<Rightarrow> (case en_payload env of
              Some (PPluginRegisterAck ack) \<Rightarrow>
                Some (if \<not> ra_accepted ack then Inl (BrRegister (ra_reject_reason ack)) else Inr (session_key_of W b ack))
            | Some (PError _ message details) \<Rightarrow> Some (Inl (BrRegister (message @ '': '' @ details)))
            | _ \<Rightarrow> None)))"

function await_ack :: "wire \<Rightarrow> bridge \<Rightarrow> ws_message list \<Rightarrow> bridge_error + bytes option \<times> ws_message list" where
  "await_ack W b ms = (case next_binary ms of
      (Inl e, _) \<Rightarrow> Inl e
    | (Inr bs, ms1) \<Rightarrow> (case on_ack_frame W b bs of
          Some (Inl e) \<Rightarrow> Inl e
        | Some (Inr key) \<Rightarrow> Inr (key, ms1)
        | None \<Rightarrow> await_ack W b ms1))"
  by pat_completeness auto
termination
  by (relation "measure (\<lambda>(_, _, ms). length ms)") (auto dest: next_binary_less sym)

declare await_ack.simps [simp del]

section \<open>Relaying\<close>

text \<open>Towards the host: the local kernel's peers address it as \<^verbatim>\<open>client\<close>, the host as \<^verbatim>\<open>kernel\<close>.\<close>

definition bridge_out_frame :: "wire \<Rightarrow> bytes option \<Rightarrow> frame \<Rightarrow> frame" where
  "bridge_out_frame W key f =
    (let f1 = (if w_target_as_str W (fr_target f) = Some ''client'' then f\<lparr>fr_target := target_bytes ''kernel''\<rparr> else f)
     in case key of Some k \<Rightarrow> tag_frame W k f1 | None \<Rightarrow> f1)"

fun bridge_write_loop :: "wire \<Rightarrow> bytes option \<Rightarrow> (bytes \<Rightarrow> string option) \<Rightarrow> outbound list \<Rightarrow> bytes list" where
  "bridge_write_loop W key send [] = []"
| "bridge_write_loop W key send (EnableMac _ _ # items) = bridge_write_loop W key send items"
| "bridge_write_loop W key send (OutFrame f # items) =
    (let bs = frame_to_bytes (bridge_out_frame W key f)
     in if send bs = None then bs # bridge_write_loop W key send items else [])"

definition strip_device_prefix :: "wire \<Rightarrow> frame \<Rightarrow> string \<Rightarrow> string" where
  "strip_device_prefix W f device_id =
    (case Option.bind (w_target_as_str W (fr_target f)) (\<lambda>t. strip_prefix t (device_id @ ''.'')) of
       Some s \<Rightarrow> s | None \<Rightarrow> ''kernel'')"

fun kernel_payload :: "payload \<Rightarrow> bool" where
  "kernel_payload (PActionRequest _) = True"
| "kernel_payload (PActionRequestChunk _ _ _ _) = True"
| "kernel_payload (PActionResponse _) = True"
| "kernel_payload (PActionResponseChunk _ _ _) = True"
| "kernel_payload (PSessionClose _ _) = True"
| "kernel_payload (PActionStreamAbort _ _) = True"
| "kernel_payload (PPing _) = True"
| "kernel_payload (PPong _ _) = True"
| "kernel_payload (PError _ _ _) = True"
| "kernel_payload (PEventPublishAck _ _ _) = True"
| "kernel_payload (PKernelCommandAck _ _ _ _) = True"
| "kernel_payload (PEventAck _) = True"
| "kernel_payload (PPluginRegisterAck _) = True"
| "kernel_payload _ = False"

definition is_kernel_routed :: "wire \<Rightarrow> frame \<Rightarrow> bool" where
  "is_kernel_routed W f = (case Option.bind (w_decode W (fr_payload f)) en_payload of
      Some p \<Rightarrow> kernel_payload p | None \<Rightarrow> False)"

definition bridge_in_frame :: "wire \<Rightarrow> string \<Rightarrow> frame \<Rightarrow> frame" where
  "bridge_in_frame W device_id f =
    (let f1 = strip_mac f
     in f1\<lparr>fr_target := target_bytes (if is_kernel_routed W f1 then ''kernel'' else strip_device_prefix W f1 device_id)\<rparr>)"

text \<open>Towards the local router: the messages it got, and why the loop ended. \<open>router_open n\<close> says
  whether the router takes the \<open>n\<close>-th of them.\<close>

fun bridge_read_loop ::
  "wire \<Rightarrow> string \<Rightarrow> bytes option \<Rightarrow> (nat \<Rightarrow> bool) \<Rightarrow> nat \<Rightarrow> ws_message list \<Rightarrow> frame list \<times> bridge_error" where
  "bridge_read_loop W device_id key router_open n [] = ([], BrDisconnected)"
| "bridge_read_loop W device_id key router_open n (WsBinary bs # ms) = (case parse_frame W bs of
      Inl e \<Rightarrow> ([], BrWire e)
    | Inr f \<Rightarrow>
        if (case key of Some k \<Rightarrow> \<not> frame_tag_valid W k f | None \<Rightarrow> False) then ([], BrMac)
        else if \<not> router_open n then ([], BrShutdown)
        else (case bridge_read_loop W device_id key router_open (n + 1) ms of
            (fs, e) \<Rightarrow> (bridge_in_frame W device_id f # fs, e)))"
| "bridge_read_loop W device_id key router_open n (WsClose # ms) = ([], BrDisconnected)"
| "bridge_read_loop W device_id key router_open n (WsEnd # ms) = ([], BrDisconnected)"
| "bridge_read_loop W device_id key router_open n (WsOther # ms) = bridge_read_loop W device_id key router_open n ms"
| "bridge_read_loop W device_id key router_open n (WsError e # ms) = ([], BrConnect e)"

definition bridge_incoming :: "chan \<Rightarrow> nat \<Rightarrow> frame \<Rightarrow> incoming" where
  "bridge_incoming host_tx cell f = \<lparr>im_conn_id = BRIDGE_CONN_ID_BASE, im_frame = f, im_write_tx = host_tx,
     im_session_key = cell\<rparr>"

section \<open>One connection\<close>

definition bridge_meta :: "bridge \<Rightarrow> device_meta" where
  "bridge_meta b = \<lparr>dmt_device_id = br_device_id b, dmt_user_id = ''default'', dmt_os = OsUnspecified, dmt_arch = [],
     dmt_os_version = [], dmt_capabilities = bc_mirror (br_config b)\<rparr>"

definition bridge_manifest :: "bridge \<Rightarrow> plugin_manifest" where
  "bridge_manifest b = default_manifest\<lparr>mf_ipc_targets := bc_mirror (br_config b), mf_permissions := [''PERMISSION_IPC_SEND'']\<rparr>"

text \<open>Up to the acknowledgement: the key and the messages still to be read.\<close>

definition bridge_connect ::
  "wire \<Rightarrow> bridge_net \<Rightarrow> bridge \<Rightarrow> string \<Rightarrow> ws_message list \<Rightarrow> bridge_error + bytes option \<times> ws_message list" where
  "bridge_connect W N b url ms = (case bn_request N url of
      Some e \<Rightarrow> Inl (BrConnect e)
    | None \<Rightarrow> (case bn_header N (bridge_protocol b) of
          Some e \<Rightarrow> Inl (BrConnect e)
        | None \<Rightarrow> (case bn_connect N url (bridge_protocol b) of
              Some e \<Rightarrow> Inl (BrConnect e)
            | None \<Rightarrow> (case w_encode W (bridge_register_env b) of
                  None \<Rightarrow> Inl (BrWire (Internal ''encode register''))
                | Some p \<Rightarrow> (case bn_send N (frame_to_bytes (build_frame W ''kernel'' 0 p)) of
                      Some e \<Rightarrow> Inl (BrConnect e)
                    | None \<Rightarrow> await_ack W b ms)))))"

definition bridge_up :: "clock \<Rightarrow> bridge \<Rightarrow> chan \<Rightarrow> kernel \<Rightarrow> (bridge_error + unit) \<times> kernel" where
  "bridge_up clk b host_tx k =
    (case register_with_device clk (br_device_id b) BRIDGE_CONN_ID_BASE (bridge_manifest b) host_tx (bridge_meta b) (k_reg k) of
       (Inl e, _) \<Rightarrow> (Inl (BrRegister (display_error e)), k)
     | (Inr _, r) \<Rightarrow> (Inr (), register_conn host_tx (k\<lparr>k_reg := r\<rparr>)))"

definition bridge_down :: "bridge \<Rightarrow> chan \<Rightarrow> kernel \<Rightarrow> kernel" where
  "bridge_down b host_tx k = unregister_conn host_tx (k\<lparr>k_reg := unregister (br_device_id b) (k_reg k)\<rparr>)"

text \<open>The error the connection ended with, the messages handed to the router, and the kernel; the
  function \<open>others\<close> is what other tasks did to the kernel while the connection was up.\<close>

definition run_conn ::
  "wire \<Rightarrow> bridge_net \<Rightarrow> clock \<Rightarrow> bridge \<Rightarrow> string \<Rightarrow> ws_message list \<Rightarrow> chan \<Rightarrow> nat \<Rightarrow> (nat \<Rightarrow> bool)
   \<Rightarrow> (kernel \<Rightarrow> kernel) \<Rightarrow> kernel \<Rightarrow> bridge_error \<times> incoming list \<times> kernel" where
  "run_conn W N clk b url ms host_tx cell router_open others k = (case bridge_connect W N b url ms of
      Inl e \<Rightarrow> (e, [], k)
    | Inr (key, ms1) \<Rightarrow> (case bridge_up clk b host_tx k of
          (Inl e, k1) \<Rightarrow> (e, [], k1)
        | (Inr _, k1) \<Rightarrow> (case bridge_read_loop W (br_device_id b) key router_open 0 ms1 of
              (fs, e) \<Rightarrow> (e, map (bridge_incoming host_tx cell) fs, bridge_down b host_tx (others k1)))))"

definition one_cycle ::
  "wire \<Rightarrow> bridge_net \<Rightarrow> clock \<Rightarrow> bridge \<Rightarrow> ws_message list \<Rightarrow> chan \<Rightarrow> nat \<Rightarrow> (nat \<Rightarrow> bool)
   \<Rightarrow> (kernel \<Rightarrow> kernel) \<Rightarrow> kernel \<Rightarrow> bridge_error \<times> incoming list \<times> kernel" where
  "one_cycle W N clk b ms host_tx cell router_open others k = (case resolve_ws_url (bc_host_url (br_config b)) of
      Inl e \<Rightarrow> (e, [], k)
    | Inr url \<Rightarrow> run_conn W N clk b url ms host_tx cell router_open others k)"

text \<open>\<^verbatim>\<open>Bridge::run\<close>: the seconds slept after each cycle, given how the cycles ended.\<close>

fun bridge_run :: "nat \<Rightarrow> bridge_error list \<Rightarrow> nat list" where
  "bridge_run backoff [] = []"
| "bridge_run backoff (e # es) =
    (if e = BrShutdown then [] else backoff # bridge_run (min (backoff * 2) BRIDGE_MAX_BACKOFF) es)"

section \<open>The link to the host\<close>

text \<open>A frame as the wire format has it, and what \<^verbatim>\<open>read_frame\<close> of the wire crate documents for one: it
  reads back the frame that was laid out.\<close>

definition frame_wf :: "wire \<Rightarrow> frame \<Rightarrow> bool" where
  "frame_wf W f \<longleftrightarrow> fr_magic f = FRAME_MAGIC \<and> length (fr_target f) = 32 \<and> unat (fr_length f) = length (fr_payload f)
     \<and> fr_crc32 f = w_crc32 W (fr_payload f) \<and> \<not> has_flag (fr_flags f) FLAG_COMPRESSED
     \<and> (has_flag (fr_flags f) FLAG_MAC_PRESENT \<longleftrightarrow> fr_mac f \<noteq> None) \<and> (\<forall>t. fr_mac f = Some t \<longrightarrow> length t = 32)"

definition reads_back :: "wire \<Rightarrow> bool" where
  "reads_back W \<longleftrightarrow> (\<forall>f. frame_wf W f \<longrightarrow> w_read_frame W (frame_to_bytes f) = Inr f)"

definition tags_32 :: "wire \<Rightarrow> bool" where
  "tags_32 W \<longleftrightarrow> (\<forall>k h p. length (w_compute_tag W k h p) = 32)"

text \<open>A frame the kernel queues: whole and not yet tagged.\<close>

definition plain_frame :: "wire \<Rightarrow> frame \<Rightarrow> bool" where
  "plain_frame W f \<longleftrightarrow> frame_wf W f \<and> fr_mac f = None \<and> \<not> has_flag (fr_flags f) FLAG_FRAGMENTED"

lemma has_flag_set_other: "f AND g = 0 \<Longrightarrow> has_flag (set_flag x f) g = has_flag x g"
  by (simp add: has_flag_def set_flag_def bit.conj_disj_distrib2)

lemma clear_set_flag: "clear_flag (set_flag x f) f = clear_flag x f"
  by (simp add: clear_flag_def set_flag_def bit.conj_disj_distrib2)

lemma flags_disjoint: "FLAG_MAC_PRESENT AND FLAG_FRAGMENTED = 0" "FLAG_MAC_PRESENT AND FLAG_COMPRESSED = 0"
  by code_simp+

lemma plain_tagged:
  assumes "plain_frame W f" "tags_32 W"
  shows "frame_wf W (tag_frame W k f) \<and> \<not> has_flag (fr_flags (tag_frame W k f)) FLAG_FRAGMENTED"
  using assms by (simp add: plain_frame_def frame_wf_def tag_frame_def tags_32_def Let_def has_flag_set_other flags_disjoint
      flag_nonzero)

lemma plain_retarget: "plain_frame W f \<Longrightarrow> plain_frame W (f\<lparr>fr_target := target_bytes t\<rparr>)"
  by (simp add: plain_frame_def frame_wf_def)

lemma parse_tagged:
  assumes "plain_frame W f" "tags_32 W" "reads_back W"
  shows "parse_frame W (frame_to_bytes (tag_frame W k f)) = Inr (tag_frame W k f)"
  using plain_tagged [OF assms(1,2), of k] assms(3) by (simp add: reads_back_def parse_frame_def)

lemma bridge_out_tagged: "bridge_out_frame W (Some k) f = tag_frame W k
    (if w_target_as_str W (fr_target f) = Some ''client'' then f\<lparr>fr_target := target_bytes ''kernel''\<rparr> else f)"
  by (simp add: bridge_out_frame_def Let_def)

lemma bridge_in_tagged: "fr_mac f = None \<Longrightarrow> bridge_in_frame W d (tag_frame W k f) = bridge_in_frame W d f"
  by (simp add: bridge_in_frame_def strip_mac_def tag_frame_def Let_def clear_set_flag is_kernel_routed_def
      strip_device_prefix_def)

lemma up_link:
  assumes "reads_back W" "tags_verify W" "tags_32 W" "list_all (plain_frame W) fs" "wc_open c" "ws_key c = Some k"
  shows "let c' = fold (ws_step W) (map (\<lambda>bs. WsReceive (WsBinary bs) True)
      (bridge_write_loop W (Some k) (\<lambda>_. None) (map OutFrame fs))) c
    in wc_open c' \<and> wc_delivered c' = wc_delivered c @ map (\<lambda>f. ws_incoming c (bridge_out_frame W (Some k) f)) fs"
  using assms(4-6)
proof (induction fs arbitrary: c)
  case (Cons f fs)
  let ?f = "if w_target_as_str W (fr_target f) = Some ''client'' then f\<lparr>fr_target := target_bytes ''kernel''\<rparr> else f"
  have p: "plain_frame W ?f" using Cons.prems(1) plain_retarget [of W f] by simp
  have step: "ws_step W (WsReceive (WsBinary (frame_to_bytes (bridge_out_frame W (Some k) f))) True) c
      = c\<lparr>wc_delivered := wc_delivered c @ [ws_incoming c (bridge_out_frame W (Some k) f)]\<rparr>"
    using Cons.prems(2,3) parse_tagged [OF p assms(3,1), of k] tag_frame_valid [OF assms(2), of k ?f]
    by (simp add: ws_step_def ws_receive_def ws_binary_alt bridge_out_tagged)
  show ?case
    using Cons.IH [of "c\<lparr>wc_delivered := wc_delivered c @ [ws_incoming c (bridge_out_frame W (Some k) f)]\<rparr>"]
      Cons.prems step by (simp add: Let_def ws_key_def ws_incoming_def)
qed (simp add: Let_def)

lemma host_sends:
  "wc_open c \<Longrightarrow> wc_outbound_key c = Some k \<Longrightarrow>
   wc_sent (fold (ws_step W) (map (\<lambda>g. WsItem (OutFrame g) True) gs) c) = wc_sent c @ map (\<lambda>g. frame_to_bytes (tag_frame W k g)) gs"
  by (induction gs arbitrary: c) (simp_all add: ws_step_def ws_item_def Let_def)

lemma down_link:
  assumes "reads_back W" "tags_verify W" "tags_32 W" "list_all (plain_frame W) gs"
  shows "bridge_read_loop W d (Some k) (\<lambda>_. True) n (map (\<lambda>g. WsBinary (frame_to_bytes (tag_frame W k g))) gs)
    = (map (bridge_in_frame W d) gs, BrDisconnected)"
  using assms(4)
proof (induction gs arbitrary: n)
  case (Cons g gs)
  then show ?case
    using parse_tagged [OF _ assms(3,1), of g k] tag_frame_valid [OF assms(2), of k g] bridge_in_tagged [of g W d k]
    by (simp add: plain_frame_def)
qed simp


text \<open>A wire layer with an explicit reader.\<close>

definition read_be :: "bytes \<Rightarrow> nat" where
  "read_be bs = foldl (\<lambda>a c. a * 256 + byte_val c) 0 bs"

definition sample_read_frame :: "bytes \<Rightarrow> wire_error + frame" where
  "sample_read_frame bs =
    (let flags = of_nat (read_be (take 2 (drop 2 bs))); len = read_be (take 4 (drop 4 bs))
     in Inr \<lparr>fr_magic = of_nat (read_be (take 2 bs)), fr_flags = flags, fr_length = of_nat len,
             fr_target = take 32 (drop 8 bs), fr_crc32 = of_nat (read_be (take 4 (drop 40 bs))),
             fr_payload = take len (drop 44 bs),
             fr_mac = (if has_flag flags FLAG_MAC_PRESENT then Some (drop (44 + len) bs) else None)\<rparr>)"

definition sample_tag :: "bytes \<Rightarrow> bytes \<Rightarrow> bytes \<Rightarrow> bytes" where
  "sample_tag k h p = take 32 (k @ p @ replicate 32 (CHR 0x00))"

definition link_wire :: wire where
  "link_wire = sample_wire\<lparr>w_read_frame := sample_read_frame, w_compute_tag := sample_tag,
     w_verify_tag := (\<lambda>k h p t. t = sample_tag k h p)\<rparr>"

lemma length_be [simp]: "length (be_u16 w) = 2" "length (be_u32 x) = 4"
  by (simp_all add: be_u16_def be_u32_def)

lemma read_be_u16 [simp]: "read_be (be_u16 w) = unat w"
proof -
  have "unat w < 65536" using unsigned_less [of w] by simp
  then show ?thesis by (simp add: read_be_def be_u16_def byte_val_def)
qed

lemma base_256_digits:
  fixes n :: nat
  shows "((n div 16777216 * 256 + n div 65536 mod 256) * 256 + n div 256 mod 256) * 256 + n mod 256 = n"
proof -
  have e: "n div 65536 = n div 256 div 256" "n div 16777216 = n div 256 div 256 div 256"
    by (simp_all flip: div_mult2_eq)
  have d: "x div 256 * 256 + x mod 256 = x" for x :: nat by (rule div_mult_mod_eq)
  show ?thesis unfolding e d ..
qed

lemma read_be_u32 [simp]: "read_be (be_u32 w) = unat w"
proof -
  have "unat w < 4294967296" using unsigned_less [of w] by simp
  then have "unat w div 16777216 < 256" by (simp add: div_less_iff_less_mult)
  then have "read_be (be_u32 w) = ((unat w div 16777216 * 256 + unat w div 65536 mod 256) * 256 + unat w div 256 mod 256) * 256
      + unat w mod 256"
    by (simp add: read_be_def be_u32_def byte_val_def)
  then show ?thesis unfolding base_256_digits .
qed

lemma link_wire_reads_back: "reads_back link_wire"
proof -
  have "sample_read_frame (frame_to_bytes f) = Inr f" if "frame_wf W f" for W f
  proof -
    let ?m = "case fr_mac f of Some t \<Rightarrow> t | None \<Rightarrow> []"
    have t: "length (fr_target f) = 32" and l: "unat (fr_length f) = length (fr_payload f)"
      and m: "has_flag (fr_flags f) FLAG_MAC_PRESENT \<longleftrightarrow> fr_mac f \<noteq> None"
      using that by (simp_all add: frame_wf_def)
    have w: "of_nat (length (fr_payload f)) = fr_length f" by (simp add: l [symmetric])
    have "take 2 (frame_to_bytes f) = be_u16 (fr_magic f)" "take 2 (drop 2 (frame_to_bytes f)) = be_u16 (fr_flags f)"
      "take 4 (drop 4 (frame_to_bytes f)) = be_u32 (fr_length f)" "take 32 (drop 8 (frame_to_bytes f)) = fr_target f"
      "take 4 (drop 40 (frame_to_bytes f)) = be_u32 (fr_crc32 f)"
      "drop 44 (frame_to_bytes f) = fr_payload f @ ?m" "drop (44 + length (fr_payload f)) (frame_to_bytes f) = ?m"
      using t by (simp_all add: frame_to_bytes_def)
    then show ?thesis using l m
      by (cases "fr_mac f") (auto simp: sample_read_frame_def Let_def w intro!: frame.equality)
  qed
  then show ?thesis by (simp add: reads_back_def link_wire_def)
qed

lemma link_wire_tags: "tags_verify link_wire" "tags_32 link_wire"
proof -
  have "length (sample_tag k h p) = 32" for k h p by (simp add: sample_tag_def del: take_append)
  then show "tags_verify link_wire" "tags_32 link_wire" by (simp_all add: tags_verify_def tags_32_def link_wire_def)
qed

definition link_frame :: "string \<Rightarrow> bytes \<Rightarrow> frame" where
  "link_frame t p = build_frame link_wire t 0 p"

definition link_conn :: ws_conn where
  "link_conn = ws_item link_wire (EnableMac ''key'' 5) True (ws_conn_new 1000000000 30 5 10)"


theorem gateway_agrees_with_socket_witness:
  "let evs = [WsReceive (WsBinary (frame_to_bytes (link_frame ''kernel'' ''hi''))) True, WsItem (EnableMac ''key'' 5) True,
        WsReceive (WsBinary (frame_to_bytes (link_frame ''kernel'' ''ho''))) True];
       c = ws_conn_new 1000000000 30 5 10; c' = fold (ws_step link_wire) evs c;
       l' = conn_run link_wire (\<lambda>_. True) (connection_new 1000000000 30 5 50 4) empty_log (socket_view link_wire c evs)
   in cl_delivered l' = wc_delivered c' \<and> cl_open l' = wc_open c'"
proof -
  have "is_ok (parse_frame link_wire (frame_to_bytes (link_frame t p)))" if "length p < 10" for t p
  proof -
    have "unat (of_nat (length p) :: u32) = length p" using that by (simp add: unat_of_nat)
    then have "frame_wf link_wire (link_frame t p)"
      by (simp add: frame_wf_def link_frame_def build_frame_def has_flag_def)
    then show ?thesis using link_wire_reads_back
      by (simp add: reads_back_def parse_frame_def link_frame_def build_frame_def has_flag_def)
  qed
  then have "list_all (plain_event link_wire) [WsReceive (WsBinary (frame_to_bytes (link_frame ''kernel'' ''hi''))) True,
      WsItem (EnableMac ''key'' 5) True, WsReceive (WsBinary (frame_to_bytes (link_frame ''kernel'' ''ho''))) True]"
    by simp
  from gateway_agrees_with_socket [OF this, of "ws_conn_new 1000000000 30 5 10" empty_log "connection_new 1000000000 30 5 50 4"]
  show ?thesis by (simp add: ws_conn_new_def empty_log_def connection_new_def Let_def)
qed

section \<open>The end of a connection\<close>

text \<open>However a connection ends and whatever other tasks did meanwhile, it leaves no registration of
  the device and no channel in the handle.\<close>

lemma unregister_gone: "get_plugin (unregister p r) p = None"
  by (cases "dm_get (by_plugin_id r) p") (simp_all add: get_plugin_def unregister_fields, simp add: unregister_def)

lemma run_conn_cleans:
  assumes "run_conn W N clk b url ms tx cell ro others k = (e, got, k')"
  shows "k' = k \<and> got = [] \<or> get_plugin (k_reg k') (br_device_id b) = None \<and> tx \<notin> set (k_bridge_conns k')"
  using assms by (auto simp: run_conn_def bridge_up_def bridge_down_def unregister_conn_def unregister_gone
      split: sum.splits prod.splits)

text \<open>The backoff grows from any start to its ceiling and is never reset by a connection that worked.\<close>

lemma bridge_run_sleeps:
  "BrShutdown \<notin> set es \<Longrightarrow> backoff \<le> BRIDGE_MAX_BACKOFF \<Longrightarrow>
   bridge_run backoff es = map (\<lambda>n. min (backoff * 2 ^ n) BRIDGE_MAX_BACKOFF) [0..<length es]"
proof (induction es arbitrary: backoff)
  case (Cons e es)
  let ?b = "min (backoff * 2) BRIDGE_MAX_BACKOFF"
  have "min (?b * 2 ^ n) BRIDGE_MAX_BACKOFF = min (backoff * 2 ^ Suc n) BRIDGE_MAX_BACKOFF" for n
  proof (cases "backoff * 2 \<le> BRIDGE_MAX_BACKOFF")
    case False
    have p: "m \<le> m * 2 ^ n" for m :: nat by simp
    have "BRIDGE_MAX_BACKOFF \<le> ?b * 2 ^ n" using False p [of BRIDGE_MAX_BACKOFF] by (simp add: min_def)
    moreover have "BRIDGE_MAX_BACKOFF \<le> backoff * 2 ^ Suc n"
      using False p [of "backoff * 2"] unfolding power_Suc mult.assoc by linarith
    ultimately show ?thesis by (simp only: min_absorb2)
  qed (simp add: min_def mult.assoc)
  moreover have "bridge_run ?b es = map (\<lambda>n. min (?b * 2 ^ n) BRIDGE_MAX_BACKOFF) [0..<length es]"
    using Cons by simp
  ultimately show ?case
    using Cons.prems by (auto simp: map_upt_Suc simp del: upt_Suc)
qed simp

end
