(* ===== verification/Calendar.thy ===== *)
theory Calendar
  imports Vyn_Prelude
begin

text \<open>
  Timestamps as the command line prints them: \<^verbatim>\<open>format_ts\<close> of \<^verbatim>\<open>src/cli/device.rs\<close> and of
  \<^verbatim>\<open>src/cli/devices.rs\<close>, two copies of a closed formula for the Gregorian calendar that differ in
  one term. The reference is the calendar itself: months with their lengths and the leap year rule,
  advanced one day at a time from 1 January 1970. All intermediate values are far below the
  range of \<^verbatim>\<open>i64\<close> (a \<^verbatim>\<open>u64\<close> of seconds is less than \<open>2 ^ 48\<close> days), so they are integers here, and none of the
  divisions has a negative operand, so truncation and flooring agree.
\<close>

section \<open>The code\<close>

text \<open>\<^verbatim>\<open>{n:0w}\<close> of a number that is not negative.\<close>

definition zero_pad :: "nat \<Rightarrow> nat \<Rightarrow> string" where
  "zero_pad w n = replicate (w - length (show_nat n)) CHR ''0'' @ show_nat n"

definition year_of_era :: "int \<Rightarrow> int" where
  "year_of_era doe = (doe - doe div 1460 + doe div 36524 - doe div 146096) div 365"

definition month_day :: "int \<Rightarrow> int \<times> int" where
  "month_day doy = (let mp = (5 * doy + 2) div 153 in (mp, doy - (153 * mp + 2) div 5 + 1))"

text \<open>The part the copies share, after the day of the year has been computed.\<close>

definition civil_date :: "int \<Rightarrow> int \<Rightarrow> int \<times> int \<times> int" where
  "civil_date y doy =
    (let (mp, d) = month_day doy;
         m = (if mp < 10 then mp + 3 else mp - 9)
     in (if m \<le> 2 then y + 1 else y, m, d))"

definition civil_from_days :: "int \<Rightarrow> int \<times> int \<times> int" where
  "civil_from_days days =
    (let z = days + 719468;
         era = z div 146097;
         doe = z mod 146097;
         yoe = year_of_era doe;
         y = yoe + era * 400;
         doy = doe - (365 * yoe + yoe div 4 - yoe div 100)
     in civil_date y doy)"

definition civil_from_days_device :: "int \<Rightarrow> int \<times> int \<times> int" where
  "civil_from_days_device days =
    (let z = days + 719468;
         era = z div 146097;
         doe = z mod 146097;
         yoe = year_of_era doe;
         y = yoe + era * 400;
         doy = doe - (365 * yoe + yoe div 4 - yoe div 100 + yoe div 146096)
     in civil_date y doy)"

definition print_date_time :: "int \<times> int \<times> int \<Rightarrow> nat \<Rightarrow> nat \<Rightarrow> nat \<Rightarrow> string" where
  "print_date_time date h mi s = (case date of (y, m, d) \<Rightarrow>
     zero_pad 4 (nat y) @ ''-'' @ zero_pad 2 (nat m) @ ''-'' @ zero_pad 2 (nat d) @ '' ''
     @ zero_pad 2 h @ '':'' @ zero_pad 2 mi @ '':'' @ zero_pad 2 s)"

definition format_ts :: "nat \<Rightarrow> string" where
  "format_ts epoch_secs =
    (let days = int (epoch_secs div 86400);
         secs_of_day = epoch_secs mod 86400
     in print_date_time (civil_from_days days)
          (secs_of_day div 3600) (secs_of_day mod 3600 div 60) (secs_of_day mod 60))"

definition format_ts_device :: "nat \<Rightarrow> string" where
  "format_ts_device epoch_secs =
    (let days = int (epoch_secs div 86400);
         secs_of_day = epoch_secs mod 86400
     in print_date_time (civil_from_days_device days)
          (secs_of_day div 3600) (secs_of_day mod 3600 div 60) (secs_of_day mod 3600 mod 60))"

section \<open>The calendar\<close>

definition leap_year :: "int \<Rightarrow> bool" where
  "leap_year y \<longleftrightarrow> 4 dvd y \<and> (\<not> 100 dvd y \<or> 400 dvd y)"

definition month_length :: "int \<Rightarrow> int \<Rightarrow> int" where
  "month_length y m = (if m = 2 then (if leap_year y then 29 else 28)
     else if m \<in> {4, 6, 9, 11} then 30 else 31)"

fun next_day :: "int \<times> int \<times> int \<Rightarrow> int \<times> int \<times> int" where
  "next_day (y, m, d) = (if d < month_length y m then (y, m, d + 1)
     else if m < 12 then (y, m + 1, 1) else (y + 1, 1, 1))"

definition calendar_day :: "nat \<Rightarrow> int \<times> int \<times> int" where
  "calendar_day n = (next_day ^^ n) (1970, 1, 1)"

section \<open>The year of the era\<close>

text \<open>Years counted from March: the days before year \<open>y\<close> of an era of 400, and the length of year \<open>y\<close>.\<close>

definition year_start :: "int \<Rightarrow> int" where
  "year_start y = 365 * y + y div 4 - y div 100"

definition year_length :: "int \<Rightarrow> int" where
  "year_length y = (if leap_year (y + 1) then 366 else 365)"

lemma div_succ: "(y + 1) div k = y div k + of_bool (k dvd y + 1)" if "0 < k" for y k :: int
proof (cases "k dvd y + 1")
  case True
  then obtain m where "y + 1 = k * m" by (elim dvdE)
  then have "y = k * (m - 1) + (k - 1)" by (simp add: algebra_simps)
  with that \<open>y + 1 = k * m\<close> show ?thesis by (simp add: int_div_pos_eq [where q = "m - 1" and r = "k - 1"])
next
  case False
  have "y mod k + 1 \<noteq> k"
  proof
    assume "y mod k + 1 = k"
    then have "y + 1 = k * (y div k) + k" using mult_div_mod_eq [of k y] by linarith
    with False show False by simp
  qed
  with that have "y mod k + 1 < k" using pos_mod_bound [of k y] by linarith
  with that have "(y + 1) div k = y div k" by (intro int_div_pos_eq [where r = "y mod k + 1"]) (simp_all add: algebra_simps)
  with False show ?thesis by simp
qed

lemma year_start_step:
  assumes "0 \<le> y" "y < 399"
  shows "year_start (y + 1) = year_start y + year_length y"
proof -
  have "\<not> 400 dvd y + 1" using assms zdvd_imp_le [of 400 "y + 1"] by auto
  moreover have "100 dvd y + 1 \<Longrightarrow> 4 dvd y + 1" by presburger
  ultimately show ?thesis
    by (auto simp: year_start_def year_length_def leap_year_def div_succ)
qed

lemma year_of_era_correct:
  assumes "0 \<le> y" "y < 400" "0 \<le> doy" "doy < year_length y"
  shows "year_of_era (year_start y + doy) = y"
proof -
  define q t c r where "q = y div 4" and "t = y mod 4" and "c = y div 100" and "r = y mod 100"
  have y: "y = 4 * q + t" "0 \<le> t" "t < 4" "y = 100 * c + r" "0 \<le> r" "r < 100"
    unfolding q_def t_def c_def r_def by simp_all
  have c: "0 \<le> c" "c < 4" using assms(1,2) y(4-6) by linarith+
  define s where "s = 365 * r + (q - 25 * c) + doy"
  have doe: "year_start y + doy = 36524 * c + s" "year_start y + doy = 1460 * q + (365 * t + q - c + doy)"
    unfolding year_start_def s_def q_def [symmetric] c_def [symmetric] using y by linarith+
  have leap: "doy \<le> 364 \<or> doy = 365 \<and> t = 3 \<and> (r = 99 \<longrightarrow> c = 3)"
  proof (cases "leap_year (y + 1)")
    case True
    then have "4 dvd y + 1" by (simp add: leap_year_def)
    then have "4 dvd t + 1" unfolding y(1) using dvd_add_right_iff [of 4 "4 * q" "t + 1"] by (simp add: add.assoc)
    then have "t = 3" using y(2,3) zdvd_imp_le [of 4 "t + 1"] by simp
    moreover have "c = 3" if "r = 99"
    proof -
      from that y(4) have "100 dvd y + 1" "y + 1 = 100 * (c + 1)" by auto
      with True have "400 dvd 100 * (c + 1)" unfolding leap_year_def by simp
      then have "4 dvd c + 1" using dvd_mult_cancel_left [of 100 4 "c + 1"] by simp
      then show ?thesis using c zdvd_imp_le [of 4 "c + 1"] by simp
    qed
    ultimately show ?thesis using True assms(4) by (auto simp: year_length_def)
  qed (use assms(4) in \<open>simp add: year_length_def\<close>)
  let ?d = "year_start y + doy"
  have "?d div 36524 - ?d div 146096 = c"
  proof (cases "s < 36524")
    case True
    have "0 \<le> s" using assms(3) y unfolding s_def by linarith
    with True doe(1) have "?d div 36524 = c" by (intro int_div_pos_eq)
    moreover have "?d div 146096 = 0"
      using \<open>0 \<le> s\<close> True doe(1) c by (intro div_pos_pos_trivial) linarith+
    ultimately show ?thesis by simp
  next
    case False
    then have "r = 99" "doy = 365" using leap y assms(3) unfolding s_def by linarith+
    with leap y have "?d = 146096" "c = 3" unfolding doe(1) s_def by linarith+
    then show ?thesis by simp
  qed
  moreover have "?d div 1460 = (if 365 * t + q - c + doy < 1460 then q else q + 1)"
  proof -
    have x: "0 \<le> 365 * t + q - c + doy" "365 * t + q - c + doy < 2920" using leap y c assms(3) by linarith+
    show ?thesis
    proof (cases "365 * t + q - c + doy < 1460")
      case True
      with x doe(2) have "?d div 1460 = q" by (intro int_div_pos_eq)
      with True show ?thesis by simp
    next
      case False
      with x doe(2) have "?d div 1460 = q + 1"
        by (intro int_div_pos_eq [where r = "365 * t + q - c + doy - 1460"]) simp_all
      with False show ?thesis by simp
    qed
  qed
  ultimately have "?d - ?d div 1460 + ?d div 36524 - ?d div 146096 = 365 * y
      + (doy - (if 365 * t + q - c + doy < 1460 then 0 else 1))"
    unfolding year_start_def q_def [symmetric] c_def [symmetric] by simp
  moreover have "0 \<le> doy - (if 365 * t + q - c + doy < 1460 then 0 else 1)"
    "doy - (if 365 * t + q - c + doy < 1460 then 0 else 1) < 365"
    using leap y c assms(3) by auto
  ultimately show ?thesis unfolding year_of_era_def by (intro int_div_pos_eq)
qed

section \<open>One day later\<close>

lemma div_bounds: "c * (a div c) \<le> a" "a < c * (a div c) + c" if "0 < c" for a c :: int
  using that mult_div_mod_eq [of c a] pos_mod_sign [of c a] pos_mod_bound [of c a] by linarith+

lemma month_day_at:
  assumes "153 * mp \<le> 5 * doy + 2" "5 * doy + 2 < 153 * (mp + 1)"
  shows "month_day doy = (mp, doy - (153 * mp + 2) div 5 + 1)"
proof -
  have "(5 * doy + 2) div 153 = mp"
    using assms by (intro int_div_pos_eq [where r = "5 * doy + 2 - 153 * mp"]) simp_all
  then show ?thesis by (simp add: month_day_def)
qed

lemma month_day_next:
  assumes "153 * mp \<le> 5 * doy + 2" "5 * doy + 2 < 153 * (mp + 1)"
  shows "month_day (doy + 1) = (if doy + 1 < (153 * (mp + 1) + 2) div 5
    then (mp, doy - (153 * mp + 2) div 5 + 2) else (mp + 1, 1))"
proof -
  define k where "k = (153 * (mp + 1) + 2) div 5"
  have k: "5 * k \<le> 153 * (mp + 1) + 2" "153 * (mp + 1) + 2 < 5 * k + 5"
    unfolding k_def using div_bounds [of 5 "153 * (mp + 1) + 2"] by simp_all
  show ?thesis
  proof (cases "doy + 1 < k")
    case True
    with k assms(1) show ?thesis unfolding k_def [symmetric] by (subst month_day_at [of mp]) simp_all
  next
    case False
    with k assms(2) have "doy + 1 = k" by linarith
    with k show ?thesis unfolding k_def [symmetric] by (subst month_day_at [of "mp + 1"]) (simp_all add: k_def)
  qed
qed

lemma months: "[0..11] = [0, 1, 2, 3, 4, 5, 6, 7, 8, 9, 10, 11 :: int]"
  by (simp add: upto_rec1)

lemma civil_date_next:
  assumes "0 \<le> doy" "doy < year_length y"
  shows "next_day (civil_date y doy) =
    (if doy + 1 < year_length y then civil_date y (doy + 1) else civil_date (y + 1) 0)"
proof -
  define mp where "mp = (5 * doy + 2) div 153"
  have b: "153 * mp \<le> 5 * doy + 2" "5 * doy + 2 < 153 * (mp + 1)" 
    unfolding mp_def using div_bounds [of 153 "5 * doy + 2"] by simp_all
  have "year_length y \<le> 366" by (simp add: year_length_def)
  with assms(2) b(1) have "mp < 12" by linarith
  moreover have "0 \<le> mp" unfolding mp_def using assms(1) by (simp add: pos_imp_zdiv_nonneg_iff)
  ultimately have "mp \<in> set [0..11]" by simp
  then consider "mp = 0" | "mp = 1" | "mp = 2" | "mp = 3" | "mp = 4" | "mp = 5" | "mp = 6" | "mp = 7"
    | "mp = 8" | "mp = 9" | "mp = 10" | "mp = 11" unfolding months by auto
  then show ?thesis
    using b assms
    by cases (auto simp: civil_date_def month_day_at [OF b] month_day_next [OF b] month_day_def [of 0]
        month_length_def year_length_def split: if_splits)
qed

section \<open>The formula is the calendar\<close>

lemma leap_year_era: "leap_year (y + e * 400) \<longleftrightarrow> leap_year y"
proof -
  have "k dvd y + e * 400 \<longleftrightarrow> k dvd y" if "k dvd 400" for k
    using that by (simp add: dvd_add_left_iff)
  then show ?thesis by (simp add: leap_year_def)
qed

lemma year_length_era: "year_length (y + e * 400) = year_length y"
  using leap_year_era [of "y + 1" e] by (simp add: year_length_def algebra_simps)

lemma year_end: "year_start 399 + year_length 399 = 146097"
  by (simp add: year_start_def year_length_def leap_year_def)

lemma doe_range:
  assumes "0 \<le> y" "y < 400" "0 \<le> doy" "doy < year_length y"
  shows "0 \<le> year_start y + doy" "year_start y + doy < 146097"
proof -
  have q: "0 \<le> y div 100" "y div 100 \<le> y" "0 \<le> y div 4" "y div 4 \<le> 99"
    using assms(1,2) by (simp_all add: pos_imp_zdiv_nonneg_iff)
  then show "0 \<le> year_start y + doy" using assms(1,3) unfolding year_start_def by linarith
  have "year_length y \<le> 366" by (simp add: year_length_def)
  then show "year_start y + doy < 146097"
    using q assms year_end by (cases "y = 399") (auto simp: year_start_def)
qed

text \<open>The parts of a day number: the era, the year in it, and the day of that year, counted from March.\<close>

definition day_parts :: "int \<Rightarrow> int \<Rightarrow> int \<Rightarrow> int \<Rightarrow> bool" where
  "day_parts days era y doy \<longleftrightarrow> 0 \<le> y \<and> y < 400 \<and> 0 \<le> doy \<and> doy < year_length y
     \<and> days + 719468 = 146097 * era + (year_start y + doy)"

lemma civil_from_days_parts:
  assumes "day_parts days era y doy"
  shows "civil_from_days days = civil_date (y + era * 400) doy"
    "civil_from_days_device days = civil_date (y + era * 400) doy"
proof -
  from assms have p: "0 \<le> y" "y < 400" "0 \<le> doy" "doy < year_length y"
    "days + 719468 = 146097 * era + (year_start y + doy)" by (auto simp: day_parts_def)
  note r = doe_range [OF p(1-4)]
  have "(days + 719468) div 146097 = era" by (rule int_div_pos_eq [OF p(5) r])
  moreover have "(days + 719468) mod 146097 = year_start y + doy" by (rule int_mod_pos_eq [OF p(5) r])
  moreover have "year_of_era (year_start y + doy) = y" by (rule year_of_era_correct [OF p(1-4)])
  moreover have "y div 146096 = 0" by (rule div_pos_pos_trivial [OF p(1)]) (use p(2) in linarith)
  moreover have "year_start y + doy - (365 * y + y div 4 - y div 100) = doy" unfolding year_start_def by linarith
  ultimately show "civil_from_days days = civil_date (y + era * 400) doy"
    "civil_from_days_device days = civil_date (y + era * 400) doy"
    unfolding civil_from_days_def civil_from_days_device_def Let_def by (simp_all only: add_0_right)
qed

lemma calendar_day_parts:
  "\<exists>era y doy. day_parts (int n) era y doy \<and> calendar_day n = civil_date (y + era * 400) doy"
proof (induction n)
  case 0
  have "day_parts (int 0) 4 369 306" by (simp add: day_parts_def year_start_def year_length_def)
  moreover have "calendar_day 0 = civil_date (369 + 4 * 400) 306"
    by (simp add: calendar_day_def civil_date_def month_day_def)
  ultimately show ?case by blast
next
  case (Suc n)
  then obtain era y doy where p: "0 \<le> y" "y < 400" "0 \<le> doy" "doy < year_length y"
    "int n + 719468 = 146097 * era + (year_start y + doy)"
    and c: "calendar_day n = civil_date (y + era * 400) doy" by (auto simp: day_parts_def)
  let ?y = "y + era * 400"
  have n: "calendar_day (Suc n) = next_day (civil_date ?y doy)" using c by (simp add: calendar_day_def)
  note s = civil_date_next [of doy ?y, unfolded year_length_era, OF p(3,4)]
  consider "doy + 1 < year_length y" | "doy + 1 = year_length y" "y < 399" | "doy + 1 = year_length y" "y = 399"
    using p(2,4) by linarith
  then show ?case
  proof cases
    case 1
    with p n s have "day_parts (int (Suc n)) era y (doy + 1) \<and> calendar_day (Suc n) = civil_date ?y (doy + 1)"
      by (simp add: day_parts_def)
    then show ?thesis by blast
  next
    case 2
    have "0 < year_length (y + 1)" by (simp add: year_length_def)
    with 2 p n s year_start_step [OF p(1) 2(2)]
    have "day_parts (int (Suc n)) era (y + 1) 0 \<and> calendar_day (Suc n) = civil_date (y + 1 + era * 400) 0"
      by (simp add: day_parts_def algebra_simps)
    then show ?thesis by blast
  next
    case 3
    with p n s year_end have "day_parts (int (Suc n)) (era + 1) 0 0
        \<and> calendar_day (Suc n) = civil_date (0 + (era + 1) * 400) 0"
      by (simp add: day_parts_def year_length_def leap_year_def year_start_def algebra_simps)
    then show ?thesis by blast
  qed
qed

text \<open>
  \<^bold>\<open>C40.\<close> Timestamps are printed right. For every number of seconds the command line prints the day
  that comes that many whole days after 1 January 1970 in the Gregorian calendar, advanced
  a day at a time by the lengths of the months and the leap year rule, and the time of that day.
  The two copies of the formula agree, the extra term of one being zero.
\<close>

theorem format_ts_calendar:
  "format_ts t = print_date_time (calendar_day (t div 86400)) (t mod 86400 div 3600) (t mod 3600 div 60) (t mod 60)
   \<and> format_ts_device t = format_ts t"
proof -
  obtain era y doy where "day_parts (int (t div 86400)) era y doy"
    "calendar_day (t div 86400) = civil_date (y + era * 400) doy" using calendar_day_parts by blast
  moreover from this have "civil_from_days (int (t div 86400)) = calendar_day (t div 86400)"
    "civil_from_days_device (int (t div 86400)) = calendar_day (t div 86400)"
    using civil_from_days_parts by simp_all
  moreover have "t mod 86400 mod 3600 = t mod 3600" "t mod 86400 mod 60 = t mod 60" "t mod 3600 mod 60 = t mod 60"
    by (simp_all add: mod_mod_cancel)
  ultimately show ?thesis by (simp add: format_ts_def format_ts_device_def Let_def)
qed

end
