(* ===== verification/Daemon.thy ===== *)
theory Daemon
  imports Shim Config
begin

text \<open>
  The commands that start, stop and restart the kernel, \<^verbatim>\<open>src/main.rs\<close>. What a command asks of the
  operating system is written to a trace, each call with its answer; the answers come from a record
  of functions of the trace so far, so they may depend on everything that happened and
  change between two calls in any way. The pid file may thus be rewritten by another process at any
  moment. Parsing the command line is the clap crate's: its result is the record \<open>start_opts\<close>.
\<close>

section \<open>The resolved configuration\<close>

record start_opts =
  so_foreground :: bool
  so_port :: "nat option"
  so_config :: string
  so_debug :: bool
  so_role :: "string option"
  so_bridge_url :: "string option"
  so_bridge_token :: "string option"
  so_bridge_secret :: "string option"
  so_bridge_mirror :: "string list"

datatype errno = ESRCH | EPERM | OtherErrno

datatype start_error =
    SeConfig string
  | SeNoAuth
  | SeNoBridge
  | SeBridgeUrl string
  | SeNoMirror
  | SeMirrorUnknown string
  | SePidFile
  | SeKill errno
  | SeStillAlive int
  | SeIo string
  | SeReadiness string
  | SeCorruptLine string
  | SePidMismatch int int
  | SeLocked
  | SeKernel string

definition ensure_auth_configured :: "config \<Rightarrow> start_error option" where
  "ensure_auth_configured c = (if cf_jwt_secret c = None \<and> \<not> cf_allow_no_auth c then Some SeNoAuth else None)"

definition default_bridge :: bridge_config where
  "default_bridge = \<lparr>bc_host_url = [], bc_token = None, bc_secret = None, bc_mirror = []\<rparr>"

definition has_bridge_flag :: "start_opts \<Rightarrow> bool" where
  "has_bridge_flag opts \<longleftrightarrow> so_bridge_url opts \<noteq> None \<or> so_bridge_token opts \<noteq> None
     \<or> so_bridge_secret opts \<noteq> None \<or> so_bridge_mirror opts \<noteq> []"

definition override_role :: "start_opts \<Rightarrow> role \<Rightarrow> role" where
  "override_role opts r =
    (let r1 = (if so_role opts = Some ''client'' then Client else if so_role opts = Some ''host'' then Host else r)
     in if has_bridge_flag opts \<and> so_role opts = None then Client else r1)"

definition override_bridge :: "start_opts \<Rightarrow> bridge_config \<Rightarrow> bridge_config" where
  "override_bridge opts b =
     \<lparr>bc_host_url = (case so_bridge_url opts of Some u \<Rightarrow> u | None \<Rightarrow> bc_host_url b),
      bc_token = (case so_bridge_token opts of Some t \<Rightarrow> Some t | None \<Rightarrow> bc_token b),
      bc_secret = (case so_bridge_secret opts of Some s \<Rightarrow> Some s | None \<Rightarrow> bc_secret b),
      bc_mirror = (if so_bridge_mirror opts \<noteq> [] then so_bridge_mirror opts else bc_mirror b)\<rparr>"

definition apply_role_overrides :: "start_opts \<Rightarrow> config \<Rightarrow> config" where
  "apply_role_overrides opts c =
    (let c1 = c\<lparr>cf_role := override_role opts (cf_role c)\<rparr>
     in if \<not> has_bridge_flag opts then c1
        else c1\<lparr>cf_bridge := Some (override_bridge opts
               (case cf_bridge c of Some b \<Rightarrow> b | None \<Rightarrow> default_bridge))\<rparr>)"

definition bridge_url_ok :: "string \<Rightarrow> bool" where
  "bridge_url_ok u \<longleftrightarrow> list_ex (starts_with u) [''ws://'', ''wss://'', ''http://'', ''https://'']"

definition validate_bridge_config :: "config \<Rightarrow> start_error option" where
  "validate_bridge_config c =
    (if cf_role c \<noteq> Client then None
     else case cf_bridge c of
         None \<Rightarrow> Some SeNoBridge
       | Some b \<Rightarrow>
           if \<not> bridge_url_ok (bc_host_url b) then Some (SeBridgeUrl (bc_host_url b))
           else if bc_mirror b = [] then Some SeNoMirror
           else case find (\<lambda>cap. cap \<notin> set (map pd_id (cf_plugins c))) (bc_mirror b) of
               Some cap \<Rightarrow> Some (SeMirrorUnknown cap)
             | None \<Rightarrow> None)"

definition start_base :: "conf_env \<Rightarrow> start_opts \<Rightarrow> config" where
  "start_base C opts =
    (let c = (case load_config C (so_config opts) of Inr c \<Rightarrow> c | Inl _ \<Rightarrow> default_config C);
         c1 = (case so_port opts of Some p \<Rightarrow> c\<lparr>cf_port := p\<rparr> | None \<Rightarrow> c)
     in if so_debug opts then c1\<lparr>cf_log_level := ''debug''\<rparr> else c1)"

definition start_config :: "conf_env \<Rightarrow> start_opts \<Rightarrow> start_error + config" where
  "start_config C opts =
    (let c = apply_role_overrides opts (start_base C opts)
     in case validate_bridge_config c of
         Some e \<Rightarrow> Inl e
       | None \<Rightarrow> (case ensure_auth_configured c of Some e \<Rightarrow> Inl e | None \<Rightarrow> Inr c))"

section \<open>The pid file and the process behind it\<close>

datatype ksig = SigTerm | SigKill

datatype sys_event =
    ReadPid "string option"
  | Kill int "ksig option" "errno option"
  | RemovePid
  | WritePid int
  | SleepMs nat
  | SpawnChild "string list"
  | WaitChild
  | LockPid
  | SignalReady string
  | RunKernel config

type_synonym trace = "sys_event list"

datatype ready_read = RdEof | RdData string | RdWouldBlock | RdError string

record daemon_env =
  de_read :: "trace \<Rightarrow> string option"
  de_kill :: "trace \<Rightarrow> int \<Rightarrow> ksig option \<Rightarrow> errno option"
  de_delay :: "trace \<Rightarrow> nat"
  de_spawn :: "start_error + int"
  de_ready :: "ready_read list"
  de_write :: "string option"

definition parse_i32 :: "string \<Rightarrow> int option" where
  "parse_i32 s =
    (if starts_with s ''-''
     then (let ds = drop 1 s
           in if ds \<noteq> [] \<and> list_all is_ascii_digit ds \<and> read_nat ds \<le> 2 ^ 31 then Some (- int (read_nat ds)) else None)
     else map_option int (parse_uint (2 ^ 31) s))"

definition read_pid :: "daemon_env \<Rightarrow> trace \<Rightarrow> int option \<times> trace" where
  "read_pid E l = (let content = de_read E l
     in (Option.bind content (\<lambda>s. parse_i32 (trim s)), l @ [ReadPid content]))"

definition sys_kill :: "daemon_env \<Rightarrow> int \<Rightarrow> ksig option \<Rightarrow> trace \<Rightarrow> errno option \<times> trace" where
  "sys_kill E pid s l = (de_kill E l pid s, l @ [Kill pid s (de_kill E l pid s)])"

definition kernel_is_running :: "daemon_env \<Rightarrow> trace \<Rightarrow> bool \<times> trace" where
  "kernel_is_running E l = (case read_pid E l of
      (None, l1) \<Rightarrow> (False, l1)
    | (Some pid, l1) \<Rightarrow> (case sys_kill E pid None l1 of
          (None, l2) \<Rightarrow> (True, l2)
        | (Some ESRCH, l2) \<Rightarrow> (False, l2 @ [RemovePid])
        | (Some _, l2) \<Rightarrow> (False, l2)))"

text \<open>\<open>waited\<close> is the time slept since the first probe, at least what was asked for; \<open>de_delay\<close> is whatever
  else has passed on the clock.\<close>

function wait_pid_gone :: "daemon_env \<Rightarrow> int \<Rightarrow> nat \<Rightarrow> nat \<Rightarrow> trace \<Rightarrow> bool \<times> trace" where
  "wait_pid_gone E pid timeout waited l = (case sys_kill E pid None l of
      (Some ESRCH, l1) \<Rightarrow> (True, l1)
    | (_, l1) \<Rightarrow>
        if timeout \<le> waited + de_delay E l1 then (False, l1)
        else wait_pid_gone E pid timeout (waited + 50) (l1 @ [SleepMs 50]))"
  by pat_completeness auto
termination
  by (relation "measure (\<lambda>(E, pid, timeout, waited, l). timeout - waited)") auto

declare wait_pid_gone.simps [simp del]

fun stop_poll :: "daemon_env \<Rightarrow> nat \<Rightarrow> trace \<Rightarrow> trace" where
  "stop_poll E 0 l = l"
| "stop_poll E (Suc n) l = (case kernel_is_running E l of
      (False, l1) \<Rightarrow> l1
    | (True, l1) \<Rightarrow> stop_poll E n (l1 @ [SleepMs 500]))"

definition stop_forced :: "daemon_env \<Rightarrow> int \<Rightarrow> trace \<Rightarrow> start_error option \<times> trace" where
  "stop_forced E pid l = (case kernel_is_running E l of
      (False, l1) \<Rightarrow> (None, l1 @ [RemovePid])
    | (True, l1) \<Rightarrow> (case sys_kill E pid (Some SigKill) l1 of
          (Some e, l2) \<Rightarrow> (Some (SeKill e), l2)
        | (None, l2) \<Rightarrow> (None, l2 @ [RemovePid])))"

definition stop_kernel :: "daemon_env \<Rightarrow> trace \<Rightarrow> start_error option \<times> trace" where
  "stop_kernel E l = (case kernel_is_running E l of
      (False, l1) \<Rightarrow> (None, l1)
    | (True, l1) \<Rightarrow> (case read_pid E l1 of
          (None, l2) \<Rightarrow> (Some SePidFile, l2)
        | (Some pid, l2) \<Rightarrow> (case sys_kill E pid (Some SigTerm) l2 of
              (Some e, l3) \<Rightarrow> (Some (SeKill e), l3)
            | (None, l3) \<Rightarrow> stop_forced E pid (stop_poll E 10 l3))))"

section \<open>Launching\<close>

definition daemon_args :: "config \<Rightarrow> string \<Rightarrow> bool \<Rightarrow> string list" where
  "daemon_args c config_path debug =
     [''start'', ''--foreground'', ''--config'', config_path, ''--port'', show_nat (cf_port c)]
     @ (if cf_role c = Client
        then [''--role'', ''client'']
          @ (case cf_bridge c of
               None \<Rightarrow> []
             | Some b \<Rightarrow> [''--bridge-url'', bc_host_url b]
                 @ (case bc_token b of Some t \<Rightarrow> [''--bridge-token'', t] | None \<Rightarrow> [])
                 @ (case bc_secret b of Some s \<Rightarrow> [''--bridge-secret'', s] | None \<Rightarrow> [])
                 @ concat (map (\<lambda>x. [''--bridge-mirror'', x]) (bc_mirror b)))
        else [])
     @ (if debug then [''--debug''] else [])"

fun read_ready :: "string \<Rightarrow> ready_read list \<Rightarrow> string + string" where
  "read_ready line [] = Inl ''kernel child exited before signaling readiness''"
| "read_ready line (RdEof # rs) = Inl ''kernel child exited before signaling readiness''"
| "read_ready line (RdData s # rs) =
     (if CHR 0x0A \<in> set (line @ s) then Inr (line @ s) else read_ready (line @ s) rs)"
| "read_ready line (RdWouldBlock # rs) = Inl ''kernel child did not signal readiness within 10s''"
| "read_ready line (RdError e # rs) = Inl (''readiness pipe error: '' @ e)"

definition daemonize_and_run :: "daemon_env \<Rightarrow> config \<Rightarrow> string \<Rightarrow> bool \<Rightarrow> trace \<Rightarrow> start_error option \<times> trace" where
  "daemonize_and_run E c config_path debug l = (case de_spawn E of
      Inl e \<Rightarrow> (Some e, l)
    | Inr pid \<Rightarrow>
        let l1 = l @ [SpawnChild (daemon_args c config_path debug)]
        in case read_ready [] (de_ready E) of
            Inr line \<Rightarrow> (case parse_i32 (trim line) of
                None \<Rightarrow> (Some (SeCorruptLine line), l1)
              | Some child_pid \<Rightarrow>
                  if child_pid \<noteq> pid then (Some (SePidMismatch child_pid pid), l1)
                  else case de_write E of
                      Some e \<Rightarrow> (Some (SeIo e), l1)
                    | None \<Rightarrow> (None, l1 @ [WritePid pid]))
          | Inl e \<Rightarrow> (case sys_kill E pid (Some SigKill) l1 of
                (_, l2) \<Rightarrow> (Some (SeReadiness e), l2 @ [WaitChild, RemovePid])))"

record foreground_host =
  fg_open :: "string option"
  fg_lock_free :: bool
  fg_pid :: nat
  fg_write :: "string option"
  fg_ready_fd :: "string option"
  fg_kernel :: "config \<Rightarrow> string option"

definition ready_line :: "nat \<Rightarrow> string" where
  "ready_line pid = show_nat pid @ [CHR 0x0A]"

definition run_foreground :: "foreground_host \<Rightarrow> config \<Rightarrow> trace \<Rightarrow> start_error option \<times> trace" where
  "run_foreground F c l = (case fg_open F of
      Some e \<Rightarrow> (Some (SeIo e), l)
    | None \<Rightarrow>
        if \<not> fg_lock_free F then (Some SeLocked, l)
        else case fg_write F of
            Some e \<Rightarrow> (Some (SeIo e), l @ [LockPid])
          | None \<Rightarrow>
              let l1 = l @ [LockPid, WritePid (int (fg_pid F))];
                  l2 = (case Option.bind (fg_ready_fd F) parse_i32 of
                      Some fd \<Rightarrow> l1 @ [SignalReady (ready_line (fg_pid F))]
                    | None \<Rightarrow> l1);
                  l3 = l2 @ [RunKernel c]
              in case fg_kernel F c of
                  Some e \<Rightarrow> (Some (SeKernel e), l3)
                | None \<Rightarrow> (None, l3 @ [RemovePid]))"

definition start_kernel ::
  "conf_env \<Rightarrow> daemon_env \<Rightarrow> foreground_host \<Rightarrow> start_opts \<Rightarrow> trace \<Rightarrow> start_error option \<times> trace" where
  "start_kernel C E F opts l = (case start_config C opts of
      Inl e \<Rightarrow> (Some e, l)
    | Inr c \<Rightarrow>
        if so_foreground opts then run_foreground F c l
        else case kernel_is_running E l of
            (True, l1) \<Rightarrow> (case read_pid E l1 of
                (None, l2) \<Rightarrow> (Some SePidFile, l2) | (Some _, l2) \<Rightarrow> (None, l2))
          | (False, l1) \<Rightarrow> daemonize_and_run E c (so_config opts) (so_debug opts) l1)"

definition restart_launch :: "daemon_env \<Rightarrow> config \<Rightarrow> string \<Rightarrow> bool \<Rightarrow> int option \<Rightarrow> trace \<Rightarrow> start_error option \<times> trace" where
  "restart_launch E c config_path debug old_pid l = (case old_pid of
      None \<Rightarrow> daemonize_and_run E c config_path debug l
    | Some pid \<Rightarrow> (case wait_pid_gone E pid 5000 0 l of
          (False, l1) \<Rightarrow> (Some (SeStillAlive pid), l1)
        | (True, l1) \<Rightarrow> daemonize_and_run E c config_path debug l1))"

definition restart_kernel ::
  "conf_env \<Rightarrow> daemon_env \<Rightarrow> string \<Rightarrow> bool \<Rightarrow> trace \<Rightarrow> start_error option \<times> trace" where
  "restart_kernel C E config_path debug l = (case load_config C config_path of
      Inl e \<Rightarrow> (Some (SeConfig e), l)
    | Inr c \<Rightarrow> (case ensure_auth_configured c of
          Some e \<Rightarrow> (Some e, l)
        | None \<Rightarrow> (case read_pid E l of
              (old_pid, l1) \<Rightarrow> (case stop_kernel E l1 of
                  (Some e, l2) \<Rightarrow> (Some e, l2)
                | (None, l2) \<Rightarrow> restart_launch E c config_path debug old_pid l2))))"

definition kernel_status :: "daemon_env \<Rightarrow> trace \<Rightarrow> (start_error + string) \<times> trace" where
  "kernel_status E l = (case kernel_is_running E l of
      (True, l1) \<Rightarrow> (case read_pid E l1 of
          (None, l2) \<Rightarrow> (Inl SePidFile, l2)
        | (Some pid, l2) \<Rightarrow> (Inr (''vynkor is running (PID: '' @ (if pid < 0 then ''-'' else []) @ show_nat (nat \<bar>pid\<bar>) @ '')''), l2))
    | (False, l1) \<Rightarrow> (Inr ''vynkor is not running'', l1))"

text \<open>\<^verbatim>\<open>str::lines\<close>: the pieces between newlines without a trailing empty one, each without a final
  carriage return.\<close>

definition str_lines :: "string \<Rightarrow> string list" where
  "str_lines s = (let ps = split_on (CHR 0x0A) s;
       qs = (if last ps = [] then butlast ps else ps)
     in map (\<lambda>p. if p \<noteq> [] \<and> last p = CHR 0x0D then butlast p else p) qs)"

definition show_logs :: "string option \<Rightarrow> nat \<Rightarrow> string list" where
  "show_logs content n = (case content of
      None \<Rightarrow> [''no log file found.'']
    | Some s \<Rightarrow> let all_lines = str_lines s
        in drop (if length all_lines > n then length all_lines - n else 0) all_lines)"

section \<open>What the command line parser promises\<close>

definition flag :: "string \<Rightarrow> string option \<Rightarrow> string list" where
  "flag name v = (case v of Some x \<Rightarrow> [name, x] | None \<Rightarrow> [])"

text \<open>A start command written out with the long names of its options.\<close>

definition start_argv :: "start_opts \<Rightarrow> string list" where
  "start_argv opts = ''start'' # (if so_foreground opts then [''--foreground''] else [])
     @ [''--config'', so_config opts] @ flag ''--port'' (map_option show_nat (so_port opts))
     @ flag ''--role'' (so_role opts) @ flag ''--bridge-url'' (so_bridge_url opts)
     @ flag ''--bridge-token'' (so_bridge_token opts) @ flag ''--bridge-secret'' (so_bridge_secret opts)
     @ concat (map (\<lambda>x. [''--bridge-mirror'', x]) (so_bridge_mirror opts))
     @ (if so_debug opts then [''--debug''] else [])"

text \<open>A value that begins with a hyphen is not taken as the value of an option; a role is one of two, and
  a port fits 16 bits.\<close>

definition plain :: "string \<Rightarrow> bool" where
  "plain v \<longleftrightarrow> \<not> starts_with v ''-''"

definition valid_opts :: "start_opts \<Rightarrow> bool" where
  "valid_opts opts \<longleftrightarrow> plain (so_config opts) \<and> pred_option (\<lambda>p. p < 2 ^ 16) (so_port opts)
     \<and> pred_option (\<lambda>r. r = ''client'' \<or> r = ''host'') (so_role opts)
     \<and> pred_option plain (so_bridge_url opts) \<and> pred_option plain (so_bridge_token opts)
     \<and> pred_option plain (so_bridge_secret opts) \<and> list_all plain (so_bridge_mirror opts)"

definition parses_start :: "(string list \<Rightarrow> start_opts option) \<Rightarrow> bool" where
  "parses_start P \<longleftrightarrow> (\<forall>opts. valid_opts opts \<longrightarrow> P (start_argv opts) = Some opts)"

section \<open>The configuration of the child\<close>

definition launch_checked :: "config \<Rightarrow> bool" where
  "launch_checked c \<longleftrightarrow> (cf_jwt_secret c \<noteq> None \<or> cf_allow_no_auth c)
     \<and> (cf_role c = Client \<longrightarrow> (\<exists>b. cf_bridge c = Some b \<and> bridge_url_ok (bc_host_url b) \<and> bc_mirror b \<noteq> []
          \<and> set (bc_mirror b) \<subseteq> pd_id ` set (cf_plugins c)))"

lemma start_config_eq:
  "start_config C opts = Inr c \<longleftrightarrow> c = apply_role_overrides opts (start_base C opts) \<and> launch_checked c"
  by (auto simp: start_config_def Let_def validate_bridge_config_def ensure_auth_configured_def launch_checked_def
      find_None_iff find_Some_iff image_iff split: option.splits if_splits dest: nth_mem)

definition child_opts :: "config \<Rightarrow> string \<Rightarrow> bool \<Rightarrow> start_opts" where
  "child_opts c config_path debug =
    (let b = (if cf_role c = Client then cf_bridge c else None)
     in \<lparr>so_foreground = True, so_port = Some (cf_port c), so_config = config_path, so_debug = debug,
         so_role = (if cf_role c = Client then Some ''client'' else None),
         so_bridge_url = map_option bc_host_url b, so_bridge_token = Option.bind b bc_token,
         so_bridge_secret = Option.bind b bc_secret,
         so_bridge_mirror = (case b of Some b \<Rightarrow> bc_mirror b | None \<Rightarrow> [])\<rparr>)"

lemma daemon_args_argv: "daemon_args c config_path debug = start_argv (child_opts c config_path debug)"
  by (simp add: daemon_args_def start_argv_def child_opts_def flag_def Let_def split: option.split)

lemma override_fields [simp]:
  "cf_port (apply_role_overrides opts c) = cf_port c"
  "cf_role (apply_role_overrides opts c) = override_role opts (cf_role c)"
  by (simp_all add: apply_role_overrides_def Let_def)

lemma child_base:
  "cf_port c = cf_port (start_base C opts) \<Longrightarrow> start_base C (child_opts c (so_config opts) (so_debug opts)) = start_base C opts"
  by (auto simp: start_base_def child_opts_def Let_def split: option.split)

lemma child_bridge:
  assumes "c = apply_role_overrides opts base" "cf_role c = Client" "cf_bridge c = Some b" "bc_mirror b \<noteq> []"
  shows "apply_role_overrides (child_opts c p d) base = c"
proof -
  let ?B = "case cf_bridge base of Some b \<Rightarrow> b | None \<Rightarrow> default_bridge"
  have b: "b = (if has_bridge_flag opts then override_bridge opts ?B else ?B)"
    using assms(1,3) by (auto simp: apply_role_overrides_def Let_def split: if_splits)
  have "has_bridge_flag (child_opts c p d)" "override_role (child_opts c p d) (cf_role base) = Client"
    using assms(2,3) by (simp_all add: child_opts_def has_bridge_flag_def override_role_def Let_def)
  moreover have "override_bridge (child_opts c p d) ?B = b"
    using assms(2-4) b
    by (intro bridge_config.equality) (auto simp: child_opts_def override_bridge_def Let_def split: option.splits if_splits)
  moreover have "base\<lparr>cf_role := Client, cf_bridge := Some b\<rparr> = c"
    using assms(1-3) by (auto simp: apply_role_overrides_def Let_def split: if_splits)
  ultimately show ?thesis by (simp add: apply_role_overrides_def Let_def)
qed

lemma child_host:
  assumes "c = apply_role_overrides opts base" "cf_role c = Host" "cf_role base = Host"
  shows "(apply_role_overrides (child_opts c p d) base)\<lparr>cf_bridge := cf_bridge c\<rparr> = c"
    "cf_role (apply_role_overrides (child_opts c p d) base) = Host"
  using assms
  by (auto simp: apply_role_overrides_def child_opts_def has_bridge_flag_def override_role_def Let_def split: if_splits)

lemma child_config:
  assumes "start_config C opts = Inr c" "cf_role c = Client \<or> cf_role (start_base C opts) = Host"
  shows "\<exists>c'. start_config C (child_opts c (so_config opts) (so_debug opts)) = Inr c'
    \<and> c'\<lparr>cf_bridge := cf_bridge c\<rparr> = c \<and> (cf_role c = Client \<longrightarrow> c' = c)"
proof -
  let ?base = "start_base C opts" and ?o = "child_opts c (so_config opts) (so_debug opts)"
  from assms(1) have c: "c = apply_role_overrides opts ?base" and ok: "launch_checked c"
    unfolding start_config_eq by blast+
  have base: "start_base C ?o = ?base" using c by (intro child_base) simp
  show ?thesis
  proof (cases "cf_role c")
    case Client
    with ok obtain b where "cf_bridge c = Some b" "bc_mirror b \<noteq> []" by (auto simp: launch_checked_def)
    with child_bridge [OF c Client] have "apply_role_overrides ?o ?base = c" by blast
    with ok base have "start_config C ?o = Inr c" by (simp add: start_config_eq)
    then show ?thesis by simp
  next
    case Host
    with assms(2) have "cf_role ?base = Host" by simp
    note h = child_host [OF c Host this, of "so_config opts" "so_debug opts"]
    let ?c' = "apply_role_overrides ?o ?base"
    have "cf_jwt_secret ?c' = cf_jwt_secret c" "cf_allow_no_auth ?c' = cf_allow_no_auth c"
      using arg_cong [OF h(1), of cf_jwt_secret] arg_cong [OF h(1), of cf_allow_no_auth] by simp_all
    with ok h(2) have "launch_checked ?c'" by (simp add: launch_checked_def)
    with base have "start_config C ?o = Inr ?c'" by (simp add: start_config_eq)
    with h(1) Host show ?thesis by auto
  qed
qed

section \<open>Traces\<close>

fun is_spawn :: "sys_event \<Rightarrow> bool" where
  "is_spawn (SpawnChild _) = True"
| "is_spawn _ = False"

fun signal_of :: "sys_event \<Rightarrow> (int \<times> ksig) list" where
  "signal_of (Kill pid (Some s) _) = [(pid, s)]"
| "signal_of _ = []"

fun sleep_of :: "sys_event \<Rightarrow> nat" where
  "sleep_of (SleepMs n) = n"
| "sleep_of _ = 0"

definition signals :: "trace \<Rightarrow> (int \<times> ksig) list" where
  "signals l = concat (map signal_of l)"

definition slept :: "trace \<Rightarrow> nat" where
  "slept l = sum_list (map sleep_of l)"

definition no_spawn :: "trace \<Rightarrow> bool" where
  "no_spawn l \<longleftrightarrow> \<not> list_ex is_spawn l"

lemma trace_simps [simp]:
  "signals [] = []" "signals (e # l) = signal_of e @ signals l" "signals (l @ m) = signals l @ signals m"
  "slept [] = 0" "slept (e # l) = sleep_of e + slept l" "slept (l @ m) = slept l + slept m"
  "no_spawn []" "no_spawn (e # l) \<longleftrightarrow> \<not> is_spawn e \<and> no_spawn l" "no_spawn (l @ m) \<longleftrightarrow> no_spawn l \<and> no_spawn m"
  by (simp_all add: signals_def slept_def no_spawn_def)

text \<open>A command adds to the trace; a quiet stretch starts nothing, signals nothing and does not sleep.\<close>

definition quiet :: "trace \<Rightarrow> bool" where
  "quiet ev \<longleftrightarrow> no_spawn ev \<and> signals ev = [] \<and> slept ev = 0"

lemma read_pid_trace: "read_pid E l = (p, l') \<Longrightarrow> \<exists>ev. l' = l @ ev \<and> quiet ev"
  by (auto simp: read_pid_def Let_def quiet_def)

lemma is_running_trace:
  assumes "kernel_is_running E l = (b, l')"
  obtains ev where "l' = l @ ev" "quiet ev"
  using assms
  by (auto simp: kernel_is_running_def read_pid_def sys_kill_def Let_def quiet_def split: option.splits errno.splits)

lemma stop_poll_trace: "\<exists>ev. stop_poll E n l = l @ ev \<and> no_spawn ev \<and> signals ev = [] \<and> slept ev \<le> 500 * n"
proof (induction n arbitrary: l)
  case (Suc n)
  obtain b l1 where r: "kernel_is_running E l = (b, l1)" by fastforce
  then obtain ev where ev: "l1 = l @ ev" "quiet ev" by (rule is_running_trace)
  obtain ev' where "stop_poll E n (l1 @ [SleepMs 500]) = (l1 @ [SleepMs 500]) @ ev'"
    "no_spawn ev'" "signals ev' = []" "slept ev' \<le> 500 * n" using Suc by blast
  with r ev show ?case by (cases b) (auto simp: quiet_def)
qed simp

lemma stop_forced_trace:
  assumes "stop_forced E pid l = (res, l')"
  shows "\<exists>ev. l' = l @ ev \<and> no_spawn ev \<and> signals ev \<in> {[], [(pid, SigKill)]} \<and> slept ev = 0
    \<and> (res = None \<longrightarrow> ev \<noteq> [] \<and> last ev = RemovePid)"
proof -
  obtain b l1 where r: "kernel_is_running E l = (b, l1)" by fastforce
  then obtain ev where "l1 = l @ ev" "quiet ev" by (rule is_running_trace)
  with assms r show ?thesis
    by (cases b) (auto simp: stop_forced_def sys_kill_def quiet_def split: option.splits)
qed

text \<open>A process is signalled only under a pid that was just read from the pid file.\<close>

definition pid_read :: "trace \<Rightarrow> int \<Rightarrow> bool" where
  "pid_read l pid \<longleftrightarrow> (\<exists>str. ReadPid (Some str) \<in> set l \<and> parse_i32 (trim str) = Some pid)"

lemma stop_kernel_trace:
  assumes "stop_kernel E l = (res, l')"
  shows "\<exists>ev. l' = l @ ev \<and> no_spawn ev \<and> slept ev \<le> 5000
    \<and> (signals ev = [] \<or> (\<exists>pid. pid_read ev pid \<and> signals ev \<in> {[(pid, SigTerm)], [(pid, SigTerm), (pid, SigKill)]}
         \<and> (res = None \<longrightarrow> last ev = RemovePid)))"
proof -
  obtain b l1 where r: "kernel_is_running E l = (b, l1)" by fastforce
  then obtain ev where ev: "l1 = l @ ev" "quiet ev" by (rule is_running_trace)
  show ?thesis
  proof (cases "b \<and> fst (read_pid E l1) \<noteq> None")
    case False
    with r ev assms show ?thesis by (cases b) (auto simp: stop_kernel_def read_pid_def Let_def quiet_def)
  next
    case True
    then obtain str pid where t: "de_read E l1 = Some str" "parse_i32 (trim str) = Some pid"
      by (auto simp: read_pid_def Let_def bind_eq_Some_conv)
    let ?l2 = "l1 @ [ReadPid (Some str)]" and ?k = "de_kill E (l1 @ [ReadPid (Some str)]) pid (Some SigTerm)"
    let ?l3 = "?l2 @ [Kill pid (Some SigTerm) ?k]"
    have rp: "read_pid E l1 = (Some pid, ?l2)" using t by (simp add: read_pid_def)
    have seen: "pid_read (ev @ [ReadPid (Some str)] @ rest) pid" for rest using t by (auto simp: pid_read_def)
    show ?thesis
    proof (cases ?k)
      case (Some e)
      with r rp True ev assms seen [of "[Kill pid (Some SigTerm) ?k]"] show ?thesis
        by (auto simp: stop_kernel_def sys_kill_def quiet_def)
    next
      case None
      obtain p where p: "stop_poll E 10 ?l3 = ?l3 @ p" "no_spawn p" "signals p = []" "slept p \<le> 5000"
        using stop_poll_trace [of E 10 ?l3] by auto
      have "stop_forced E pid (?l3 @ p) = (res, l')"
        using r rp True assms None p(1) by (simp add: stop_kernel_def sys_kill_def)
      then obtain q where "l' = ?l3 @ p @ q" "no_spawn q" "signals q \<in> {[], [(pid, SigKill)]}" "slept q = 0"
        "res = None \<longrightarrow> q \<noteq> [] \<and> last q = RemovePid"
        using stop_forced_trace by fastforce
      with p ev seen [of "Kill pid (Some SigTerm) ?k # p @ q"] show ?thesis
        by (intro exI [of _ "ev @ [ReadPid (Some str)] @ Kill pid (Some SigTerm) ?k # p @ q"]) (auto simp: quiet_def)
    qed
  qed
qed

lemma wait_pid_gone_trace:
  "wait_pid_gone E pid timeout waited l = (b, l') \<Longrightarrow>
   \<exists>ev. l' = l @ ev \<and> no_spawn ev \<and> signals ev = [] \<and> (b \<longrightarrow> ev \<noteq> [] \<and> last ev = Kill pid None (Some ESRCH))"
proof (induction "timeout - waited" arbitrary: waited l rule: less_induct)
  case less
  let ?r = "de_kill E l pid None"
  let ?l1 = "l @ [Kill pid None ?r]"
  show ?case
  proof (cases "?r = Some ESRCH \<or> timeout \<le> waited + de_delay E ?l1")
    case True
    with less.prems show ?thesis
      by (subst (asm) wait_pid_gone.simps) (auto simp: sys_kill_def split: option.splits errno.splits)
  next
    case False
    then have "wait_pid_gone E pid timeout (waited + 50) (?l1 @ [SleepMs 50]) = (b, l')"
      using less.prems
      by (subst (asm) wait_pid_gone.simps) (auto simp: sys_kill_def split: option.splits errno.splits)
    moreover have "timeout - (waited + 50) < timeout - waited" using False by linarith
    ultimately obtain ev where "l' = (?l1 @ [SleepMs 50]) @ ev" "no_spawn ev" "signals ev = []"
      "b \<longrightarrow> ev \<noteq> [] \<and> last ev = Kill pid None (Some ESRCH)" using less.hyps by meson
    then show ?thesis by (intro exI [of _ "[Kill pid None ?r, SleepMs 50] @ ev"]) auto
  qed
qed

text \<open>Launching adds one child, with the rendered arguments, as the first thing it does.\<close>

lemma daemonize_trace:
  assumes "daemonize_and_run E c p d l = (res, l')"
  shows "l' = l \<or> (\<exists>ev. l' = l @ SpawnChild (daemon_args c p d) # ev \<and> no_spawn ev)"
  using assms
  by (auto simp: daemonize_and_run_def sys_kill_def Let_def split: sum.splits option.splits if_splits)

lemma spawn_in: "no_spawn l \<Longrightarrow> SpawnChild a \<notin> set l"
  by (auto simp: no_spawn_def list_ex_iff)

lemma restart_launch_cases:
  assumes "restart_launch E c p d old l = (res, l')" "no_spawn l" "SpawnChild args \<in> set l'"
  obtains ev where "daemonize_and_run E c p d (l @ ev) = (res, l')" "no_spawn ev" "signals ev = []"
    "pred_option (\<lambda>pid. Kill pid None (Some ESRCH) \<in> set ev) old"
proof (cases old)
  case None
  with assms(1) that [of "[]"] show ?thesis by (simp add: restart_launch_def)
next
  case (Some pid)
  obtain b l1 where w: "wait_pid_gone E pid 5000 0 l = (b, l1)" by fastforce
  from wait_pid_gone_trace [OF this] obtain ev where ev: "l1 = l @ ev" "no_spawn ev" "signals ev = []"
    "b \<longrightarrow> ev \<noteq> [] \<and> last ev = Kill pid None (Some ESRCH)" by blast
  have b
  proof (rule ccontr)
    assume "\<not> b"
    with assms(1) Some w ev(1) have "l' = l @ ev" by (simp add: restart_launch_def)
    with assms(2,3) ev(2) spawn_in [of "l @ ev"] show False by simp
  qed
  with assms(1) Some w ev have "daemonize_and_run E c p d (l @ ev) = (res, l')" by (simp add: restart_launch_def)
  moreover from ev(4) \<open>b\<close> have "Kill pid None (Some ESRCH) \<in> set ev" by (metis last_in_set)
  ultimately show ?thesis using that [of ev] ev(2,3) Some by simp
qed

section \<open>Properties\<close>

text \<open>
  \<^bold>\<open>C1.\<close> A restart never runs two kernels. Whatever the operating system answers, and
  however other processes change the pid file meanwhile: if \<^verbatim>\<open>vyn restart\<close> launches a kernel and the
  pid file held a pid when it began, then before the launch a probe of that pid reported that no such
  process exists; it launches at most one child, with the arguments for the loaded configuration, which has a
  secret or the consent to none. It signals only one pid, read from the pid file, with
  one request to terminate and at most one to kill.
\<close>

theorem restart_never_overlaps:
  assumes "restart_kernel C E path debug [] = (res, l)" "SpawnChild args \<in> set l"
  shows "\<exists>before after. l = before @ SpawnChild args # after \<and> no_spawn before \<and> no_spawn after
    \<and> pred_option (\<lambda>pid. Kill pid None (Some ESRCH) \<in> set before) (fst (read_pid E []))
    \<and> (\<exists>pid. signals before \<in> {[], [(pid, SigTerm)], [(pid, SigTerm), (pid, SigKill)]}
         \<and> (signals before \<noteq> [] \<longrightarrow> pid_read before pid))
    \<and> (\<exists>c. load_config C path = Inr c \<and> args = daemon_args c path debug
         \<and> (cf_jwt_secret c \<noteq> None \<or> cf_allow_no_auth c))"
proof -
  obtain old l1 where old: "read_pid E [] = (old, l1)" by fastforce
  then obtain "quiet l1" using read_pid_trace [OF old] by auto
  obtain r2 l2 where stop: "stop_kernel E l1 = (r2, l2)" by fastforce
  from stop_kernel_trace [OF this] obtain ev where ev: "l2 = l1 @ ev" "no_spawn ev"
    "signals ev = [] \<or> (\<exists>pid. pid_read ev pid \<and> signals ev \<in> {[(pid, SigTerm)], [(pid, SigTerm), (pid, SigKill)]})"
    by blast
  have quiet2: "no_spawn l2" using \<open>quiet l1\<close> ev by (simp add: quiet_def)
  from assms obtain c where c: "load_config C path = Inr c" "ensure_auth_configured c = None" "r2 = None"
    "restart_launch E c path debug old l2 = (res, l)"
    using old stop quiet2 spawn_in \<open>quiet l1\<close>
    by (auto simp: restart_kernel_def quiet_def split: sum.splits option.splits)
  obtain ev3 where l3: "daemonize_and_run E c path debug (l2 @ ev3) = (res, l)" "no_spawn ev3" "signals ev3 = []"
    "pred_option (\<lambda>pid. Kill pid None (Some ESRCH) \<in> set ev3) old"
    by (rule restart_launch_cases [OF c(4) quiet2 assms(2)])
  with daemonize_trace [OF l3(1)] quiet2 assms(2) spawn_in [of "l2 @ ev3"] obtain after
    where l: "l = (l2 @ ev3) @ SpawnChild (daemon_args c path debug) # after" "no_spawn after" by auto
  with assms(2) quiet2 l3(2) have args: "args = daemon_args c path debug"
    using spawn_in [of "l2 @ ev3"] spawn_in [of after] by auto
  have sig: "signals (l2 @ ev3) = signals ev" using ev(1) \<open>quiet l1\<close> l3(3) by (simp add: quiet_def)
  have "\<exists>pid. signals (l2 @ ev3) \<in> {[], [(pid, SigTerm)], [(pid, SigTerm), (pid, SigKill)]}
      \<and> (signals (l2 @ ev3) \<noteq> [] \<longrightarrow> pid_read (l2 @ ev3) pid)"
    unfolding sig using ev(1,3) by (auto simp: pid_read_def)
  moreover have "cf_jwt_secret c \<noteq> None \<or> cf_allow_no_auth c"
    using c(2) by (auto simp: ensure_auth_configured_def split: if_splits)
  ultimately show ?thesis
    using l l3 quiet2 args c(1) old
    by (intro exI [of _ "l2 @ ev3"] exI [of _ after]) (auto simp: option.pred_set)
qed

lemma no_kernel_in_background:
  "RunKernel c \<in> set (snd (kernel_is_running E l)) \<longleftrightarrow> RunKernel c \<in> set l"
  "RunKernel c \<in> set (snd (read_pid E l)) \<longleftrightarrow> RunKernel c \<in> set l"
  "RunKernel c \<in> set (snd (daemonize_and_run E c' p d l)) \<longleftrightarrow> RunKernel c \<in> set l"
  by (auto simp: kernel_is_running_def read_pid_def sys_kill_def daemonize_and_run_def Let_def
      split: option.splits errno.splits sum.splits)

lemma run_foreground_kernel: "RunKernel c \<in> set (snd (run_foreground F c' [])) \<Longrightarrow> c = c'"
  by (auto simp: run_foreground_def Let_def split: option.splits if_splits)

lemma run_foreground_no_spawn: "no_spawn (snd (run_foreground F c []))"
  by (auto simp: run_foreground_def Let_def split: option.splits)

lemma start_cases:
  assumes "start_kernel C E F opts [] = (res, l)" "start_config C opts = Inr c" "\<not> so_foreground opts"
  shows "(\<forall>c. RunKernel c \<notin> set l)
    \<and> (SpawnChild args \<in> set l \<longrightarrow> args = daemon_args c (so_config opts) (so_debug opts))"
proof -
  obtain b l1 where r: "kernel_is_running E [] = (b, l1)" by fastforce
  then have k1: "RunKernel c' \<notin> set l1" and "quiet l1" for c'
    using no_kernel_in_background(1) [of c' E "[]"] is_running_trace [OF r] by fastforce+
  then have s1: "SpawnChild args \<notin> set l1" by (simp add: quiet_def spawn_in)
  show ?thesis
  proof (cases b)
    case True
    with assms r have "l = snd (read_pid E l1)" by (auto simp: start_kernel_def split: option.splits prod.splits)
    with k1 s1 show ?thesis by (simp add: read_pid_def Let_def)
  next
    case False
    with assms r have d: "daemonize_and_run E c (so_config opts) (so_debug opts) l1 = (res, l)"
      by (simp add: start_kernel_def)
    with k1 no_kernel_in_background(3) [of _ E c "so_config opts" "so_debug opts" l1] daemonize_trace [OF d] s1
    show ?thesis using spawn_in by fastforce
  qed
qed

text \<open>
  \<^bold>\<open>C2.\<close> What \<^verbatim>\<open>vyn start\<close> launches has passed the checks, and in the background it is what was asked for.
  The kernel runs, or a child is started, only with a resolved configuration that has a secret or the
  operator's consent to none and, in the client role, a bridge with a usable URL that mirrors at
  least one and only configured plugins. The child of a background start, parsing the arguments it is
  given and reading the same configuration file, resolves the same configuration, bridge
  credentials included, whenever no value begins with a hyphen and the role is client or the file does
  not say client; as a host it may differ in the bridge block, which a host does not use.
\<close>

theorem start_launches_checked:
  assumes "parses_start P" "start_kernel C E F opts [] = (res, l)"
  shows "(RunKernel c \<in> set l \<longrightarrow> so_foreground opts \<and> start_config C opts = Inr c \<and> launch_checked c)
    \<and> (SpawnChild args \<in> set l \<longrightarrow> \<not> so_foreground opts \<and> (\<exists>c. start_config C opts = Inr c \<and> launch_checked c
        \<and> (valid_opts (child_opts c (so_config opts) (so_debug opts))
             \<and> (cf_role c = Client \<or> cf_role (start_base C opts) = Host) \<longrightarrow>
           (\<exists>opts' c'. P args = Some opts' \<and> so_foreground opts' \<and> start_config C opts' = Inr c'
              \<and> c'\<lparr>cf_bridge := cf_bridge c\<rparr> = c \<and> (cf_role c = Client \<longrightarrow> c' = c)))))"
proof (cases "start_config C opts")
  case (Inl e)
  with assms(2) show ?thesis by (simp add: start_kernel_def)
next
  case (Inr c0)
  then have ok: "launch_checked c0" unfolding start_config_eq by blast
  show ?thesis
  proof (cases "so_foreground opts")
    case True
    with Inr assms(2) have "l = snd (run_foreground F c0 [])" by (simp add: start_kernel_def)
    with True Inr ok run_foreground_kernel run_foreground_no_spawn spawn_in show ?thesis by blast
  next
    case False
    note bg = start_cases [OF assms(2) Inr False]
    have "P (daemon_args c0 (so_config opts) (so_debug opts)) = Some (child_opts c0 (so_config opts) (so_debug opts))"
      if "valid_opts (child_opts c0 (so_config opts) (so_debug opts))"
      using that assms(1) by (simp add: parses_start_def daemon_args_argv)
    moreover have "so_foreground (child_opts c0 (so_config opts) (so_debug opts))"
      by (simp add: child_opts_def Let_def)
    ultimately show ?thesis using bg False Inr ok child_config [OF Inr] by blast
  qed
qed

text \<open>The converse of the condition on the role: an explicit host role is forgotten by the child when the
  file says client.\<close>

lemma explicit_host_role_lost:
  assumes "start_config C opts = Inr c" "cf_role c = Host" "cf_role (start_base C opts) = Client"
    and "start_config C (child_opts c (so_config opts) (so_debug opts)) = Inr c'"
  shows "cf_role c' = Client"
proof -
  from assms(1) have "c = apply_role_overrides opts (start_base C opts)" unfolding start_config_eq by blast
  then have "start_base C (child_opts c (so_config opts) (so_debug opts)) = start_base C opts"
    by (intro child_base) simp
  moreover from assms(4) have "c' = apply_role_overrides (child_opts c (so_config opts) (so_debug opts))
      (start_base C (child_opts c (so_config opts) (so_debug opts)))" unfolding start_config_eq by blast
  ultimately show ?thesis
    using assms(2,3) by (simp add: child_opts_def override_role_def has_bridge_flag_def Let_def)
qed

text \<open>A failed background start removes the pid file whoever wrote it.\<close>

lemma failed_start_removes_pid_file:
  assumes "de_spawn E = Inr pid" "read_ready [] (de_ready E) = Inl e"
  shows "fst (daemonize_and_run E c p d l) \<noteq> None \<and> last (snd (daemonize_and_run E c p d l)) = RemovePid"
  using assms by (simp add: daemonize_and_run_def sys_kill_def Let_def)

text \<open>The line the child sends once it holds the lock is the one the parent accepts.\<close>

lemma digit_head_fixed:
  assumes "s \<noteq> []" "is_ascii_digit (hd s)"
  shows "trim_start_of white_space s = s"
proof (rule trim_start_of_fixed)
  fix w assume "w \<in> set white_space" "w \<noteq> []"
  with white_space_no_digit have "\<not> is_ascii_digit (hd w)" by (auto simp: list_all_iff)
  with \<open>w \<noteq> []\<close> assms starts_with_hd [of s w] show "\<not> starts_with s w" by auto
qed

lemma trim_digits_newline:
  assumes "list_all is_ascii_digit s" "s \<noteq> []"
  shows "trim (s @ [CHR 0x0A]) = s"
proof -
  have hd: "is_ascii_digit (hd s)" using assms by (cases s) auto
  have "find (\<lambda>w. w \<noteq> [] \<and> starts_with (CHR 0x0A # rev s) w) (map rev white_space) = Some [CHR 0x0A]"
    by (simp add: white_space_def starts_with_def)
  then have "trim_start_of (map rev white_space) (CHR 0x0A # rev s) = trim_start_of (map rev white_space) (rev s)"
    by (subst trim_start_of.simps) simp
  also have "\<dots> = rev s"
    using trim_digits [OF assms(1)] digit_head_fixed [OF assms(2) hd] by (simp add: trim_def rev_swap)
  finally show ?thesis using digit_head_fixed [of "s @ [CHR 0x0A]"] assms(2) hd by (simp add: trim_def)
qed

lemma parse_i32_nat: "parse_i32 (show_nat n) = (if n < 2 ^ 31 then Some (int n) else None)"
proof -
  have d: "list_all is_ascii_digit (show_nat n)" by (rule show_nat_digits)
  have "show_nat n \<noteq> []" by (subst show_nat.simps) simp
  then have "\<not> starts_with (show_nat n) ''-''"
    using d by (cases "show_nat n") (auto simp: starts_with_def is_ascii_digit_def byte_val_def)
  then show ?thesis
    using parse_show_nat [of "2 ^ 31" n] trim_digits [OF d] by (simp add: parse_i32_def)
qed

lemma ready_line_accepted:
  assumes "pid < 2 ^ 31"
  shows "read_ready [] [RdData (ready_line pid)] = Inr (ready_line pid)
    \<and> parse_i32 (trim (ready_line pid)) = Some (int pid)"
proof -
  have "show_nat pid \<noteq> []" by (subst show_nat.simps) simp
  then show ?thesis
    using trim_digits_newline [OF show_nat_digits] parse_i32_nat [of pid] assms by (simp add: ready_line_def)
qed

section \<open>Samples\<close>

text \<open>A parser for the options, left to right, and a configuration file that needs no secret.\<close>

fun sample_flags :: "string list \<Rightarrow> start_opts \<Rightarrow> start_opts option" where
  "sample_flags [] opts = Some opts"
| "sample_flags (f # rest) opts =
    (if f = ''--foreground'' then sample_flags rest (opts\<lparr>so_foreground := True\<rparr>)
     else if f = ''--debug'' then sample_flags rest (opts\<lparr>so_debug := True\<rparr>)
     else case rest of
         [] \<Rightarrow> None
       | v # vs \<Rightarrow>
           if \<not> plain v then None
           else if f = ''--config'' then sample_flags vs (opts\<lparr>so_config := v\<rparr>)
           else if f = ''--port'' then (case parse_uint (2 ^ 16) v of
               Some p \<Rightarrow> sample_flags vs (opts\<lparr>so_port := Some p\<rparr>) | None \<Rightarrow> None)
           else if f = ''--role'' then sample_flags vs (opts\<lparr>so_role := Some v\<rparr>)
           else if f = ''--bridge-url'' then sample_flags vs (opts\<lparr>so_bridge_url := Some v\<rparr>)
           else if f = ''--bridge-token'' then sample_flags vs (opts\<lparr>so_bridge_token := Some v\<rparr>)
           else if f = ''--bridge-secret'' then sample_flags vs (opts\<lparr>so_bridge_secret := Some v\<rparr>)
           else if f = ''--bridge-mirror'' then sample_flags vs (opts\<lparr>so_bridge_mirror := so_bridge_mirror opts @ [v]\<rparr>)
           else None)"

definition sample_clap :: "string list \<Rightarrow> start_opts option" where
  "sample_clap args = (case args of
      c # rest \<Rightarrow> if c = ''start'' then sample_flags rest
         \<lparr>so_foreground = False, so_port = None, so_config = ''config.yaml'', so_debug = False, so_role = None,
          so_bridge_url = None, so_bridge_token = None, so_bridge_secret = None, so_bridge_mirror = []\<rparr> else None
    | [] \<Rightarrow> None)"

lemma sample_flags_mirror:
  "list_all plain ms \<Longrightarrow> sample_flags (concat (map (\<lambda>x. [''--bridge-mirror'', x]) ms) @ rest) opts
     = sample_flags rest (opts\<lparr>so_bridge_mirror := so_bridge_mirror opts @ ms\<rparr>)"
  by (induction ms arbitrary: opts) simp_all

lemma show_port: "plain (show_nat p)" "parse_uint b (show_nat p) = (if p < b then Some p else None)"
  using show_nat_digits [of p] parse_show_nat [of b p] trim_digits [OF show_nat_digits [of p]]
  by (cases "show_nat p"; auto simp: plain_def starts_with_def is_ascii_digit_def byte_val_def)+

lemma sample_flags_flag:
  assumes "pred_option plain v"
  shows "so_role opts = None \<Longrightarrow> sample_flags (flag ''--role'' v @ rest) opts = sample_flags rest (opts\<lparr>so_role := v\<rparr>)"
    "so_bridge_url opts = None \<Longrightarrow> sample_flags (flag ''--bridge-url'' v @ rest) opts = sample_flags rest (opts\<lparr>so_bridge_url := v\<rparr>)"
    "so_bridge_token opts = None \<Longrightarrow> sample_flags (flag ''--bridge-token'' v @ rest) opts = sample_flags rest (opts\<lparr>so_bridge_token := v\<rparr>)"
    "so_bridge_secret opts = None \<Longrightarrow> sample_flags (flag ''--bridge-secret'' v @ rest) opts = sample_flags rest (opts\<lparr>so_bridge_secret := v\<rparr>)"
  using assms by (cases opts; cases v; simp add: flag_def)+

lemma sample_flags_port:
  "pred_option (\<lambda>p. p < 2 ^ 16) v \<Longrightarrow> so_port opts = None \<Longrightarrow>
   sample_flags (flag ''--port'' (map_option show_nat v) @ rest) opts = sample_flags rest (opts\<lparr>so_port := v\<rparr>)"
  by (cases opts; cases v) (simp_all add: flag_def show_port)

lemma sample_flags_foreground:
  "\<not> so_foreground opts \<Longrightarrow> sample_flags ((if b then [''--foreground''] else []) @ rest) opts
     = sample_flags rest (opts\<lparr>so_foreground := b\<rparr>)"
  by (cases opts; cases b) simp_all

lemma sample_parses: "parses_start sample_clap"
proof -
  have "sample_clap (start_argv opts) = Some opts" if v: "valid_opts opts" for opts
  proof -
    note v' = v [unfolded valid_opts_def]
    have "pred_option plain (so_role opts)"
      using v' by (cases "so_role opts") (auto simp: plain_def starts_with_def)
    with v' show ?thesis
      by (simp add: sample_clap_def start_argv_def sample_flags_foreground sample_flags_port sample_flags_flag
          sample_flags_mirror del: sample_flags.simps(2))
        (cases "so_debug opts"; simp add: sample_flags_port sample_flags_flag sample_flags_mirror sample_flags_mirror [where rest = "[]", simplified])
  qed
  then show ?thesis by (simp add: parses_start_def)
qed

definition sample_daemon_conf :: conf_env where
  "sample_daemon_conf = sample_env0\<lparr>he_parse_config := (\<lambda>_. Inr (sample_conf0\<lparr>cf_plugins_dir := Some ''none'',
     cf_allow_no_auth := True\<rparr>))\<rparr>"

text \<open>A kernel with pid 7 that ends when asked to, and a child that reports in time.\<close>

definition sample_os :: "string option \<Rightarrow> daemon_env" where
  "sample_os pidfile = \<lparr>de_read = (\<lambda>l. pidfile),
     de_kill = (\<lambda>l pid s. if s = None \<and> Kill 7 (Some SigTerm) None \<in> set l then Some ESRCH else None),
     de_delay = (\<lambda>l. 0), de_spawn = Inr 8, de_ready = [RdData (ready_line 8)], de_write = None\<rparr>"

lemma sample_daemon_load:
  obtains c where "load_config sample_daemon_conf ''c.yaml'' = Inr c" "cf_allow_no_auth c" "cf_role c = Host"
    "cf_plugins c = [sample_plugin_def ''a'']" "cf_port c = 8000" "cf_bridge c = None"
  unfolding load_config_def merge_plugin_dropins_def resolve_plugins_dir_def sample_daemon_conf_def
      sample_env0_def sample_conf0_def clamp_invalid_numerics_def default_config_def
  by (simp add: Let_def)

lemma sample_pid: "parse_i32 (trim ''7'') = Some 7"
proof -
  have "show_nat 7 = ''7''" by code_simp
  then show ?thesis using parse_i32_nat [of 7] trim_digits [OF show_nat_digits [of 7]] by simp
qed

lemma sample_child:
  "daemonize_and_run (sample_os f) c p d l = (None, l @ [SpawnChild (daemon_args c p d), WritePid 8])"
  using ready_line_accepted [of 8] by (simp add: daemonize_and_run_def sample_os_def Let_def del: read_ready.simps)

theorem restart_never_overlaps_witness:
  "\<exists>l args. restart_kernel sample_daemon_conf (sample_os (Some ''7'')) ''c.yaml'' False [] = (None, l)
     \<and> SpawnChild args \<in> set l \<and> Kill 7 None (Some ESRCH) \<in> set l \<and> signals l = [(7, SigTerm)]"
proof -
  obtain c where c: "load_config sample_daemon_conf ''c.yaml'' = Inr c" "cf_allow_no_auth c"
    by (rule sample_daemon_load)
  let ?E = "sample_os (Some ''7'')"
  have run: "kernel_is_running ?E l = (if Kill 7 (Some SigTerm) None \<in> set l
      then (False, l @ [ReadPid (Some ''7''), Kill 7 None (Some ESRCH), RemovePid])
      else (True, l @ [ReadPid (Some ''7''), Kill 7 None None]))" for l
    by (simp add: kernel_is_running_def read_pid_def sys_kill_def sample_os_def sample_pid Let_def)
  have poll: "stop_poll ?E 10 l = l @ [ReadPid (Some ''7''), Kill 7 None (Some ESRCH), RemovePid]"
    if "Kill 7 (Some SigTerm) None \<in> set l" for l
    using that stop_poll.simps(2) [of ?E 9 l] by (simp add: run)
  have pid: "read_pid ?E l = (Some 7, l @ [ReadPid (Some ''7'')])" for l
    by (simp add: read_pid_def sample_os_def sample_pid Let_def)
  have kill: "sys_kill ?E p s l = (let r = if s = None \<and> Kill 7 (Some SigTerm) None \<in> set l then Some ESRCH else None
      in (r, l @ [Kill p s r]))" for p s l by (simp add: sys_kill_def sample_os_def Let_def)
  have "\<exists>l. restart_kernel sample_daemon_conf ?E ''c.yaml'' False [] = (None, l)
      \<and> SpawnChild (daemon_args c ''c.yaml'' False) \<in> set l \<and> signals l = [(7, SigTerm)]"
    using c
    by (simp add: restart_kernel_def ensure_auth_configured_def stop_kernel_def run pid kill sample_child
        stop_forced_def poll restart_launch_def wait_pid_gone.simps [of _ _ _ 0] Let_def)
  then obtain l where l: "restart_kernel sample_daemon_conf ?E ''c.yaml'' False [] = (None, l)"
    "SpawnChild (daemon_args c ''c.yaml'' False) \<in> set l" "signals l = [(7, SigTerm)]" by blast
  have "fst (read_pid ?E []) = Some 7" by (simp add: read_pid_def sample_os_def sample_pid)
  with restart_never_overlaps [OF l(1,2)] have "Kill 7 None (Some ESRCH) \<in> set l" by auto
  with l show ?thesis by blast
qed

definition sample_start :: start_opts where
  "sample_start = \<lparr>so_foreground = False, so_port = None, so_config = ''c.yaml'', so_debug = False, so_role = None,
     so_bridge_url = Some ''ws://h'', so_bridge_token = Some ''t'', so_bridge_secret = None, so_bridge_mirror = [''a'']\<rparr>"

definition sample_fg :: foreground_host where
  "sample_fg = \<lparr>fg_open = None, fg_lock_free = True, fg_pid = 8, fg_write = None, fg_ready_fd = None,
     fg_kernel = (\<lambda>c. None)\<rparr>"

theorem start_launches_checked_witness:
  "\<exists>l args c opts'. start_kernel sample_daemon_conf (sample_os None) sample_fg sample_start [] = (None, l)
     \<and> SpawnChild args \<in> set l \<and> cf_role c = Client \<and> sample_clap args = Some opts'
     \<and> start_config sample_daemon_conf opts' = Inr c"
proof -
  obtain c0 where c0: "load_config sample_daemon_conf ''c.yaml'' = Inr c0" "cf_allow_no_auth c0"
    "cf_role c0 = Host" "cf_plugins c0 = [sample_plugin_def ''a'']" "cf_port c0 = 8000" "cf_bridge c0 = None"
    by (rule sample_daemon_load)
  have base: "start_base sample_daemon_conf sample_start = c0" using c0(1) by (simp add: start_base_def sample_start_def)
  define c where "c = apply_role_overrides sample_start c0"
  have role: "cf_role c = Client" by (simp add: c_def override_role_def has_bridge_flag_def sample_start_def)
  have conf: "start_config sample_daemon_conf sample_start = Inr c"
    unfolding start_config_eq base c_def [symmetric] using c0
    by (auto simp: c_def launch_checked_def apply_role_overrides_def override_bridge_def has_bridge_flag_def
        sample_start_def Let_def bridge_url_ok_def starts_with_def sample_plugin_def_def)
  have no_file: "kernel_is_running (sample_os None) [] = (False, [ReadPid None])"
    by (simp add: kernel_is_running_def read_pid_def sample_os_def Let_def)
  have "\<exists>l. start_kernel sample_daemon_conf (sample_os None) sample_fg sample_start [] = (None, l)
      \<and> SpawnChild (daemon_args c ''c.yaml'' False) \<in> set l"
    unfolding start_kernel_def conf by (simp add: no_file sample_child) (simp add: sample_start_def)
  then obtain l where l: "start_kernel sample_daemon_conf (sample_os None) sample_fg sample_start [] = (None, l)"
    "SpawnChild (daemon_args c ''c.yaml'' False) \<in> set l" by blast
  have valid: "valid_opts (child_opts c (so_config sample_start) (so_debug sample_start))"
    using c0 by (auto simp: c_def valid_opts_def child_opts_def sample_start_def apply_role_overrides_def override_role_def
        override_bridge_def default_bridge_def has_bridge_flag_def Let_def plain_def starts_with_def)
  from start_launches_checked [OF sample_parses l(1), THEN conjunct2, THEN mp, OF l(2), unfolded conf]
  obtain opts' where "sample_clap (daemon_args c ''c.yaml'' False) = Some opts'"
    "start_config sample_daemon_conf opts' = Inr c" using valid role by auto
  with l role show ?thesis by blast
qed

end
