(* ===== verification/Spec2Isabelle.thy ===== *)
theory Spec2Isabelle
  imports Shim Api Bridge Calendar Daemon
begin

text \<open>
  A verification development for the Vynkor kernel.
\<close>

end
